(* ===== verification/Prelude.thy ===== *)
theory Prelude
  imports Main "HOL-Library.List_Lexorder" "HOL-Library.Char_ord"
begin

text \<open>
  What every component shares: the collections of simplification facts, the two small
  monads in which the services are written, keyed tables as lists of rows, and the
  handful of JavaScript string operations the code uses.

  \<^item> A read that may throw is a value of the sum type \<open>'e + 'a\<close> (\<open>Inl\<close> the thrown
    error); \<open>sbind\<close> chains two of them.
  \<^item> A step that also writes is a function of the world that returns the outcome and the
    world after it; \<open>bind\<close> chains two of them and stops at the first throw.  The world
    after a throw is kept, since ids and clock readings that were used stay used.
\<close>

named_theorems run_simps \<open>how a chained computation succeeds\<close>
named_theorems table_simps \<open>reading a table after it was written\<close>

section \<open>Reads that may throw\<close>

type_synonym ('e, 'a) res = "'e + 'a"

definition sbind :: "('e, 'a) res \<Rightarrow> ('a \<Rightarrow> ('e, 'b) res) \<Rightarrow> ('e, 'b) res" where
  "sbind x f = (case x of Inl e \<Rightarrow> Inl e | Inr a \<Rightarrow> f a)"

definition sguard :: "bool \<Rightarrow> 'e \<Rightarrow> ('e, unit) res" where
  "sguard b e = (if b then Inr () else Inl e)"

definition of_option :: "'e \<Rightarrow> 'a option \<Rightarrow> ('e, 'a) res" where
  "of_option e x = (case x of None \<Rightarrow> Inl e | Some a \<Rightarrow> Inr a)"

lemma sbind_simps [simp]: "sbind (Inr a) f = f a" "sbind (Inl e) f = Inl e"
  by (simp_all add: sbind_def)

lemma sbind_Inr_iff [run_simps]: "sbind x f = Inr b \<longleftrightarrow> (\<exists>a. x = Inr a \<and> f a = Inr b)"
  by (cases x) auto

lemma sbind_Inl_iff:
  "sbind x f = Inl e \<longleftrightarrow> x = Inl e \<or> (\<exists>a. x = Inr a \<and> f a = Inl e)"
  by (cases x) auto

lemma sguard_iffs [run_simps]:
  "sguard b e = Inr u \<longleftrightarrow> b" "sguard b e = Inl e' \<longleftrightarrow> \<not> b \<and> e' = e"
  by (auto simp: sguard_def)

lemma sguard_simps [simp]: "b \<Longrightarrow> sguard b e = Inr ()" "\<not> b \<Longrightarrow> sguard b e = Inl e"
  by (simp_all add: sguard_def)

lemma of_option_iffs [run_simps]:
  "of_option e x = Inr a \<longleftrightarrow> x = Some a" "of_option e x = Inl e' \<longleftrightarrow> x = None \<and> e' = e"
  by (auto simp: of_option_def split: option.splits)

lemma of_option_simps [simp]: "of_option e (Some a) = Inr a" "of_option e None = Inl e"
  by (simp_all add: of_option_def)

section \<open>Steps that write\<close>

type_synonym ('w, 'e, 'a) prog = "'w \<Rightarrow> ('e + 'a) \<times> 'w"

definition return :: "'a \<Rightarrow> ('w, 'e, 'a) prog" where
  "return a w = (Inr a, w)"

definition throw :: "'e \<Rightarrow> ('w, 'e, 'a) prog" where
  "throw e w = (Inl e, w)"

definition bind :: "('w, 'e, 'a) prog \<Rightarrow> ('a \<Rightarrow> ('w, 'e, 'b) prog) \<Rightarrow> ('w, 'e, 'b) prog" where
  "bind m f w = (case m w of (Inl e, w') \<Rightarrow> (Inl e, w') | (Inr a, w') \<Rightarrow> f a w')"

definition lift :: "('e, 'a) res \<Rightarrow> ('w, 'e, 'a) prog" where
  "lift r w = (r, w)"

definition guard :: "bool \<Rightarrow> 'e \<Rightarrow> ('w, 'e, unit) prog" where
  "guard b e = (if b then return () else throw e)"

definition modify :: "('w \<Rightarrow> 'w) \<Rightarrow> ('w, 'e, unit) prog" where
  "modify f w = (Inr (), f w)"

text \<open>\<open>for (const x of xs) await body(x)\<close>\<close>

fun for_each :: "'a list \<Rightarrow> ('a \<Rightarrow> ('w, 'e, unit) prog) \<Rightarrow> ('w, 'e, unit) prog" where
  "for_each [] f = return ()"
| "for_each (x # xs) f = bind (f x) (\<lambda>_. for_each xs f)"

text \<open>A loop that collects one value per round (\<open>views.push(await \<dots>)\<close>).\<close>

fun for_map :: "'a list \<Rightarrow> ('a \<Rightarrow> ('w, 'e, 'b) prog) \<Rightarrow> ('w, 'e, 'b list) prog" where
  "for_map [] f = return []"
| "for_map (x # xs) f = bind (f x) (\<lambda>y. bind (for_map xs f) (\<lambda>ys. return (y # ys)))"

text \<open>The same loops over reads.\<close>

fun smap :: "('a \<Rightarrow> ('e, 'b) res) \<Rightarrow> 'a list \<Rightarrow> ('e, 'b list) res" where
  "smap f [] = Inr []"
| "smap f (x # xs) = sbind (f x) (\<lambda>y. sbind (smap f xs) (\<lambda>ys. Inr (y # ys)))"

fun sfilter :: "('a \<Rightarrow> ('e, bool) res) \<Rightarrow> 'a list \<Rightarrow> ('e, 'a list) res" where
  "sfilter p [] = Inr []"
| "sfilter p (x # xs) =
     sbind (p x) (\<lambda>b. sbind (sfilter p xs) (\<lambda>ys. Inr (if b then x # ys else ys)))"

lemma return_iffs [run_simps]:
  "return a w = (Inr b, w') \<longleftrightarrow> b = a \<and> w' = w" "return a w = (Inl e, w') \<longleftrightarrow> False"
  by (auto simp: return_def)

lemma throw_iffs [run_simps]:
  "throw e w = (Inr b, w') \<longleftrightarrow> False" "throw e w = (Inl e', w') \<longleftrightarrow> e' = e \<and> w' = w"
  by (auto simp: throw_def)

lemma bind_Inr_iff [run_simps]:
  "bind m f w = (Inr b, w'') \<longleftrightarrow> (\<exists>a w'. m w = (Inr a, w') \<and> f a w' = (Inr b, w''))"
  by (auto simp: bind_def split: prod.splits sum.splits)

lemma bind_Inl_iff:
  "bind m f w = (Inl e, w'') \<longleftrightarrow>
     m w = (Inl e, w'') \<or> (\<exists>a w'. m w = (Inr a, w') \<and> f a w' = (Inl e, w''))"
  by (auto simp: bind_def split: prod.splits sum.splits)

lemma lift_iffs [run_simps]:
  "lift r w = (x, w') \<longleftrightarrow> r = x \<and> w' = w"
  by (auto simp: lift_def)

lemma guard_iffs [run_simps]:
  "guard b e w = (Inr u, w') \<longleftrightarrow> b \<and> w' = w"
  "guard b e w = (Inl e', w') \<longleftrightarrow> \<not> b \<and> e' = e \<and> w' = w"
  by (auto simp: guard_def return_def throw_def)

lemma modify_iffs [run_simps]:
  "modify f w = (Inr u, w') \<longleftrightarrow> w' = f w" "modify f w = (Inl e, w') \<longleftrightarrow> False"
  by (auto simp: modify_def)

lemma return_bind [simp]: "bind (return a) f = f a"
  by (rule ext) (simp add: bind_def return_def)

lemma throw_bind [simp]: "bind (throw e) f = throw e"
  by (rule ext) (simp add: bind_def throw_def)

lemma bind_assoc: "bind (bind m f) g = bind m (\<lambda>x. bind (f x) g)"
  by (rule ext) (auto simp: bind_def split: prod.splits sum.splits)

text \<open>What a step keeps whatever its outcome: the frame rule of the loops.\<close>

definition keeps :: "('w \<Rightarrow> 'x) \<Rightarrow> ('w, 'e, 'a) prog \<Rightarrow> bool" where
  "keeps obs m \<longleftrightarrow> (\<forall>w. obs (snd (m w)) = obs w)"

lemma keepsD: "keeps obs m \<Longrightarrow> m w = (r, w') \<Longrightarrow> obs w' = obs w"
  by (metis keeps_def snd_conv)

lemma keeps_return [intro, simp]: "keeps obs (return a)"
  by (simp add: keeps_def return_def)

lemma keeps_throw [intro, simp]: "keeps obs (throw e)"
  by (simp add: keeps_def throw_def)

lemma keeps_lift [intro, simp]: "keeps obs (lift r)"
  by (simp add: keeps_def lift_def)

lemma keeps_guard [intro, simp]: "keeps obs (guard b e)"
  by (simp add: guard_def)

lemma keeps_bind [intro]: "keeps obs m \<Longrightarrow> (\<And>a. keeps obs (f a)) \<Longrightarrow> keeps obs (bind m f)"
  by (simp add: keeps_def bind_def split: prod.splits sum.splits) (metis snd_conv)

lemma keeps_for_each [intro]: "(\<And>x. keeps obs (f x)) \<Longrightarrow> keeps obs (for_each xs f)"
  by (induction xs) auto

section \<open>Tables: lists of rows with a key\<close>

text \<open>
  A table is the list of its rows in insertion order.  \<open>row_of\<close> is
  \<open>WHERE key = k LIMIT 1\<close>, \<open>put_row\<close> is \<open>UPDATE \<dots> SET row WHERE key = row.key\<close> and
  \<open>drop_row\<close> is \<open>DELETE WHERE key = k\<close>.
\<close>

definition row_of :: "('r \<Rightarrow> 'k) \<Rightarrow> 'k \<Rightarrow> 'r list \<Rightarrow> 'r option" where
  "row_of pk k rows = find (\<lambda>r. pk r = k) rows"

definition put_row :: "('r \<Rightarrow> 'k) \<Rightarrow> 'r \<Rightarrow> 'r list \<Rightarrow> 'r list" where
  "put_row pk r rows = map (\<lambda>x. if pk x = pk r then r else x) rows"

definition drop_row :: "('r \<Rightarrow> 'k) \<Rightarrow> 'k \<Rightarrow> 'r list \<Rightarrow> 'r list" where
  "drop_row pk k rows = filter (\<lambda>r. pk r \<noteq> k) rows"

lemma row_of_Nil [simp]: "row_of pk k [] = None"
  by (simp add: row_of_def)

lemma row_of_Cons [simp]: "row_of pk k (r # rs) = (if pk r = k then Some r else row_of pk k rs)"
  by (simp add: row_of_def)

lemma row_of_SomeD: "row_of pk k rows = Some r \<Longrightarrow> r \<in> set rows \<and> pk r = k"
  by (induction rows) (auto split: if_splits)

lemma row_of_None_iff: "row_of pk k rows = None \<longleftrightarrow> k \<notin> pk ` set rows"
  by (induction rows) auto

lemma row_of_member: "distinct (map pk rows) \<Longrightarrow> r \<in> set rows \<Longrightarrow> row_of pk (pk r) rows = Some r"
  by (induction rows) (auto simp: image_iff)

lemma row_of_append: "row_of pk k (xs @ ys) =
    (case row_of pk k xs of None \<Rightarrow> row_of pk k ys | Some r \<Rightarrow> Some r)"
  by (induction xs) auto

lemma row_of_snoc:
  "pk r \<notin> pk ` set rows \<Longrightarrow>
     row_of pk k (rows @ [r]) = (if k = pk r then Some r else row_of pk k rows)"
  by (induction rows) auto

lemma row_of_put_row:
  "row_of pk k (put_row pk r rows) =
     (if k = pk r \<and> pk r \<in> pk ` set rows then Some r else row_of pk k rows)"
  by (induction rows) (auto simp: put_row_def)

lemma map_pk_put_row: "map pk (put_row pk r rows) = map pk rows"
  by (induction rows) (auto simp: put_row_def)

lemma set_put_row_subset: "set (put_row pk r rows) \<subseteq> insert r (set rows)"
  by (auto simp: put_row_def)

lemma set_put_row:
  "distinct (map pk rows) \<Longrightarrow> r0 \<in> set rows \<Longrightarrow> pk r0 = pk r \<Longrightarrow>
     set (put_row pk r rows) = insert r (set rows - {r0})"
  by (induction rows) (auto simp: put_row_def image_iff split: if_splits)

lemma put_row_other: "x \<in> set rows \<Longrightarrow> pk x \<noteq> pk r \<Longrightarrow> x \<in> set (put_row pk r rows)"
  by (force simp: put_row_def)

lemma in_put_row: "x \<in> set (put_row pk r rows) \<Longrightarrow> x = r \<or> (x \<in> set rows \<and> pk x \<noteq> pk r)"
  by (auto simp: put_row_def split: if_splits)

lemma row_of_drop_row:
  "row_of pk k (drop_row pk k' rows) = (if k = k' then None else row_of pk k rows)"
  by (induction rows) (auto simp: drop_row_def)

lemma set_drop_row [simp]: "set (drop_row pk k rows) = {r \<in> set rows. pk r \<noteq> k}"
  by (auto simp: drop_row_def)

lemma distinct_drop_row: "distinct (map f rows) \<Longrightarrow> distinct (map f (drop_row pk k rows))"
  by (simp add: drop_row_def distinct_map_filter)

text \<open>Sorted reads: \<open>ORDER BY key ASC\<close> and \<open>ORDER BY key DESC\<close>.\<close>

definition order_asc :: "('r \<Rightarrow> 'k::linorder) \<Rightarrow> 'r list \<Rightarrow> 'r list" where
  "order_asc f rows = sort_key f rows"

definition order_desc :: "('r \<Rightarrow> 'k::linorder) \<Rightarrow> 'r list \<Rightarrow> 'r list" where
  "order_desc f rows = rev (sort_key f rows)"

lemma set_order [simp]: "set (order_asc f rows) = set rows" "set (order_desc f rows) = set rows"
  by (simp_all add: order_asc_def order_desc_def)

lemma order_asc_Nil_iff [simp]: "order_asc f rows = [] \<longleftrightarrow> rows = []" "order_desc f rows = [] \<longleftrightarrow> rows = []"
  by (metis set_empty set_order(1)) (metis set_empty set_order(2))

definition first_of :: "'a list \<Rightarrow> 'a option" where
  "first_of xs = (case xs of [] \<Rightarrow> None | x # _ \<Rightarrow> Some x)"

lemma first_of_simps [simp]: "first_of [] = None" "first_of (x # xs) = Some x"
  by (simp_all add: first_of_def)

lemma first_of_None_iff [simp]: "first_of xs = None \<longleftrightarrow> xs = []"
  by (cases xs) auto

lemma first_of_SomeD: "first_of xs = Some x \<Longrightarrow> x \<in> set xs"
  by (cases xs) auto

lemma first_of_asc_least:
  assumes "first_of (order_asc f rows) = Some r" and "x \<in> set rows"
  shows "f r \<le> f x"
proof (cases "sort_key f rows")
  case Nil
  with assms show ?thesis by (simp add: order_asc_def)
next
  case (Cons y ys)
  have "sorted (map f (sort_key f rows))" by simp
  with Cons assms show ?thesis
    using set_sort[of f rows] by (auto simp: order_asc_def)
qed

lemma first_of_desc_greatest:
  assumes "first_of (order_desc f rows) = Some r" and "x \<in> set rows"
  shows "f x \<le> f r"
proof (cases "sort_key f rows" rule: rev_cases)
  case Nil
  with assms show ?thesis by (simp add: order_desc_def)
next
  case (snoc ys y)
  have "sorted (map f (sort_key f rows))" by simp
  with snoc assms show ?thesis
    using set_sort[of f rows] by (auto simp: order_desc_def sorted_append)
qed

section \<open>JavaScript strings\<close>

text \<open>
  Strings are lists of characters and the text the code handles is ASCII: \<open>toLowerCase\<close>
  folds \<open>A\<close>--\<open>Z\<close>, \<open>trim\<close> drops white space at both ends, and \<open><\<close> on strings is the
  lexicographic order of the character codes (also SQLite's BINARY collation).
\<close>

definition is_space :: "char \<Rightarrow> bool" where
  "is_space c \<longleftrightarrow> of_char c \<in> set [9, 10, 11, 12, 13, 32 :: nat]"

definition trim :: "string \<Rightarrow> string" where
  "trim s = rev (dropWhile is_space (rev (dropWhile is_space s)))"

definition lower_char :: "char \<Rightarrow> char" where
  "lower_char c = (let n = of_char c :: nat in if 65 \<le> n \<and> n \<le> 90 then char_of (n + 32) else c)"

definition to_lower :: "string \<Rightarrow> string" where
  "to_lower s = map lower_char s"

lemma lower_char_idem [simp]: "lower_char (lower_char c) = lower_char c"
proof -
  let ?n = "of_char c :: nat"
  have "65 \<le> ?n \<Longrightarrow> ?n \<le> 90 \<Longrightarrow> of_char (char_of (?n + 32) :: char) = ?n + 32"
    by (simp add: of_char_of)
  then show ?thesis by (auto simp: lower_char_def Let_def)
qed

lemma to_lower_idem [simp]: "to_lower (to_lower s) = to_lower s"
  by (simp add: to_lower_def)

lemma length_trim_le: "length (trim s) \<le> length s"
  by (metis trim_def length_rev length_dropWhile_le le_trans)

text \<open>\<open>[...new Set(xs)]\<close>: the first occurrence of each value, in order.\<close>

fun uniq :: "'a list \<Rightarrow> 'a list" where
  "uniq [] = []"
| "uniq (x # xs) = x # filter (\<lambda>y. y \<noteq> x) (uniq xs)"

lemma set_uniq [simp]: "set (uniq xs) = set xs"
  by (induction xs) auto

lemma distinct_uniq [simp]: "distinct (uniq xs)"
  by (induction xs) auto

end
