(* ===== verification/Domain.thy ===== *)
theory Domain
  imports Prelude
begin

text \<open>
  The domain of \<open>packages/core/src/domain\<close>: constants, entities, audit events, errors and
  the command inputs with their validation.

  A Zod object schema is a record; its value constraints are a boolean function or the
  \<open>parse\<close> function of the command.  Ids (UUIDs, ordered like their 128-bit value) and card
  numbers are natural numbers, an instant is its milliseconds since the epoch, and a
  calendar date its days since the epoch: the ISO strings the code stores are compared
  only with each other, where the order of the strings is the order of these numbers.
  Field names carry a short prefix, since the entities share names such as \<open>id\<close>.
\<close>

type_synonym uuid = nat
type_synonym card_no = nat
type_synonym instant = int
type_synonym day = int
type_synonym lane_key = string
type_synonym role_key = string

section \<open>Constants\<close>

definition LANE_KEYS :: "lane_key list" where
  "LANE_KEYS = [''intake'', ''waiting_approval'', ''ready'', ''in_progress'',
     ''waiting_parts_vendor'', ''review'', ''done'']"

definition isSystemLaneKey :: "lane_key \<Rightarrow> bool" where
  "isSystemLaneKey key \<longleftrightarrow> key \<in> set LANE_KEYS"

datatype priority = P0 | P1 | P2

datatype cancel_resolution = Cancelled | Declined | Duplicate

datatype resolution = Completed | CancelledAs cancel_resolution

datatype card_origin = OManual | OSlack | OMcp | OImport | OPm

datatype actor_kind = KUser | KMcp | KSlack | KSystem | KAgent

datatype token_scope = ReadScope | ReadWriteScope

datatype location_kind = Building | Floor | Room

datatype theme = Light | Dark | SystemTheme

definition CARD_TITLE_MAX :: nat where "CARD_TITLE_MAX = 200"
definition CARD_DESCRIPTION_MAX :: nat where "CARD_DESCRIPTION_MAX = 20000"
definition TAG_NAME_MAX :: nat where "TAG_NAME_MAX = 50"
definition MAX_ATTACHMENT_BYTES :: int where "MAX_ATTACHMENT_BYTES = 25 * 1024 * 1024"
definition MAX_ACTIVE_ATTACHMENTS_PER_CARD :: nat where "MAX_ACTIVE_ATTACHMENTS_PER_CARD = 10"
definition DEFAULT_REVIEW_STALE_DAYS :: nat where "DEFAULT_REVIEW_STALE_DAYS = 7"
definition DEFAULT_BLOCKED_STALE_DAYS :: nat where "DEFAULT_BLOCKED_STALE_DAYS = 3"
definition DONE_ARCHIVAL_DAYS :: int where "DONE_ARCHIVAL_DAYS = 90"
definition DAY_MS :: int where "DAY_MS = 86400000"

text \<open>Location rows are listed by the text of their kind, which is in this order.\<close>

fun kind_rank :: "location_kind \<Rightarrow> nat" where
  "kind_rank Building = 0"
| "kind_rank Floor = 1"
| "kind_rank Room = 2"

lemma kind_rank_inj: "kind_rank a = kind_rank b \<Longrightarrow> a = b"
  by (cases a; cases b) simp_all

instantiation location_kind :: linorder
begin

definition less_eq_location_kind :: "location_kind \<Rightarrow> location_kind \<Rightarrow> bool" where
  "less_eq_location_kind a b \<longleftrightarrow> kind_rank a \<le> kind_rank b"

definition less_location_kind :: "location_kind \<Rightarrow> location_kind \<Rightarrow> bool" where
  "less_location_kind a b \<longleftrightarrow> kind_rank a < kind_rank b"

instance
  by standard
    (auto simp: less_eq_location_kind_def less_location_kind_def intro: kind_rank_inj)

end

section \<open>Entities\<close>

record user =
  u_id :: uuid
  u_email :: string
  u_displayName :: string
  u_role :: role_key
  u_mustChangePassword :: bool
  u_slackUserId :: "string option"
  u_isActive :: bool
  u_timezone :: string
  u_theme :: theme
  u_createdAt :: instant

datatype access_mode = AccessAll | AccessRestricted

record board =
  b_id :: uuid
  b_name :: string
  b_isDefault :: bool
  b_archivedAt :: "instant option"
  b_accessMode :: access_mode
  b_allowedRoleKeys :: "role_key list"
  b_allowedUserIds :: "uuid list"
  b_allowedGroupIds :: "uuid list"
  b_createdAt :: instant

record lane =
  l_id :: uuid
  l_boardId :: uuid
  l_key :: lane_key
  l_label :: string
  l_position :: int
  l_wipLimit :: "nat option"

record location =
  loc_id :: uuid
  loc_parentId :: "uuid option"
  loc_kind :: location_kind
  loc_name :: string

record card =
  c_id :: card_no
  c_boardId :: uuid
  c_laneId :: uuid
  c_position :: string
  c_title :: string
  c_description :: string
  c_priority :: priority
  c_estimateMinutes :: "nat option"
  c_reporterId :: uuid
  c_assigneeId :: "uuid option"
  c_locationId :: "uuid option"
  c_origin :: card_origin
  c_resolution :: "resolution option"
  c_blocked :: bool
  c_blockedReason :: "string option"
  c_blockedAt :: "instant option"
  c_waitingReason :: "string option"
  c_expectedResumeAt :: "day option"
  c_resumeAlertedAt :: "instant option"
  c_workStartedAt :: "instant option"
  c_slackChannelId :: "string option"
  c_slackThreadTs :: "string option"
  c_slackPermalink :: "string option"
  c_version :: nat
  c_createdAt :: instant
  c_updatedAt :: instant
  c_archivedAt :: "instant option"

record tag =
  tag_id :: uuid
  tag_name :: string

record comment_row =
  cm_id :: uuid
  cm_cardId :: card_no
  cm_parentCommentId :: "uuid option"
  cm_authorId :: uuid
  cm_body :: string
  cm_createdAt :: instant
  cm_updatedAt :: instant
  cm_deletedAt :: "instant option"

record attachment =
  at_id :: uuid
  at_cardId :: card_no
  at_filename :: string
  at_mime :: string
  at_bytes :: nat
  at_sha256 :: string
  at_storageKey :: uuid
  at_uploadedBy :: uuid
  at_createdAt :: instant
  at_deletedAt :: "instant option"

record service_token =
  st_id :: uuid
  st_name :: string
  st_tokenHash :: string
  st_role :: role_key
  st_scope :: token_scope
  st_createdBy :: uuid
  st_createdAt :: instant
  st_lastUsedAt :: "instant option"
  st_revokedAt :: "instant option"

text \<open>Credentials: only the hash of a cookie, code or token is stored.\<close>

record session =
  se_id :: string
  se_userId :: uuid
  se_createdAt :: instant
  se_expiresAt :: instant
  se_lastSeenAt :: instant

record oauth_client =
  oc_id :: uuid
  oc_name :: string
  oc_redirectUris :: "string list"
  oc_createdAt :: instant

record oauth_code =
  co_codeHash :: string
  co_clientId :: uuid
  co_userId :: uuid
  co_redirectUri :: string
  co_resource :: string
  co_scope :: token_scope
  co_codeChallenge :: string
  co_expiresAt :: instant

record access_token =
  ot_id :: uuid
  ot_tokenHash :: string
  ot_userId :: uuid
  ot_clientId :: uuid
  ot_scope :: token_scope
  ot_resource :: string
  ot_expiresAt :: instant
  ot_revokedAt :: "instant option"
  ot_lastUsedAt :: "instant option"
  ot_createdAt :: instant

record refresh_token =
  rt_id :: uuid
  rt_tokenHash :: string
  rt_familyId :: uuid
  rt_userId :: uuid
  rt_clientId :: uuid
  rt_scope :: token_scope
  rt_resource :: string
  rt_expiresAt :: instant
  rt_usedAt :: "instant option"
  rt_revokedAt :: "instant option"
  rt_createdAt :: instant

text \<open>Saved board filters.\<close>

datatype filter_scope = ActiveOnly | ArchivedOnly | AllCards

record board_filter =
  bf_priorities :: "priority list"
  bf_assigneeIds :: "uuid list"
  bf_reporterIds :: "uuid list"
  bf_tags :: "string list"
  bf_locationIds :: "uuid list"
  bf_scope :: filter_scope
  bf_q :: string
  bf_overdue :: bool

definition EMPTY_BOARD_FILTER :: board_filter where
  "EMPTY_BOARD_FILTER = \<lparr>bf_priorities = [], bf_assigneeIds = [], bf_reporterIds = [], bf_tags = [],
     bf_locationIds = [], bf_scope = ActiveOnly, bf_q = [], bf_overdue = False\<rparr>"

record filter_preset =
  fp_id :: uuid
  fp_boardId :: uuid
  fp_ownerId :: uuid
  fp_name :: string
  fp_filter :: board_filter
  fp_shared :: bool
  fp_createdAt :: instant
  fp_updatedAt :: instant

text \<open>Who is acting, from which surface; \<open>a_client\<close> is the OAuth client of an agent.\<close>

record actor =
  a_kind :: actor_kind
  a_id :: uuid
  a_role :: role_key
  a_scope :: "token_scope option"
  a_client :: "(uuid \<times> string) option"

text \<open>The actor a stored user stands for: \<open>{ kind: 'user', id: user.id, role: user.role }\<close>.\<close>

definition actor_of_user :: "user \<Rightarrow> actor" where
  "actor_of_user u = \<lparr>a_kind = KUser, a_id = u_id u, a_role = u_role u, a_scope = None,
     a_client = None\<rparr>"

datatype relation_type = Blocks | Duplicates | RelatesTo

definition isSymmetricRelation :: "relation_type \<Rightarrow> bool" where
  "isSymmetricRelation ty \<longleftrightarrow> ty \<in> set [RelatesTo]"

record card_relation =
  rel_id :: uuid
  rel_fromCardId :: card_no
  rel_toCardId :: card_no
  rel_type :: relation_type
  rel_createdAt :: instant

datatype relation_direction = Outgoing | Incoming

record card_relation_view =
  rv_id :: uuid
  rv_type :: relation_type
  rv_direction :: relation_direction
  rv_cardId :: card_no
  rv_cardTitle :: string

record group_row =
  g_id :: uuid
  g_name :: string
  g_userIds :: "uuid list"
  g_createdAt :: instant

datatype default_scope = DApplication | DRole | DGroup | DUser

text \<open>\<open>subject\<close> is the text \<open>all\<close>, a role key, or the id of a group or a user.\<close>

datatype default_subject = SubjAll | SubjRole role_key | SubjId uuid

record board_default =
  bd_scope :: default_scope
  bd_subject :: default_subject
  bd_boardId :: uuid

section \<open>Audit events\<close>

datatype card_field = FieldTitle | FieldDescription | FieldPriority | FieldEstimateMinutes
  | FieldAssigneeId | FieldLocationId | FieldTags | FieldWaitingReason | FieldExpectedResumeAt

datatype field_value = FNull | FText string | FNumber nat | FPriority priority | FId uuid
  | FDay day | FTags "string list"

datatype event_body =
    CardCreated card "string list"
  | CardStatusChanged lane_key lane_key bool bool
  | CardReordered lane_key "card_no option" "card_no option"
  | CardFieldChanged card_field field_value field_value
  | CardBlocked "string option"
  | CardUnblocked "string option"
  | CardCancelled cancel_resolution lane_key "string option" "day option"
  | CardReopened lane_key
  | CardArchived
  | CommentAdded uuid "uuid option" "uuid list option"
  | CommentEdited uuid "uuid option"
  | CommentDeleted uuid "uuid option"
  | AttachmentAdded uuid string
  | AttachmentRemoved uuid string
  | CardPiiDeleted string

datatype event_type = TCardCreated | TCardStatusChanged | TCardReordered | TCardFieldChanged
  | TCardBlocked | TCardUnblocked | TCardCancelled | TCardReopened | TCardArchived
  | TCommentAdded | TCommentEdited | TCommentDeleted | TAttachmentAdded | TAttachmentRemoved
  | TCardPiiDeleted

fun type_of :: "event_body \<Rightarrow> event_type" where
  "type_of (CardCreated _ _) = TCardCreated"
| "type_of (CardStatusChanged _ _ _ _) = TCardStatusChanged"
| "type_of (CardReordered _ _ _) = TCardReordered"
| "type_of (CardFieldChanged _ _ _) = TCardFieldChanged"
| "type_of (CardBlocked _) = TCardBlocked"
| "type_of (CardUnblocked _) = TCardUnblocked"
| "type_of (CardCancelled _ _ _ _) = TCardCancelled"
| "type_of (CardReopened _) = TCardReopened"
| "type_of CardArchived = TCardArchived"
| "type_of (CommentAdded _ _ _) = TCommentAdded"
| "type_of (CommentEdited _ _) = TCommentEdited"
| "type_of (CommentDeleted _ _) = TCommentDeleted"
| "type_of (AttachmentAdded _ _) = TAttachmentAdded"
| "type_of (AttachmentRemoved _ _) = TAttachmentRemoved"
| "type_of (CardPiiDeleted _) = TCardPiiDeleted"

record card_event =
  ev_id :: uuid
  ev_cardId :: card_no
  ev_actorId :: "uuid option"
  ev_actorKind :: actor_kind
  ev_actorLabel :: "string option"
  ev_createdAt :: instant
  ev_body :: event_body

text \<open>A notification's kind: a card event, or a direct @-mention in a comment.\<close>

datatype notification_kind = NEvent event_type | NMention

record notification =
  n_id :: uuid
  n_userId :: uuid
  n_cardId :: card_no
  n_actorId :: "uuid option"
  n_eventType :: notification_kind
  n_commentId :: "uuid option"
  n_createdAt :: instant
  n_readAt :: "instant option"

definition NON_NOTIFIABLE :: "event_type list" where
  "NON_NOTIFIABLE = [TCardReordered, TCardPiiDeleted, TCommentEdited, TCommentDeleted]"

definition isNotifiableEvent :: "event_type \<Rightarrow> bool" where
  "isNotifiableEvent ty \<longleftrightarrow> ty \<notin> set NON_NOTIFIABLE"

text \<open>Realtime hints: card scoped (type, card, version, event) or board scoped.\<close>

datatype hint = CardHint event_type card_no nat uuid
  | BoardUpdated | PolicyUpdated | LaneUpdated | UserUpdated | LocationUpdated

fun is_card_event_type :: "event_type \<Rightarrow> bool" where
  "is_card_event_type ty \<longleftrightarrow> ty \<notin> {TCommentAdded, TCommentEdited, TCommentDeleted,
     TAttachmentAdded, TAttachmentRemoved}"

text \<open>\<open>hint.type === 'lane.updated' || hint.type.startsWith('card.')\<close>\<close>

fun affectsBoardSnapshot :: "hint \<Rightarrow> bool" where
  "affectsBoardSnapshot LaneUpdated = True"
| "affectsBoardSnapshot (CardHint ty _ _ _) = is_card_event_type ty"
| "affectsBoardSnapshot _ = False"

section \<open>Errors\<close>

text \<open>
  The typed domain errors; \<open>ZodError\<close> carries the offending field and \<open>PlainError\<close> any
  other thrown \<open>Error\<close>.  \<open>ServerError\<close> is an error of the server package (those its services
  throw), \<open>OAuthError\<close> one of the authorization server, with its protocol code.
\<close>

datatype server_error =
    BearerAuthRequiredError bool
  | InvalidCredentialsError
  | CurrentPasswordMismatchError
  | BackoffActiveError nat
  | PasswordPolicyError string
  | RequestValidationError string string
  | SetupAlreadyCompleteError
  | LastActiveAdminError

datatype oauth_error_code = AccessDenied | InvalidRequest | InvalidClient | InvalidGrant
  | InvalidRedirectUri | UnsupportedGrantType

datatype error =
    PolicyDeniedError string
  | IllegalTransitionError lane_key lane_key
  | ConflictError string "card option"
  | ArchivedError
  | NotFoundError string
  | LimitExceededError string int
  | DuplicatePositionError
  | ZodError string
  | PlainError string
  | ServerError server_error
  | OAuthError oauth_error_code

type_synonym 'a read = "(error, 'a) res"

text \<open>The card an error carries to the client.\<close>

fun leaked_card :: "error \<Rightarrow> card option" where
  "leaked_card (ConflictError _ c) = c"
| "leaked_card _ = None"

section \<open>UTC days and business time\<close>

definition utcDayOf :: "instant \<Rightarrow> day" where
  "utcDayOf t = t div DAY_MS"

definition isOverdueResume :: "day option \<Rightarrow> day \<Rightarrow> bool" where
  "isOverdueResume expectedResumeAt today =
     (case expectedResumeAt of None \<Rightarrow> False | Some d \<Rightarrow> d < today)"

end
