(* ===== verification/Policy.thy ===== *)
theory Policy
  imports Domain
begin

text \<open>
  The permission policy: the document of \<open>packages/core/src/domain/policy.ts\<close> with its
  validation, and the engine of \<open>packages/core/src/policy/policy-engine.ts\<close>.

  A role's sparse grant map is the list of the granted permissions, since \<open>true\<close> is the
  only legal value.  The lemmas say what each rule of the engine decides: system actors
  bypass it, read-scope tokens never write, ownership decides where it is consulted, and
  everything else needs a grant.
\<close>

section \<open>The policy document\<close>

datatype permission =
    PermCardCreate | PermCardUpdate | PermCardMove | PermCardCancel | PermCardReopen
  | PermCardArchive | PermCardBlock | PermCardUnblock | PermCommentAdd
  | PermCommentDeleteOthers | PermAttachmentAdd | PermAttachmentDeleteOthers
  | PermViewAllActivity | PermManageUsers | PermManageRoles | PermManageLocations
  | PermManageLanes | PermManagePolicy | PermManageTokens

definition PERMISSIONS :: "permission list" where
  "PERMISSIONS = [PermCardCreate, PermCardUpdate, PermCardMove, PermCardCancel,
     PermCardReopen, PermCardArchive, PermCardBlock, PermCardUnblock, PermCommentAdd,
     PermCommentDeleteOthers, PermAttachmentAdd, PermAttachmentDeleteOthers,
     PermViewAllActivity, PermManageUsers, PermManageRoles, PermManageLocations,
     PermManageLanes, PermManagePolicy, PermManageTokens]"

text \<open>The text of a permission, as the denial rule names it.\<close>

fun permission_name :: "permission \<Rightarrow> string" where
  "permission_name PermCardCreate = ''card.create''"
| "permission_name PermCardUpdate = ''card.update''"
| "permission_name PermCardMove = ''card.move''"
| "permission_name PermCardCancel = ''card.cancel''"
| "permission_name PermCardReopen = ''card.reopen''"
| "permission_name PermCardArchive = ''card.archive''"
| "permission_name PermCardBlock = ''card.block''"
| "permission_name PermCardUnblock = ''card.unblock''"
| "permission_name PermCommentAdd = ''comment.add''"
| "permission_name PermCommentDeleteOthers = ''comment.deleteOthers''"
| "permission_name PermAttachmentAdd = ''attachment.add''"
| "permission_name PermAttachmentDeleteOthers = ''attachment.deleteOthers''"
| "permission_name PermViewAllActivity = ''viewAllActivity''"
| "permission_name PermManageUsers = ''manageUsers''"
| "permission_name PermManageRoles = ''manageRoles''"
| "permission_name PermManageLocations = ''manageLocations''"
| "permission_name PermManageLanes = ''manageLanes''"
| "permission_name PermManagePolicy = ''managePolicy''"
| "permission_name PermManageTokens = ''manageTokens''"

record role_definition =
  r_key :: role_key
  r_name :: string
  r_permissions :: "permission list"

record policy_transition =
  tr_from :: lane_key
  tr_to :: lane_key

record business_hours =
  startHour :: nat
  endHour :: nat

record waiting_reason =
  wr_key :: string
  wr_label :: string
  wr_active :: bool

record policy_document =
  p_transitionEnforcement :: bool
  p_transitions :: "policy_transition list"
  p_roles :: "role_definition list"
  p_businessHours :: business_hours
  p_waitingReasons :: "waiting_reason list"

record board_policy =
  bp_id :: uuid
  bp_boardId :: uuid
  bp_config :: policy_document
  bp_createdBy :: uuid
  bp_createdAt :: instant

text \<open>\<open>/^[a-z][a-z0-9_]*$/\<close> with at most 40 characters.\<close>

definition is_lower_letter :: "char \<Rightarrow> bool" where
  "is_lower_letter c \<longleftrightarrow> 97 \<le> (of_char c :: nat) \<and> (of_char c :: nat) \<le> 122"

definition is_digit :: "char \<Rightarrow> bool" where
  "is_digit c \<longleftrightarrow> 48 \<le> (of_char c :: nat) \<and> (of_char c :: nat) \<le> 57"

fun is_slug :: "string \<Rightarrow> bool" where
  "is_slug [] = False"
| "is_slug (c # cs) \<longleftrightarrow> is_lower_letter c
     \<and> (\<forall>d \<in> set cs. is_lower_letter d \<or> is_digit d \<or> d = CHR ''_'') \<and> length cs < 40"

definition roleDefinitionSchema :: "role_definition \<Rightarrow> bool" where
  "roleDefinitionSchema r \<longleftrightarrow> is_slug (r_key r) \<and> r_name r \<noteq> [] \<and> length (r_name r) \<le> 60"

definition businessHoursSchema :: "business_hours \<Rightarrow> bool" where
  "businessHoursSchema h \<longleftrightarrow> startHour h \<le> 23 \<and> 1 \<le> endHour h \<and> endHour h \<le> 24
     \<and> startHour h < endHour h"

definition DEFAULT_BUSINESS_HOURS :: business_hours where
  "DEFAULT_BUSINESS_HOURS = \<lparr>startHour = 9, endHour = 17\<rparr>"

definition waitingReasonDefinitionSchema :: "waiting_reason \<Rightarrow> bool" where
  "waitingReasonDefinitionSchema r \<longleftrightarrow> is_slug (wr_key r) \<and> wr_label r \<noteq> []
     \<and> length (wr_label r) \<le> 80"

definition DEFAULT_WAITING_REASONS :: "waiting_reason list" where
  "DEFAULT_WAITING_REASONS = [
     \<lparr>wr_key = ''parts'', wr_label = ''Parts'', wr_active = True\<rparr>,
     \<lparr>wr_key = ''vendor'', wr_label = ''Vendor'', wr_active = True\<rparr>,
     \<lparr>wr_key = ''access'', wr_label = ''Access'', wr_active = True\<rparr>,
     \<lparr>wr_key = ''info'', wr_label = ''Information'', wr_active = True\<rparr>,
     \<lparr>wr_key = ''funding'', wr_label = ''Funding'', wr_active = True\<rparr>]"

text \<open>At least one active reason, unique keys, unique folded labels of the active ones.\<close>

definition waitingReasonDefinitionsSchema :: "waiting_reason list \<Rightarrow> bool" where
  "waitingReasonDefinitionsSchema rs \<longleftrightarrow>
     (\<forall>r \<in> set rs. waitingReasonDefinitionSchema r)
     \<and> (\<exists>r \<in> set rs. wr_active r)
     \<and> distinct (map wr_key rs)
     \<and> distinct (map (\<lambda>r. to_lower (wr_label r)) (filter wr_active rs))"

text \<open>
  \<open>policyDocumentSchema.parse\<close>: labels are trimmed, then every refinement is checked in the
  code's order, the failing path named.
\<close>

definition trim_reasons :: "policy_document \<Rightarrow> policy_document" where
  "trim_reasons d = d\<lparr>p_waitingReasons :=
     map (\<lambda>r. r\<lparr>wr_label := trim (wr_label r)\<rparr>) (p_waitingReasons d)\<rparr>"

definition parse_policy_document :: "policy_document \<Rightarrow> policy_document read" where
  "parse_policy_document raw = (let d = trim_reasons raw in
     sbind (sguard (\<forall>t \<in> set (p_transitions d). is_slug (tr_from t) \<and> is_slug (tr_to t))
       (ZodError ''transitions'')) (\<lambda>_.
     sbind (sguard (p_roles d \<noteq> [] \<and> (\<forall>r \<in> set (p_roles d). roleDefinitionSchema r))
       (ZodError ''roles'')) (\<lambda>_.
     sbind (sguard (businessHoursSchema (p_businessHours d)) (ZodError ''businessHours'')) (\<lambda>_.
     sbind (sguard (waitingReasonDefinitionsSchema (p_waitingReasons d))
       (ZodError ''waitingReasons'')) (\<lambda>_.
     sbind (sguard (distinct (map r_key (p_roles d))) (ZodError ''roles'')) (\<lambda>_.
     sbind (sguard (\<exists>r \<in> set (p_roles d). PermManageRoles \<in> set (r_permissions r))
       (ZodError ''roles'')) (\<lambda>_.
     sbind (sguard (\<forall>t \<in> set (p_transitions d). tr_from t \<noteq> tr_to t)
       (ZodError ''transitions'')) (\<lambda>_.
     sbind (sguard (distinct (p_transitions d)) (ZodError ''transitions'')) (\<lambda>_.
     Inr d)))))))))"

text \<open>The seeded document: enforcement off, the seven-lane graph, \<open>user\<close> and \<open>admin\<close>.\<close>

definition edge :: "lane_key \<Rightarrow> lane_key \<Rightarrow> policy_transition" where
  "edge f t = \<lparr>tr_from = f, tr_to = t\<rparr>"

definition DEFAULT_POLICY_DOCUMENT :: policy_document where
  "DEFAULT_POLICY_DOCUMENT = \<lparr>
     p_transitionEnforcement = False,
     p_transitions = [
       edge ''intake'' ''waiting_approval'',
       edge ''waiting_approval'' ''ready'',
       edge ''waiting_approval'' ''intake'',
       edge ''ready'' ''in_progress'',
       edge ''in_progress'' ''ready'',
       edge ''in_progress'' ''waiting_parts_vendor'',
       edge ''waiting_parts_vendor'' ''in_progress'',
       edge ''in_progress'' ''review'',
       edge ''review'' ''done'',
       edge ''review'' ''in_progress'',
       edge ''done'' ''ready''],
     p_roles = [
       \<lparr>r_key = ''user'', r_name = ''User'',
        r_permissions = [PermCardCreate, PermCardUpdate, PermCardMove, PermCardCancel,
          PermCardReopen, PermCardArchive, PermCardBlock, PermCardUnblock, PermCommentAdd,
          PermAttachmentAdd]\<rparr>,
       \<lparr>r_key = ''admin'', r_name = ''Administrator'', r_permissions = PERMISSIONS\<rparr>],
     p_businessHours = DEFAULT_BUSINESS_HOURS,
     p_waitingReasons = DEFAULT_WAITING_REASONS\<rparr>"

section \<open>The engine\<close>

datatype policy_action =
    ActCardCreate | ActCardUpdate | ActCardMove lane_key lane_key | ActCardReorder lane_key
  | ActCardCancel | ActCardReopen | ActCardArchive | ActCardDelete uuid
  | ActCardBlock | ActCardUnblock
  | ActCommentAdd | ActCommentEdit uuid | ActCommentDelete uuid
  | ActAttachmentAdd | ActAttachmentRemove uuid
  | ActManageUsers | ActManageRoles | ActManageLocations | ActManageLanes | ActManagePolicy
  | ActManageTokens

datatype policy_decision = Allow | Denied string | IllegalTransition lane_key lane_key

definition READ_SCOPE_RULE :: string where "READ_SCOPE_RULE = ''token-scope-read''"
definition COMMENT_AUTHOR_RULE :: string where "COMMENT_AUTHOR_RULE = ''comment-author-only''"

text \<open>Does the actor's role, matched by key, hold the permission?\<close>

definition holds_permission :: "actor \<Rightarrow> permission \<Rightarrow> policy_document \<Rightarrow> bool" where
  "holds_permission actor perm policy =
     (case find (\<lambda>candidate. r_key candidate = a_role actor) (p_roles policy) of
        None \<Rightarrow> False
      | Some role \<Rightarrow> perm \<in> set (r_permissions role))"

definition grant :: "actor \<Rightarrow> permission \<Rightarrow> policy_document \<Rightarrow> policy_decision" where
  "grant actor perm policy =
     (if holds_permission actor perm policy then Allow
      else Denied (''permission:'' @ permission_name perm))"

definition hasPermission :: "actor \<Rightarrow> permission \<Rightarrow> policy_document \<Rightarrow> bool" where
  "hasPermission actor perm policy =
     (if a_kind actor = KSystem then True else grant actor perm policy = Allow)"

definition ensurePermission :: "actor \<Rightarrow> permission \<Rightarrow> policy_document \<Rightarrow> unit read" where
  "ensurePermission actor perm policy =
     (if a_kind actor = KSystem then Inr ()
      else if a_scope actor = Some ReadScope then Inl (PolicyDeniedError READ_SCOPE_RULE)
      else case grant actor perm policy of
          Denied rule \<Rightarrow> Inl (PolicyDeniedError rule)
        | _ \<Rightarrow> Inr ())"

definition findTransition ::
  "policy_document \<Rightarrow> lane_key \<Rightarrow> lane_key \<Rightarrow> policy_transition option" where
  "findTransition policy frm to =
     find (\<lambda>e. tr_from e = frm \<and> tr_to e = to) (p_transitions policy)"

definition checkTransition :: "policy_document \<Rightarrow> lane_key \<Rightarrow> lane_key \<Rightarrow> policy_decision" where
  "checkTransition policy frm to =
     (if \<not> p_transitionEnforcement policy then Allow
      else case findTransition policy frm to of
          None \<Rightarrow> IllegalTransition frm to
        | Some _ \<Rightarrow> Allow)"

fun decide_action :: "actor \<Rightarrow> policy_action \<Rightarrow> policy_document \<Rightarrow> policy_decision" where
  "decide_action actor (ActCommentEdit authorId) policy =
     (if a_id actor = authorId then Allow else Denied COMMENT_AUTHOR_RULE)"
| "decide_action actor (ActCommentDelete authorId) policy =
     (if a_id actor = authorId then Allow else grant actor PermCommentDeleteOthers policy)"
| "decide_action actor (ActAttachmentRemove uploaderId) policy =
     (if a_id actor = uploaderId then Allow else grant actor PermAttachmentDeleteOthers policy)"
| "decide_action actor (ActCardDelete reporterId) policy =
     (if a_id actor = reporterId then Allow else Denied ''card-owner-only'')"
| "decide_action actor ActCardCancel policy = grant actor PermCardCancel policy"
| "decide_action actor ActCardReopen policy = grant actor PermCardReopen policy"
| "decide_action actor ActCardArchive policy = grant actor PermCardArchive policy"
| "decide_action actor (ActCardReorder lane) policy = grant actor PermCardMove policy"
| "decide_action actor (ActCardMove frm to) policy =
     (let permitted = grant actor PermCardMove policy
      in if permitted \<noteq> Allow then permitted else checkTransition policy frm to)"
| "decide_action actor ActCardCreate policy = grant actor PermCardCreate policy"
| "decide_action actor ActCardUpdate policy = grant actor PermCardUpdate policy"
| "decide_action actor ActCardBlock policy = grant actor PermCardBlock policy"
| "decide_action actor ActCardUnblock policy = grant actor PermCardUnblock policy"
| "decide_action actor ActCommentAdd policy = grant actor PermCommentAdd policy"
| "decide_action actor ActAttachmentAdd policy = grant actor PermAttachmentAdd policy"
| "decide_action actor ActManageUsers policy = grant actor PermManageUsers policy"
| "decide_action actor ActManageRoles policy = grant actor PermManageRoles policy"
| "decide_action actor ActManageLocations policy = grant actor PermManageLocations policy"
| "decide_action actor ActManageLanes policy = grant actor PermManageLanes policy"
| "decide_action actor ActManagePolicy policy = grant actor PermManagePolicy policy"
| "decide_action actor ActManageTokens policy = grant actor PermManageTokens policy"

definition evaluatePolicy :: "actor \<Rightarrow> policy_action \<Rightarrow> policy_document \<Rightarrow> policy_decision" where
  "evaluatePolicy actor action policy =
     (if a_kind actor = KSystem then Allow
      else if a_scope actor = Some ReadScope then Denied READ_SCOPE_RULE
      else decide_action actor action policy)"

text \<open>A decision as the typed domain error the services throw.\<close>

fun decide :: "policy_decision \<Rightarrow> unit read" where
  "decide Allow = Inr ()"
| "decide (IllegalTransition frm to) = Inl (IllegalTransitionError frm to)"
| "decide (Denied rule) = Inl (PolicyDeniedError rule)"

section \<open>What the engine decides\<close>

text \<open>A writer is any actor the always-on rules do not stop.\<close>

definition may_write :: "actor \<Rightarrow> bool" where
  "may_write actor \<longleftrightarrow> a_kind actor = KSystem \<or> a_scope actor \<noteq> Some ReadScope"

definition permitted :: "actor \<Rightarrow> permission \<Rightarrow> policy_document \<Rightarrow> bool" where
  "permitted actor perm policy \<longleftrightarrow>
     a_kind actor = KSystem
     \<or> (a_scope actor \<noteq> Some ReadScope \<and> holds_permission actor perm policy)"

lemma grant_Allow_iff [simp]: "grant actor perm policy = Allow \<longleftrightarrow> holds_permission actor perm policy"
  by (simp add: grant_def)

lemma grant_not_illegal [simp]: "grant actor perm policy \<noteq> IllegalTransition f t"
  by (simp add: grant_def)

lemma decide_iffs [run_simps]:
  "decide d = Inr u \<longleftrightarrow> d = Allow"
  by (cases d) auto

lemma decide_no_leak: "decide d = Inl e \<Longrightarrow> leaked_card e = None"
  by (cases d) auto

lemma hasPermission_iff:
  "hasPermission actor perm policy \<longleftrightarrow> a_kind actor = KSystem \<or> holds_permission actor perm policy"
  by (simp add: hasPermission_def)

lemma ensurePermission_iff [run_simps]:
  "ensurePermission actor perm policy = Inr u \<longleftrightarrow> permitted actor perm policy"
  by (auto simp: ensurePermission_def permitted_def grant_def)

lemma ensurePermission_no_leak: "ensurePermission actor perm policy = Inl e \<Longrightarrow> leaked_card e = None"
  by (auto simp: ensurePermission_def grant_def split: if_splits)

lemma permitted_may_write: "permitted actor perm policy \<Longrightarrow> may_write actor"
  by (auto simp: permitted_def may_write_def)

lemma evaluatePolicy_may_write: "evaluatePolicy actor action policy = Allow \<Longrightarrow> may_write actor"
  by (auto simp: evaluatePolicy_def may_write_def split: if_splits)

text \<open>The actions that are gated by one grant alone, and their permission.\<close>

fun gate_of :: "policy_action \<Rightarrow> permission option" where
  "gate_of ActCardCreate = Some PermCardCreate"
| "gate_of ActCardUpdate = Some PermCardUpdate"
| "gate_of (ActCardReorder l) = Some PermCardMove"
| "gate_of ActCardCancel = Some PermCardCancel"
| "gate_of ActCardReopen = Some PermCardReopen"
| "gate_of ActCardArchive = Some PermCardArchive"
| "gate_of ActCardBlock = Some PermCardBlock"
| "gate_of ActCardUnblock = Some PermCardUnblock"
| "gate_of ActCommentAdd = Some PermCommentAdd"
| "gate_of ActAttachmentAdd = Some PermAttachmentAdd"
| "gate_of ActManageUsers = Some PermManageUsers"
| "gate_of ActManageRoles = Some PermManageRoles"
| "gate_of ActManageLocations = Some PermManageLocations"
| "gate_of ActManageLanes = Some PermManageLanes"
| "gate_of ActManagePolicy = Some PermManagePolicy"
| "gate_of ActManageTokens = Some PermManageTokens"
| "gate_of _ = None"

lemma gated_action:
  "gate_of action = Some perm \<Longrightarrow>
     evaluatePolicy actor action policy = Allow \<longleftrightarrow> permitted actor perm policy"
  by (cases action) (auto simp: evaluatePolicy_def permitted_def)

lemma edge_simps [simp]: "tr_from (edge f t) = f" "tr_to (edge f t) = t" "edge (tr_from x) (tr_to x) = x"
  by (simp_all add: edge_def)

lemma findTransition_None_iff:
  "findTransition policy frm to = None \<longleftrightarrow> edge frm to \<notin> set (p_transitions policy)"
  unfolding findTransition_def find_None_iff by (metis edge_simps)

lemma move_action:
  "evaluatePolicy actor (ActCardMove frm to) policy = Allow \<longleftrightarrow>
     a_kind actor = KSystem
     \<or> (permitted actor PermCardMove policy
        \<and> (p_transitionEnforcement policy \<longrightarrow> edge frm to \<in> set (p_transitions policy)))"
  using findTransition_None_iff[of policy frm to]
  by (cases "findTransition policy frm to")
    (auto simp: evaluatePolicy_def permitted_def checkTransition_def Let_def)

lemma owner_action:
  "evaluatePolicy actor (ActCardDelete reporterId) policy = Allow \<longleftrightarrow>
     a_kind actor = KSystem \<or> (a_scope actor \<noteq> Some ReadScope \<and> a_id actor = reporterId)"
  "evaluatePolicy actor (ActCommentEdit authorId) policy = Allow \<longleftrightarrow>
     a_kind actor = KSystem \<or> (a_scope actor \<noteq> Some ReadScope \<and> a_id actor = authorId)"
  by (auto simp: evaluatePolicy_def)

lemma owner_or_grant_action:
  "evaluatePolicy actor (ActCommentDelete authorId) policy = Allow \<longleftrightarrow>
     a_kind actor = KSystem \<or> (a_scope actor \<noteq> Some ReadScope
       \<and> (a_id actor = authorId \<or> holds_permission actor PermCommentDeleteOthers policy))"
  "evaluatePolicy actor (ActAttachmentRemove uploaderId) policy = Allow \<longleftrightarrow>
     a_kind actor = KSystem \<or> (a_scope actor \<noteq> Some ReadScope
       \<and> (a_id actor = uploaderId \<or> holds_permission actor PermAttachmentDeleteOthers policy))"
  by (auto simp: evaluatePolicy_def)

end
