(* ===== verification/Store.thy ===== *)
theory Store
  imports Policy "HOL-Library.Product_Lexorder"
begin

text \<open>
  The database, the world the services run in, and the repositories of
  \<open>packages/db/src/repositories\<close> (the ports are \<open>packages/core/src/ports/repositories.ts\<close>).

  Each SQL table is a list of rows in insertion order.  A repository read is a function of
  the database; a write returns the database after it, or the error the adapter rejects
  with.  The unique keys the adapters map to domain errors are checked where SQLite checks
  them; foreign keys are checked where an adapter maps their violation.

  The world adds what lives outside the database: how many ids were generated and how
  often the clock was read (\<open>IdGenerator\<close> and \<open>Clock\<close> are ports, so the environment gives
  the \<open>n\<close>-th id and the \<open>n\<close>-th reading), the hints published, the completion notices sent
  and the blobs stored.
\<close>

section \<open>Database, world, environment\<close>

record account =
  acc_user :: user
  acc_passwordHash :: string

record db =
  t_boards :: "board list"
  t_defaults :: "board_default list"
  t_groups :: "group_row list"
  t_users :: "account list"
  t_lanes :: "lane list"
  t_locations :: "location list"
  t_cards :: "card list"
  t_tags :: "tag list"
  t_cardTags :: "(card_no \<times> uuid) list"
  t_comments :: "comment_row list"
  t_attachments :: "attachment list"
  t_events :: "card_event list"
  t_relations :: "card_relation list"
  t_watchers :: "(card_no \<times> uuid \<times> instant) list"
  t_notifications :: "notification list"
  t_policies :: "board_policy list"
  t_tokens :: "service_token list"
  t_sessions :: "session list"
  t_clients :: "oauth_client list"
  t_codes :: "oauth_code list"
  t_access :: "access_token list"
  t_refresh :: "refresh_token list"
  t_presets :: "filter_preset list"

text \<open>An entry of the login backoff, which lives in memory.\<close>

record backoff_entry =
  be_failures :: nat
  be_lastFailureAtMs :: instant

record world =
  w_db :: db
  w_ids :: nat
  w_ticks :: nat
  w_hints :: "hint list"
  w_completed :: "card list"
  w_blobs :: "(uuid \<times> string) list"
  w_backoff :: "(string \<times> backoff_entry) list"

text \<open>
  \<open>e_keyBetween\<close> is \<open>generateKeyBetween\<close> of the package \<open>fractional-indexing\<close>, \<open>None\<close>
  where it throws; \<open>e_keysAfter m n\<close> is \<open>generateNKeysBetween(m, null, n)\<close>;
  \<open>e_blobPut\<close> and \<open>e_blobDelete\<close> say for which key the blob store accepts.
\<close>

record env =
  e_newId :: "nat \<Rightarrow> uuid"
  e_clock :: "nat \<Rightarrow> instant"
  e_keyBetween :: "string option \<Rightarrow> string option \<Rightarrow> string option"
  e_keysAfter :: "string option \<Rightarrow> nat \<Rightarrow> string list"
  e_blobPut :: "uuid \<Rightarrow> bool"
  e_blobDelete :: "uuid \<Rightarrow> bool"
  e_boardId :: uuid
  e_systemUserId :: uuid

type_synonym 'a step = "(world, error, 'a) prog"

definition ask :: "(db \<Rightarrow> 'a read) \<Rightarrow> 'a step" where
  "ask f w = (f (w_db w), w)"

definition store :: "(db \<Rightarrow> db read) \<Rightarrow> unit step" where
  "store f w = (case f (w_db w) of Inl e \<Rightarrow> (Inl e, w) | Inr d \<Rightarrow> (Inr (), w\<lparr>w_db := d\<rparr>))"

definition put_db :: "(db \<Rightarrow> db) \<Rightarrow> unit step" where
  "put_db f w = (Inr (), w\<lparr>w_db := f (w_db w)\<rparr>)"

definition newId :: "env \<Rightarrow> uuid step" where
  "newId E w = (Inr (e_newId E (w_ids w)), w\<lparr>w_ids := Suc (w_ids w)\<rparr>)"

definition now :: "env \<Rightarrow> instant step" where
  "now E w = (Inr (e_clock E (w_ticks w)), w\<lparr>w_ticks := Suc (w_ticks w)\<rparr>)"

definition publish :: "hint \<Rightarrow> unit step" where
  "publish h w = (Inr (), w\<lparr>w_hints := w_hints w @ [h]\<rparr>)"

definition cardCompleted :: "card \<Rightarrow> unit step" where
  "cardCompleted c w = (Inr (), w\<lparr>w_completed := w_completed w @ [c]\<rparr>)"

lemma ask_iff [run_simps]: "ask f w = (r, w') \<longleftrightarrow> f (w_db w) = r \<and> w' = w"
  by (auto simp: ask_def)

lemma store_iffs [run_simps]:
  "store f w = (Inr u, w') \<longleftrightarrow> (\<exists>d. f (w_db w) = Inr d \<and> w' = w\<lparr>w_db := d\<rparr>)"
  by (auto simp: store_def split: sum.splits)

lemma store_Inl_iff: "store f w = (Inl e, w') \<longleftrightarrow> f (w_db w) = Inl e \<and> w' = w"
  by (auto simp: store_def split: sum.splits)

lemma put_db_iffs [run_simps]:
  "put_db f w = (Inr u, w') \<longleftrightarrow> w' = w\<lparr>w_db := f (w_db w)\<rparr>" "put_db f w = (Inl e, w') \<longleftrightarrow> False"
  by (auto simp: put_db_def)

lemma newId_iffs [run_simps]:
  "newId E w = (Inr i, w') \<longleftrightarrow> i = e_newId E (w_ids w) \<and> w' = w\<lparr>w_ids := Suc (w_ids w)\<rparr>"
  "newId E w = (Inl e, w') \<longleftrightarrow> False"
  by (auto simp: newId_def)

lemma now_iffs [run_simps]:
  "now E w = (Inr t, w') \<longleftrightarrow> t = e_clock E (w_ticks w) \<and> w' = w\<lparr>w_ticks := Suc (w_ticks w)\<rparr>"
  "now E w = (Inl e, w') \<longleftrightarrow> False"
  by (auto simp: now_def)

lemma publish_iffs [run_simps]:
  "publish h w = (Inr u, w') \<longleftrightarrow> w' = w\<lparr>w_hints := w_hints w @ [h]\<rparr>"
  "publish h w = (Inl e, w') \<longleftrightarrow> False"
  by (auto simp: publish_def)

lemma cardCompleted_iffs [run_simps]:
  "cardCompleted c w = (Inr u, w') \<longleftrightarrow> w' = w\<lparr>w_completed := w_completed w @ [c]\<rparr>"
  "cardCompleted c w = (Inl e, w') \<longleftrightarrow> False"
  by (auto simp: cardCompleted_def)

section \<open>The unit of work\<close>

text \<open>
  \<open>SqliteUnitOfWork\<close>: one caller at a time, \<open>COMMIT\<close> on return and \<open>ROLLBACK\<close> on a
  throw; \<open>read\<close> runs on the read-only connection, where a write cannot happen, so its body
  is a function of the database.
\<close>

definition uow_run :: "'a step \<Rightarrow> 'a step" where
  "uow_run fn w = (case fn w of
      (Inr a, w') \<Rightarrow> (Inr a, w')
    | (Inl e, w') \<Rightarrow> (Inl e, w'\<lparr>w_db := w_db w\<rparr>))"

definition uow_read :: "(db \<Rightarrow> 'a read) \<Rightarrow> 'a step" where
  "uow_read fn = ask fn"

lemma uow_run_Inr_iff [run_simps]: "uow_run fn w = (Inr a, w') \<longleftrightarrow> fn w = (Inr a, w')"
  by (auto simp: uow_run_def split: prod.splits sum.splits)

lemma uow_run_Inl_iff:
  "uow_run fn w = (Inl e, w') \<longleftrightarrow> (\<exists>w1. fn w = (Inl e, w1) \<and> w' = w1\<lparr>w_db := w_db w\<rparr>)"
  by (auto simp: uow_run_def split: prod.splits sum.splits)

lemma uow_run_rollback: "uow_run fn w = (Inl e, w') \<Longrightarrow> w_db w' = w_db w"
  by (auto simp: uow_run_Inl_iff)

lemma uow_read_iff [run_simps]: "uow_read f w = (r, w') \<longleftrightarrow> f (w_db w) = r \<and> w' = w"
  by (simp add: uow_read_def ask_iff)

text \<open>What a service method keeps when it throws: everything but ids and clock readings.\<close>

definition undone :: "world \<Rightarrow> world \<Rightarrow> bool" where
  "undone w w' \<longleftrightarrow> w_db w' = w_db w \<and> w_hints w' = w_hints w \<and> w_completed w' = w_completed w
     \<and> w_blobs w' = w_blobs w"

section \<open>Cards\<close>

definition findCard :: "card_no \<Rightarrow> db \<Rightarrow> card option" where
  "findCard i d = row_of c_id i (t_cards d)"

definition nextCardId :: "db \<Rightarrow> card_no" where
  "nextCardId d = Suc (foldr max (map c_id (t_cards d)) 0)"

text \<open>The \<open>UNIQUE(lane_id, position)\<close> index: is the slot held by another card?\<close>

definition slot_taken :: "card \<Rightarrow> db \<Rightarrow> bool" where
  "slot_taken c d \<longleftrightarrow> (\<exists>x \<in> set (t_cards d).
     c_id x \<noteq> c_id c \<and> c_laneId x = c_laneId c \<and> c_position x = c_position c)"

definition insertCard :: "card \<Rightarrow> db \<Rightarrow> db read" where
  "insertCard c d =
     (if c_id c \<in> c_id ` set (t_cards d) then Inl (PlainError ''UNIQUE cards.id'')
      else if slot_taken c d then Inl DuplicatePositionError
      else Inr (d\<lparr>t_cards := t_cards d @ [c]\<rparr>))"

definition updateCard :: "card \<Rightarrow> db \<Rightarrow> db read" where
  "updateCard c d =
     (if c_id c \<notin> c_id ` set (t_cards d) then Inl (NotFoundError ''card'')
      else if slot_taken c d then Inl DuplicatePositionError
      else Inr (d\<lparr>t_cards := put_row c_id c (t_cards d)\<rparr>))"

definition listByLane :: "uuid \<Rightarrow> bool \<Rightarrow> db \<Rightarrow> card list" where
  "listByLane laneId activeOnly d = order_asc c_position
     (filter (\<lambda>c. c_laneId c = laneId \<and> (activeOnly \<longrightarrow> c_archivedAt c = None)) (t_cards d))"

definition countActiveByLane :: "uuid \<Rightarrow> db \<Rightarrow> nat" where
  "countActiveByLane laneId d =
     length (filter (\<lambda>c. c_laneId c = laneId \<and> c_archivedAt c = None) (t_cards d))"

datatype lane_edge = FirstEdge | LastEdge

definition edgeOfLane :: "uuid \<Rightarrow> lane_edge \<Rightarrow> db \<Rightarrow> card option" where
  "edgeOfLane laneId side d = (let rows = filter (\<lambda>c. c_laneId c = laneId) (t_cards d) in
     first_of (case side of FirstEdge \<Rightarrow> order_asc c_position rows
                          | LastEdge \<Rightarrow> order_desc c_position rows))"

definition positionBefore :: "uuid \<Rightarrow> string option \<Rightarrow> card_no \<Rightarrow> db \<Rightarrow> string option" where
  "positionBefore laneId nextPosition movingCardId d =
     map_option c_position (first_of (order_desc c_position
       (filter (\<lambda>c. c_laneId c = laneId \<and> c_id c \<noteq> movingCardId
          \<and> (case nextPosition of None \<Rightarrow> True | Some p \<Rightarrow> c_position c < p)) (t_cards d))))"

text \<open>
  \<open>hardDelete\<close> drops the card and every row that refers to it, and returns the storage keys
  of its attachments.
\<close>

definition hardDelete :: "card_no \<Rightarrow> db \<Rightarrow> (uuid list \<times> db) read" where
  "hardDelete i d =
     (if i \<notin> c_id ` set (t_cards d) then Inl (NotFoundError ''card'')
      else Inr (map at_storageKey (filter (\<lambda>a. at_cardId a = i) (t_attachments d)),
        d\<lparr>t_cardTags := filter (\<lambda>r. fst r \<noteq> i) (t_cardTags d),
          t_comments := filter (\<lambda>r. cm_cardId r \<noteq> i) (t_comments d),
          t_attachments := filter (\<lambda>r. at_cardId r \<noteq> i) (t_attachments d),
          t_events := filter (\<lambda>r. ev_cardId r \<noteq> i) (t_events d),
          t_relations := filter (\<lambda>r. rel_fromCardId r \<noteq> i \<and> rel_toCardId r \<noteq> i)
            (t_relations d),
          t_watchers := filter (\<lambda>r. fst r \<noteq> i) (t_watchers d),
          t_notifications := filter (\<lambda>r. n_cardId r \<noteq> i) (t_notifications d),
          t_cards := drop_row c_id i (t_cards d)\<rparr>))"

section \<open>Boards, lanes, policies\<close>

definition findBoard :: "uuid \<Rightarrow> db \<Rightarrow> board option" where
  "findBoard i d = row_of b_id i (t_boards d)"

definition getDefault :: "db \<Rightarrow> board option" where
  "getDefault d = find b_isDefault (t_boards d)"

definition listBoards :: "db \<Rightarrow> board list" where
  "listBoards d = order_asc (\<lambda>b. (b_createdAt b, b_id b))
     (filter (\<lambda>b. b_archivedAt b = None) (t_boards d))"

definition insertBoard :: "board \<Rightarrow> db \<Rightarrow> db read" where
  "insertBoard b d =
     (if b_id b \<in> b_id ` set (t_boards d) then Inl (PlainError ''UNIQUE boards.id'')
      else Inr (d\<lparr>t_boards := t_boards d @ [b]\<rparr>))"

definition updateBoard :: "board \<Rightarrow> db \<Rightarrow> db" where
  "updateBoard b d = d\<lparr>t_boards := put_row b_id b (t_boards d)\<rparr>"

text \<open>\<open>or(ne(scope, 'user'), undefined)\<close> is its first operand: without a user no user row is read.\<close>

definition listDefaults :: "uuid option \<Rightarrow> db \<Rightarrow> board_default list" where
  "listDefaults userId d = filter (\<lambda>r. bd_scope r \<noteq> DUser
     \<or> (case userId of None \<Rightarrow> False | Some u \<Rightarrow> bd_subject r = SubjId u)) (t_defaults d)"

definition default_key :: "board_default \<Rightarrow> default_scope \<times> default_subject" where
  "default_key r = (bd_scope r, bd_subject r)"

text \<open>Insert or update on \<open>(scope, subject)\<close>; \<open>None\<close> deletes the row.\<close>

definition setDefault :: "default_scope \<Rightarrow> default_subject \<Rightarrow> uuid option \<Rightarrow> db \<Rightarrow> db" where
  "setDefault scope subject boardId d = (case boardId of
      None \<Rightarrow> d\<lparr>t_defaults := drop_row default_key (scope, subject) (t_defaults d)\<rparr>
    | Some b \<Rightarrow> (let r = \<lparr>bd_scope = scope, bd_subject = subject, bd_boardId = b\<rparr> in
        if (scope, subject) \<in> default_key ` set (t_defaults d)
        then d\<lparr>t_defaults := put_row default_key r (t_defaults d)\<rparr>
        else d\<lparr>t_defaults := t_defaults d @ [r]\<rparr>))"

definition listLanes :: "uuid \<Rightarrow> db \<Rightarrow> lane list" where
  "listLanes boardId d = order_asc l_position (filter (\<lambda>l. l_boardId l = boardId) (t_lanes d))"

definition findLaneByKey :: "uuid \<Rightarrow> lane_key \<Rightarrow> db \<Rightarrow> lane option" where
  "findLaneByKey boardId key d = find (\<lambda>l. l_boardId l = boardId \<and> l_key l = key) (t_lanes d)"

text \<open>Only label and WIP limit are written.\<close>

definition updateLane :: "lane \<Rightarrow> db \<Rightarrow> db read" where
  "updateLane l d =
     (if l_id l \<notin> l_id ` set (t_lanes d) then Inl (NotFoundError ''lane'')
      else Inr (d\<lparr>t_lanes := map (\<lambda>x. if l_id x = l_id l
             then x\<lparr>l_label := l_label l, l_wipLimit := l_wipLimit l\<rparr> else x) (t_lanes d)\<rparr>))"

definition insertLane :: "lane \<Rightarrow> db \<Rightarrow> db read" where
  "insertLane l d =
     (if l_id l \<in> l_id ` set (t_lanes d) then Inl (PlainError ''UNIQUE lanes.id'')
      else if findLaneByKey (l_boardId l) (l_key l) d \<noteq> None
      then Inl (PlainError ''UNIQUE lanes.board_id, lanes.key'')
      else Inr (d\<lparr>t_lanes := t_lanes d @ [l]\<rparr>))"

text \<open>The foreign key of \<open>cards.lane_id\<close> surfaces as a conflict.\<close>

definition removeLane :: "uuid \<Rightarrow> db \<Rightarrow> db read" where
  "removeLane i d =
     (if i \<notin> l_id ` set (t_lanes d) then Inl (NotFoundError ''lane'')
      else if i \<in> c_laneId ` set (t_cards d) then Inl (ConflictError ''lane still has cards'' None)
      else Inr (d\<lparr>t_lanes := drop_row l_id i (t_lanes d)\<rparr>))"

text \<open>\<open>orderedIds.forEach((laneId, index) => UPDATE \<dots> SET position = index)\<close>\<close>

fun set_positions :: "uuid \<Rightarrow> uuid list \<Rightarrow> int \<Rightarrow> lane list \<Rightarrow> lane list" where
  "set_positions boardId [] n ls = ls"
| "set_positions boardId (i # is) n ls = set_positions boardId is (n + 1)
     (map (\<lambda>l. if l_boardId l = boardId \<and> l_id l = i then l\<lparr>l_position := n\<rparr> else l) ls)"

definition reorderLanes :: "uuid \<Rightarrow> uuid list \<Rightarrow> db \<Rightarrow> db" where
  "reorderLanes boardId orderedIds d =
     d\<lparr>t_lanes := set_positions boardId orderedIds 0 (t_lanes d)\<rparr>"

text \<open>The newest version of the board's policy wins.\<close>

definition getActive :: "uuid \<Rightarrow> db \<Rightarrow> board_policy option" where
  "getActive boardId d = first_of (order_desc (\<lambda>p. (bp_createdAt p, bp_id p))
     (filter (\<lambda>p. bp_boardId p = boardId) (t_policies d)))"

definition insertPolicy :: "board_policy \<Rightarrow> db \<Rightarrow> db read" where
  "insertPolicy p d =
     (if bp_id p \<in> bp_id ` set (t_policies d) then Inl (PlainError ''UNIQUE board_policies.id'')
      else Inr (d\<lparr>t_policies := t_policies d @ [p]\<rparr>))"

end
