(* ===== verification/Tables.thy ===== *)
theory Tables
  imports Store
begin

text \<open>
  The remaining repositories of \<open>packages/db/src/repositories\<close>, and the contract the
  services rely on: a row that was stored under its key is what a later lookup of that key
  returns, and no other lookup changes.  The contract is the locale \<open>stored_row\<close>; every
  insert and update of a table with a \<open>findById\<close> is an interpretation of it.
\<close>

section \<open>Groups, users, service tokens\<close>

definition listGroups :: "db \<Rightarrow> group_row list" where
  "listGroups d = order_asc (\<lambda>g. (g_name g, g_id g)) (t_groups d)"

definition findGroup :: "uuid \<Rightarrow> db \<Rightarrow> group_row option" where
  "findGroup i d = row_of g_id i (t_groups d)"

text \<open>The index on \<open>lower(name)\<close> is mapped to a conflict.\<close>

definition group_name_taken :: "group_row \<Rightarrow> db \<Rightarrow> bool" where
  "group_name_taken g d \<longleftrightarrow> (\<exists>x \<in> set (t_groups d).
     g_id x \<noteq> g_id g \<and> to_lower (g_name x) = to_lower (g_name g))"

definition insertGroup :: "group_row \<Rightarrow> db \<Rightarrow> db read" where
  "insertGroup g d =
     (if g_id g \<in> g_id ` set (t_groups d) then Inl (PlainError ''UNIQUE groups.id'')
      else if group_name_taken g d then Inl (ConflictError ''group name already exists'' None)
      else Inr (d\<lparr>t_groups := t_groups d @ [g]\<rparr>))"

definition updateGroup :: "group_row \<Rightarrow> db \<Rightarrow> db read" where
  "updateGroup g d =
     (if g_id g \<notin> g_id ` set (t_groups d) then Inl (NotFoundError ''group'')
      else if group_name_taken g d then Inl (ConflictError ''group name already exists'' None)
      else Inr (d\<lparr>t_groups := put_row g_id g (t_groups d)\<rparr>))"

definition removeGroup :: "uuid \<Rightarrow> db \<Rightarrow> db" where
  "removeGroup i d = d\<lparr>t_groups := drop_row g_id i (t_groups d)\<rparr>"

definition findUser :: "uuid \<Rightarrow> db \<Rightarrow> user option" where
  "findUser i d = row_of u_id i (map acc_user (t_users d))"

definition listUsers :: "db \<Rightarrow> user list" where
  "listUsers d = order_asc (\<lambda>u. (u_createdAt u, u_id u)) (map acc_user (t_users d))"

definition listTokens :: "db \<Rightarrow> service_token list" where
  "listTokens d = order_desc (\<lambda>t. (st_createdAt t, st_id t)) (t_tokens d)"

section \<open>Locations\<close>

definition findLocation :: "uuid \<Rightarrow> db \<Rightarrow> location option" where
  "findLocation i d = row_of loc_id i (t_locations d)"

definition listLocations :: "db \<Rightarrow> location list" where
  "listLocations d = order_asc (\<lambda>l. (loc_kind l, loc_name l, loc_id l)) (t_locations d)"

section \<open>Tags\<close>

text \<open>The column is \<open>COLLATE NOCASE\<close>: equality and order fold the case.\<close>

definition findTagByNameCi :: "string \<Rightarrow> db \<Rightarrow> tag option" where
  "findTagByNameCi name d = find (\<lambda>t. to_lower (tag_name t) = to_lower name) (t_tags d)"

definition insertTag :: "tag \<Rightarrow> db \<Rightarrow> db read" where
  "insertTag t d =
     (if tag_id t \<in> tag_id ` set (t_tags d) then Inl (PlainError ''UNIQUE tags.id'')
      else if findTagByNameCi (tag_name t) d \<noteq> None then Inl (PlainError ''UNIQUE tags.name'')
      else Inr (d\<lparr>t_tags := t_tags d @ [t]\<rparr>))"

definition listTagsByCard :: "card_no \<Rightarrow> db \<Rightarrow> tag list" where
  "listTagsByCard i d = order_asc (\<lambda>t. to_lower (tag_name t))
     (concat (map (\<lambda>r. if fst r = i then filter (\<lambda>t. tag_id t = snd r) (t_tags d) else [])
       (t_cardTags d)))"

text \<open>Full replacement: delete the card's rows, then insert one per tag.\<close>

definition setCardTags :: "card_no \<Rightarrow> uuid list \<Rightarrow> db \<Rightarrow> db read" where
  "setCardTags i tagIds d =
     (if distinct tagIds
      then Inr (d\<lparr>t_cardTags := filter (\<lambda>r. fst r \<noteq> i) (t_cardTags d) @ map (Pair i) tagIds\<rparr>)
      else Inl (PlainError ''UNIQUE card_tags.card_id, card_tags.tag_id''))"

section \<open>Comments and attachments\<close>

definition findComment :: "uuid \<Rightarrow> db \<Rightarrow> comment_row option" where
  "findComment i d = row_of cm_id i (t_comments d)"

definition insertComment :: "comment_row \<Rightarrow> db \<Rightarrow> db read" where
  "insertComment c d =
     (if cm_id c \<in> cm_id ` set (t_comments d) then Inl (PlainError ''UNIQUE comments.id'')
      else Inr (d\<lparr>t_comments := t_comments d @ [c]\<rparr>))"

definition updateComment :: "comment_row \<Rightarrow> db \<Rightarrow> db read" where
  "updateComment c d =
     (if cm_id c \<notin> cm_id ` set (t_comments d) then Inl (NotFoundError ''comment'')
      else Inr (d\<lparr>t_comments := put_row cm_id c (t_comments d)\<rparr>))"

definition listComments :: "card_no \<Rightarrow> db \<Rightarrow> comment_row list" where
  "listComments i d = order_asc (\<lambda>c. (cm_createdAt c, cm_id c))
     (filter (\<lambda>c. cm_cardId c = i) (t_comments d))"

definition findAttachment :: "uuid \<Rightarrow> db \<Rightarrow> attachment option" where
  "findAttachment i d = row_of at_id i (t_attachments d)"

definition insertAttachment :: "attachment \<Rightarrow> db \<Rightarrow> db read" where
  "insertAttachment a d =
     (if at_id a \<in> at_id ` set (t_attachments d) then Inl (PlainError ''UNIQUE attachments.id'')
      else Inr (d\<lparr>t_attachments := t_attachments d @ [a]\<rparr>))"

definition updateAttachment :: "attachment \<Rightarrow> db \<Rightarrow> db read" where
  "updateAttachment a d =
     (if at_id a \<notin> at_id ` set (t_attachments d) then Inl (NotFoundError ''attachment'')
      else Inr (d\<lparr>t_attachments := put_row at_id a (t_attachments d)\<rparr>))"

definition listAttachments :: "card_no \<Rightarrow> db \<Rightarrow> attachment list" where
  "listAttachments i d = order_asc (\<lambda>a. (at_createdAt a, at_id a))
     (filter (\<lambda>a. at_cardId a = i) (t_attachments d))"

section \<open>Audit events\<close>

text \<open>Append-only: there is no update and no delete.\<close>

definition appendEvent :: "card_event \<Rightarrow> db \<Rightarrow> db read" where
  "appendEvent e d =
     (if ev_id e \<in> ev_id ` set (t_events d) then Inl (PlainError ''UNIQUE card_events.id'')
      else Inr (d\<lparr>t_events := t_events d @ [e]\<rparr>))"

definition findEvent :: "uuid \<Rightarrow> db \<Rightarrow> card_event option" where
  "findEvent i d = row_of ev_id i (t_events d)"

definition event_key :: "card_event \<Rightarrow> instant \<times> uuid" where
  "event_key e = (ev_createdAt e, ev_id e)"

definition type_in :: "event_type list option \<Rightarrow> card_event \<Rightarrow> bool" where
  "type_in types e = (case types of None \<Rightarrow> True | Some ts \<Rightarrow> type_of (ev_body e) \<in> set ts)"

definition limit_to :: "nat option \<Rightarrow> 'a list \<Rightarrow> 'a list" where
  "limit_to n xs = (case n of None \<Rightarrow> xs | Some k \<Rightarrow> take k xs)"

definition listEventsByCard ::
  "card_no \<Rightarrow> event_type list option \<Rightarrow> (instant \<times> uuid) option \<Rightarrow> nat option \<Rightarrow> db
     \<Rightarrow> card_event list" where
  "listEventsByCard i types after limit d = limit_to limit (order_asc event_key
     (filter (\<lambda>e. ev_cardId e = i \<and> type_in types e
        \<and> (case after of None \<Rightarrow> True | Some k \<Rightarrow> k < event_key e)) (t_events d)))"

definition listLatestByCard ::
  "card_no \<Rightarrow> nat \<Rightarrow> event_type list option \<Rightarrow> db \<Rightarrow> card_event list" where
  "listLatestByCard i limit types d = take limit (order_desc event_key
     (filter (\<lambda>e. ev_cardId e = i \<and> type_in types e) (t_events d)))"

section \<open>Relations and watchers\<close>

definition listRelations :: "card_no \<Rightarrow> db \<Rightarrow> card_relation list" where
  "listRelations i d = order_desc (\<lambda>r. (rel_createdAt r, rel_id r))
     (filter (\<lambda>r. rel_fromCardId r = i \<or> rel_toCardId r = i) (t_relations d))"

definition findRelation :: "uuid \<Rightarrow> db \<Rightarrow> card_relation option" where
  "findRelation i d = row_of rel_id i (t_relations d)"

definition relationExists :: "card_no \<Rightarrow> card_no \<Rightarrow> relation_type \<Rightarrow> db \<Rightarrow> bool" where
  "relationExists frm to ty d \<longleftrightarrow> (\<exists>r \<in> set (t_relations d).
     rel_fromCardId r = frm \<and> rel_toCardId r = to \<and> rel_type r = ty)"

definition insertRelation :: "card_relation \<Rightarrow> db \<Rightarrow> db read" where
  "insertRelation r d =
     (if rel_id r \<in> rel_id ` set (t_relations d) then Inl (PlainError ''UNIQUE card_relations.id'')
      else if relationExists (rel_fromCardId r) (rel_toCardId r) (rel_type r) d
      then Inl (PlainError ''UNIQUE card_relations.from, to, type'')
      else Inr (d\<lparr>t_relations := t_relations d @ [r]\<rparr>))"

definition deleteRelation :: "uuid \<Rightarrow> db \<Rightarrow> db" where
  "deleteRelation i d = d\<lparr>t_relations := drop_row rel_id i (t_relations d)\<rparr>"

definition isWatching :: "card_no \<Rightarrow> uuid \<Rightarrow> db \<Rightarrow> bool" where
  "isWatching i u d \<longleftrightarrow> (\<exists>r \<in> set (t_watchers d). fst r = i \<and> fst (snd r) = u)"

definition listWatcherIds :: "card_no \<Rightarrow> db \<Rightarrow> uuid list" where
  "listWatcherIds i d = map (fst \<circ> snd) (filter (\<lambda>r. fst r = i) (t_watchers d))"

text \<open>\<open>ON CONFLICT DO NOTHING\<close>: watching twice keeps the first row.\<close>

definition addWatcher :: "card_no \<Rightarrow> uuid \<Rightarrow> instant \<Rightarrow> db \<Rightarrow> db" where
  "addWatcher i u t d =
     (if isWatching i u d then d else d\<lparr>t_watchers := t_watchers d @ [(i, u, t)]\<rparr>)"

definition removeWatcher :: "card_no \<Rightarrow> uuid \<Rightarrow> db \<Rightarrow> db" where
  "removeWatcher i u d =
     d\<lparr>t_watchers := filter (\<lambda>r. \<not> (fst r = i \<and> fst (snd r) = u)) (t_watchers d)\<rparr>"

section \<open>Notifications\<close>

definition insertNotification :: "notification \<Rightarrow> db \<Rightarrow> db read" where
  "insertNotification n d =
     (if n_id n \<in> n_id ` set (t_notifications d) then Inl (PlainError ''UNIQUE notifications.id'')
      else Inr (d\<lparr>t_notifications := t_notifications d @ [n]\<rparr>))"

text \<open>The \<open>exists\<close> subquery through the notification's card.\<close>

definition board_scope :: "uuid list \<Rightarrow> db \<Rightarrow> notification \<Rightarrow> bool" where
  "board_scope boardIds d n \<longleftrightarrow> (\<exists>c \<in> set (t_cards d).
     c_id c = n_cardId n \<and> c_boardId c \<in> set boardIds)"

definition listForUser :: "uuid \<Rightarrow> nat \<Rightarrow> bool \<Rightarrow> uuid list \<Rightarrow> db \<Rightarrow> notification list" where
  "listForUser userId limit unreadOnly boardIds d = take limit
     (order_desc (\<lambda>n. (n_createdAt n, n_id n))
       (filter (\<lambda>n. n_userId n = userId \<and> (unreadOnly \<longrightarrow> n_readAt n = None)
          \<and> board_scope boardIds d n) (t_notifications d)))"

definition unread_in :: "uuid \<Rightarrow> uuid list \<Rightarrow> db \<Rightarrow> notification \<Rightarrow> bool" where
  "unread_in userId boardIds d n \<longleftrightarrow>
     n_userId n = userId \<and> n_readAt n = None \<and> board_scope boardIds d n"

definition unreadCountRows :: "uuid \<Rightarrow> uuid list \<Rightarrow> db \<Rightarrow> nat" where
  "unreadCountRows userId boardIds d =
     length (filter (unread_in userId boardIds d) (t_notifications d))"

definition markReadRow :: "uuid \<Rightarrow> uuid \<Rightarrow> instant \<Rightarrow> db \<Rightarrow> db" where
  "markReadRow i userId t d = d\<lparr>t_notifications := map (\<lambda>n.
     if n_id n = i \<and> n_userId n = userId \<and> n_readAt n = None then n\<lparr>n_readAt := Some t\<rparr> else n)
     (t_notifications d)\<rparr>"

definition markUnreadRow :: "uuid \<Rightarrow> uuid \<Rightarrow> db \<Rightarrow> db" where
  "markUnreadRow i userId d = d\<lparr>t_notifications := map (\<lambda>n.
     if n_id n = i \<and> n_userId n = userId then n\<lparr>n_readAt := None\<rparr> else n) (t_notifications d)\<rparr>"

definition markAllReadRows :: "uuid \<Rightarrow> instant \<Rightarrow> uuid list \<Rightarrow> db \<Rightarrow> db" where
  "markAllReadRows userId t boardIds d = d\<lparr>t_notifications := map (\<lambda>n.
     if unread_in userId boardIds d n then n\<lparr>n_readAt := Some t\<rparr> else n) (t_notifications d)\<rparr>"

definition clearRow :: "uuid \<Rightarrow> uuid \<Rightarrow> db \<Rightarrow> db" where
  "clearRow i userId d = d\<lparr>t_notifications :=
     filter (\<lambda>n. \<not> (n_id n = i \<and> n_userId n = userId)) (t_notifications d)\<rparr>"

definition clearable :: "uuid \<Rightarrow> uuid list \<Rightarrow> db \<Rightarrow> notification \<Rightarrow> bool" where
  "clearable userId boardIds d n \<longleftrightarrow> n_userId n = userId \<and> board_scope boardIds d n"

definition clearAllRows :: "uuid \<Rightarrow> uuid list \<Rightarrow> db \<Rightarrow> db" where
  "clearAllRows userId boardIds d = d\<lparr>t_notifications :=
     filter (\<lambda>n. \<not> clearable userId boardIds d n) (t_notifications d)\<rparr>"

section \<open>The contract of a stored row\<close>

locale stored_row =
  fixes find_row :: "'k \<Rightarrow> db \<Rightarrow> 'r option"
    and store_row :: "'r \<Rightarrow> db \<Rightarrow> db read"
    and pk :: "'r \<Rightarrow> 'k"
  assumes stored: "store_row r d = Inr d' \<Longrightarrow>
    find_row k d' = (if k = pk r then Some r else find_row k d)"
begin

lemma find_stored: "store_row r d = Inr d' \<Longrightarrow> find_row (pk r) d' = Some r"
  by (simp add: stored)

lemma find_other: "store_row r d = Inr d' \<Longrightarrow> k \<noteq> pk r \<Longrightarrow> find_row k d' = find_row k d"
  by (simp add: stored)

lemma step_stored:
  "store (store_row r) w = (Inr u, w') \<Longrightarrow> find_row (pk r) (w_db w') = Some r"
  by (auto simp: store_iffs find_stored)

end

interpretation inserted_card: stored_row findCard insertCard c_id
  by unfold_locales (auto simp: findCard_def insertCard_def row_of_snoc split: if_splits)

interpretation updated_card: stored_row findCard updateCard c_id
  by unfold_locales (auto simp: findCard_def updateCard_def row_of_put_row split: if_splits)

interpretation inserted_comment: stored_row findComment insertComment cm_id
  by unfold_locales (auto simp: findComment_def insertComment_def row_of_snoc split: if_splits)

interpretation updated_comment: stored_row findComment updateComment cm_id
  by unfold_locales (auto simp: findComment_def updateComment_def row_of_put_row split: if_splits)

interpretation inserted_attachment: stored_row findAttachment insertAttachment at_id
  by unfold_locales (auto simp: findAttachment_def insertAttachment_def row_of_snoc split: if_splits)

interpretation updated_attachment: stored_row findAttachment updateAttachment at_id
  by unfold_locales
    (auto simp: findAttachment_def updateAttachment_def row_of_put_row split: if_splits)

interpretation appended_event: stored_row findEvent appendEvent ev_id
  by unfold_locales (auto simp: findEvent_def appendEvent_def row_of_snoc split: if_splits)

interpretation inserted_group: stored_row findGroup insertGroup g_id
  by unfold_locales (auto simp: findGroup_def insertGroup_def row_of_snoc split: if_splits)

interpretation updated_group: stored_row findGroup updateGroup g_id
  by unfold_locales (auto simp: findGroup_def updateGroup_def row_of_put_row split: if_splits)

interpretation inserted_board: stored_row findBoard insertBoard b_id
  by unfold_locales (auto simp: findBoard_def insertBoard_def row_of_snoc split: if_splits)

section \<open>How a write looks to the other tables\<close>

lemma insertCard_Inr_iff [run_simps]:
  "insertCard c d = Inr d' \<longleftrightarrow> c_id c \<notin> c_id ` set (t_cards d) \<and> \<not> slot_taken c d
     \<and> d' = d\<lparr>t_cards := t_cards d @ [c]\<rparr>"
  by (auto simp: insertCard_def)

lemma updateCard_Inr_iff [run_simps]:
  "updateCard c d = Inr d' \<longleftrightarrow> c_id c \<in> c_id ` set (t_cards d) \<and> \<not> slot_taken c d
     \<and> d' = d\<lparr>t_cards := put_row c_id c (t_cards d)\<rparr>"
  by (auto simp: updateCard_def)

lemma appendEvent_Inr_iff [run_simps]:
  "appendEvent e d = Inr d' \<longleftrightarrow> ev_id e \<notin> ev_id ` set (t_events d)
     \<and> d' = d\<lparr>t_events := t_events d @ [e]\<rparr>"
  by (auto simp: appendEvent_def)

lemma insertComment_Inr_iff [run_simps]:
  "insertComment c d = Inr d' \<longleftrightarrow> cm_id c \<notin> cm_id ` set (t_comments d)
     \<and> d' = d\<lparr>t_comments := t_comments d @ [c]\<rparr>"
  by (auto simp: insertComment_def)

lemma updateComment_Inr_iff [run_simps]:
  "updateComment c d = Inr d' \<longleftrightarrow> cm_id c \<in> cm_id ` set (t_comments d)
     \<and> d' = d\<lparr>t_comments := put_row cm_id c (t_comments d)\<rparr>"
  by (auto simp: updateComment_def)

lemma insertAttachment_Inr_iff [run_simps]:
  "insertAttachment a d = Inr d' \<longleftrightarrow> at_id a \<notin> at_id ` set (t_attachments d)
     \<and> d' = d\<lparr>t_attachments := t_attachments d @ [a]\<rparr>"
  by (auto simp: insertAttachment_def)

lemma updateAttachment_Inr_iff [run_simps]:
  "updateAttachment a d = Inr d' \<longleftrightarrow> at_id a \<in> at_id ` set (t_attachments d)
     \<and> d' = d\<lparr>t_attachments := put_row at_id a (t_attachments d)\<rparr>"
  by (auto simp: updateAttachment_def)

lemma insertRelation_Inr_iff [run_simps]:
  "insertRelation r d = Inr d' \<longleftrightarrow> rel_id r \<notin> rel_id ` set (t_relations d)
     \<and> \<not> relationExists (rel_fromCardId r) (rel_toCardId r) (rel_type r) d
     \<and> d' = d\<lparr>t_relations := t_relations d @ [r]\<rparr>"
  by (auto simp: insertRelation_def)

lemma insertNotification_Inr_iff [run_simps]:
  "insertNotification n d = Inr d' \<longleftrightarrow> n_id n \<notin> n_id ` set (t_notifications d)
     \<and> d' = d\<lparr>t_notifications := t_notifications d @ [n]\<rparr>"
  by (auto simp: insertNotification_def)

lemma insertTag_Inr_iff [run_simps]:
  "insertTag t d = Inr d' \<longleftrightarrow> tag_id t \<notin> tag_id ` set (t_tags d)
     \<and> findTagByNameCi (tag_name t) d = None \<and> d' = d\<lparr>t_tags := t_tags d @ [t]\<rparr>"
  by (auto simp: insertTag_def)

lemma setCardTags_Inr_iff [run_simps]:
  "setCardTags i ts d = Inr d' \<longleftrightarrow> distinct ts
     \<and> d' = d\<lparr>t_cardTags := filter (\<lambda>r. fst r \<noteq> i) (t_cardTags d) @ map (Pair i) ts\<rparr>"
  by (auto simp: setCardTags_def)

lemma addWatcher_tables [table_simps, simp]:
  "t_cards (addWatcher i u t d) = t_cards d" "t_lanes (addWatcher i u t d) = t_lanes d"
  "t_events (addWatcher i u t d) = t_events d" "t_boards (addWatcher i u t d) = t_boards d"
  "t_policies (addWatcher i u t d) = t_policies d" "t_users (addWatcher i u t d) = t_users d"
  "t_groups (addWatcher i u t d) = t_groups d" "t_comments (addWatcher i u t d) = t_comments d"
  "t_attachments (addWatcher i u t d) = t_attachments d"
  "t_notifications (addWatcher i u t d) = t_notifications d"
  "t_relations (addWatcher i u t d) = t_relations d"
  "t_tags (addWatcher i u t d) = t_tags d" "t_cardTags (addWatcher i u t d) = t_cardTags d"
  by (simp_all add: addWatcher_def)

lemma isWatching_addWatcher:
  "isWatching i u (addWatcher i' u' t d) \<longleftrightarrow> (i = i' \<and> u = u') \<or> isWatching i u d"
  by (auto simp: addWatcher_def isWatching_def)

lemma addWatcher_idem: "addWatcher i u t' (addWatcher i u t d) = addWatcher i u t d"
  by (auto simp: addWatcher_def isWatching_def)

end
