(* ===== verification/Commands.thy ===== *)
theory Commands
  imports Domain Policy
begin

text \<open>
  The command inputs of \<open>packages/core/src/domain/commands.ts\<close> with their validation.
  \<open>parse_X\<close> is \<open>XSchema.parse\<close>: it trims and fills in defaults as the schema does, and
  throws a \<open>ZodError\<close> that names the first offending field.  Shapes the types of the
  model rule out (unknown keys, a text where a number is due) have no value here.
  An optional field is an option; a field that may be absent or null is an option of an
  option, where \<open>Some None\<close> is null.
\<close>

definition check :: "bool \<Rightarrow> string \<Rightarrow> unit read" where
  "check ok field = sguard ok (ZodError field)"

lemma check_iffs [run_simps]:
  "check b f = Inr u \<longleftrightarrow> b" "check b f = Inl e \<longleftrightarrow> \<not> b \<and> e = ZodError f"
  by (auto simp: check_def run_simps)

text \<open>\<open>z.string().trim().min(lo).max(hi)\<close>\<close>

definition trimmed :: "nat \<Rightarrow> nat \<Rightarrow> string \<Rightarrow> string \<Rightarrow> string read" where
  "trimmed lo hi field raw = (let s = trim raw in
     sbind (check (lo \<le> length s \<and> length s \<le> hi) field) (\<lambda>_. Inr s))"

definition optional :: "('a \<Rightarrow> 'b read) \<Rightarrow> 'a option \<Rightarrow> 'b option read" where
  "optional p x = (case x of None \<Rightarrow> Inr None | Some a \<Rightarrow> sbind (p a) (\<lambda>b. Inr (Some b)))"

definition tagNameSchema :: "string \<Rightarrow> string read" where
  "tagNameSchema raw = trimmed 1 TAG_NAME_MAX ''tags'' raw"

definition positive :: "string \<Rightarrow> nat \<Rightarrow> nat read" where
  "positive field n = sbind (check (0 < n) field) (\<lambda>_. Inr n)"

definition slug :: "string \<Rightarrow> string \<Rightarrow> string read" where
  "slug field s = sbind (check (is_slug s) field) (\<lambda>_. Inr s)"

definition descriptionSchema :: "string \<Rightarrow> string read" where
  "descriptionSchema s =
     sbind (check (length s \<le> CARD_DESCRIPTION_MAX) ''description'') (\<lambda>_. Inr s)"

section \<open>Create and update\<close>

record create_card_raw =
  cr_title :: string
  cr_description :: "string option"
  cr_priority :: "priority option"
  cr_assigneeId :: "uuid option"
  cr_locationId :: "uuid option"
  cr_tags :: "string list option"
  cr_estimateMinutes :: "nat option"

record create_card_input =
  ci_title :: string
  ci_description :: string
  ci_priority :: priority
  ci_assigneeId :: "uuid option"
  ci_locationId :: "uuid option"
  ci_tags :: "string list"
  ci_estimateMinutes :: "nat option"

definition default_to :: "'a \<Rightarrow> 'a option \<Rightarrow> 'a" where
  "default_to d x = (case x of None \<Rightarrow> d | Some a \<Rightarrow> a)"

definition parse_create :: "create_card_raw \<Rightarrow> create_card_input read" where
  "parse_create raw =
     sbind (trimmed 1 CARD_TITLE_MAX ''title'' (cr_title raw)) (\<lambda>title.
     sbind (descriptionSchema (default_to [] (cr_description raw))) (\<lambda>description.
     sbind (smap tagNameSchema (default_to [] (cr_tags raw))) (\<lambda>tags.
     sbind (optional (positive ''estimateMinutes'') (cr_estimateMinutes raw)) (\<lambda>estimate.
     Inr \<lparr>ci_title = title, ci_description = description,
       ci_priority = default_to P2 (cr_priority raw), ci_assigneeId = cr_assigneeId raw,
       ci_locationId = cr_locationId raw, ci_tags = tags, ci_estimateMinutes = estimate\<rparr>))))"

record update_card_input =
  ui_title :: "string option"
  ui_description :: "string option"
  ui_priority :: "priority option"
  ui_estimateMinutes :: "nat option option"
  ui_assigneeId :: "uuid option option"
  ui_locationId :: "uuid option option"
  ui_tags :: "string list option"
  ui_waitingReason :: "string option"
  ui_expectedResumeAt :: "day option"
  ui_expectedVersion :: nat

definition parse_update :: "update_card_input \<Rightarrow> update_card_input read" where
  "parse_update raw =
     sbind (optional (trimmed 1 CARD_TITLE_MAX ''title'') (ui_title raw)) (\<lambda>title.
     sbind (optional descriptionSchema (ui_description raw)) (\<lambda>_.
     sbind (optional (optional (positive ''estimateMinutes'')) (ui_estimateMinutes raw)) (\<lambda>_.
     sbind (optional (smap tagNameSchema) (ui_tags raw)) (\<lambda>tags.
     sbind (optional (slug ''waitingReason'') (ui_waitingReason raw)) (\<lambda>_.
     sbind (positive ''expectedVersion'' (ui_expectedVersion raw)) (\<lambda>_.
     Inr (raw\<lparr>ui_title := title, ui_tags := tags\<rparr>)))))))"

section \<open>Moves and the other card commands\<close>

record move_card_input =
  mv_toLane :: lane_key
  mv_prevCardId :: "card_no option"
  mv_nextCardId :: "card_no option"
  mv_waitingReason :: "string option"
  mv_expectedResumeAt :: "day option"
  mv_expectedVersion :: nat

definition parse_move :: "move_card_input \<Rightarrow> move_card_input read" where
  "parse_move raw =
     sbind (slug ''toLane'' (mv_toLane raw)) (\<lambda>_.
     sbind (optional (positive ''prevCardId'') (mv_prevCardId raw)) (\<lambda>_.
     sbind (optional (positive ''nextCardId'') (mv_nextCardId raw)) (\<lambda>_.
     sbind (optional (slug ''waitingReason'') (mv_waitingReason raw)) (\<lambda>_.
     sbind (positive ''expectedVersion'' (mv_expectedVersion raw)) (\<lambda>_.
     Inr raw)))))"

text \<open>Required only on entry into the waiting lane.\<close>

definition waitingLaneEntrySchema :: "string option \<Rightarrow> day option \<Rightarrow> (string \<times> day) read" where
  "waitingLaneEntrySchema reason resume =
     sbind (of_option (ZodError ''waitingReason'') reason) (\<lambda>r.
     sbind (slug ''waitingReason'' r) (\<lambda>_.
     sbind (of_option (ZodError ''expectedResumeAt'') resume) (\<lambda>d. Inr (r, d))))"

record cancel_card_input =
  cn_resolution :: cancel_resolution
  cn_expectedVersion :: nat

definition parse_cancel :: "cancel_card_input \<Rightarrow> cancel_card_input read" where
  "parse_cancel raw = sbind (positive ''expectedVersion'' (cn_expectedVersion raw)) (\<lambda>_. Inr raw)"

text \<open>Reopen, archive and unblock carry the expected version alone.\<close>

definition parse_version :: "nat \<Rightarrow> nat read" where
  "parse_version v = positive ''expectedVersion'' v"

record block_card_input =
  bl_reason :: string
  bl_expectedVersion :: nat

definition parse_block :: "block_card_input \<Rightarrow> block_card_input read" where
  "parse_block raw =
     sbind (trimmed 1 500 ''reason'' (bl_reason raw)) (\<lambda>reason.
     sbind (positive ''expectedVersion'' (bl_expectedVersion raw)) (\<lambda>_.
     Inr (raw\<lparr>bl_reason := reason\<rparr>)))"

section \<open>Comments and attachments\<close>

record add_comment_input =
  ac_body :: string
  ac_parentCommentId :: "uuid option"
  ac_mentions :: "uuid list option"

definition parse_add_comment :: "add_comment_input \<Rightarrow> add_comment_input read" where
  "parse_add_comment raw =
     sbind (trimmed 1 10000 ''body'' (ac_body raw)) (\<lambda>body.
     sbind (check (length (default_to [] (ac_mentions raw)) \<le> 50) ''mentions'') (\<lambda>_.
     Inr (raw\<lparr>ac_body := body\<rparr>)))"

definition parse_edit_comment :: "string \<Rightarrow> string read" where
  "parse_edit_comment raw = trimmed 1 10000 ''body'' raw"

text \<open>The bytes of the file are a list of characters.\<close>

record add_attachment_input =
  aa_filename :: string
  aa_mime :: string
  aa_content :: string
  aa_sha256 :: string

definition is_hex64 :: "string \<Rightarrow> bool" where
  "is_hex64 s \<longleftrightarrow> length s = 64
     \<and> (\<forall>c \<in> set s. is_digit c \<or> (97 \<le> (of_char c :: nat) \<and> (of_char c :: nat) \<le> 102))"

definition parse_add_attachment :: "add_attachment_input \<Rightarrow> add_attachment_input read" where
  "parse_add_attachment raw =
     sbind (trimmed 1 255 ''filename'' (aa_filename raw)) (\<lambda>filename.
     sbind (check (aa_mime raw \<noteq> []) ''mime'') (\<lambda>_.
     sbind (check (is_hex64 (aa_sha256 raw)) ''sha256'') (\<lambda>_.
     Inr (raw\<lparr>aa_filename := filename\<rparr>))))"

section \<open>What a parsed input satisfies\<close>

lemma trimmed_InrD: "trimmed lo hi f raw = Inr s \<Longrightarrow> s = trim raw \<and> lo \<le> length s \<and> length s \<le> hi"
  by (auto simp: trimmed_def Let_def run_simps)

lemma positive_iff [run_simps]: "positive f n = Inr m \<longleftrightarrow> m = n \<and> 0 < n"
  by (auto simp: positive_def run_simps)

lemma slug_iff [run_simps]: "slug f s = Inr t \<longleftrightarrow> t = s \<and> is_slug s"
  by (auto simp: slug_def run_simps)

lemma optional_iff [run_simps]:
  "optional p x = Inr y \<longleftrightarrow> (x = None \<and> y = None) \<or> (\<exists>a b. x = Some a \<and> p a = Inr b \<and> y = Some b)"
  by (cases x) (auto simp: optional_def run_simps)

lemma parse_versions [run_simps]:
  "parse_version v = Inr v' \<longleftrightarrow> v' = v \<and> 0 < v"
  "parse_cancel ci = Inr ci' \<longleftrightarrow> ci' = ci \<and> 0 < cn_expectedVersion ci"
  by (auto simp: parse_version_def parse_cancel_def run_simps)

lemma parse_move_InrD: "parse_move raw = Inr inp \<Longrightarrow> inp = raw \<and> is_slug (mv_toLane raw)"
  by (auto simp: parse_move_def run_simps)

lemma waitingLaneEntrySchema_iff [run_simps]:
  "waitingLaneEntrySchema r t = Inr x \<longleftrightarrow> (\<exists>a b. r = Some a \<and> t = Some b \<and> is_slug a \<and> x = (a, b))"
  by (auto simp: waitingLaneEntrySchema_def run_simps)

lemma parse_update_InrD:
  assumes "parse_update raw = Inr inp"
  shows "ui_expectedVersion inp = ui_expectedVersion raw
     \<and> ui_waitingReason inp = ui_waitingReason raw
     \<and> ui_expectedResumeAt inp = ui_expectedResumeAt raw \<and> ui_assigneeId inp = ui_assigneeId raw
     \<and> (\<forall>t. ui_title inp = Some t \<longrightarrow> 1 \<le> length t \<and> length t \<le> CARD_TITLE_MAX)"
proof -
  from assms obtain title tags where t: "optional (trimmed 1 CARD_TITLE_MAX ''title'') (ui_title raw) = Inr title"
    and inp: "inp = raw\<lparr>ui_title := title, ui_tags := tags\<rparr>"
    by (auto simp only: parse_update_def sbind_Inr_iff sum.inject)
  from t have "1 \<le> length s \<and> length s \<le> CARD_TITLE_MAX" if "title = Some s" for s
    using that by (cases "ui_title raw") (auto simp: optional_def run_simps dest: trimmed_InrD)
  then show ?thesis by (simp add: inp)
qed

lemma parse_block_InrD:
  "parse_block raw = Inr inp \<Longrightarrow> bl_expectedVersion inp = bl_expectedVersion raw \<and> bl_reason inp \<noteq> []"
  by (auto simp: parse_block_def run_simps dest!: trimmed_InrD)

end
