(* ===== verification/Access.thy ===== *)
theory Access
  imports Tables Commands "HOL-Library.Multiset"
begin

text \<open>
  What the services share: \<open>packages/core/src/services/internal.ts\<close> (lookups that throw,
  the optimistic lock, policy resolution, the audit envelope, the hint fan-out, the position
  retry, tag resolution, redaction) and \<open>board-access.ts\<close> (who may see a board).

  The lemmas give, for every guard, when it lets a caller pass, and say that no guard
  before the board check hands out a card.  The retry runs the second attempt on the
  database of the first, since the model is one request at a time; the clock and the ids
  have moved on.
\<close>

section \<open>Guards and lookups\<close>

definition requireFound :: "'a option \<Rightarrow> string \<Rightarrow> 'a read" where
  "requireFound value resource = of_option (NotFoundError resource) value"

definition ensureNotArchived :: "card \<Rightarrow> unit read" where
  "ensureNotArchived crd = sguard (c_archivedAt crd = None) ArchivedError"

definition ensureVersion :: "card \<Rightarrow> nat \<Rightarrow> unit read" where
  "ensureVersion crd expectedVersion =
     sguard (c_version crd = expectedVersion) (ConflictError ''stale expectedVersion'' (Some crd))"

definition globalPolicy :: "db \<Rightarrow> policy_document read" where
  "globalPolicy d =
     sbind (requireFound (getDefault d) ''default board'') (\<lambda>board.
     sbind (requireFound (getActive (b_id board) d) ''policy'') (\<lambda>p. Inr (bp_config p)))"

definition activePolicy :: "uuid \<Rightarrow> db \<Rightarrow> policy_document read" where
  "activePolicy boardId d =
     sbind (requireFound (getActive boardId d) ''policy'') (\<lambda>local.
     sbind (globalPolicy d) (\<lambda>global.
     Inr ((bp_config local)\<lparr>p_roles := p_roles global\<rparr>)))"

definition laneByKey :: "uuid \<Rightarrow> lane_key \<Rightarrow> db \<Rightarrow> lane read" where
  "laneByKey boardId key d = requireFound (findLaneByKey boardId key d) (''lane '' @ key)"

definition firstLane :: "uuid \<Rightarrow> db \<Rightarrow> lane read" where
  "firstLane boardId d = requireFound (first_of (listLanes boardId d)) ''lane''"

definition laneOfCard :: "card \<Rightarrow> db \<Rightarrow> lane read" where
  "laneOfCard crd d =
     requireFound (find (\<lambda>l. l_id l = c_laneId crd) (listLanes (c_boardId crd) d)) ''lane''"

section \<open>Board access\<close>

definition canAccessBoard :: "actor \<Rightarrow> board \<Rightarrow> db \<Rightarrow> bool read" where
  "canAccessBoard actor board d =
     (if b_archivedAt board \<noteq> None then Inr False
      else sbind (globalPolicy d) (\<lambda>policy.
        if hasPermission actor PermManagePolicy policy then Inr True
        else if b_accessMode board = AccessAll \<or> a_role actor \<in> set (b_allowedRoleKeys board)
        then Inr True
        else if a_kind actor = KMcp then Inr False
        else if a_id actor \<in> set (b_allowedUserIds board) then Inr True
        else Inr (\<exists>i \<in> set (b_allowedGroupIds board). case findGroup i d of
            None \<Rightarrow> False | Some g \<Rightarrow> a_id actor \<in> set (g_userIds g))))"

definition requireBoardAccess :: "actor \<Rightarrow> uuid \<Rightarrow> db \<Rightarrow> board read" where
  "requireBoardAccess actor boardId d =
     sbind (requireFound (findBoard boardId d) ''board'') (\<lambda>board.
     sbind (canAccessBoard actor board d) (\<lambda>ok.
     sbind (sguard ok (NotFoundError ''board'')) (\<lambda>_. Inr board)))"

definition accessibleCard :: "actor \<Rightarrow> card_no \<Rightarrow> db \<Rightarrow> card read" where
  "accessibleCard actor cardId d =
     sbind (requireFound (findCard cardId d) ''card'') (\<lambda>crd.
     sbind (requireBoardAccess actor (c_boardId crd) d) (\<lambda>_. Inr crd))"

definition visibleBoardIds :: "actor \<Rightarrow> db \<Rightarrow> uuid list read" where
  "visibleBoardIds actor d =
     sbind (sfilter (\<lambda>b. canAccessBoard actor b d) (listBoards d)) (\<lambda>bs. Inr (map b_id bs))"

section \<open>The audit envelope and the hints\<close>

definition makeEvent :: "env \<Rightarrow> actor \<Rightarrow> card_no \<Rightarrow> event_body \<Rightarrow> card_event step" where
  "makeEvent E actor cardId body =
     bind (newId E) (\<lambda>i.
     bind (now E) (\<lambda>t.
     return \<lparr>ev_id = i, ev_cardId = cardId,
       ev_actorId = (if a_kind actor = KSystem then None else Some (a_id actor)),
       ev_actorKind = a_kind actor,
       ev_actorLabel = (if a_kind actor = KAgent then map_option snd (a_client actor) else None),
       ev_createdAt = t, ev_body = body\<rparr>))"

definition publishCardHints :: "card \<Rightarrow> card_event list \<Rightarrow> unit step" where
  "publishCardHints crd events =
     (if events = [] then return ()
      else publish (CardHint (type_of (ev_body (last events))) (c_id crd) (c_version crd)
        (ev_id (last events))))"

section \<open>The position retry\<close>

definition runWithPositionRetry :: "'a step \<Rightarrow> (db \<Rightarrow> card read) option \<Rightarrow> 'a step" where
  "runWithPositionRetry fn currentCard w = (case uow_run fn w of
      (Inl DuplicatePositionError, w1) \<Rightarrow> (case uow_run fn w1 of
          (Inl DuplicatePositionError, w2) \<Rightarrow> (case currentCard of
              None \<Rightarrow> (Inl (ConflictError ''position conflict persisted after retry'' None), w2)
            | Some cur \<Rightarrow> (case cur (w_db w2) of
                Inl e \<Rightarrow> (Inl e, w2)
              | Inr c \<Rightarrow>
                  (Inl (ConflictError ''position conflict persisted after retry'' (Some c)), w2)))
        | r \<Rightarrow> r)
    | r \<Rightarrow> r)"

section \<open>Tags, redaction\<close>

fun resolveTags_from :: "env \<Rightarrow> string list \<Rightarrow> string list \<Rightarrow> tag list step" where
  "resolveTags_from E seen [] = return []"
| "resolveTags_from E seen (name # names) =
     (if to_lower name \<in> set seen then resolveTags_from E seen names
      else bind (ask (\<lambda>d. Inr (findTagByNameCi name d))) (\<lambda>existing.
        case existing of
          Some t \<Rightarrow> bind (resolveTags_from E (to_lower name # seen) names) (\<lambda>ts. return (t # ts))
        | None \<Rightarrow>
            bind (newId E) (\<lambda>i.
            bind (store (insertTag \<lparr>tag_id = i, tag_name = name\<rparr>)) (\<lambda>_.
            bind (resolveTags_from E (to_lower name # seen) names) (\<lambda>ts.
            return (\<lparr>tag_id = i, tag_name = name\<rparr> # ts))))))"

definition resolveTags :: "env \<Rightarrow> string list \<Rightarrow> tag list step" where
  "resolveTags E names = resolveTags_from E [] names"

definition redactDeletedComments :: "comment_row list \<Rightarrow> comment_row list" where
  "redactDeletedComments thread =
     map (\<lambda>c. if cm_deletedAt c = None then c else c\<lparr>cm_body := []\<rparr>) thread"

definition sameTagSet :: "string list \<Rightarrow> string list \<Rightarrow> bool" where
  "sameTagSet a b \<longleftrightarrow> sort (uniq (map to_lower a)) = sort (uniq (map to_lower b))"

section \<open>When the guards let a caller pass\<close>

lemma requireFound_iffs [run_simps]:
  "requireFound v r = Inr a \<longleftrightarrow> v = Some a" "requireFound v r = Inl e \<longleftrightarrow> v = None \<and> e = NotFoundError r"
  by (auto simp: requireFound_def run_simps)

lemma ensureNotArchived_iffs [run_simps]:
  "ensureNotArchived c = Inr u \<longleftrightarrow> c_archivedAt c = None"
  "ensureNotArchived c = Inl e \<longleftrightarrow> c_archivedAt c \<noteq> None \<and> e = ArchivedError"
  by (auto simp: ensureNotArchived_def run_simps)

lemma ensureVersion_iffs [run_simps]:
  "ensureVersion c v = Inr u \<longleftrightarrow> c_version c = v"
  "ensureVersion c v = Inl e \<longleftrightarrow>
     c_version c \<noteq> v \<and> e = ConflictError ''stale expectedVersion'' (Some c)"
  by (auto simp: ensureVersion_def run_simps)

text \<open>The rule of \<open>canAccessBoard\<close> as one predicate over the global policy.\<close>

definition board_member :: "actor \<Rightarrow> board \<Rightarrow> db \<Rightarrow> bool" where
  "board_member actor board d \<longleftrightarrow>
     b_accessMode board = AccessAll
     \<or> a_role actor \<in> set (b_allowedRoleKeys board)
     \<or> (a_kind actor \<noteq> KMcp
        \<and> (a_id actor \<in> set (b_allowedUserIds board)
           \<or> (\<exists>g \<in> set (t_groups d). findGroup (g_id g) d = Some g
                \<and> g_id g \<in> set (b_allowedGroupIds board) \<and> a_id actor \<in> set (g_userIds g))))"

lemma group_member_iff:
  "(\<exists>i \<in> set ids. case findGroup i d of None \<Rightarrow> False | Some g \<Rightarrow> x \<in> set (g_userIds g)) \<longleftrightarrow>
     (\<exists>g \<in> set (t_groups d). findGroup (g_id g) d = Some g \<and> g_id g \<in> set ids \<and> x \<in> set (g_userIds g))"
proof
  assume "\<exists>i \<in> set ids. case findGroup i d of None \<Rightarrow> False | Some g \<Rightarrow> x \<in> set (g_userIds g)"
  then obtain i g where "i \<in> set ids" "findGroup i d = Some g" "x \<in> set (g_userIds g)"
    by (auto split: option.splits)
  moreover from this have "g \<in> set (t_groups d) \<and> g_id g = i"
    by (auto simp: findGroup_def dest: row_of_SomeD)
  ultimately show "\<exists>g \<in> set (t_groups d). findGroup (g_id g) d = Some g \<and> g_id g \<in> set ids
      \<and> x \<in> set (g_userIds g)" by blast
qed force

lemma canAccessBoard_iff:
  "canAccessBoard actor board d = Inr True \<longleftrightarrow>
     b_archivedAt board = None
     \<and> (\<exists>g. globalPolicy d = Inr g
          \<and> (hasPermission actor PermManagePolicy g \<or> board_member actor board d))"
  by (cases "globalPolicy d")
    (auto simp: canAccessBoard_def board_member_def group_member_iff run_simps)

lemma requireBoardAccess_iff [run_simps]:
  "requireBoardAccess actor i d = Inr b \<longleftrightarrow>
     findBoard i d = Some b \<and> canAccessBoard actor b d = Inr True"
  by (auto simp: requireBoardAccess_def run_simps)

lemma accessibleCard_iff [run_simps]:
  "accessibleCard actor i d = Inr c \<longleftrightarrow>
     findCard i d = Some c \<and> (\<exists>b. findBoard (c_boardId c) d = Some b
        \<and> canAccessBoard actor b d = Inr True)"
  by (auto simp: accessibleCard_def run_simps)

lemma globalPolicy_no_leak: "globalPolicy d = Inl e \<Longrightarrow> leaked_card e = None"
  by (auto simp: globalPolicy_def sbind_Inl_iff run_simps)

lemma activePolicy_no_leak: "activePolicy i d = Inl e \<Longrightarrow> leaked_card e = None"
  by (auto simp: activePolicy_def sbind_Inl_iff run_simps dest: globalPolicy_no_leak)

lemma accessibleCard_no_leak: "accessibleCard actor i d = Inl e \<Longrightarrow> leaked_card e = None"
  by (auto simp: accessibleCard_def requireBoardAccess_def canAccessBoard_def sbind_Inl_iff run_simps
      dest: globalPolicy_no_leak split: if_splits)

lemma activePolicy_roles:
  "activePolicy i d = Inr p \<Longrightarrow> globalPolicy d = Inr g \<Longrightarrow> p_roles p = p_roles g"
  by (auto simp: activePolicy_def run_simps)

lemma findCard_id: "findCard i d = Some c \<Longrightarrow> c_id c = i \<and> c \<in> set (t_cards d)"
  by (auto simp: findCard_def dest: row_of_SomeD)

lemma findBoard_id: "findBoard i d = Some b \<Longrightarrow> b_id b = i \<and> b \<in> set (t_boards d)"
  by (auto simp: findBoard_def dest: row_of_SomeD)

lemma laneByKey_iff [run_simps]:
  "laneByKey i k d = Inr l \<longleftrightarrow> findLaneByKey i k d = Some l"
  by (simp add: laneByKey_def run_simps)

lemma findLaneByKey_SomeD:
  "findLaneByKey i k d = Some l \<Longrightarrow> l \<in> set (t_lanes d) \<and> l_boardId l = i \<and> l_key l = k"
  by (auto simp: findLaneByKey_def find_Some_iff)

lemma laneOfCard_InrD:
  "laneOfCard c d = Inr l \<Longrightarrow> l \<in> set (t_lanes d) \<and> l_boardId l = c_boardId c \<and> l_id l = c_laneId c"
proof -
  assume "laneOfCard c d = Inr l"
  then have f: "find (\<lambda>l. l_id l = c_laneId c) (listLanes (c_boardId c) d) = Some l"
    by (simp add: laneOfCard_def run_simps)
  then have "l \<in> set (listLanes (c_boardId c) d) \<and> l_id l = c_laneId c"
    by (auto simp: find_Some_iff)
  then show ?thesis by (auto simp: listLanes_def)
qed

lemma firstLane_InrD:
  "firstLane i d = Inr l \<Longrightarrow> l \<in> set (t_lanes d) \<and> l_boardId l = i
     \<and> (\<forall>x \<in> set (t_lanes d). l_boardId x = i \<longrightarrow> l_position l \<le> l_position x)"
  by (auto simp: firstLane_def listLanes_def run_simps
      dest: first_of_SomeD intro: first_of_asc_least)

lemma makeEvent_Inr_iff [run_simps]:
  "makeEvent E actor i body w = (Inr ev, w') \<longleftrightarrow>
     ev = \<lparr>ev_id = e_newId E (w_ids w), ev_cardId = i,
       ev_actorId = (if a_kind actor = KSystem then None else Some (a_id actor)),
       ev_actorKind = a_kind actor,
       ev_actorLabel = (if a_kind actor = KAgent then map_option snd (a_client actor) else None),
       ev_createdAt = e_clock E (w_ticks w), ev_body = body\<rparr>
     \<and> w' = w\<lparr>w_ids := Suc (w_ids w), w_ticks := Suc (w_ticks w)\<rparr>"
  by (auto simp: makeEvent_def run_simps)

lemma makeEvent_Inl [run_simps]: "makeEvent E actor i body w = (Inl e, w') \<longleftrightarrow> False"
  by (auto simp: makeEvent_def run_simps bind_Inl_iff)

lemma publishCardHints_iffs [run_simps]:
  "publishCardHints c evs w = (Inr u, w') \<longleftrightarrow> w' = (if evs = [] then w else
     w\<lparr>w_hints := w_hints w @ [CardHint (type_of (ev_body (last evs))) (c_id c) (c_version c)
        (ev_id (last evs))]\<rparr>)"
  "publishCardHints c evs w = (Inl e, w') \<longleftrightarrow> False"
  by (auto simp: publishCardHints_def run_simps)

section \<open>The retry: at most two runs, and nothing left of a failed one\<close>

lemma retry_Inr_iff:
  "runWithPositionRetry fn cur w = (Inr a, w') \<longleftrightarrow>
     fn w = (Inr a, w') \<or> (\<exists>w1. fn w = (Inl DuplicatePositionError, w1)
        \<and> fn (w1\<lparr>w_db := w_db w\<rparr>) = (Inr a, w'))"
  by (auto simp: runWithPositionRetry_def uow_run_def
      split: prod.splits sum.splits error.splits option.splits)

lemma retry_rollback:
  "runWithPositionRetry fn cur w = (Inl e, w') \<Longrightarrow> w_db w' = w_db w"
  by (auto simp: runWithPositionRetry_def uow_run_def
      split: prod.splits sum.splits error.splits option.splits)

lemma retry_leak:
  assumes "runWithPositionRetry fn (Some cur) w = (Inl e, w')" and "leaked_card e = Some c"
    and "\<And>w e w'. fn w = (Inl e, w') \<Longrightarrow> leaked_card e = Some c \<Longrightarrow> cur (w_db w) = Inr c"
    and "\<And>d e. cur d = Inl e \<Longrightarrow> leaked_card e = None"
  shows "cur (w_db w) = Inr c"
  using assms(1,2)
  by (auto simp: runWithPositionRetry_def uow_run_def
      split: prod.splits sum.splits error.splits option.splits dest!: assms(3,4))

section \<open>Tag resolution\<close>

text \<open>
  A run of the loop only adds tags; the rows it returns are in the table afterwards and
  their folded names are the folded request names, each once and in request order.
\<close>

definition tags_grown :: "world \<Rightarrow> tag list \<Rightarrow> world" where
  "tags_grown w new = w\<lparr>w_db := (w_db w)\<lparr>t_tags := t_tags (w_db w) @ new\<rparr>,
     w_ids := w_ids w + length new\<rparr>"

lemma tags_grown_simps [simp]:
  "tags_grown w [] = w" "tags_grown (tags_grown w xs) ys = tags_grown w (xs @ ys)"
  "w_db (tags_grown w xs) = (w_db w)\<lparr>t_tags := t_tags (w_db w) @ xs\<rparr>"
  "w_ticks (tags_grown w xs) = w_ticks w" "w_hints (tags_grown w xs) = w_hints w"
  "w_completed (tags_grown w xs) = w_completed w" "w_blobs (tags_grown w xs) = w_blobs w"
  by (simp_all add: tags_grown_def)

lemma insert_tag_grown:
  "store (insertTag t) (w\<lparr>w_ids := Suc (w_ids w)\<rparr>) = (Inr u, w') \<Longrightarrow>
     w' = tags_grown w [t] \<and> findTagByNameCi (tag_name t) (w_db w) = None"
  by (auto simp: run_simps tags_grown_def findTagByNameCi_def)

lemma find_tag_grown:
  "findTagByNameCi name (d\<lparr>t_tags := t_tags d @ new\<rparr>) = None \<Longrightarrow> findTagByNameCi name d = None"
  by (auto simp: findTagByNameCi_def find_None_iff)

lemma resolveTags_from_run:
  "resolveTags_from E seen names w = (Inr ts, w') \<Longrightarrow>
     \<exists>new. w' = tags_grown w new \<and> set ts \<subseteq> set (t_tags (w_db w')) \<and> set new \<subseteq> set ts
       \<and> (\<forall>t \<in> set new. findTagByNameCi (tag_name t) (w_db w) = None)
       \<and> map (\<lambda>t. to_lower (tag_name t)) ts
           = filter (\<lambda>k. k \<notin> set seen) (uniq (map to_lower names))"
proof (induction names arbitrary: seen w ts w')
  case Nil
  then show ?case by (auto simp: run_simps intro: exI[of _ "[]"])
next
  case (Cons name names)
  let ?k = "to_lower name"
  have drop_k: "filter (\<lambda>k. k \<notin> set (?k # seen)) (uniq (map to_lower names))
      = filter (\<lambda>k. k \<notin> set seen) (filter (\<lambda>k. k \<noteq> ?k) (uniq (map to_lower names)))"
    by (auto intro: filter_cong)
  show ?case
  proof (cases "?k \<in> set seen")
    case True
    then have "filter (\<lambda>k. k \<notin> set seen) (filter (\<lambda>k. k \<noteq> ?k) (uniq (map to_lower names)))
        = filter (\<lambda>k. k \<notin> set seen) (uniq (map to_lower names))"
      by (auto intro: filter_cong)
    with True Cons show ?thesis by simp
  next
    case fresh: False
    show ?thesis
    proof (cases "findTagByNameCi name (w_db w)")
      case (Some t)
      with fresh Cons.prems obtain ts' where
        r: "resolveTags_from E (?k # seen) names w = (Inr ts', w')" and ts: "ts = t # ts'"
        by (auto simp: run_simps)
      from Some have "t \<in> set (t_tags (w_db w))" "to_lower (tag_name t) = ?k"
        by (auto simp: findTagByNameCi_def find_Some_iff)
      with Cons.IH[OF r] fresh ts drop_k show ?thesis by fastforce
    next
      case None
      let ?t = "\<lparr>tag_id = e_newId E (w_ids w), tag_name = name\<rparr>"
      from None fresh Cons.prems obtain w1 ts' where
        w1: "store (insertTag ?t) (w\<lparr>w_ids := Suc (w_ids w)\<rparr>) = (Inr (), w1)" and
        r: "resolveTags_from E (?k # seen) names w1 = (Inr ts', w')" and ts: "ts = ?t # ts'"
        by (auto simp: run_simps)
      obtain new where "w' = tags_grown w1 new" "set ts' \<subseteq> set (t_tags (w_db w'))"
        "set new \<subseteq> set ts'" "\<forall>t \<in> set new. findTagByNameCi (tag_name t) (w_db w1) = None"
        "map (\<lambda>t. to_lower (tag_name t)) ts'
           = filter (\<lambda>k. k \<notin> set (?k # seen)) (uniq (map to_lower names))"
        using Cons.IH[OF r] by blast
      with insert_tag_grown[OF w1] fresh ts drop_k show ?thesis
        by (intro exI[of _ "?t # new"]) (auto dest!: find_tag_grown)
    qed
  qed
qed

lemma resolveTags_run:
  "resolveTags E names w = (Inr ts, w') \<Longrightarrow>
     \<exists>new. w' = tags_grown w new \<and> set ts \<subseteq> set (t_tags (w_db w')) \<and> set new \<subseteq> set ts
       \<and> (\<forall>t \<in> set new. findTagByNameCi (tag_name t) (w_db w) = None)
       \<and> map (\<lambda>t. to_lower (tag_name t)) ts = uniq (map to_lower names)"
  using resolveTags_from_run[of E "[]"] by (simp add: resolveTags_def)

text \<open>\<open>sameTagSet\<close> is equality of the folded name sets.\<close>

lemma sameTagSet_iff: "sameTagSet a b \<longleftrightarrow> to_lower ` set a = to_lower ` set b"
proof
  assume "sameTagSet a b"
  then have "set (sort (uniq (map to_lower a))) = set (sort (uniq (map to_lower b)))"
    by (simp add: sameTagSet_def)
  then show "to_lower ` set a = to_lower ` set b" by simp
next
  assume "to_lower ` set a = to_lower ` set b"
  then have "mset (uniq (map to_lower a)) = mset (uniq (map to_lower b))"
    by (simp add: set_eq_iff_mset_eq_distinct[symmetric])
  then show "sameTagSet a b"
    unfolding sameTagSet_def by (metis mset_sort properties_for_sort sorted_sort)
qed

lemma redacted_iff:
  "c \<in> set (redactDeletedComments thread) \<Longrightarrow> cm_deletedAt c \<noteq> None \<Longrightarrow> cm_body c = []"
  by (auto simp: redactDeletedComments_def split: if_splits)

end
