(* ===== verification/Cards.thy ===== *)
theory Cards
  imports Access
begin

text \<open>
  \<open>CardService\<close> of \<open>packages/core/src/services/card-service.ts\<close>: create, update, move,
  cancel, reopen, archive, discard, block and unblock.

  Each operation has the parts the method has: a \<open>_plan\<close> that reads the database and
  throws (the guards and the neighbour lookups, in the code's order), the pure function that
  computes the card after it, the transaction \<open>_tx\<close> that writes the card and its audit
  event, and the method itself, which parses the input, runs the unit of work and publishes
  after the commit.  \<open>Card_Laws\<close> proves what the operations promise.
\<close>

section \<open>Shared parts\<close>

definition ensureActiveWaitingReason :: "policy_document \<Rightarrow> string \<Rightarrow> card \<Rightarrow> unit read" where
  "ensureActiveWaitingReason policy reason c =
     sguard (\<exists>choice \<in> set (p_waitingReasons policy). wr_key choice = reason \<and> wr_active choice)
       (ConflictError ''waiting reason is unavailable; select an active reason'' (Some c))"

fun originOf :: "actor_kind \<Rightarrow> card_origin read" where
  "originOf KUser = Inr OManual"
| "originOf KMcp = Inr OMcp"
| "originOf KAgent = Inr OMcp"
| "originOf KSlack = Inr OSlack"
| "originOf KSystem = Inl (PlainError ''system actors do not create cards'')"

definition requireAssignable :: "env \<Rightarrow> uuid \<Rightarrow> uuid \<Rightarrow> db \<Rightarrow> unit read" where
  "requireAssignable E assigneeId boardId d =
     sbind (requireFound (findUser assigneeId d) ''assignee'') (\<lambda>assignee.
     sbind (requireFound (findBoard boardId d) ''board'') (\<lambda>board.
     if \<not> u_isActive assignee \<or> u_id assignee = e_systemUserId E
     then Inl (NotFoundError ''assignee'')
     else sbind (canAccessBoard (actor_of_user assignee) board d) (\<lambda>ok.
       sguard ok (NotFoundError ''assignee''))))"

text \<open>\<open>generateKeyBetween\<close> throws on bounds that do not bracket a gap.\<close>

definition generateKeyBetween :: "env \<Rightarrow> string option \<Rightarrow> string option \<Rightarrow> string read" where
  "generateKeyBetween E a b = of_option (PlainError ''generateKeyBetween'') (e_keyBetween E a b)"

definition keyBetween :: "env \<Rightarrow> string option \<Rightarrow> string option \<Rightarrow> card \<Rightarrow> string read" where
  "keyBetween E prev nxt c =
     of_option (ConflictError ''stale move neighbors'' (Some c)) (e_keyBetween E prev nxt)"

text \<open>The tail of a mutation: update the row, append one audit event.\<close>

definition save_card :: "env \<Rightarrow> actor \<Rightarrow> card \<Rightarrow> event_body \<Rightarrow> (card \<times> card_event list) step" where
  "save_card E actor updated body =
     bind (store (updateCard updated)) (\<lambda>_.
     bind (makeEvent E actor (c_id updated) body) (\<lambda>ev.
     bind (store (appendEvent ev)) (\<lambda>_.
     return (updated, [ev]))))"

text \<open>The tail of a method: one hint for the committed mutation, then the card.\<close>

definition publish_result :: "card \<times> card_event list \<Rightarrow> card step" where
  "publish_result result =
     bind (publishCardHints (fst result) (snd result)) (\<lambda>_. return (fst result))"

section \<open>Create\<close>

record slack_source =
  ss_channelId :: string
  ss_threadTs :: string
  ss_permalink :: string

record create_options =
  co_reporterId :: "uuid option"
  co_slackSource :: "slack_source option"

definition new_card ::
  "env \<Rightarrow> create_card_input \<Rightarrow> create_options \<Rightarrow> card_origin \<Rightarrow> uuid \<Rightarrow> uuid \<Rightarrow> card_no \<Rightarrow> string
     \<Rightarrow> instant \<Rightarrow> card" where
  "new_card E inp opts origin reporterId laneId cardId position t =
     \<lparr>c_id = cardId, c_boardId = e_boardId E, c_laneId = laneId, c_position = position,
      c_title = ci_title inp, c_description = ci_description inp, c_priority = ci_priority inp,
      c_estimateMinutes = ci_estimateMinutes inp, c_reporterId = reporterId,
      c_assigneeId = ci_assigneeId inp, c_locationId = ci_locationId inp, c_origin = origin,
      c_resolution = None, c_blocked = False, c_blockedReason = None, c_blockedAt = None,
      c_waitingReason = None, c_expectedResumeAt = None, c_resumeAlertedAt = None,
      c_workStartedAt = None,
      c_slackChannelId = map_option ss_channelId (co_slackSource opts),
      c_slackThreadTs = map_option ss_threadTs (co_slackSource opts),
      c_slackPermalink = map_option ss_permalink (co_slackSource opts),
      c_version = 1, c_createdAt = t, c_updatedAt = t, c_archivedAt = None\<rparr>"

text \<open>The checks, then the reporter, the entry lane, and the position of its top card.\<close>

definition create_plan ::
  "env \<Rightarrow> actor \<Rightarrow> create_card_input \<Rightarrow> create_options \<Rightarrow> db \<Rightarrow> (uuid \<times> lane \<times> string option) read"
where
  "create_plan E actor inp opts d =
     sbind (requireBoardAccess actor (e_boardId E) d) (\<lambda>_.
     sbind (activePolicy (e_boardId E) d) (\<lambda>policy.
     sbind (decide (evaluatePolicy actor ActCardCreate policy)) (\<lambda>_.
     let reporterId = default_to (a_id actor) (co_reporterId opts) in
     sbind (requireFound (findUser reporterId d) ''reporter'') (\<lambda>_.
     sbind (case ci_assigneeId inp of None \<Rightarrow> Inr ()
            | Some a \<Rightarrow> requireAssignable E a (e_boardId E) d) (\<lambda>_.
     sbind (case ci_locationId inp of None \<Rightarrow> Inr ()
            | Some i \<Rightarrow> sbind (requireFound (findLocation i d) ''location'') (\<lambda>_. Inr ())) (\<lambda>_.
     sbind (firstLane (e_boardId E) d) (\<lambda>entry.
     Inr (reporterId, entry, map_option c_position (edgeOfLane (l_id entry) FirstEdge d)))))))))"

text \<open>Insert, auto-watch by reporter and assignee, tags, and the snapshot event.\<close>

definition store_new_card ::
  "env \<Rightarrow> actor \<Rightarrow> string list \<Rightarrow> instant \<Rightarrow> card \<Rightarrow> (card \<times> card_event list) step" where
  "store_new_card E actor names t c =
     bind (store (insertCard c)) (\<lambda>_.
     bind (put_db (addWatcher (c_id c) (c_reporterId c) t)) (\<lambda>_.
     bind (case c_assigneeId c of None \<Rightarrow> return ()
           | Some a \<Rightarrow> put_db (addWatcher (c_id c) a t)) (\<lambda>_.
     bind (resolveTags E names) (\<lambda>tags.
     bind (store (setCardTags (c_id c) (map tag_id tags))) (\<lambda>_.
     bind (makeEvent E actor (c_id c) (CardCreated c (map tag_name tags))) (\<lambda>ev.
     bind (store (appendEvent ev)) (\<lambda>_.
     return (c, [ev]))))))))"

definition create_tx ::
  "env \<Rightarrow> actor \<Rightarrow> create_card_input \<Rightarrow> create_options \<Rightarrow> card_origin
     \<Rightarrow> (card \<times> card_event list) step" where
  "create_tx E actor inp opts origin =
     bind (ask (create_plan E actor inp opts)) (\<lambda>(reporterId, entry, top).
     bind (now E) (\<lambda>t.
     bind (ask (\<lambda>d. Inr (nextCardId d))) (\<lambda>cardId.
     bind (lift (generateKeyBetween E None top)) (\<lambda>position.
     store_new_card E actor (ci_tags inp) t
       (new_card E inp opts origin reporterId (l_id entry) cardId position t)))))"

definition create_card :: "env \<Rightarrow> actor \<Rightarrow> create_card_raw \<Rightarrow> create_options \<Rightarrow> card step" where
  "create_card E actor raw opts =
     bind (lift (parse_create raw)) (\<lambda>inp.
     bind (lift (originOf (a_kind actor))) (\<lambda>origin.
     bind (runWithPositionRetry (create_tx E actor inp opts origin) None) publish_result))"

section \<open>Update\<close>

text \<open>
  The fields are edited in the code's order on a pair of the card so far and the events so
  far; every field that differs makes one event, which takes an id and a clock reading.
\<close>

type_synonym edit_state = "card \<times> card_event list"

definition changeOf :: "card_field \<Rightarrow> field_value \<Rightarrow> field_value \<Rightarrow> event_body" where
  "changeOf field frm to = CardFieldChanged field frm to"

definition nullable :: "('a \<Rightarrow> field_value) \<Rightarrow> 'a option \<Rightarrow> field_value" where
  "nullable enc x = (case x of None \<Rightarrow> FNull | Some a \<Rightarrow> enc a)"

definition fieldChanged :: "env \<Rightarrow> actor \<Rightarrow> event_body \<Rightarrow> edit_state \<Rightarrow> edit_state step" where
  "fieldChanged E actor body st =
     bind (makeEvent E actor (c_id (fst st)) body) (\<lambda>ev. return (fst st, snd st @ [ev]))"

definition edit_field ::
  "env \<Rightarrow> actor \<Rightarrow> card_field \<Rightarrow> ('a \<Rightarrow> field_value) \<Rightarrow> ('a \<Rightarrow> card \<Rightarrow> card) \<Rightarrow> 'a \<Rightarrow> 'a option
     \<Rightarrow> unit step \<Rightarrow> edit_state \<Rightarrow> edit_state step" where
  "edit_field E actor field enc set_it current supplied before st = (case supplied of
      None \<Rightarrow> return st
    | Some v \<Rightarrow> if v = current then return st
        else bind before (\<lambda>_.
          fieldChanged E actor (changeOf field (enc current) (enc v)) (set_it v (fst st), snd st)))"

text \<open>A new assignee must be assignable and watches the card from now on.\<close>

definition before_assign :: "env \<Rightarrow> card \<Rightarrow> uuid option option \<Rightarrow> unit step" where
  "before_assign E c supplied = (case supplied of
      Some (Some a) \<Rightarrow> bind (ask (requireAssignable E a (c_boardId c))) (\<lambda>_.
        bind (now E) (\<lambda>t. put_db (addWatcher (c_id c) a t)))
    | _ \<Rightarrow> return ())"

definition before_locate :: "uuid option option \<Rightarrow> unit step" where
  "before_locate supplied = (case supplied of
      Some (Some i) \<Rightarrow>
        bind (ask (\<lambda>d. requireFound (findLocation i d) ''location'')) (\<lambda>_. return ())
    | _ \<Rightarrow> return ())"

definition edit_tags :: "env \<Rightarrow> actor \<Rightarrow> card \<Rightarrow> string list option \<Rightarrow> edit_state \<Rightarrow> edit_state step" where
  "edit_tags E actor c supplied st = (case supplied of
      None \<Rightarrow> return st
    | Some names \<Rightarrow>
        bind (ask (\<lambda>d. Inr (map tag_name (listTagsByCard (c_id c) d)))) (\<lambda>fromNames.
        bind (resolveTags E names) (\<lambda>resolved.
        if sameTagSet fromNames (map tag_name resolved) then return st
        else bind (store (setCardTags (c_id c) (map tag_id resolved))) (\<lambda>_.
          fieldChanged E actor
            (changeOf FieldTags (FTags fromNames) (FTags (map tag_name resolved))) st))))"

text \<open>Waiting fields are edited in the waiting lane only; a new date re-arms the alert.\<close>

definition edit_waiting ::
  "env \<Rightarrow> actor \<Rightarrow> policy_document \<Rightarrow> card \<Rightarrow> update_card_input \<Rightarrow> edit_state \<Rightarrow> edit_state step" where
  "edit_waiting E actor policy c inp st =
     (if ui_waitingReason inp = None \<and> ui_expectedResumeAt inp = None then return st
      else bind (ask (laneOfCard c)) (\<lambda>l.
        bind (guard (l_key l = ''waiting_parts_vendor'')
          (ConflictError ''waiting reason and resume date can only be edited in the waiting lane'' (Some c))) (\<lambda>_.
        bind (edit_field E actor FieldWaitingReason (nullable FText)
          (\<lambda>v n. n\<lparr>c_waitingReason := v\<rparr>) (c_waitingReason c)
          (map_option Some (ui_waitingReason inp))
          (case ui_waitingReason inp of None \<Rightarrow> return ()
           | Some r \<Rightarrow> lift (ensureActiveWaitingReason policy r c)) st)
        (edit_field E actor FieldExpectedResumeAt (nullable FDay)
          (\<lambda>v n. n\<lparr>c_expectedResumeAt := v, c_resumeAlertedAt := None\<rparr>) (c_expectedResumeAt c)
          (map_option Some (ui_expectedResumeAt inp)) (return ())))))"

definition update_plan ::
  "actor \<Rightarrow> card_no \<Rightarrow> nat \<Rightarrow> db \<Rightarrow> (card \<times> policy_document) read" where
  "update_plan actor cardId expectedVersion d =
     sbind (accessibleCard actor cardId d) (\<lambda>c.
     sbind (ensureNotArchived c) (\<lambda>_.
     sbind (activePolicy (c_boardId c) d) (\<lambda>policy.
     sbind (decide (evaluatePolicy actor ActCardUpdate policy)) (\<lambda>_.
     sbind (ensureVersion c expectedVersion) (\<lambda>_. Inr (c, policy))))))"

definition update_edits ::
  "env \<Rightarrow> actor \<Rightarrow> policy_document \<Rightarrow> card \<Rightarrow> update_card_input \<Rightarrow> edit_state step" where
  "update_edits E actor policy c inp =
     bind (edit_field E actor FieldTitle FText (\<lambda>v n. n\<lparr>c_title := v\<rparr>)
       (c_title c) (ui_title inp) (return ()) (c, [])) (\<lambda>st.
     bind (edit_field E actor FieldDescription FText (\<lambda>v n. n\<lparr>c_description := v\<rparr>)
       (c_description c) (ui_description inp) (return ()) st) (\<lambda>st.
     bind (edit_field E actor FieldPriority FPriority (\<lambda>v n. n\<lparr>c_priority := v\<rparr>)
       (c_priority c) (ui_priority inp) (return ()) st) (\<lambda>st.
     bind (edit_field E actor FieldEstimateMinutes (nullable FNumber)
       (\<lambda>v n. n\<lparr>c_estimateMinutes := v\<rparr>)
       (c_estimateMinutes c) (ui_estimateMinutes inp) (return ()) st) (\<lambda>st.
     bind (edit_field E actor FieldAssigneeId (nullable FId) (\<lambda>v n. n\<lparr>c_assigneeId := v\<rparr>)
       (c_assigneeId c) (ui_assigneeId inp) (before_assign E c (ui_assigneeId inp)) st) (\<lambda>st.
     bind (edit_field E actor FieldLocationId (nullable FId) (\<lambda>v n. n\<lparr>c_locationId := v\<rparr>)
       (c_locationId c) (ui_locationId inp) (before_locate (ui_locationId inp)) st) (\<lambda>st.
     bind (edit_tags E actor c (ui_tags inp) st)
       (edit_waiting E actor policy c inp)))))))"

definition update_tx ::
  "env \<Rightarrow> actor \<Rightarrow> card_no \<Rightarrow> update_card_input \<Rightarrow> (card \<times> card_event list) step" where
  "update_tx E actor cardId inp =
     bind (ask (update_plan actor cardId (ui_expectedVersion inp))) (\<lambda>(c, policy).
     bind (update_edits E actor policy c inp) (\<lambda>(nxt, events).
     if events = [] then return (c, [])
     else bind (now E) (\<lambda>t.
       let updated = nxt\<lparr>c_version := c_version c + 1, c_updatedAt := t\<rparr> in
       bind (store (updateCard updated)) (\<lambda>_.
       bind (for_each events (\<lambda>ev. store (appendEvent ev))) (\<lambda>_.
       return (updated, events))))))"

definition update_card :: "env \<Rightarrow> actor \<Rightarrow> card_no \<Rightarrow> update_card_input \<Rightarrow> card step" where
  "update_card E actor cardId raw =
     bind (lift (parse_update raw)) (\<lambda>inp.
     bind (uow_run (update_tx E actor cardId inp)) publish_result)"

section \<open>Move\<close>

record move_plan =
  pl_card :: card
  pl_from :: lane
  pl_to :: lane
  pl_waiting :: "(string \<times> day) option"
  pl_position :: string

definition readNeighbor :: "card \<Rightarrow> lane \<Rightarrow> card_no option \<Rightarrow> db \<Rightarrow> card option read" where
  "readNeighbor c toLane neighborId d = (case neighborId of
      None \<Rightarrow> Inr None
    | Some i \<Rightarrow> (case findCard i d of
        None \<Rightarrow> Inl (ConflictError ''stale move neighbors'' (Some c))
      | Some nb \<Rightarrow>
          if c_id nb = c_id c \<or> c_laneId nb \<noteq> l_id toLane \<or> c_archivedAt nb \<noteq> None
          then Inl (ConflictError ''stale move neighbors'' (Some c))
          else Inr (Some nb)))"

definition is_reorder :: "lane \<Rightarrow> lane \<Rightarrow> bool" where
  "is_reorder fromLane toLane \<longleftrightarrow> l_id toLane = l_id fromLane"

text \<open>A drag out of done has reopen semantics, so its gate applies as well.\<close>

definition move_gates :: "actor \<Rightarrow> lane \<Rightarrow> lane \<Rightarrow> policy_document \<Rightarrow> unit read" where
  "move_gates actor fromLane toLane policy =
     sbind (decide (evaluatePolicy actor
       (if is_reorder fromLane toLane then ActCardReorder (l_key toLane)
        else ActCardMove (l_key fromLane) (l_key toLane)) policy)) (\<lambda>_.
     if \<not> is_reorder fromLane toLane \<and> l_key fromLane = ''done''
     then decide (evaluatePolicy actor ActCardReopen policy) else Inr ())"

definition move_waiting ::
  "card \<Rightarrow> lane \<Rightarrow> lane \<Rightarrow> policy_document \<Rightarrow> move_card_input \<Rightarrow> (string \<times> day) option read" where
  "move_waiting c fromLane toLane policy inp =
     (if \<not> is_reorder fromLane toLane \<and> l_key toLane = ''waiting_parts_vendor''
      then sbind (waitingLaneEntrySchema (mv_waitingReason inp) (mv_expectedResumeAt inp)) (\<lambda>wf.
        sbind (ensureActiveWaitingReason policy (fst wf) c) (\<lambda>_. Inr (Some wf)))
      else Inr None)"

text \<open>
  The supplied bounds are validated, then the actual gap before the next neighbour is found:
  filtered or concurrently inserted cards may occupy it.
\<close>

definition move_position :: "env \<Rightarrow> card \<Rightarrow> lane \<Rightarrow> move_card_input \<Rightarrow> db \<Rightarrow> string read" where
  "move_position E c toLane inp d =
     sbind (readNeighbor c toLane (mv_prevCardId inp) d) (\<lambda>prev.
     sbind (readNeighbor c toLane (mv_nextCardId inp) d) (\<lambda>nxt.
     sbind (keyBetween E (map_option c_position prev) (map_option c_position nxt) c) (\<lambda>_.
     keyBetween E (positionBefore (l_id toLane) (map_option c_position nxt) (c_id c) d)
       (map_option c_position nxt) c)))"

definition plan_move :: "env \<Rightarrow> actor \<Rightarrow> card_no \<Rightarrow> move_card_input \<Rightarrow> db \<Rightarrow> move_plan read" where
  "plan_move E actor cardId inp d =
     sbind (accessibleCard actor cardId d) (\<lambda>c.
     sbind (ensureNotArchived c) (\<lambda>_.
     sbind (laneOfCard c d) (\<lambda>fromLane.
     sbind (laneByKey (c_boardId c) (mv_toLane inp) d) (\<lambda>toLane.
     sbind (activePolicy (c_boardId c) d) (\<lambda>policy.
     sbind (move_gates actor fromLane toLane policy) (\<lambda>_.
     sbind (ensureVersion c (mv_expectedVersion inp)) (\<lambda>_.
     sbind (move_waiting c fromLane toLane policy inp) (\<lambda>waiting.
     sbind (move_position E c toLane inp d) (\<lambda>position.
     Inr \<lparr>pl_card = c, pl_from = fromLane, pl_to = toLane, pl_waiting = waiting,
       pl_position = position\<rparr>)))))))))"

text \<open>
  The card after the move.  \<open>started\<close> is its work start, stamped on the first entry into
  In Progress.  The assignments are in the code's order: waiting fields set on entry are
  cleared again on exit, the resolution set on entry to done is cleared on exit.
\<close>

definition moved_card :: "move_plan \<Rightarrow> instant \<Rightarrow> instant option \<Rightarrow> card" where
  "moved_card pl t started = (let
     c = pl_card pl;
     u0 = c\<lparr>c_laneId := l_id (pl_to pl), c_position := pl_position pl,
            c_version := c_version c + 1, c_updatedAt := t\<rparr>
   in if is_reorder (pl_from pl) (pl_to pl) then u0
   else let
     u1 = (case pl_waiting pl of None \<Rightarrow> u0
           | Some (r, d) \<Rightarrow> u0\<lparr>c_waitingReason := Some r, c_expectedResumeAt := Some d,
               c_resumeAlertedAt := None\<rparr>);
     u2 = (if l_key (pl_from pl) = ''waiting_parts_vendor''
           then u1\<lparr>c_waitingReason := None, c_expectedResumeAt := None, c_resumeAlertedAt := None\<rparr>
           else u1);
     u3 = u2\<lparr>c_workStartedAt := started\<rparr>;
     u4 = (if l_key (pl_to pl) = ''done'' then u3\<lparr>c_resolution := Some Completed\<rparr> else u3)
   in if l_key (pl_from pl) = ''done'' then u4\<lparr>c_resolution := None\<rparr> else u4)"

definition starts_work :: "move_plan \<Rightarrow> bool" where
  "starts_work pl \<longleftrightarrow> \<not> is_reorder (pl_from pl) (pl_to pl)
     \<and> l_key (pl_to pl) = ''in_progress'' \<and> c_workStartedAt (pl_card pl) = None"

definition completes :: "move_plan \<Rightarrow> bool" where
  "completes pl \<longleftrightarrow> \<not> is_reorder (pl_from pl) (pl_to pl) \<and> l_key (pl_to pl) = ''done''"

definition wipLimitExceeded :: "lane \<Rightarrow> db \<Rightarrow> bool" where
  "wipLimitExceeded toLane d = (case l_wipLimit toLane of
      None \<Rightarrow> False
    | Some limit \<Rightarrow> countActiveByLane (l_id toLane) d + 1 > limit)"

definition move_body :: "move_plan \<Rightarrow> move_card_input \<Rightarrow> db \<Rightarrow> event_body" where
  "move_body pl inp d =
     (if is_reorder (pl_from pl) (pl_to pl)
      then CardReordered (l_key (pl_to pl)) (mv_prevCardId inp) (mv_nextCardId inp)
      else CardStatusChanged (l_key (pl_from pl)) (l_key (pl_to pl))
        (wipLimitExceeded (pl_to pl) d) (l_key (pl_from pl) = ''waiting_parts_vendor''))"

definition move_tx ::
  "env \<Rightarrow> actor \<Rightarrow> card_no \<Rightarrow> move_card_input \<Rightarrow> ((card \<times> card_event list) \<times> bool) step" where
  "move_tx E actor cardId inp =
     bind (ask (plan_move E actor cardId inp)) (\<lambda>pl.
     bind (now E) (\<lambda>t.
     bind (if starts_work pl then bind (now E) (\<lambda>s. return (Some s))
           else return (c_workStartedAt (pl_card pl))) (\<lambda>started.
     bind (ask (\<lambda>d. Inr (move_body pl inp d))) (\<lambda>body.
     bind (save_card E actor (moved_card pl t started) body) (\<lambda>saved.
     return (saved, completes pl))))))"

definition move_card :: "env \<Rightarrow> actor \<Rightarrow> card_no \<Rightarrow> move_card_input \<Rightarrow> card step" where
  "move_card E actor cardId raw =
     bind (lift (parse_move raw)) (\<lambda>inp.
     bind (runWithPositionRetry (move_tx E actor cardId inp) (Some (accessibleCard actor cardId)))
       (\<lambda>(saved, completed).
     bind (publishCardHints (fst saved) (snd saved)) (\<lambda>_.
     bind (if completed then cardCompleted (fst saved) else return ()) (\<lambda>_.
     return (fst saved)))))"

section \<open>Cancel\<close>

definition cancel_plan ::
  "env \<Rightarrow> actor \<Rightarrow> card_no \<Rightarrow> cancel_card_input \<Rightarrow> db \<Rightarrow> (card \<times> lane \<times> lane \<times> string) read" where
  "cancel_plan E actor cardId inp d =
     sbind (accessibleCard actor cardId d) (\<lambda>c.
     sbind (ensureNotArchived c) (\<lambda>_.
     sbind (laneOfCard c d) (\<lambda>fromLane.
     sbind (sguard (l_key fromLane \<noteq> ''done'')
       (ConflictError ''card is already terminal'' (Some c))) (\<lambda>_.
     sbind (activePolicy (c_boardId c) d) (\<lambda>policy.
     sbind (decide (evaluatePolicy actor ActCardCancel policy)) (\<lambda>_.
     sbind (ensureVersion c (cn_expectedVersion inp)) (\<lambda>_.
     sbind (of_option (ConflictError ''this board has no done column to cancel into'' (Some c))
       (findLaneByKey (c_boardId c) ''done'' d)) (\<lambda>done.
     sbind (generateKeyBetween E
       (map_option c_position (edgeOfLane (l_id done) LastEdge d)) None) (\<lambda>position.
     Inr (c, fromLane, done, position))))))))))"

definition cancelled_card :: "card \<Rightarrow> cancel_resolution \<Rightarrow> lane \<Rightarrow> string \<Rightarrow> instant \<Rightarrow> card" where
  "cancelled_card c res done position t =
     c\<lparr>c_laneId := l_id done, c_position := position, c_resolution := Some (CancelledAs res),
       c_waitingReason := None, c_expectedResumeAt := None, c_resumeAlertedAt := None,
       c_version := c_version c + 1, c_updatedAt := t\<rparr>"

text \<open>The waiting state goes on the event only when the card was waiting.\<close>

definition cancel_body :: "card \<Rightarrow> cancel_resolution \<Rightarrow> lane \<Rightarrow> event_body" where
  "cancel_body c res fromLane = CardCancelled res (l_key fromLane) (c_waitingReason c)
     (if c_waitingReason c = None then None else c_expectedResumeAt c)"

definition cancel_tx ::
  "env \<Rightarrow> actor \<Rightarrow> card_no \<Rightarrow> cancel_card_input \<Rightarrow> (card \<times> card_event list) step" where
  "cancel_tx E actor cardId inp =
     bind (ask (cancel_plan E actor cardId inp)) (\<lambda>(c, fromLane, done, position).
     bind (now E) (\<lambda>t.
     save_card E actor (cancelled_card c (cn_resolution inp) done position t)
       (cancel_body c (cn_resolution inp) fromLane)))"

definition cancel_card :: "env \<Rightarrow> actor \<Rightarrow> card_no \<Rightarrow> cancel_card_input \<Rightarrow> card step" where
  "cancel_card E actor cardId raw =
     bind (lift (parse_cancel raw)) (\<lambda>inp.
     bind (runWithPositionRetry (cancel_tx E actor cardId inp) (Some (accessibleCard actor cardId)))
       publish_result)"

section \<open>Reopen\<close>

text \<open>What the newest \<open>card.cancelled\<close> event of a cancelled card recorded.\<close>

definition was_cancelled :: "card \<Rightarrow> bool" where
  "was_cancelled c \<longleftrightarrow> c_resolution c \<noteq> None \<and> c_resolution c \<noteq> Some Completed"

definition cancel_payload :: "card \<Rightarrow> db \<Rightarrow> (lane_key \<times> string option \<times> day option) option" where
  "cancel_payload c d =
     (if \<not> was_cancelled c then None
      else case listLatestByCard (c_id c) 1 (Some [TCardCancelled]) d of
          [] \<Rightarrow> None
        | ev # _ \<Rightarrow> (case ev_body ev of
            CardCancelled res frm reason resume \<Rightarrow> Some (frm, reason, resume)
          | _ \<Rightarrow> None))"

definition prior_lane_key :: "(lane_key \<times> string option \<times> day option) option \<Rightarrow> lane_key option" where
  "prior_lane_key payload = (case payload of
      None \<Rightarrow> None
    | Some (frm, reason, resume) \<Rightarrow>
        if frm = ''waiting_parts_vendor'' \<and> reason = None then None else Some frm)"

definition restored_lane :: "card \<Rightarrow> db \<Rightarrow> lane option" where
  "restored_lane c d = (case prior_lane_key (cancel_payload c d) of
      None \<Rightarrow> None
    | Some key \<Rightarrow> findLaneByKey (c_boardId c) key d)"

text \<open>\<open>restored ?? ready ?? the entry lane\<close>\<close>

definition reopen_target :: "card \<Rightarrow> db \<Rightarrow> lane read" where
  "reopen_target c d = (case restored_lane c d of
      Some l \<Rightarrow> Inr l
    | None \<Rightarrow> (case findLaneByKey (c_boardId c) ''ready'' d of
        Some l \<Rightarrow> Inr l
      | None \<Rightarrow> firstLane (c_boardId c) d))"

definition reopen_plan :: "env \<Rightarrow> actor \<Rightarrow> card_no \<Rightarrow> nat \<Rightarrow> db \<Rightarrow> (card \<times> lane \<times> string) read" where
  "reopen_plan E actor cardId expectedVersion d =
     sbind (accessibleCard actor cardId d) (\<lambda>c.
     sbind (laneOfCard c d) (\<lambda>fromLane.
     sbind (if l_key fromLane \<noteq> ''done''
            then decide (IllegalTransition (l_key fromLane) ''ready'') else Inr ()) (\<lambda>_.
     sbind (activePolicy (c_boardId c) d) (\<lambda>policy.
     sbind (decide (evaluatePolicy actor ActCardReopen policy)) (\<lambda>_.
     sbind (ensureVersion c expectedVersion) (\<lambda>_.
     sbind (reopen_target c d) (\<lambda>target.
     sbind (generateKeyBetween E
       (map_option c_position (edgeOfLane (l_id target) LastEdge d)) None) (\<lambda>position.
     Inr (c, target, position)))))))))"

definition reopened_card :: "card \<Rightarrow> lane \<Rightarrow> string \<Rightarrow> db \<Rightarrow> instant \<Rightarrow> card" where
  "reopened_card c target position d t = (let
     restored = restored_lane c d \<noteq> None;
     restoreWaiting = (restored \<and> l_key target = ''waiting_parts_vendor'')
   in c\<lparr>c_laneId := l_id target, c_position := position, c_resolution := None,
       c_archivedAt := None,
       c_workStartedAt := (if restored then c_workStartedAt c else None),
       c_waitingReason := (if restoreWaiting
         then (case cancel_payload c d of Some (_, reason, _) \<Rightarrow> reason | None \<Rightarrow> None)
         else c_waitingReason c),
       c_expectedResumeAt := (if restoreWaiting
         then (case cancel_payload c d of Some (_, _, resume) \<Rightarrow> resume | None \<Rightarrow> None)
         else c_expectedResumeAt c),
       c_resumeAlertedAt := (if restoreWaiting then None else c_resumeAlertedAt c),
       c_version := c_version c + 1, c_updatedAt := t\<rparr>)"

definition reopen_tx :: "env \<Rightarrow> actor \<Rightarrow> card_no \<Rightarrow> nat \<Rightarrow> (card \<times> card_event list) step" where
  "reopen_tx E actor cardId expectedVersion =
     bind (ask (reopen_plan E actor cardId expectedVersion)) (\<lambda>(c, target, position).
     bind (now E) (\<lambda>t.
     bind (ask (\<lambda>d. Inr (reopened_card c target position d t))) (\<lambda>updated.
     save_card E actor updated (CardReopened (l_key target)))))"

definition reopen_card :: "env \<Rightarrow> actor \<Rightarrow> card_no \<Rightarrow> nat \<Rightarrow> card step" where
  "reopen_card E actor cardId raw =
     bind (lift (parse_version raw)) (\<lambda>v.
     bind (runWithPositionRetry (reopen_tx E actor cardId v) (Some (accessibleCard actor cardId)))
       publish_result)"

section \<open>Archive\<close>

definition archive_plan :: "actor \<Rightarrow> card_no \<Rightarrow> nat \<Rightarrow> db \<Rightarrow> card read" where
  "archive_plan actor cardId expectedVersion d =
     sbind (accessibleCard actor cardId d) (\<lambda>c.
     sbind (ensureNotArchived c) (\<lambda>_.
     sbind (laneOfCard c d) (\<lambda>l.
     sbind (sguard (l_key l = ''done'')
       (ConflictError ''only cards in the done lane can be archived'' (Some c))) (\<lambda>_.
     sbind (activePolicy (c_boardId c) d) (\<lambda>policy.
     sbind (decide (evaluatePolicy actor ActCardArchive policy)) (\<lambda>_.
     sbind (ensureVersion c expectedVersion) (\<lambda>_. Inr c)))))))"

definition archived_card :: "card \<Rightarrow> instant \<Rightarrow> card" where
  "archived_card c t =
     c\<lparr>c_archivedAt := Some t, c_version := c_version c + 1, c_updatedAt := t\<rparr>"

definition archive_tx :: "env \<Rightarrow> actor \<Rightarrow> card_no \<Rightarrow> nat \<Rightarrow> (card \<times> card_event list) step" where
  "archive_tx E actor cardId expectedVersion =
     bind (ask (archive_plan actor cardId expectedVersion)) (\<lambda>c.
     bind (now E) (\<lambda>t. save_card E actor (archived_card c t) CardArchived))"

definition archive_card :: "env \<Rightarrow> actor \<Rightarrow> card_no \<Rightarrow> nat \<Rightarrow> card step" where
  "archive_card E actor cardId raw =
     bind (lift (parse_version raw)) (\<lambda>v.
     bind (uow_run (archive_tx E actor cardId v)) publish_result)"

section \<open>Block and unblock\<close>

definition block_action :: "string option \<Rightarrow> policy_action" where
  "block_action reason = (case reason of None \<Rightarrow> ActCardUnblock | Some _ \<Rightarrow> ActCardBlock)"

definition block_plan :: "actor \<Rightarrow> card_no \<Rightarrow> nat \<Rightarrow> string option \<Rightarrow> db \<Rightarrow> card read" where
  "block_plan actor cardId expectedVersion reason d =
     sbind (accessibleCard actor cardId d) (\<lambda>c.
     sbind (ensureNotArchived c) (\<lambda>_.
     sbind (activePolicy (c_boardId c) d) (\<lambda>policy.
     sbind (decide (evaluatePolicy actor (block_action reason) policy)) (\<lambda>_.
     sbind (ensureVersion c expectedVersion) (\<lambda>_.
     sbind (sguard (c_blocked c \<noteq> (reason \<noteq> None))
       (ConflictError (if reason \<noteq> None then ''card is already blocked''
          else ''card is not blocked'') (Some c))) (\<lambda>_. Inr c))))))"

definition blocked_card :: "card \<Rightarrow> string option \<Rightarrow> instant \<Rightarrow> card" where
  "blocked_card c reason t =
     c\<lparr>c_blocked := (reason \<noteq> None), c_blockedReason := reason,
       c_blockedAt := (if reason \<noteq> None then Some t else None),
       c_version := c_version c + 1, c_updatedAt := t\<rparr>"

definition block_body :: "string option \<Rightarrow> event_body" where
  "block_body reason = (if reason \<noteq> None then CardBlocked reason else CardUnblocked reason)"

definition setBlockedFlag_tx ::
  "env \<Rightarrow> actor \<Rightarrow> card_no \<Rightarrow> nat \<Rightarrow> string option \<Rightarrow> (card \<times> card_event list) step" where
  "setBlockedFlag_tx E actor cardId expectedVersion reason =
     bind (ask (block_plan actor cardId expectedVersion reason)) (\<lambda>c.
     bind (now E) (\<lambda>t. save_card E actor (blocked_card c reason t) (block_body reason)))"

definition setBlockedFlag :: "env \<Rightarrow> actor \<Rightarrow> card_no \<Rightarrow> nat \<Rightarrow> string option \<Rightarrow> card step" where
  "setBlockedFlag E actor cardId expectedVersion reason =
     bind (uow_run (setBlockedFlag_tx E actor cardId expectedVersion reason)) publish_result"

definition block_card :: "env \<Rightarrow> actor \<Rightarrow> card_no \<Rightarrow> block_card_input \<Rightarrow> card step" where
  "block_card E actor cardId raw =
     bind (lift (parse_block raw)) (\<lambda>inp.
     setBlockedFlag E actor cardId (bl_expectedVersion inp) (Some (bl_reason inp)))"

definition unblock_card :: "env \<Rightarrow> actor \<Rightarrow> card_no \<Rightarrow> nat \<Rightarrow> card step" where
  "unblock_card E actor cardId raw =
     bind (lift (parse_version raw)) (\<lambda>v. setBlockedFlag E actor cardId v None)"

section \<open>Discard\<close>

definition delete_tx :: "actor \<Rightarrow> card_no \<Rightarrow> nat \<Rightarrow> uuid list step" where
  "delete_tx actor cardId expectedVersion =
     bind (ask (\<lambda>d.
       sbind (accessibleCard actor cardId d) (\<lambda>c.
       sbind (activePolicy (c_boardId c) d) (\<lambda>policy.
       sbind (decide (evaluatePolicy actor (ActCardDelete (c_reporterId c)) policy)) (\<lambda>_.
       sbind (ensureVersion c expectedVersion) (\<lambda>_.
       sbind (laneOfCard c d) (\<lambda>l.
       sbind (firstLane (c_boardId c) d) (\<lambda>entry.
       sbind (sguard (l_id l = l_id entry)
         (ConflictError ''only a card still in the first column can be discarded'' (Some c)))
       (\<lambda>_. hardDelete cardId d))))))))) (\<lambda>(storageKeys, d').
     bind (put_db (\<lambda>_. d')) (\<lambda>_. return storageKeys))"

text \<open>Best effort: a key the store refuses to delete stays.\<close>

definition delete_blob :: "env \<Rightarrow> uuid \<Rightarrow> unit step" where
  "delete_blob E key =
     modify (\<lambda>w. if e_blobDelete E key then w\<lparr>w_blobs := filter (\<lambda>b. fst b \<noteq> key) (w_blobs w)\<rparr> else w)"

definition delete_card :: "env \<Rightarrow> actor \<Rightarrow> card_no \<Rightarrow> nat \<Rightarrow> unit step" where
  "delete_card E actor cardId expectedVersion =
     bind (uow_run (delete_tx actor cardId expectedVersion)) (\<lambda>storageKeys.
     for_each storageKeys (delete_blob E))"

end
