(* ===== verification/Card_Laws.thy ===== *)
theory Card_Laws
  imports Cards
begin

text \<open>
  What every card command promises, as two locales.  \<open>card_command\<close> is the contract of
  one method on one existing card: a success was authorised, matched the version and either
  changed nothing or is a \<open>saved\<close> mutation; a failure leaves the database and everything
  outside it alone, and shows the card only to somebody who may see it.  \<open>card_mutation\<close>
  extends it for the methods that never end in a no-op.  Both are interpreted on the
  operations of \<open>Cards\<close>.
\<close>

section \<open>Transactions stay inside the database\<close>

definition outside :: "world \<Rightarrow> hint list \<times> card list \<times> (uuid \<times> string) list" where
  "outside w = (w_hints w, w_completed w, w_blobs w)"

lemma outside_updates [simp]:
  "outside (w\<lparr>w_db := d\<rparr>) = outside w" "outside (w\<lparr>w_ids := n\<rparr>) = outside w"
  "outside (w\<lparr>w_ticks := n\<rparr>) = outside w" "outside (tags_grown w ts) = outside w"
  by (simp_all add: outside_def)

lemma keeps_ask [intro, simp]: "keeps obs (ask f)"
  by (simp add: keeps_def ask_def)

lemma inside_steps [intro, simp]:
  "keeps outside (store f)" "keeps outside (put_db g)" "keeps outside (newId E)"
  "keeps outside (now E)" "keeps outside (uow_read h)"
  by (simp_all add: keeps_def store_def put_db_def newId_def now_def uow_read_def ask_def
      split: sum.splits)

lemma inside_makeEvent [intro, simp]: "keeps outside (makeEvent E a i body)"
  by (auto simp: makeEvent_def intro!: keeps_bind)

lemma inside_resolve [intro, simp]: "keeps outside (resolveTags_from E seen names)"
  by (induction E seen names rule: resolveTags_from.induct)
    (auto intro!: keeps_bind split: option.splits)

lemma inside_resolveTags [intro, simp]: "keeps outside (resolveTags E names)"
  by (simp add: resolveTags_def)

lemma inside_save_card [intro, simp]: "keeps outside (save_card E a u body)"
  by (auto simp: save_card_def intro!: keeps_bind)

lemma inside_run:
  assumes "keeps outside fn"
  shows "keeps outside (uow_run fn)"
proof -
  have "outside (snd (uow_run fn w)) = outside w" for w
    using assms[unfolded keeps_def, rule_format, of w]
    by (auto simp: uow_run_def split: prod.splits sum.splits)
  then show ?thesis by (simp add: keeps_def)
qed

lemma undone_iff: "undone w w' \<longleftrightarrow> w_db w' = w_db w \<and> outside w' = outside w"
  by (auto simp: undone_def outside_def)

lemma run_undone: "keeps outside fn \<Longrightarrow> uow_run fn w = (Inl e, w') \<Longrightarrow> undone w w'"
  by (auto simp: undone_iff dest: uow_run_rollback keepsD[OF inside_run])

lemma inside_retry:
  assumes "keeps outside fn"
  shows "keeps outside (runWithPositionRetry fn cur)"
proof -
  have "outside (snd (runWithPositionRetry fn cur w)) = outside w" for w
  proof -
    obtain r w1 where r: "uow_run fn w = (r, w1)" by fastforce
    obtain s w2 where s: "uow_run fn w1 = (s, w2)" by fastforce
    from keepsD[OF inside_run[OF assms] r] keepsD[OF inside_run[OF assms] s] r s
    show ?thesis
      by (auto simp: runWithPositionRetry_def split: sum.splits error.splits option.splits)
  qed
  then show ?thesis by (simp add: keeps_def)
qed

lemma retry_undone:
  "keeps outside fn \<Longrightarrow> runWithPositionRetry fn cur w = (Inl e, w') \<Longrightarrow> undone w w'"
  by (auto simp: undone_iff dest: retry_rollback keepsD[OF inside_retry])

text \<open>A retried success is a success of the transaction on the same database.\<close>

lemma retry_run:
  assumes "keeps outside fn" and "runWithPositionRetry fn cur w = (Inr a, w')"
  obtains w0 where "fn w0 = (Inr a, w')" and "w_db w0 = w_db w" and "outside w0 = outside w"
proof (cases "fn w = (Inr a, w')")
  case True
  then show ?thesis using that by blast
next
  case False
  then obtain w1 where w1: "fn w = (Inl DuplicatePositionError, w1)"
    and again: "fn (w1\<lparr>w_db := w_db w\<rparr>) = (Inr a, w')"
    using assms(2) by (auto simp: retry_Inr_iff)
  from keepsD[OF assms(1) w1] that[OF again] show ?thesis by simp
qed

section \<open>A saved mutation\<close>

text \<open>The tables a card command never writes.\<close>

definition db_frame :: "db \<Rightarrow> db \<Rightarrow> bool" where
  "db_frame d d' \<longleftrightarrow> t_boards d' = t_boards d \<and> t_defaults d' = t_defaults d
     \<and> t_groups d' = t_groups d \<and> t_users d' = t_users d \<and> t_lanes d' = t_lanes d
     \<and> t_locations d' = t_locations d \<and> t_comments d' = t_comments d
     \<and> t_attachments d' = t_attachments d \<and> t_relations d' = t_relations d
     \<and> t_notifications d' = t_notifications d \<and> t_policies d' = t_policies d
     \<and> t_tokens d' = t_tokens d"

lemma db_frame_refl [simp]: "db_frame d d"
  by (simp add: db_frame_def)

lemma db_frame_trans [trans]: "db_frame d d' \<Longrightarrow> db_frame d' d'' \<Longrightarrow> db_frame d d''"
  by (simp add: db_frame_def)

lemma db_frame_updates [simp]:
  "db_frame d (d'\<lparr>t_cards := x\<rparr>) = db_frame d d'" "db_frame d (d'\<lparr>t_events := y\<rparr>) = db_frame d d'"
  "db_frame d (d'\<lparr>t_tags := z\<rparr>) = db_frame d d'" "db_frame d (d'\<lparr>t_cardTags := v\<rparr>) = db_frame d d'"
  "db_frame d (d'\<lparr>t_watchers := u\<rparr>) = db_frame d d'"
  by (simp_all add: db_frame_def)

lemma db_frame_addWatcher [simp]: "db_frame d (addWatcher i u t d') = db_frame d d'"
  by (simp add: addWatcher_def)

text \<open>New watcher and tag rows are the given card's.\<close>

definition rows_of :: "card_no \<Rightarrow> db \<Rightarrow> db \<Rightarrow> bool" where
  "rows_of i d d' \<longleftrightarrow> fst ` set (t_watchers d') \<subseteq> insert i (fst ` set (t_watchers d))
     \<and> fst ` set (t_cardTags d') \<subseteq> insert i (fst ` set (t_cardTags d))"

lemma rows_of_simps [simp]:
  "rows_of i d d" "rows_of i d (d'\<lparr>t_cards := x\<rparr>) = rows_of i d d'"
  "rows_of i d (d'\<lparr>t_events := y\<rparr>) = rows_of i d d'" "rows_of i d (d'\<lparr>t_tags := z\<rparr>) = rows_of i d d'"
  "rows_of i d (addWatcher i u t d)"
  by (auto simp: rows_of_def addWatcher_def)

lemma rows_of_trans: "rows_of i d d' \<Longrightarrow> rows_of i d' d'' \<Longrightarrow> rows_of i d d''"
  unfolding rows_of_def by blast

lemma rows_of_setCardTags: "setCardTags i ts d = Inr d' \<Longrightarrow> rows_of i d d'"
  by (auto simp: rows_of_def run_simps)

text \<open>The audit envelope of an actor on a card.\<close>

definition stamped :: "actor \<Rightarrow> card_no \<Rightarrow> card_event \<Rightarrow> bool" where
  "stamped a i ev \<longleftrightarrow> ev_cardId ev = i \<and> ev_actorKind ev = a_kind a
     \<and> ev_actorId ev = (if a_kind a = KSystem then None else Some (a_id a))
     \<and> ev_actorLabel ev = (if a_kind a = KAgent then map_option snd (a_client a) else None)"

definition saved :: "actor \<Rightarrow> card \<Rightarrow> card \<Rightarrow> card_event list \<Rightarrow> world \<Rightarrow> world \<Rightarrow> bool" where
  "saved a c c' evs w w' \<longleftrightarrow>
     c_id c' = c_id c \<and> c_version c' = c_version c + 1 \<and> \<not> slot_taken c' (w_db w)
     \<and> evs \<noteq> [] \<and> (\<forall>ev \<in> set evs. stamped a (c_id c) ev)
     \<and> distinct (map ev_id evs) \<and> ev_id ` set evs \<inter> ev_id ` set (t_events (w_db w)) = {}
     \<and> db_frame (w_db w) (w_db w') \<and> rows_of (c_id c) (w_db w) (w_db w')
     \<and> t_cards (w_db w') = put_row c_id c' (t_cards (w_db w))
     \<and> t_events (w_db w') = t_events (w_db w) @ evs"

definition announced :: "card \<Rightarrow> card_event list \<Rightarrow> world \<Rightarrow> world \<Rightarrow> bool" where
  "announced c' evs w w' \<longleftrightarrow> w_hints w' = w_hints w @ [CardHint (type_of (ev_body (last evs)))
     (c_id c') (c_version c') (ev_id (last evs))] \<and> w_blobs w' = w_blobs w"

lemma slot_taken_cong: "t_cards d = t_cards d' \<Longrightarrow> slot_taken c d = slot_taken c d'"
  by (simp add: slot_taken_def)

text \<open>What \<open>save_card\<close> leaves behind.\<close>

lemma save_card_run:
  assumes "save_card E a u body w = (Inr (u', evs), w')"
    and "c_id u = c_id c" and "c_version u = c_version c + 1"
  shows "u' = u \<and> (\<exists>ev. evs = [ev] \<and> ev_body ev = body) \<and> saved a c u evs w w'
     \<and> w_db w' = (w_db w)\<lparr>t_cards := put_row c_id u (t_cards (w_db w)),
         t_events := t_events (w_db w) @ evs\<rparr>"
  using assms by (auto simp: save_card_def saved_def stamped_def run_simps)

lemma save_card_Inl:
  "save_card E a u body w = (Inl e, w') \<Longrightarrow> leaked_card e = None"
  by (auto simp: save_card_def bind_Inl_iff run_simps store_Inl_iff updateCard_def appendEvent_def
      split: if_splits)

lemma publish_result_run:
  "publish_result (c, evs) w = (Inr c', w') \<Longrightarrow> evs \<noteq> [] \<Longrightarrow>
     c' = c \<and> w_db w' = w_db w \<and> w_completed w' = w_completed w \<and> announced c evs w w'"
  by (auto simp: publish_result_def announced_def run_simps)

lemma publish_nothing: "publish_result (c, []) w = (Inr c', w') \<longleftrightarrow> c' = c \<and> w' = w"
  by (auto simp: publish_result_def run_simps)

lemma publish_result_Inl [run_simps]: "publish_result r w = (Inl e, w') \<longleftrightarrow> False"
  by (auto simp: publish_result_def bind_Inl_iff run_simps)

section \<open>Which card an error shows\<close>

definition only_shows :: "card \<Rightarrow> 'a read \<Rightarrow> bool" where
  "only_shows c r \<longleftrightarrow> (\<forall>e. r = Inl e \<longrightarrow> leaked_card e = None \<or> leaked_card e = Some c)"

named_theorems shows_intros \<open>reads whose errors show at most the given card\<close>

lemma only_shows_basic [shows_intros]:
  "only_shows c (Inr a)"
  "leaked_card e = None \<or> leaked_card e = Some c \<Longrightarrow> only_shows c (Inl e)"
  "leaked_card e = None \<or> leaked_card e = Some c \<Longrightarrow> only_shows c (sguard b e)"
  "leaked_card e = None \<or> leaked_card e = Some c \<Longrightarrow> only_shows c (of_option e v)"
  "only_shows c (requireFound v r)" "only_shows c (decide dec)"
  "only_shows c (ensureVersion c n)" "only_shows c (ensureNotArchived c')"
  by (auto simp: only_shows_def run_simps decide_no_leak)

lemma only_shows_sbind [shows_intros]:
  "only_shows c m \<Longrightarrow> (\<And>a. only_shows c (f a)) \<Longrightarrow> only_shows c (sbind m f)"
  by (auto simp: only_shows_def sbind_Inl_iff)

lemma only_shows_cases [shows_intros]:
  "only_shows c x \<Longrightarrow> only_shows c y \<Longrightarrow> only_shows c (if b then x else y)"
  "only_shows c x \<Longrightarrow> (\<And>a. only_shows c (f a)) \<Longrightarrow> only_shows c (case v of None \<Rightarrow> x | Some a \<Rightarrow> f a)"
  by (auto split: option.splits)

lemma only_shows_lanes [shows_intros]:
  "only_shows c (activePolicy i d)" "only_shows c (laneByKey i k d)" "only_shows c (firstLane i d)"
  "only_shows c (laneOfCard c' d)" "only_shows c (generateKeyBetween E x y)"
  "only_shows c (keyBetween E x y c)"
  by (auto simp: only_shows_def activePolicy_no_leak laneByKey_def firstLane_def laneOfCard_def
      generateKeyBetween_def keyBetween_def run_simps)

lemma only_shows_inputs [shows_intros]:
  "only_shows c (ensureActiveWaitingReason pol r c)" "only_shows c (slug f s)"
  "only_shows c (waitingLaneEntrySchema r' t)" "only_shows c (readNeighbor c l n d)"
  unfolding ensureActiveWaitingReason_def slug_def check_def waitingLaneEntrySchema_def
    readNeighbor_def
  by (auto intro!: shows_intros)

lemma only_shows_globalPolicy [shows_intros]: "only_shows c (globalPolicy d)"
  by (simp add: only_shows_def globalPolicy_no_leak)

lemma only_shows_canAccess [shows_intros]: "only_shows c (canAccessBoard a b d)"
  unfolding canAccessBoard_def by (auto intro!: shows_intros)

lemma only_shows_assignable [shows_intros]: "only_shows c (requireAssignable E i j d)"
  unfolding requireAssignable_def by (auto intro!: shows_intros)

lemma only_shows_target [shows_intros]: "only_shows c (reopen_target c' d)"
  by (auto simp: reopen_target_def intro!: shows_intros)

lemma only_shows_move [shows_intros]:
  "only_shows c (move_gates a l l' policy)" "only_shows c (move_waiting c l l' policy inp)"
  "only_shows c (move_position E c l inp d)"
  unfolding move_gates_def move_waiting_def move_position_def
  by (auto intro!: shows_intros)

text \<open>A plan that first looks the card up shows no card its caller may not see.\<close>

lemma discreet_plan:
  assumes "sbind (accessibleCard a i d) f = Inl e" and "leaked_card e = Some c"
    and "\<And>c. only_shows c (f c)"
  shows "accessibleCard a i d = Inr c"
proof (cases "accessibleCard a i d")
  case (Inl e')
  with assms(1,2) show ?thesis by (simp add: accessibleCard_no_leak)
next
  case (Inr c0)
  with assms(1,2) assms(3)[of c0] show ?thesis by (auto simp: only_shows_def)
qed

lemma discreet_plans:
  assumes "leaked_card e = Some c"
  shows "plan_move E a i mi d = Inl e \<Longrightarrow> accessibleCard a i d = Inr c"
    and "cancel_plan E a i ci d = Inl e \<Longrightarrow> accessibleCard a i d = Inr c"
    and "reopen_plan E a i v d = Inl e \<Longrightarrow> accessibleCard a i d = Inr c"
    and "archive_plan a i v d = Inl e \<Longrightarrow> accessibleCard a i d = Inr c"
    and "block_plan a i v r d = Inl e \<Longrightarrow> accessibleCard a i d = Inr c"
    and "update_plan a i v d = Inl e \<Longrightarrow> accessibleCard a i d = Inr c"
  unfolding plan_move_def cancel_plan_def reopen_plan_def archive_plan_def block_plan_def
    update_plan_def
  by (erule discreet_plan[OF _ assms]; auto intro!: shows_intros)+

section \<open>What the plans establish\<close>

definition move_allowed :: "actor \<Rightarrow> lane \<Rightarrow> lane \<Rightarrow> policy_document \<Rightarrow> bool" where
  "move_allowed a fr to policy \<longleftrightarrow> permitted a PermCardMove policy
     \<and> (\<not> is_reorder fr to \<longrightarrow>
          (l_key fr = ''done'' \<longrightarrow> permitted a PermCardReopen policy)
          \<and> (a_kind a \<noteq> KSystem \<longrightarrow> p_transitionEnforcement policy \<longrightarrow>
               edge (l_key fr) (l_key to) \<in> set (p_transitions policy)))"

lemma move_gates_iff: "move_gates a fr to policy = Inr u \<longleftrightarrow> move_allowed a fr to policy"
  by (cases "is_reorder fr to")
    (auto simp: move_gates_def move_allowed_def run_simps gated_action move_action permitted_def)

text \<open>Entry into the waiting lane, and only that, takes an active reason and a date.\<close>

definition enters_waiting :: "lane \<Rightarrow> lane \<Rightarrow> bool" where
  "enters_waiting fr to \<longleftrightarrow> \<not> is_reorder fr to \<and> l_key to = ''waiting_parts_vendor''"

definition active_reason :: "policy_document \<Rightarrow> string \<Rightarrow> bool" where
  "active_reason policy r \<longleftrightarrow>
     (\<exists>choice \<in> set (p_waitingReasons policy). wr_key choice = r \<and> wr_active choice)"

lemma move_waiting_InrD:
  "move_waiting c fr to policy inp = Inr wt \<Longrightarrow>
     (if enters_waiting fr to
      then \<exists>r t. wt = Some (r, t) \<and> mv_waitingReason inp = Some r
        \<and> mv_expectedResumeAt inp = Some t \<and> active_reason policy r
      else wt = None)"
  by (auto simp: move_waiting_def enters_waiting_def active_reason_def ensureActiveWaitingReason_def
      run_simps split: if_splits)

definition neighbor_ok :: "card \<Rightarrow> lane \<Rightarrow> card_no option \<Rightarrow> db \<Rightarrow> card option \<Rightarrow> bool" where
  "neighbor_ok c toLane i d nb \<longleftrightarrow> (case i of None \<Rightarrow> nb = None
    | Some n \<Rightarrow> (\<exists>x. nb = Some x \<and> findCard n d = Some x \<and> c_id x \<noteq> c_id c
        \<and> c_laneId x = l_id toLane \<and> c_archivedAt x = None))"

lemma readNeighbor_iff [run_simps]: "readNeighbor c l i d = Inr nb \<longleftrightarrow> neighbor_ok c l i d nb"
  by (auto simp: readNeighbor_def neighbor_ok_def split: option.splits)

lemma keyBetween_iff [run_simps]: "keyBetween E x y c = Inr p \<longleftrightarrow> e_keyBetween E x y = Some p"
  "generateKeyBetween E x y = Inr p \<longleftrightarrow> e_keyBetween E x y = Some p"
  by (simp_all add: keyBetween_def generateKeyBetween_def run_simps)

lemma move_position_InrD:
  "move_position E c to inp d = Inr p \<Longrightarrow>
     \<exists>prev nxt. neighbor_ok c to (mv_prevCardId inp) d prev
       \<and> neighbor_ok c to (mv_nextCardId inp) d nxt
       \<and> e_keyBetween E (map_option c_position prev) (map_option c_position nxt) \<noteq> None
       \<and> e_keyBetween E (positionBefore (l_id to) (map_option c_position nxt) (c_id c) d)
           (map_option c_position nxt) = Some p"
  by (auto simp: move_position_def run_simps)

lemma plan_move_InrD:
  assumes "plan_move E a i inp d = Inr pl"
  shows "accessibleCard a i d = Inr (pl_card pl) \<and> c_archivedAt (pl_card pl) = None
    \<and> laneOfCard (pl_card pl) d = Inr (pl_from pl)
    \<and> findLaneByKey (c_boardId (pl_card pl)) (mv_toLane inp) d = Some (pl_to pl)
    \<and> c_version (pl_card pl) = mv_expectedVersion inp
    \<and> (\<exists>policy. activePolicy (c_boardId (pl_card pl)) d = Inr policy
         \<and> move_allowed a (pl_from pl) (pl_to pl) policy
         \<and> move_waiting (pl_card pl) (pl_from pl) (pl_to pl) policy inp = Inr (pl_waiting pl))
    \<and> move_position E (pl_card pl) (pl_to pl) inp d = Inr (pl_position pl)"
  using assms unfolding plan_move_def sbind_Inr_iff
  by (auto simp: move_gates_iff laneByKey_iff ensureVersion_iffs ensureNotArchived_iffs
      simp del: accessibleCard_iff)

lemma cancel_plan_InrD:
  assumes "cancel_plan E a i inp d = Inr (c, fr, to, p)"
  shows "accessibleCard a i d = Inr c \<and> c_archivedAt c = None \<and> laneOfCard c d = Inr fr
    \<and> l_key fr \<noteq> ''done'' \<and> c_version c = cn_expectedVersion inp
    \<and> findLaneByKey (c_boardId c) ''done'' d = Some to
    \<and> (\<exists>policy. activePolicy (c_boardId c) d = Inr policy \<and> permitted a PermCardCancel policy)
    \<and> e_keyBetween E (map_option c_position (edgeOfLane (l_id to) LastEdge d)) None = Some p"
  using assms unfolding cancel_plan_def sbind_Inr_iff
  by (auto simp: run_simps gated_action simp del: accessibleCard_iff)

lemma reopen_plan_InrD:
  assumes "reopen_plan E a i v d = Inr (c, to, p)"
  shows "accessibleCard a i d = Inr c \<and> c_version c = v \<and> reopen_target c d = Inr to
    \<and> (\<exists>fr. laneOfCard c d = Inr fr \<and> l_key fr = ''done'')
    \<and> (\<exists>policy. activePolicy (c_boardId c) d = Inr policy \<and> permitted a PermCardReopen policy)
    \<and> e_keyBetween E (map_option c_position (edgeOfLane (l_id to) LastEdge d)) None = Some p"
  using assms unfolding reopen_plan_def sbind_Inr_iff
  by (auto simp: run_simps gated_action simp del: accessibleCard_iff split: if_splits)

lemma archive_plan_InrD:
  assumes "archive_plan a i v d = Inr c"
  shows "accessibleCard a i d = Inr c \<and> c_archivedAt c = None \<and> c_version c = v
    \<and> (\<exists>fr. laneOfCard c d = Inr fr \<and> l_key fr = ''done'')
    \<and> (\<exists>policy. activePolicy (c_boardId c) d = Inr policy \<and> permitted a PermCardArchive policy)"
  using assms unfolding archive_plan_def sbind_Inr_iff
  by (auto simp: run_simps gated_action simp del: accessibleCard_iff)

definition block_perm :: "string option \<Rightarrow> permission" where
  "block_perm reason = (case reason of None \<Rightarrow> PermCardUnblock | Some _ \<Rightarrow> PermCardBlock)"

lemma block_plan_InrD:
  assumes "block_plan a i v reason d = Inr c"
  shows "accessibleCard a i d = Inr c \<and> c_archivedAt c = None \<and> c_version c = v
    \<and> c_blocked c \<noteq> (reason \<noteq> None)
    \<and> (\<exists>policy. activePolicy (c_boardId c) d = Inr policy \<and> permitted a (block_perm reason) policy)"
  using assms unfolding block_plan_def sbind_Inr_iff
  by (cases reason)
    (auto simp: run_simps gated_action block_action_def block_perm_def simp del: accessibleCard_iff)

lemma update_plan_InrD:
  assumes "update_plan a i v d = Inr (c, policy)"
  shows "accessibleCard a i d = Inr c \<and> c_archivedAt c = None \<and> c_version c = v
    \<and> activePolicy (c_boardId c) d = Inr policy \<and> permitted a PermCardUpdate policy"
  using assms unfolding update_plan_def sbind_Inr_iff
  by (auto simp: run_simps gated_action simp del: accessibleCard_iff)

section \<open>What the transactions do\<close>

lemma saved_cong: "w_db w1 = w_db w \<Longrightarrow> saved a c c' evs w1 w' = saved a c c' evs w w'"
  by (simp add: saved_def)

lemma moved_card_simps [simp]:
  "c_id (moved_card pl t st) = c_id (pl_card pl)"
  "c_version (moved_card pl t st) = c_version (pl_card pl) + 1"
  "c_laneId (moved_card pl t st) = l_id (pl_to pl)"
  "c_position (moved_card pl t st) = pl_position pl"
  "c_boardId (moved_card pl t st) = c_boardId (pl_card pl)"
  "c_blocked (moved_card pl t st) = c_blocked (pl_card pl)"
  "c_blockedReason (moved_card pl t st) = c_blockedReason (pl_card pl)"
  "c_blockedAt (moved_card pl t st) = c_blockedAt (pl_card pl)"
  "c_archivedAt (moved_card pl t st) = c_archivedAt (pl_card pl)"
  "c_title (moved_card pl t st) = c_title (pl_card pl)"
  "c_reporterId (moved_card pl t st) = c_reporterId (pl_card pl)"
  "c_assigneeId (moved_card pl t st) = c_assigneeId (pl_card pl)"
  by (simp_all add: moved_card_def Let_def split: option.splits prod.splits)

lemma move_tx_run:
  assumes "move_tx E a i inp w = (Inr ((c', evs), completed), w')"
  shows "\<exists>pl t started. plan_move E a i inp (w_db w) = Inr pl \<and> c' = moved_card pl t started
    \<and> (\<not> starts_work pl \<longrightarrow> started = c_workStartedAt (pl_card pl))
    \<and> (starts_work pl \<longrightarrow> started \<noteq> None) \<and> completed = completes pl
    \<and> (\<exists>ev. evs = [ev] \<and> ev_body ev = move_body pl inp (w_db w))
    \<and> saved a (pl_card pl) c' evs w w' \<and> outside w' = outside w
    \<and> w_db w' = (w_db w)\<lparr>t_cards := put_row c_id c' (t_cards (w_db w)),
        t_events := t_events (w_db w) @ evs\<rparr>"
proof -
  from assms obtain pl where pl: "plan_move E a i inp (w_db w) = Inr pl"
    and fin: "completed = completes pl"
    and rest: "(if starts_work pl
      then save_card E a (moved_card pl (e_clock E (w_ticks w)) (Some (e_clock E (Suc (w_ticks w)))))
        (move_body pl inp (w_db w)) (w\<lparr>w_ticks := Suc (Suc (w_ticks w))\<rparr>)
      else save_card E a (moved_card pl (e_clock E (w_ticks w)) (c_workStartedAt (pl_card pl)))
        (move_body pl inp (w_db w)) (w\<lparr>w_ticks := Suc (w_ticks w)\<rparr>)) = (Inr (c', evs), w')"
    unfolding move_tx_def by (auto simp: run_simps split: if_splits)
  then obtain n started where
    save: "save_card E a (moved_card pl (e_clock E (w_ticks w)) started) (move_body pl inp (w_db w))
      (w\<lparr>w_ticks := n\<rparr>) = (Inr (c', evs), w')"
    and st: "\<not> starts_work pl \<longrightarrow> started = c_workStartedAt (pl_card pl)"
      "starts_work pl \<longrightarrow> started \<noteq> None"
    by (cases "starts_work pl") auto
  from save_card_run[OF save, of "pl_card pl"] keepsD[OF inside_save_card save]
  have "c' = moved_card pl (e_clock E (w_ticks w)) started" "saved a (pl_card pl) c' evs w w'"
    "outside w' = outside w" "\<exists>ev. evs = [ev] \<and> ev_body ev = move_body pl inp (w_db w)"
    "w_db w' = (w_db w)\<lparr>t_cards := put_row c_id c' (t_cards (w_db w)),
      t_events := t_events (w_db w) @ evs\<rparr>"
    by (simp_all add: saved_def)
  with pl st fin show ?thesis
    by (intro exI[of _ pl] exI[of _ "e_clock E (w_ticks w)"] exI[of _ started]) simp
qed

lemma cancel_tx_run:
  assumes "cancel_tx E a i inp w = (Inr (c', evs), w')"
  shows "\<exists>c fr to p t. cancel_plan E a i inp (w_db w) = Inr (c, fr, to, p)
    \<and> c' = cancelled_card c (cn_resolution inp) to p t
    \<and> (\<exists>ev. evs = [ev] \<and> ev_body ev = cancel_body c (cn_resolution inp) fr)
    \<and> saved a c c' evs w w' \<and> outside w' = outside w
    \<and> w_db w' = (w_db w)\<lparr>t_cards := put_row c_id c' (t_cards (w_db w)),
        t_events := t_events (w_db w) @ evs\<rparr>"
proof -
  from assms obtain c fr to p t where
    pl: "cancel_plan E a i inp (w_db w) = Inr (c, fr, to, p)"
    and save: "save_card E a (cancelled_card c (cn_resolution inp) to p t)
      (cancel_body c (cn_resolution inp) fr) (w\<lparr>w_ticks := Suc (w_ticks w)\<rparr>) = (Inr (c', evs), w')"
    unfolding cancel_tx_def by (auto simp: run_simps split: prod.splits)
  from save_card_run[OF save, of c] pl keepsD[OF inside_save_card save]
  show ?thesis by (auto simp: saved_def cancelled_card_def)
qed

lemma reopened_card_simps [simp]:
  "c_id (reopened_card c l p d t) = c_id c" "c_version (reopened_card c l p d t) = c_version c + 1"
  "c_laneId (reopened_card c l p d t) = l_id l" "c_position (reopened_card c l p d t) = p"
  "c_boardId (reopened_card c l p d t) = c_boardId c"
  "c_resolution (reopened_card c l p d t) = None" "c_archivedAt (reopened_card c l p d t) = None"
  "c_blocked (reopened_card c l p d t) = c_blocked c"
  "c_blockedReason (reopened_card c l p d t) = c_blockedReason c"
  "c_blockedAt (reopened_card c l p d t) = c_blockedAt c"
  by (simp_all add: reopened_card_def Let_def)

lemma reopen_tx_run:
  assumes "reopen_tx E a i v w = (Inr (c', evs), w')"
  shows "\<exists>c to p t. reopen_plan E a i v (w_db w) = Inr (c, to, p)
    \<and> c' = reopened_card c to p (w_db w) t
    \<and> (\<exists>ev. evs = [ev] \<and> ev_body ev = CardReopened (l_key to))
    \<and> saved a c c' evs w w' \<and> outside w' = outside w
    \<and> w_db w' = (w_db w)\<lparr>t_cards := put_row c_id c' (t_cards (w_db w)),
        t_events := t_events (w_db w) @ evs\<rparr>"
proof -
  from assms obtain c to p t where
    pl: "reopen_plan E a i v (w_db w) = Inr (c, to, p)"
    and save: "save_card E a (reopened_card c to p (w_db w) t) (CardReopened (l_key to)) (w\<lparr>w_ticks := Suc (w_ticks w)\<rparr>)
      = (Inr (c', evs), w')"
    unfolding reopen_tx_def by (auto simp: run_simps split: prod.splits)
  from save_card_run[OF save, of c] pl keepsD[OF inside_save_card save]
  show ?thesis by (auto simp: saved_def)
qed

lemma archive_tx_run:
  assumes "archive_tx E a i v w = (Inr (c', evs), w')"
  shows "\<exists>c t. archive_plan a i v (w_db w) = Inr c \<and> c' = archived_card c t
    \<and> (\<exists>ev. evs = [ev] \<and> ev_body ev = CardArchived)
    \<and> saved a c c' evs w w' \<and> outside w' = outside w
    \<and> w_db w' = (w_db w)\<lparr>t_cards := put_row c_id c' (t_cards (w_db w)),
        t_events := t_events (w_db w) @ evs\<rparr>"
proof -
  from assms obtain c t where
    pl: "archive_plan a i v (w_db w) = Inr c"
    and save: "save_card E a (archived_card c t) CardArchived (w\<lparr>w_ticks := Suc (w_ticks w)\<rparr>) = (Inr (c', evs), w')"
    unfolding archive_tx_def by (auto simp: run_simps)
  from save_card_run[OF save, of c] pl keepsD[OF inside_save_card save]
  show ?thesis by (auto simp: saved_def archived_card_def)
qed

lemma block_tx_run:
  assumes "setBlockedFlag_tx E a i v reason w = (Inr (c', evs), w')"
  shows "\<exists>c t. block_plan a i v reason (w_db w) = Inr c \<and> c' = blocked_card c reason t
    \<and> (\<exists>ev. evs = [ev] \<and> ev_body ev = block_body reason)
    \<and> saved a c c' evs w w' \<and> outside w' = outside w
    \<and> w_db w' = (w_db w)\<lparr>t_cards := put_row c_id c' (t_cards (w_db w)),
        t_events := t_events (w_db w) @ evs\<rparr>"
proof -
  from assms obtain c t where
    pl: "block_plan a i v reason (w_db w) = Inr c"
    and save: "save_card E a (blocked_card c reason t) (block_body reason) (w\<lparr>w_ticks := Suc (w_ticks w)\<rparr>) = (Inr (c', evs), w')"
    unfolding setBlockedFlag_tx_def by (auto simp: run_simps)
  from save_card_run[OF save, of c] pl keepsD[OF inside_save_card save]
  show ?thesis by (auto simp: saved_def blocked_card_def)
qed

end
