(* ===== verification/Card_Update.thy ===== *)
theory Card_Update
  imports Card_Laws
begin

text \<open>
  The per-field update of \<open>CardService.update\<close>: what one field edit does, that edits
  compose, and so what the whole transaction does.  An edit either makes an event or leaves
  the card and the database as they were, and it never touches where the card is, its
  resolution, its blocked flag or its version.
\<close>

section \<open>Edits\<close>

text \<open>What no edit changes.\<close>

definition core_of :: "card \<Rightarrow> (card_no \<times> uuid \<times> uuid \<times> string \<times> nat) \<times> resolution option \<times>
    (bool \<times> string option \<times> instant option) \<times> instant option \<times> (uuid \<times> card_origin \<times> instant)" where
  "core_of c = ((c_id c, c_boardId c, c_laneId c, c_position c, c_version c), c_resolution c,
     (c_blocked c, c_blockedReason c, c_blockedAt c), c_archivedAt c,
     (c_reporterId c, c_origin c, c_createdAt c))"

definition in_waiting_lane :: "card \<Rightarrow> db \<Rightarrow> bool" where
  "in_waiting_lane c d \<longleftrightarrow> (\<exists>l. laneOfCard c d = Inr l \<and> l_key l = ''waiting_parts_vendor'')"

definition edited :: "actor \<Rightarrow> card \<Rightarrow> edit_state \<Rightarrow> world \<Rightarrow> edit_state \<Rightarrow> world \<Rightarrow> bool" where
  "edited a c st w st' w' \<longleftrightarrow>
     core_of (fst st') = core_of (fst st) \<and> db_frame (w_db w) (w_db w')
     \<and> rows_of (c_id c) (w_db w) (w_db w')
     \<and> t_cards (w_db w') = t_cards (w_db w) \<and> t_events (w_db w') = t_events (w_db w)
     \<and> outside w' = outside w
     \<and> (c_waitingReason (fst st') \<noteq> c_waitingReason (fst st) \<longrightarrow> in_waiting_lane c (w_db w))
     \<and> (\<exists>more. snd st' = snd st @ more \<and> (\<forall>ev \<in> set more. stamped a (c_id c) ev)
          \<and> (more = [] \<longrightarrow> fst st' = fst st \<and> w_db w' = w_db w))"

definition edits :: "actor \<Rightarrow> card \<Rightarrow> (edit_state \<Rightarrow> edit_state step) \<Rightarrow> bool" where
  "edits a c f \<longleftrightarrow> (\<forall>st w st' w'. c_id (fst st) = c_id c \<longrightarrow> f st w = (Inr st', w') \<longrightarrow>
     edited a c st w st' w')"

lemma laneOfCard_frame: "db_frame d d' \<Longrightarrow> laneOfCard c d' = laneOfCard c d"
  by (simp add: db_frame_def laneOfCard_def listLanes_def)

lemma edited_refl [simp]: "edited a c st w st w' \<longleftrightarrow> outside w' = outside w \<and> w_db w' = w_db w"
  by (auto simp: edited_def)

lemma edited_trans:
  assumes 1: "edited a c st w st1 w1" and 2: "edited a c st1 w1 st2 w2"
  shows "edited a c st w st2 w2"
proof -
  from 1 2 have fr: "db_frame (w_db w) (w_db w1)" and "db_frame (w_db w1) (w_db w2)"
    by (simp_all add: edited_def)
  then have "db_frame (w_db w) (w_db w2)" by (rule db_frame_trans)
  moreover from 1 2 have "rows_of (c_id c) (w_db w) (w_db w2)"
    unfolding edited_def by (blast intro: rows_of_trans)
  ultimately show ?thesis using 1 2 fr
    by (auto simp: edited_def in_waiting_lane_def laneOfCard_frame)
qed

lemma editsD:
  "edits a c f \<Longrightarrow> c_id (fst st) = c_id c \<Longrightarrow> f st w = (Inr st', w') \<Longrightarrow> edited a c st w st' w'"
  unfolding edits_def by blast

lemma edited_id: "edited a c st w st' w' \<Longrightarrow> c_id (fst st') = c_id (fst st)"
  by (simp add: edited_def core_of_def)

lemma edits_bind [intro]:
  assumes "edits a c f" and "edits a c g"
  shows "edits a c (\<lambda>st. bind (f st) g)"
  unfolding edits_def
proof (intro allI impI)
  fix st w st' w'
  assume id: "c_id (fst st) = c_id c" and run: "bind (f st) g w = (Inr st', w')"
  from run obtain st1 w1 where 1: "f st w = (Inr st1, w1)" and 2: "g st1 w1 = (Inr st', w')"
    by (auto simp: run_simps)
  have e1: "edited a c st w st1 w1" by (rule editsD[OF assms(1) id 1])
  have "edited a c st1 w1 st' w'" using editsD[OF assms(2) _ 2] edited_id[OF e1] id by simp
  with e1 show "edited a c st w st' w'" by (rule edited_trans)
qed

text \<open>What may happen before a field changes: nothing, a check, a new watcher.\<close>

definition harmless :: "card \<Rightarrow> unit step \<Rightarrow> bool" where
  "harmless c m \<longleftrightarrow> (\<forall>w u w'. m w = (Inr u, w') \<longrightarrow> db_frame (w_db w) (w_db w')
     \<and> rows_of (c_id c) (w_db w) (w_db w')
     \<and> t_cards (w_db w') = t_cards (w_db w) \<and> t_events (w_db w') = t_events (w_db w)
     \<and> outside w' = outside w)"

lemma harmless_basic [intro, simp]:
  "harmless c (return u)" "harmless c (lift r)" "harmless c (before_assign E c v)"
  "harmless c (before_locate v')"
  by (auto simp: harmless_def before_assign_def before_locate_def run_simps
      split: option.splits)

lemma fieldChanged_run:
  assumes "fieldChanged E a body st w = (Inr st', w')" and "c_id (fst st) = i"
  shows "fst st' = fst st \<and> (\<exists>ev. snd st' = snd st @ [ev] \<and> stamped a i ev \<and> ev_body ev = body)
     \<and> w_db w' = w_db w \<and> outside w' = outside w"
  using assms by (auto simp: fieldChanged_def run_simps stamped_def outside_def)

lemma edit_field_run:
  assumes run: "edit_field E a field enc set_it current supplied before st w = (Inr st', w')"
    and id: "c_id (fst st) = c_id c" and "harmless c before"
    and core: "\<And>v n. core_of (set_it v n) = core_of n"
    and wait: "in_waiting_lane c (w_db w) \<or> (\<forall>v n. c_waitingReason (set_it v n) = c_waitingReason n)"
  shows "edited a c st w st' w'"
proof (cases "supplied = None \<or> supplied = Some current")
  case True
  with run show ?thesis by (auto simp: edit_field_def run_simps)
next
  case False
  then obtain v where v: "supplied = Some v" "v \<noteq> current" by auto
  with run obtain w1 where b: "before w = (Inr (), w1)" and
    f: "fieldChanged E a (changeOf field (enc current) (enc v)) (set_it v (fst st), snd st) w1
      = (Inr st', w')"
    by (auto simp: edit_field_def run_simps)
  from id core[of v "fst st"] have "c_id (fst (set_it v (fst st), snd st)) = c_id c"
    by (simp add: core_of_def)
  from fieldChanged_run[OF f this] b assms show ?thesis
    by (auto simp: edited_def harmless_def)
qed

lemma edits_field [intro]:
  "harmless c before \<Longrightarrow> (\<And>v n. core_of (set_it v n) = core_of n) \<Longrightarrow>
     (\<And>v n. c_waitingReason (set_it v n) = c_waitingReason n) \<Longrightarrow>
     edits a c (edit_field E a field enc set_it current supplied before)"
  by (auto simp: edits_def intro!: edit_field_run)

text \<open>With the same tag set, every name was found, so nothing was inserted.\<close>

lemma no_new_tags:
  assumes "sameTagSet (map tag_name (listTagsByCard i d)) (map tag_name ts)"
    and "set new \<subseteq> set ts" and "\<forall>t \<in> set new. findTagByNameCi (tag_name t) d = None"
  shows "new = []"
proof (rule ccontr)
  assume "new \<noteq> []"
  then obtain t where t: "t \<in> set new" by (cases new) auto
  with assms(1,2) have "to_lower (tag_name t) \<in> to_lower ` tag_name ` set (listTagsByCard i d)"
    by (auto simp: sameTagSet_iff image_iff)
  moreover have "set (listTagsByCard i d) \<subseteq> set (t_tags d)"
    by (auto simp: listTagsByCard_def split: if_splits)
  ultimately obtain u where "u \<in> set (t_tags d)" "to_lower (tag_name u) = to_lower (tag_name t)"
    by auto
  with assms(3) t show False by (auto simp: findTagByNameCi_def find_None_iff)
qed

lemma edits_tags [intro]: "edits a c (edit_tags E a c supplied)"
  unfolding edits_def
proof (intro allI impI)
  fix st w st' w'
  assume id: "c_id (fst st) = c_id c" and run: "edit_tags E a c supplied st w = (Inr st', w')"
  show "edited a c st w st' w'"
  proof (cases supplied)
    case None
    with run show ?thesis by (auto simp: edit_tags_def run_simps)
  next
    case (Some names)
    let ?old = "map tag_name (listTagsByCard (c_id c) (w_db w))"
    from Some run obtain ts w1 where r: "resolveTags E names w = (Inr ts, w1)" and
      rest: "(if sameTagSet ?old (map tag_name ts) then return st
        else bind (store (setCardTags (c_id c) (map tag_id ts))) (\<lambda>_.
          fieldChanged E a (changeOf FieldTags (FTags ?old) (FTags (map tag_name ts))) st)) w1
        = (Inr st', w')"
      by (auto simp: edit_tags_def run_simps)
    from resolveTags_run[OF r] obtain new where new: "w1 = tags_grown w new" "set new \<subseteq> set ts"
      "\<forall>t \<in> set new. findTagByNameCi (tag_name t) (w_db w) = None" by blast
    show ?thesis
    proof (cases "sameTagSet ?old (map tag_name ts)")
      case True
      with rest new no_new_tags[OF True new(2,3)] show ?thesis by (simp add: run_simps)
    next
      case False
      with rest obtain w2 where s: "store (setCardTags (c_id c) (map tag_id ts)) w1 = (Inr (), w2)" and
        f: "fieldChanged E a (changeOf FieldTags (FTags ?old) (FTags (map tag_name ts))) st w2
          = (Inr st', w')"
        by (auto simp: run_simps)
      from s have "rows_of (c_id c) (w_db w1) (w_db w2)"
        by (auto simp: store_iffs dest: rows_of_setCardTags)
      moreover from new(1) have "rows_of (c_id c) (w_db w) (w_db w1)" by simp
      ultimately have "rows_of (c_id c) (w_db w) (w_db w2)" by (blast intro: rows_of_trans)
      with fieldChanged_run[OF f id] s new(1) show ?thesis
        by (auto simp: edited_def run_simps)
    qed
  qed
qed

lemma edits_waiting [intro]: "edits a c (edit_waiting E a policy c inp)"
  unfolding edits_def
proof (intro allI impI)
  fix st w st' w'
  assume id: "c_id (fst st) = c_id c"
    and run: "edit_waiting E a policy c inp st w = (Inr st', w')"
  show "edited a c st w st' w'"
  proof (cases "ui_waitingReason inp = None \<and> ui_expectedResumeAt inp = None")
    case True
    with run show ?thesis by (simp add: edit_waiting_def run_simps)
  next
    case False
    with run obtain st1 w1 where lane: "in_waiting_lane c (w_db w)" and
      1: "edit_field E a FieldWaitingReason (nullable FText) (\<lambda>v n. n\<lparr>c_waitingReason := v\<rparr>)
        (c_waitingReason c) (map_option Some (ui_waitingReason inp))
        (case ui_waitingReason inp of None \<Rightarrow> return ()
         | Some r \<Rightarrow> lift (ensureActiveWaitingReason policy r c)) st w = (Inr st1, w1)" and
      2: "edit_field E a FieldExpectedResumeAt (nullable FDay)
        (\<lambda>v n. n\<lparr>c_expectedResumeAt := v, c_resumeAlertedAt := None\<rparr>) (c_expectedResumeAt c)
        (map_option Some (ui_expectedResumeAt inp)) (return ()) st1 w1 = (Inr st', w')"
      by (auto simp: edit_waiting_def in_waiting_lane_def run_simps)
    have e1: "edited a c st w st1 w1"
      by (rule edit_field_run[OF 1 id]) (auto simp: core_of_def lane split: option.splits)
    have "edited a c st1 w1 st' w'"
      by (rule edit_field_run[OF 2]) (use edited_id[OF e1] id in \<open>auto simp: core_of_def\<close>)
    with e1 show ?thesis by (rule edited_trans)
  qed
qed

lemma update_edits_run:
  assumes "update_edits E a policy c inp w = (Inr st', w')"
  shows "edited a c (c, []) w st' w'"
proof -
  have "edits a c (\<lambda>st. bind (edit_field E a FieldTitle FText (\<lambda>v n. n\<lparr>c_title := v\<rparr>)
       (c_title c) (ui_title inp) (return ()) st) (\<lambda>st.
     bind (edit_field E a FieldDescription FText (\<lambda>v n. n\<lparr>c_description := v\<rparr>)
       (c_description c) (ui_description inp) (return ()) st) (\<lambda>st.
     bind (edit_field E a FieldPriority FPriority (\<lambda>v n. n\<lparr>c_priority := v\<rparr>)
       (c_priority c) (ui_priority inp) (return ()) st) (\<lambda>st.
     bind (edit_field E a FieldEstimateMinutes (nullable FNumber)
       (\<lambda>v n. n\<lparr>c_estimateMinutes := v\<rparr>)
       (c_estimateMinutes c) (ui_estimateMinutes inp) (return ()) st) (\<lambda>st.
     bind (edit_field E a FieldAssigneeId (nullable FId) (\<lambda>v n. n\<lparr>c_assigneeId := v\<rparr>)
       (c_assigneeId c) (ui_assigneeId inp) (before_assign E c (ui_assigneeId inp)) st) (\<lambda>st.
     bind (edit_field E a FieldLocationId (nullable FId) (\<lambda>v n. n\<lparr>c_locationId := v\<rparr>)
       (c_locationId c) (ui_locationId inp) (before_locate (ui_locationId inp)) st) (\<lambda>st.
     bind (edit_tags E a c (ui_tags inp) st)
       (edit_waiting E a policy c inp))))))))"
    by (intro edits_bind edits_tags edits_waiting edits_field) (auto simp: core_of_def)
  from editsD[OF this, of "(c, [])"] assms show ?thesis by (simp add: update_edits_def)
qed

section \<open>The transaction\<close>

lemma append_events_run:
  "for_each evs (\<lambda>ev. store (appendEvent ev)) w = (Inr u, w') \<Longrightarrow>
     w' = w\<lparr>w_db := (w_db w)\<lparr>t_events := t_events (w_db w) @ evs\<rparr>\<rparr>
     \<and> distinct (map ev_id evs) \<and> ev_id ` set evs \<inter> ev_id ` set (t_events (w_db w)) = {}"
proof (induction evs arbitrary: w)
  case Nil
  then show ?case by (simp add: run_simps)
next
  case (Cons ev evs)
  then obtain w1 where "store (appendEvent ev) w = (Inr (), w1)"
    and r: "for_each evs (\<lambda>ev. store (appendEvent ev)) w1 = (Inr u, w')"
    by (auto simp: run_simps)
  with Cons.IH[OF r] show ?case by (auto simp: run_simps)
qed

text \<open>Nothing changed, or a saved mutation with one event per changed field.\<close>

lemma update_tx_run:
  assumes "update_tx E a i inp w = (Inr (c', evs), w')"
  shows "\<exists>c policy. update_plan a i (ui_expectedVersion inp) (w_db w) = Inr (c, policy)
    \<and> outside w' = outside w
    \<and> (if evs = [] then c' = c \<and> w_db w' = w_db w
       else saved a c c' evs w w'
         \<and> core_of (c'\<lparr>c_version := c_version c\<rparr>) = core_of c
         \<and> (c_waitingReason c' \<noteq> c_waitingReason c \<longrightarrow> in_waiting_lane c (w_db w)))"
proof -
  from assms obtain c policy nxt evs' w1 where
    plan: "update_plan a i (ui_expectedVersion inp) (w_db w) = Inr (c, policy)" and
    ed: "update_edits E a policy c inp w = (Inr (nxt, evs'), w1)" and
    rest: "(if evs' = [] then return (c, [])
      else bind (now E) (\<lambda>t. let updated = nxt\<lparr>c_version := c_version c + 1, c_updatedAt := t\<rparr> in
        bind (store (updateCard updated)) (\<lambda>_.
        bind (for_each evs' (\<lambda>ev. store (appendEvent ev))) (\<lambda>_.
        return (updated, evs'))))) w1 = (Inr (c', evs), w')"
    by (auto simp: update_tx_def bind_Inr_iff ask_iff split: prod.splits)
  note e = update_edits_run[OF ed]
  show ?thesis
  proof (cases "evs' = []")
    case True
    with plan rest e show ?thesis by (auto simp: edited_def run_simps)
  next
    case False
    let ?u = "nxt\<lparr>c_version := c_version c + 1, c_updatedAt := e_clock E (w_ticks w1)\<rparr>"
    from False rest obtain w2 where
      up: "store (updateCard ?u) (w1\<lparr>w_ticks := Suc (w_ticks w1)\<rparr>) = (Inr (), w2)" and
      app: "for_each evs' (\<lambda>ev. store (appendEvent ev)) w2 = (Inr (), w')" and
      c': "c' = ?u" "evs = evs'"
      by (auto simp: Let_def bind_Inr_iff now_iffs return_iffs)
    from e have "slot_taken ?u (w_db w1) = slot_taken ?u (w_db w)"
      by (intro slot_taken_cong) (simp add: edited_def)
    with up append_events_run[OF app] e False c' plan show ?thesis
      by (auto simp: edited_def saved_def core_of_def store_iffs updateCard_Inr_iff)
  qed
qed

section \<open>Effects outside, and the card an error shows\<close>

definition step_shows :: "card \<Rightarrow> 'a step \<Rightarrow> bool" where
  "step_shows c m \<longleftrightarrow> (\<forall>w e w'. m w = (Inl e, w') \<longrightarrow> leaked_card e = None \<or> leaked_card e = Some c)"

lemma step_showsD:
  "step_shows c m \<Longrightarrow> m w = (Inl e, w') \<Longrightarrow> leaked_card e = None \<or> leaked_card e = Some c"
  unfolding step_shows_def by blast

lemma step_shows_bind [shows_intros]:
  "step_shows c m \<Longrightarrow> (\<And>a. step_shows c (f a)) \<Longrightarrow> step_shows c (bind m f)"
  unfolding step_shows_def bind_Inl_iff by blast

lemma step_shows_lift [shows_intros]: "only_shows c r \<Longrightarrow> step_shows c (lift r)"
  by (auto simp: step_shows_def only_shows_def run_simps)

lemma step_shows_ask [shows_intros]: "(\<And>d. only_shows c (f d)) \<Longrightarrow> step_shows c (ask f)"
  by (auto simp: step_shows_def only_shows_def run_simps)

lemma step_shows_guard [shows_intros]:
  "leaked_card e = None \<or> leaked_card e = Some c \<Longrightarrow> step_shows c (guard b e)"
  by (auto simp: step_shows_def run_simps)

lemma step_shows_basic [shows_intros]:
  "step_shows c (return a)" "step_shows c (now E)" "step_shows c (newId E)"
  "step_shows c (put_db g)" "step_shows c (makeEvent E ac j body)"
  by (auto simp: step_shows_def run_simps)

lemma step_shows_writes [shows_intros]:
  "step_shows c (store (updateCard x))" "step_shows c (store (appendEvent ev))"
  "step_shows c (store (insertTag t))" "step_shows c (store (setCardTags j ts))"
  "step_shows c (store (insertCard x))" "step_shows c (save_card E ac x body)"
  by (auto simp: step_shows_def store_Inl_iff updateCard_def appendEvent_def insertTag_def
      setCardTags_def insertCard_def save_card_Inl split: if_splits)

lemma step_shows_for_each [shows_intros]:
  "(\<And>x. step_shows c (f x)) \<Longrightarrow> step_shows c (for_each xs f)"
  by (induction xs) (auto intro!: shows_intros)

lemma step_shows_if [shows_intros]:
  "step_shows c x \<Longrightarrow> step_shows c y \<Longrightarrow> step_shows c (if b then x else y)"
  by simp

lemma step_shows_resolve [shows_intros]: "step_shows c (resolveTags E names)"
proof -
  have "step_shows c (resolveTags_from E seen names)" for seen
    by (induction E seen names rule: resolveTags_from.induct)
      (auto intro!: shows_intros split: option.split)
  then show ?thesis by (simp add: resolveTags_def)
qed

lemma step_shows_edit [shows_intros]:
  "step_shows c before \<Longrightarrow> step_shows c (edit_field E a field enc set_it current supplied before st)"
  by (auto simp: edit_field_def fieldChanged_def intro!: shows_intros split: option.split)

lemma step_shows_edit_tags [shows_intros]: "step_shows c (edit_tags E a c' names st)"
  by (auto simp: edit_tags_def fieldChanged_def intro!: shows_intros split: option.split)

lemma step_shows_before [shows_intros]:
  "step_shows c (before_assign E c v)" "step_shows c (before_locate v)"
  unfolding before_assign_def before_locate_def
  by (auto intro!: shows_intros split: option.split)

lemma step_shows_edit_waiting [shows_intros]: "step_shows c (edit_waiting E a policy c inp st)"
  unfolding edit_waiting_def by (auto intro!: shows_intros split: option.split)

lemma step_shows_edits [shows_intros]: "step_shows c (update_edits E a policy c inp)"
  unfolding update_edits_def by (intro shows_intros)

lemma inside_edit [intro, simp]:
  "keeps outside before \<Longrightarrow>
     keeps outside (edit_field E a field enc set_it current supplied before st)"
  by (auto simp: edit_field_def fieldChanged_def intro!: keeps_bind split: option.split)

lemma inside_before [intro, simp]:
  "keeps outside (before_assign E c v)" "keeps outside (before_locate v)"
  unfolding before_assign_def before_locate_def
  by (auto intro!: keeps_bind split: option.split)

lemma inside_edit_tags [intro, simp]: "keeps outside (edit_tags E a c names st)"
  by (auto simp: edit_tags_def fieldChanged_def intro!: keeps_bind split: option.split)

lemma inside_edit_waiting [intro, simp]: "keeps outside (edit_waiting E a policy c inp st)"
  unfolding edit_waiting_def by (auto intro!: keeps_bind split: option.split)

lemma inside_update [intro, simp]: "keeps outside (update_tx E a i inp)"
  unfolding update_tx_def update_edits_def
  by (auto simp: Let_def intro!: keeps_bind keeps_for_each split: prod.split)

end
