(* ===== verification/Card_Contract.thy ===== *)
theory Card_Contract
  imports Card_Update
begin

text \<open>
  The contract of a card method, its consequences for any client, and the interpretations
  on the methods of \<open>CardService\<close>.  \<open>card_command_input\<close> collects the inputs of the seven
  methods on an existing card, so that a statement over \<open>run_command\<close> covers all of them.
\<close>

section \<open>The contract\<close>

definition admitted :: "actor \<Rightarrow> card_no \<Rightarrow> permission \<Rightarrow> nat \<Rightarrow> card \<Rightarrow> db \<Rightarrow> bool" where
  "admitted a i perm v c d \<longleftrightarrow> accessibleCard a i d = Inr c \<and> c_version c = v
     \<and> (\<exists>policy. activePolicy (c_boardId c) d = Inr policy \<and> permitted a perm policy)"

text \<open>A success either changed nothing or is a saved and announced mutation.\<close>

definition effect :: "actor \<Rightarrow> card \<Rightarrow> card \<Rightarrow> card_event list \<Rightarrow> world \<Rightarrow> world \<Rightarrow> bool" where
  "effect a c c' evs w w' \<longleftrightarrow>
     (if evs = [] then c' = c \<and> w_db w' = w_db w \<and> outside w' = outside w
      else saved a c c' evs w w' \<and> announced c' evs w w')"

lemma admitted_found: "admitted a i perm v c d \<Longrightarrow> findCard i d = Some c \<and> c_id c = i"
  by (auto simp: admitted_def accessibleCard_iff dest: findCard_id)

locale card_command =
  fixes run :: "env \<Rightarrow> actor \<Rightarrow> card_no \<Rightarrow> 'i \<Rightarrow> card step"
    and perm_of :: "'i \<Rightarrow> permission"
    and version_of :: "'i \<Rightarrow> nat"
  assumes success: "run E a i x w = (Inr c', w') \<Longrightarrow>
      \<exists>c evs. admitted a i (perm_of x) (version_of x) c (w_db w) \<and> effect a c c' evs w w'"
    and failure: "run E a i x w = (Inl e, w') \<Longrightarrow> undone w w'"
    and discreet: "run E a i x w = (Inl e, w') \<Longrightarrow> leaked_card e = Some c \<Longrightarrow>
      accessibleCard a i (w_db w) = Inr c"
begin

lemma authorised:
  assumes "run E a i x w = (Inr c', w')"
  shows "may_write a \<and> (\<exists>c board policy. findCard i (w_db w) = Some c
    \<and> findBoard (c_boardId c) (w_db w) = Some board \<and> canAccessBoard a board (w_db w) = Inr True
    \<and> activePolicy (c_boardId c) (w_db w) = Inr policy \<and> permitted a (perm_of x) policy)"
  using success[OF assms] by (auto simp: admitted_def accessibleCard_iff dest: permitted_may_write)

lemma matched_version:
  assumes "run E a i x w = (Inr c', w')" and "findCard i (w_db w) = Some c"
  shows "c_version c = version_of x"
  using success[OF assms(1)] assms(2) by (auto simp: admitted_def accessibleCard_iff)

lemma stale_refused:
  assumes "findCard i (w_db w) = Some c" and "c_version c \<noteq> version_of x"
  shows "\<exists>e w'. run E a i x w = (Inl e, w') \<and> undone w w'"
proof (cases "fst (run E a i x w)")
  case (Inl e)
  then have "run E a i x w = (Inl e, snd (run E a i x w))" by (metis prod.collapse)
  with failure show ?thesis by blast
next
  case (Inr c')
  then have "run E a i x w = (Inr c', snd (run E a i x w))" by (metis prod.collapse)
  from matched_version[OF this assms(1)] assms(2) show ?thesis by simp
qed

lemma result_stored:
  assumes "run E a i x w = (Inr c', w')"
  shows "findCard i (w_db w') = Some c' \<and> (\<forall>j. j \<noteq> i \<longrightarrow> findCard j (w_db w') = findCard j (w_db w))"
proof -
  from success[OF assms] obtain c evs where
    c: "findCard i (w_db w) = Some c" "c_id c = i" and e: "effect a c c' evs w w'"
    by (blast dest: admitted_found)
  from c(1) have "i \<in> c_id ` set (t_cards (w_db w))" by (auto dest!: findCard_id)
  with c e show ?thesis
    by (auto simp: effect_def findCard_def saved_def row_of_put_row split: if_splits)
qed

lemma log_grows:
  assumes "run E a i x w = (Inr c', w')"
  shows "\<exists>evs. t_events (w_db w') = t_events (w_db w) @ evs \<and> (\<forall>ev \<in> set evs. stamped a i ev)
    \<and> (evs = [] \<longleftrightarrow> w_db w' = w_db w) \<and> (evs = [] \<longleftrightarrow> w_hints w' = w_hints w)"
proof -
  from success[OF assms] obtain c evs where c: "c_id c = i" and e: "effect a c c' evs w w'"
    by (blast dest: admitted_found)
  then show ?thesis
    by (cases "evs = []")
      (auto simp: effect_def saved_def announced_def outside_def intro!: exI[of _ evs])
qed

lemma frame:
  assumes "run E a i x w = (Inr c', w')"
  shows "db_frame (w_db w) (w_db w')"
  using success[OF assms] by (auto simp: effect_def saved_def split: if_splits)

text \<open>A write of one command makes every command with the version it matched stale.\<close>

lemma second_writer_refused:
  assumes "run E a i x w = (Inr c', w1)" and "w_db w1 \<noteq> w_db w" and "version_of y = version_of x"
  shows "\<exists>e w2. run E' b i y w1 = (Inl e, w2) \<and> undone w1 w2"
proof -
  from success[OF assms(1)] assms(2) have "c_version c' = version_of x + 1"
    by (auto simp: effect_def admitted_def saved_def split: if_splits)
  with result_stored[OF assms(1)] stale_refused[of i w1 c' y] assms(3) show ?thesis by simp
qed

end

locale card_mutation = card_command +
  assumes effective: "run E a i x w = (Inr c', w') \<Longrightarrow> c_version c' = version_of x + 1"
begin

lemma always_saved:
  assumes "run E a i x w = (Inr c', w')"
  obtains c evs where "admitted a i (perm_of x) (version_of x) c (w_db w)"
    and "saved a c c' evs w w'" and "announced c' evs w w'"
proof -
  from success[OF assms] obtain c evs where
    c: "admitted a i (perm_of x) (version_of x) c (w_db w)" and e: "effect a c c' evs w w'" by blast
  from effective[OF assms] c e have "evs \<noteq> []" by (auto simp: effect_def admitted_def)
  with e have "saved a c c' evs w w'" "announced c' evs w w'" by (simp_all add: effect_def)
  then show ?thesis by (rule that[OF c])
qed

lemma event_written:
  assumes "run E a i x w = (Inr c', w')"
  shows "\<exists>evs. evs \<noteq> [] \<and> t_events (w_db w') = t_events (w_db w) @ evs"
proof -
  obtain c evs where "saved a c c' evs w w'" by (rule always_saved[OF assms])
  then show ?thesis unfolding saved_def by blast
qed

end

section \<open>The methods keep it\<close>

text \<open>What a transaction owes for its method to keep the contract.\<close>

definition tx_effect :: "actor \<Rightarrow> card \<Rightarrow> card \<Rightarrow> card_event list \<Rightarrow> world \<Rightarrow> world \<Rightarrow> bool" where
  "tx_effect a c c' evs w w' \<longleftrightarrow> outside w' = outside w
     \<and> (if evs = [] then c' = c \<and> w_db w' = w_db w else saved a c c' evs w w')"

lemma published_effect:
  assumes p: "publish_result (c1, evs) w1 = (Inr c', w')" and e: "tx_effect a c c1 evs w w1"
  shows "c' = c1 \<and> effect a c c' evs w w'"
proof (cases "evs = []")
  case True
  with p e show ?thesis by (auto simp: publish_nothing tx_effect_def effect_def)
next
  case False
  from publish_result_run[OF p False] e False show ?thesis
    by (auto simp: tx_effect_def effect_def saved_def announced_def outside_def)
qed

lemma retried_method:
  assumes run: "bind (runWithPositionRetry tx cur) publish_result w = (Inr c', w')"
    and "keeps outside tx"
    and tx: "\<And>w c' evs w'. tx w = (Inr (c', evs), w') \<Longrightarrow>
      \<exists>c. admitted a i perm v c (w_db w) \<and> tx_effect a c c' evs w w' \<and> (k \<longrightarrow> evs \<noteq> [])"
  shows "\<exists>c evs. admitted a i perm v c (w_db w) \<and> effect a c c' evs w w' \<and> (k \<longrightarrow> evs \<noteq> [])"
proof -
  from run obtain c1 evs w1 where r: "runWithPositionRetry tx cur w = (Inr (c1, evs), w1)"
    and p: "publish_result (c1, evs) w1 = (Inr c', w')"
    by (auto simp: bind_Inr_iff)
  from retry_run[OF assms(2) r] obtain w0 where w0: "tx w0 = (Inr (c1, evs), w1)"
    "w_db w0 = w_db w" "outside w0 = outside w" by blast
  from tx[OF w0(1)] obtain c where "admitted a i perm v c (w_db w)" "tx_effect a c c1 evs w0 w1"
    "k \<longrightarrow> evs \<noteq> []" using w0(2) by auto
  moreover from this w0 have "tx_effect a c c1 evs w w1"
    by (auto simp: tx_effect_def saved_def split: if_splits)
  ultimately show ?thesis using published_effect[OF p] by blast
qed

lemma single_method:
  assumes run: "bind (uow_run tx) publish_result w = (Inr c', w')"
    and tx: "\<And>c' evs w'. tx w = (Inr (c', evs), w') \<Longrightarrow>
      \<exists>c. admitted a i perm v c (w_db w) \<and> tx_effect a c c' evs w w' \<and> (k \<longrightarrow> evs \<noteq> [])"
  shows "\<exists>c evs. admitted a i perm v c (w_db w) \<and> effect a c c' evs w w' \<and> (k \<longrightarrow> evs \<noteq> [])"
proof -
  from run obtain c1 evs w1 where r: "tx w = (Inr (c1, evs), w1)"
    and p: "publish_result (c1, evs) w1 = (Inr c', w')"
    by (auto simp: bind_Inr_iff uow_run_Inr_iff)
  from tx[OF r] published_effect[OF p] show ?thesis by blast
qed

lemma retried_failure:
  assumes "bind (runWithPositionRetry tx cur) publish_result w = (Inl e, w')" and "keeps outside tx"
  shows "undone w w'"
  using assms by (auto simp: bind_Inl_iff publish_result_Inl dest: retry_undone)

lemma single_failure:
  assumes "bind (uow_run tx) publish_result w = (Inl e, w')" and "keeps outside tx"
  shows "undone w w'"
  using assms by (auto simp: bind_Inl_iff publish_result_Inl dest: run_undone)

lemma undone_refl [simp]: "undone w w"
  by (simp add: undone_iff)

text \<open>Which card a failed transaction may carry.\<close>

lemma discreet_tx:
  assumes run: "bind (ask plan) cont w = (Inl e, w')" and leak: "leaked_card e = Some c"
    and plan: "\<And>e. plan (w_db w) = Inl e \<Longrightarrow> leaked_card e = Some c \<Longrightarrow>
      accessibleCard a i (w_db w) = Inr c"
    and cont: "\<And>p. plan (w_db w) = Inr p \<Longrightarrow>
      \<exists>c0. accessibleCard a i (w_db w) = Inr c0 \<and> step_shows c0 (cont p)"
  shows "accessibleCard a i (w_db w) = Inr c"
proof (cases "plan (w_db w)")
  case (Inl e')
  with run leak plan show ?thesis by (auto simp: bind_Inl_iff ask_iff)
next
  case (Inr p)
  with run have "cont p w = (Inl e, w')" by (auto simp: bind_Inl_iff ask_iff)
  moreover obtain c0 where "accessibleCard a i (w_db w) = Inr c0" "step_shows c0 (cont p)"
    using cont[OF Inr] by blast
  ultimately show ?thesis using leak by (auto dest: step_showsD)
qed

lemma discreet_move_tx:
  assumes "move_tx E a i inp w = (Inl e, w')" and leak: "leaked_card e = Some c"
  shows "accessibleCard a i (w_db w) = Inr c"
  using assms(1) unfolding move_tx_def
  by (rule discreet_tx[OF _ leak])
    (auto intro: discreet_plans intro!: shows_intros dest!: plan_move_InrD
      simp del: accessibleCard_iff)

lemma discreet_cancel_tx:
  assumes "cancel_tx E a i inp w = (Inl e, w')" and leak: "leaked_card e = Some c"
  shows "accessibleCard a i (w_db w) = Inr c"
  using assms(1) unfolding cancel_tx_def
  by (rule discreet_tx[OF _ leak])
    (auto intro: discreet_plans intro!: shows_intros dest!: cancel_plan_InrD
      simp del: accessibleCard_iff)

lemma discreet_reopen_tx:
  assumes "reopen_tx E a i v w = (Inl e, w')" and leak: "leaked_card e = Some c"
  shows "accessibleCard a i (w_db w) = Inr c"
  using assms(1) unfolding reopen_tx_def
  by (rule discreet_tx[OF _ leak])
    (auto intro: discreet_plans intro!: shows_intros dest!: reopen_plan_InrD
      simp del: accessibleCard_iff)

lemma discreet_archive_tx:
  assumes "archive_tx E a i v w = (Inl e, w')" and leak: "leaked_card e = Some c"
  shows "accessibleCard a i (w_db w) = Inr c"
  using assms(1) unfolding archive_tx_def
  by (rule discreet_tx[OF _ leak])
    (auto intro: discreet_plans intro!: shows_intros dest!: archive_plan_InrD
      simp del: accessibleCard_iff)

lemma discreet_block_tx:
  assumes "setBlockedFlag_tx E a i v r w = (Inl e, w')" and leak: "leaked_card e = Some c"
  shows "accessibleCard a i (w_db w) = Inr c"
  using assms(1) unfolding setBlockedFlag_tx_def
  by (rule discreet_tx[OF _ leak])
    (auto intro: discreet_plans intro!: shows_intros dest!: block_plan_InrD
      simp del: accessibleCard_iff)

lemma discreet_update_tx:
  assumes "update_tx E a i inp w = (Inl e, w')" and leak: "leaked_card e = Some c"
  shows "accessibleCard a i (w_db w) = Inr c"
  using assms(1) unfolding update_tx_def
proof (rule discreet_tx[OF _ leak])
  fix p assume "update_plan a i (ui_expectedVersion inp) (w_db w) = Inr p"
  moreover obtain c0 policy where p: "p = (c0, policy)" by fastforce
  ultimately have "accessibleCard a i (w_db w) = Inr c0"
    using update_plan_InrD by blast
  then show "\<exists>c0. accessibleCard a i (w_db w) = Inr c0 \<and> step_shows c0
      ((\<lambda>(c, policy). bind (update_edits E a policy c inp) (\<lambda>(nxt, events).
        if events = [] then return (c, [])
        else bind (now E) (\<lambda>t.
          let updated = nxt\<lparr>c_version := c_version c + 1, c_updatedAt := t\<rparr> in
          bind (store (updateCard updated)) (\<lambda>_.
          bind (for_each events (\<lambda>ev. store (appendEvent ev))) (\<lambda>_.
          return (updated, events)))))) p)"
    unfolding p by (intro exI[of _ c0]) (auto simp: Let_def intro!: shows_intros split: prod.split)
qed (blast intro: discreet_plans(6))

lemma retried_discreet:
  assumes run: "runWithPositionRetry tx (Some (accessibleCard a i)) w = (Inl e, w')"
    and leak: "leaked_card e = Some c"
    and tx: "\<And>w e w'. tx w = (Inl e, w') \<Longrightarrow> leaked_card e = Some c \<Longrightarrow>
      accessibleCard a i (w_db w) = Inr c"
  shows "accessibleCard a i (w_db w) = Inr c"
  using retry_leak[OF run leak] tx accessibleCard_no_leak by blast

text \<open>A parse error carries no card.\<close>

lemma parse_no_leak:
  "parse_move mi = Inl e \<Longrightarrow> leaked_card e = None" "parse_cancel ci = Inl e \<Longrightarrow> leaked_card e = None"
  "parse_version v = Inl e \<Longrightarrow> leaked_card e = None" "parse_block bi = Inl e \<Longrightarrow> leaked_card e = None"
  by (auto simp: parse_move_def parse_cancel_def parse_version_def parse_block_def positive_def
      slug_def optional_def trimmed_def Let_def check_iffs sbind_Inl_iff split: option.splits)

lemma smap_Inl: "smap f xs = Inl e \<Longrightarrow> \<exists>x. f x = Inl e"
  by (induction xs) (auto simp: sbind_Inl_iff)

lemma parse_update_no_leak: "parse_update ui = Inl e \<Longrightarrow> leaked_card e = None"
  by (auto simp: parse_update_def positive_def slug_def optional_def trimmed_def tagNameSchema_def
      descriptionSchema_def Let_def check_iffs sbind_Inl_iff split: option.splits dest!: smap_Inl)

section \<open>The transactions keep it\<close>

lemma cancel_tx_contract:
  assumes "cancel_tx E a i x w = (Inr (c', evs), w')"
  shows "\<exists>c. admitted a i PermCardCancel (cn_expectedVersion x) c (w_db w)
    \<and> tx_effect a c c' evs w w' \<and> evs \<noteq> []"
proof -
  from cancel_tx_run[OF assms] obtain c fr to p where
    pl: "cancel_plan E a i x (w_db w) = Inr (c, fr, to, p)"
    and "evs \<noteq> []" "saved a c c' evs w w'" "outside w' = outside w" by blast
  with cancel_plan_InrD[OF pl] show ?thesis
    by (intro exI[of _ c]) (simp add: admitted_def tx_effect_def del: accessibleCard_iff)
qed

lemma reopen_tx_contract:
  assumes "reopen_tx E a i v w = (Inr (c', evs), w')"
  shows "\<exists>c. admitted a i PermCardReopen v c (w_db w) \<and> tx_effect a c c' evs w w' \<and> evs \<noteq> []"
proof -
  from reopen_tx_run[OF assms] obtain c to p where
    pl: "reopen_plan E a i v (w_db w) = Inr (c, to, p)"
    and "evs \<noteq> []" "saved a c c' evs w w'" "outside w' = outside w" by blast
  with reopen_plan_InrD[OF pl] show ?thesis
    by (intro exI[of _ c]) (simp add: admitted_def tx_effect_def del: accessibleCard_iff)
qed

lemma archive_tx_contract:
  assumes "archive_tx E a i v w = (Inr (c', evs), w')"
  shows "\<exists>c. admitted a i PermCardArchive v c (w_db w) \<and> tx_effect a c c' evs w w' \<and> evs \<noteq> []"
proof -
  from archive_tx_run[OF assms] obtain c where pl: "archive_plan a i v (w_db w) = Inr c"
    and "evs \<noteq> []" "saved a c c' evs w w'" "outside w' = outside w" by blast
  with archive_plan_InrD[OF pl] show ?thesis
    by (intro exI[of _ c]) (simp add: admitted_def tx_effect_def del: accessibleCard_iff)
qed

lemma block_tx_contract:
  assumes "setBlockedFlag_tx E a i v r w = (Inr (c', evs), w')"
  shows "\<exists>c. admitted a i (block_perm r) v c (w_db w) \<and> tx_effect a c c' evs w w' \<and> evs \<noteq> []"
proof -
  from block_tx_run[OF assms] obtain c where pl: "block_plan a i v r (w_db w) = Inr c"
    and "evs \<noteq> []" "saved a c c' evs w w'" "outside w' = outside w" by blast
  with block_plan_InrD[OF pl] show ?thesis
    by (intro exI[of _ c]) (simp add: admitted_def tx_effect_def del: accessibleCard_iff)
qed

lemma flag_tx_contracts:
  "setBlockedFlag_tx E a i v (Some s) w = (Inr (c', evs), w') \<Longrightarrow>
     \<exists>c. admitted a i PermCardBlock v c (w_db w) \<and> tx_effect a c c' evs w w'"
  "setBlockedFlag_tx E a i v None w = (Inr (c', evs), w') \<Longrightarrow>
     \<exists>c. admitted a i PermCardUnblock v c (w_db w) \<and> tx_effect a c c' evs w w'"
  using block_tx_contract[of E a i v "Some s" w c' evs w'] block_tx_contract[of E a i v None w c' evs w']
  by (auto simp: block_perm_def)

lemma move_tx_contract:
  assumes "move_tx E a i x w = (Inr ((c', evs), fin), w')"
  shows "\<exists>c. admitted a i PermCardMove (mv_expectedVersion x) c (w_db w)
    \<and> tx_effect a c c' evs w w' \<and> evs \<noteq> []"
proof -
  from move_tx_run[OF assms] obtain pl where pl: "plan_move E a i x (w_db w) = Inr pl"
    and "evs \<noteq> []" "saved a (pl_card pl) c' evs w w'" "outside w' = outside w" by blast
  with plan_move_InrD[OF pl] show ?thesis
    by (intro exI[of _ "pl_card pl"])
      (auto simp add: admitted_def tx_effect_def move_allowed_def simp del: accessibleCard_iff)
qed

lemma update_tx_contract:
  assumes "update_tx E a i x w = (Inr (c', evs), w')"
  shows "\<exists>c. admitted a i PermCardUpdate (ui_expectedVersion x) c (w_db w) \<and> tx_effect a c c' evs w w'"
proof -
  from update_tx_run[OF assms] obtain c policy where
    pl: "update_plan a i (ui_expectedVersion x) (w_db w) = Inr (c, policy)"
    and "outside w' = outside w"
      "if evs = [] then c' = c \<and> w_db w' = w_db w else saved a c c' evs w w'" by (auto split: if_splits)
  with update_plan_InrD[OF pl] show ?thesis
    by (intro exI[of _ c]) (auto simp add: admitted_def tx_effect_def simp del: accessibleCard_iff)
qed

lemma inside_txs [intro, simp]:
  "keeps outside (move_tx E a i mi)" "keeps outside (cancel_tx E a i ci)"
  "keeps outside (reopen_tx E a i v)" "keeps outside (archive_tx E a i v)"
  "keeps outside (setBlockedFlag_tx E a i v r)"
  by (auto simp: move_tx_def cancel_tx_def reopen_tx_def archive_tx_def setBlockedFlag_tx_def
      intro!: keeps_bind split: prod.split)

lemma effect_version:
  "admitted a i perm v c d \<Longrightarrow> effect a c c' evs w w' \<Longrightarrow> evs \<noteq> [] \<Longrightarrow> c_version c' = v + 1"
  by (simp add: admitted_def effect_def saved_def)

section \<open>Interpretations\<close>

lemma parsed_Inr: "bind (lift r) f w = (Inr b, w') \<longleftrightarrow> (\<exists>x. r = Inr x \<and> f x w = (Inr b, w'))"
  by (auto simp: bind_Inr_iff lift_iffs)

lemma parsed_Inl: "bind (lift r) f w = (Inl e, w') \<longleftrightarrow>
    (r = Inl e \<and> w' = w) \<or> (\<exists>x. r = Inr x \<and> f x w = (Inl e, w'))"
  by (auto simp: bind_Inl_iff lift_iffs)

text \<open>A method is its parser, its transaction and the publication.\<close>

lemma retried_mutation:
  assumes run_def: "\<And>E a i x. run E a i x = bind (lift (parse x)) (\<lambda>y.
      bind (runWithPositionRetry (tx E a i y) (Some (accessibleCard a i))) publish_result)"
    and ver: "\<And>x y. parse x = Inr y \<Longrightarrow> ver y = version_of x"
    and quiet: "\<And>x e. parse x = Inl e \<Longrightarrow> leaked_card e = None"
    and inside: "\<And>E a i y. keeps outside (tx E a i y)"
    and tx: "\<And>E a i y w c' evs w'. tx E a i y w = (Inr (c', evs), w') \<Longrightarrow>
      \<exists>c. admitted a i p (ver y) c (w_db w) \<and> tx_effect a c c' evs w w' \<and> evs \<noteq> []"
    and disc: "\<And>E a i y w e w' c. tx E a i y w = (Inl e, w') \<Longrightarrow> leaked_card e = Some c \<Longrightarrow>
      accessibleCard a i (w_db w) = Inr c"
  shows "card_mutation run (\<lambda>_. p) version_of"
proof
  fix E a i x w c' w'
  assume "run E a i x w = (Inr c', w')"
  then obtain y where y: "parse x = Inr y" and
    r: "bind (runWithPositionRetry (tx E a i y) (Some (accessibleCard a i))) publish_result w
      = (Inr c', w')"
    by (auto simp: run_def parsed_Inr)
  have *: "\<exists>c evs. admitted a i p (ver y) c (w_db w) \<and> effect a c c' evs w w'
      \<and> (True \<longrightarrow> evs \<noteq> [])"
    by (rule retried_method[OF r inside]) (use tx in blast)
  then show "\<exists>c evs. admitted a i p (version_of x) c (w_db w) \<and> effect a c c' evs w w'"
    unfolding ver[OF y] by blast
  from * show "c_version c' = version_of x + 1" unfolding ver[OF y] by (blast intro: effect_version)
next
  fix E a i x w e w'
  assume run: "run E a i x w = (Inl e, w')"
  then show "undone w w'" by (auto simp: run_def parsed_Inl dest: retried_failure[OF _ inside])
  fix c assume leak: "leaked_card e = Some c"
  with run quiet obtain y where "runWithPositionRetry (tx E a i y) (Some (accessibleCard a i)) w
      = (Inl e, w')"
    by (auto simp: run_def bind_Inl_iff publish_result_Inl lift_iffs)
  from retried_discreet[OF this leak] disc show "accessibleCard a i (w_db w) = Inr c" by blast
qed

lemma single_command:
  assumes run_def: "\<And>E a i x. run E a i x = bind (lift (parse x)) (\<lambda>y.
      bind (uow_run (tx E a i y)) publish_result)"
    and ver: "\<And>x y. parse x = Inr y \<Longrightarrow> ver y = version_of x"
    and quiet: "\<And>x e. parse x = Inl e \<Longrightarrow> leaked_card e = None"
    and inside: "\<And>E a i y. keeps outside (tx E a i y)"
    and tx: "\<And>E a i y w c' evs w'. tx E a i y w = (Inr (c', evs), w') \<Longrightarrow>
      \<exists>c. admitted a i p (ver y) c (w_db w) \<and> tx_effect a c c' evs w w'"
    and disc: "\<And>E a i y w e w' c. tx E a i y w = (Inl e, w') \<Longrightarrow> leaked_card e = Some c \<Longrightarrow>
      accessibleCard a i (w_db w) = Inr c"
  shows "card_command run (\<lambda>_. p) version_of"
proof
  fix E a i x w c' w'
  assume "run E a i x w = (Inr c', w')"
  then obtain y where y: "parse x = Inr y" and
    r: "bind (uow_run (tx E a i y)) publish_result w = (Inr c', w')"
    by (auto simp: run_def parsed_Inr)
  have "\<exists>c evs. admitted a i p (ver y) c (w_db w) \<and> effect a c c' evs w w'
      \<and> (False \<longrightarrow> evs \<noteq> [])"
    by (rule single_method[OF r]) (use tx in blast)
  then show "\<exists>c evs. admitted a i p (version_of x) c (w_db w) \<and> effect a c c' evs w w'"
    unfolding ver[OF y] by blast
next
  fix E a i x w e w'
  assume run: "run E a i x w = (Inl e, w')"
  then show "undone w w'" by (auto simp: run_def parsed_Inl dest: single_failure[OF _ inside])
  fix c assume leak: "leaked_card e = Some c"
  with run quiet obtain y where "uow_run (tx E a i y) w = (Inl e, w')"
    by (auto simp: run_def bind_Inl_iff publish_result_Inl lift_iffs)
  with disc leak show "accessibleCard a i (w_db w) = Inr c"
    by (auto simp: uow_run_Inl_iff simp del: accessibleCard_iff)
qed

text \<open>A transaction that always writes an event makes a mutation.\<close>

lemma single_mutation:
  assumes cmd: "card_command run (\<lambda>_. p) version_of"
    and run_def: "\<And>E a i x. run E a i x = bind (lift (parse x)) (\<lambda>y.
      bind (uow_run (tx E a i y)) publish_result)"
    and tx: "\<And>E a i y w c' evs w'. tx E a i y w = (Inr (c', evs), w') \<Longrightarrow>
      (\<exists>c. saved a c c' evs w w')"
  shows "card_mutation run (\<lambda>_. p) version_of"
proof (rule card_mutation.intro[OF cmd], unfold_locales)
  fix E a i x w c' w'
  assume run: "run E a i x w = (Inr c', w')"
  then obtain y evs w1 where r: "tx E a i y w = (Inr (c', evs), w1)" and db: "w_db w' = w_db w1"
    by (auto simp: run_def parsed_Inr bind_Inr_iff uow_run_Inr_iff publish_result_def run_simps
        split: if_splits)
  from tx[OF r] db have "t_events (w_db w') \<noteq> t_events (w_db w)" by (auto simp: saved_def)
  with card_command.success[OF cmd run] show "c_version c' = version_of x + 1"
    by (auto simp: effect_def admitted_def saved_def split: if_splits)
qed

interpretation canceling: card_mutation cancel_card "\<lambda>_. PermCardCancel" cn_expectedVersion
  by (rule retried_mutation[where tx = cancel_tx and parse = parse_cancel and ver = cn_expectedVersion])
    (auto simp: cancel_card_def parse_versions dest: cancel_tx_contract
      intro: discreet_cancel_tx parse_no_leak simp del: accessibleCard_iff)

interpretation reopening: card_mutation reopen_card "\<lambda>_. PermCardReopen" id
  by (rule retried_mutation[where tx = reopen_tx and parse = parse_version and ver = id])
    (auto simp: reopen_card_def parse_versions dest: reopen_tx_contract
      intro: discreet_reopen_tx parse_no_leak simp del: accessibleCard_iff)

interpretation updating: card_command update_card "\<lambda>_. PermCardUpdate" ui_expectedVersion
  by (rule single_command[where tx = update_tx and parse = parse_update and ver = ui_expectedVersion])
    (auto simp: update_card_def dest: update_tx_contract parse_update_InrD
      intro: discreet_update_tx parse_update_no_leak simp del: accessibleCard_iff)

lemma archive_command: "card_command archive_card (\<lambda>_. PermCardArchive) id"
  by (rule single_command[where tx = archive_tx and parse = parse_version and ver = id])
    (auto simp: archive_card_def parse_versions dest: archive_tx_contract
      intro: discreet_archive_tx parse_no_leak simp del: accessibleCard_iff)

interpretation archiving: card_mutation archive_card "\<lambda>_. PermCardArchive" id
  by (rule single_mutation[OF archive_command, where tx = archive_tx and parse = parse_version])
    (auto simp: archive_card_def dest: archive_tx_run)

lemma block_command: "card_command block_card (\<lambda>_. PermCardBlock) bl_expectedVersion"
  by (rule single_command[where parse = parse_block and ver = bl_expectedVersion and
      tx = "\<lambda>E a i y. setBlockedFlag_tx E a i (bl_expectedVersion y) (Some (bl_reason y))"])
    (auto simp: block_card_def setBlockedFlag_def dest: parse_block_InrD flag_tx_contracts
      intro: discreet_block_tx parse_no_leak simp del: accessibleCard_iff)

interpretation blocking: card_mutation block_card "\<lambda>_. PermCardBlock" bl_expectedVersion
  by (rule single_mutation[OF block_command, where parse = parse_block and
      tx = "\<lambda>E a i y. setBlockedFlag_tx E a i (bl_expectedVersion y) (Some (bl_reason y))"])
    (auto simp: block_card_def setBlockedFlag_def dest: block_tx_run)

lemma unblock_command: "card_command unblock_card (\<lambda>_. PermCardUnblock) id"
  by (rule single_command[where parse = parse_version and ver = id and
      tx = "\<lambda>E a i y. setBlockedFlag_tx E a i y None"])
    (auto simp: unblock_card_def setBlockedFlag_def parse_versions dest: flag_tx_contracts
      intro: discreet_block_tx parse_no_leak simp del: accessibleCard_iff)

interpretation unblocking: card_mutation unblock_card "\<lambda>_. PermCardUnblock" id
  by (rule single_mutation[OF unblock_command, where parse = parse_version and
      tx = "\<lambda>E a i y. setBlockedFlag_tx E a i y None"])
    (auto simp: unblock_card_def setBlockedFlag_def dest: block_tx_run)

text \<open>A move also sends the completion notice, after the hint.\<close>

lemma move_card_Inr:
  assumes "move_card E a i x w = (Inr c', w')"
  obtains c1 evs fin w1 w2 where "parse_move x = Inr x"
    and "runWithPositionRetry (move_tx E a i x) (Some (accessibleCard a i)) w
      = (Inr ((c1, evs), fin), w1)"
    and "publish_result (c1, evs) w1 = (Inr c', w2)"
    and "w' = (if fin then w2\<lparr>w_completed := w_completed w2 @ [c']\<rparr> else w2)"
  using assms unfolding move_card_def
  by (auto simp: publish_result_def bind_Inr_iff lift_iffs return_iffs cardCompleted_iffs
      dest: parse_move_InrD split: prod.splits if_splits)

lemma move_card_Inl:
  assumes "move_card E a i x w = (Inl e, w')"
  shows "(parse_move x = Inl e \<and> w' = w)
    \<or> runWithPositionRetry (move_tx E a i x) (Some (accessibleCard a i)) w = (Inl e, w')"
  using assms unfolding move_card_def
  by (auto simp: bind_Inl_iff lift_iffs return_iffs cardCompleted_iffs publishCardHints_iffs
      dest: parse_move_InrD split: prod.splits if_splits)

lemma move_card_effect:
  assumes "move_card E a i x w = (Inr c', w')"
  shows "\<exists>c evs. admitted a i PermCardMove (mv_expectedVersion x) c (w_db w)
    \<and> effect a c c' evs w w' \<and> evs \<noteq> []"
proof -
  from move_card_Inr[OF assms] obtain c1 evs fin w1 w2 where
    r: "runWithPositionRetry (move_tx E a i x) (Some (accessibleCard a i)) w
      = (Inr ((c1, evs), fin), w1)" and p: "publish_result (c1, evs) w1 = (Inr c', w2)"
    and w': "w' = (if fin then w2\<lparr>w_completed := w_completed w2 @ [c']\<rparr> else w2)" .
  from retry_run[OF inside_txs(1) r] obtain w0 where w0:
    "move_tx E a i x w0 = (Inr ((c1, evs), fin), w1)" "w_db w0 = w_db w" "outside w0 = outside w" .
  from move_tx_contract[OF w0(1)] w0 obtain c where
    c: "admitted a i PermCardMove (mv_expectedVersion x) c (w_db w)" "evs \<noteq> []"
    and t: "tx_effect a c c1 evs w w1"
    by (auto simp: tx_effect_def saved_cong[OF w0(2)])
  from published_effect[OF p t] c(2) have "effect a c c' evs w w'"
    by (auto simp: effect_def w' saved_def announced_def)
  with c show ?thesis by blast
qed

interpretation moving: card_mutation move_card "\<lambda>_. PermCardMove" mv_expectedVersion
proof
  fix E a i x w c' w'
  assume run: "move_card E a i x w = (Inr c', w')"
  from move_card_effect[OF run] show "\<exists>c evs. admitted a i PermCardMove (mv_expectedVersion x) c (w_db w)
      \<and> effect a c c' evs w w'" by blast
  from move_card_effect[OF run] show "c_version c' = mv_expectedVersion x + 1"
    by (blast intro: effect_version)
next
  fix E a i x w e w'
  assume run: "move_card E a i x w = (Inl e, w')"
  from move_card_Inl[OF run] show "undone w w'" by (auto dest: retry_undone[OF inside_txs(1)])
  fix c assume leak: "leaked_card e = Some c"
  from move_card_Inl[OF run] parse_no_leak(1)[of x e] leak
  have "runWithPositionRetry (move_tx E a i x) (Some (accessibleCard a i)) w = (Inl e, w')" by auto
  then show "accessibleCard a i (w_db w) = Inr c"
    by (rule retried_discreet[OF _ leak]) (rule discreet_move_tx)
qed

section \<open>Any command\<close>

datatype card_command_input =
    UpdateCard update_card_input | MoveCard move_card_input | CancelCard cancel_card_input
  | ReopenCard nat | ArchiveCard nat | BlockCard block_card_input | UnblockCard nat

fun run_command :: "env \<Rightarrow> actor \<Rightarrow> card_no \<Rightarrow> card_command_input \<Rightarrow> card step" where
  "run_command E a i (UpdateCard x) = update_card E a i x"
| "run_command E a i (MoveCard x) = move_card E a i x"
| "run_command E a i (CancelCard x) = cancel_card E a i x"
| "run_command E a i (ReopenCard v) = reopen_card E a i v"
| "run_command E a i (ArchiveCard v) = archive_card E a i v"
| "run_command E a i (BlockCard x) = block_card E a i x"
| "run_command E a i (UnblockCard v) = unblock_card E a i v"

fun command_permission :: "card_command_input \<Rightarrow> permission" where
  "command_permission (UpdateCard x) = PermCardUpdate"
| "command_permission (MoveCard x) = PermCardMove"
| "command_permission (CancelCard x) = PermCardCancel"
| "command_permission (ReopenCard v) = PermCardReopen"
| "command_permission (ArchiveCard v) = PermCardArchive"
| "command_permission (BlockCard x) = PermCardBlock"
| "command_permission (UnblockCard v) = PermCardUnblock"

fun command_version :: "card_command_input \<Rightarrow> nat" where
  "command_version (UpdateCard x) = ui_expectedVersion x"
| "command_version (MoveCard x) = mv_expectedVersion x"
| "command_version (CancelCard x) = cn_expectedVersion x"
| "command_version (ReopenCard v) = v"
| "command_version (ArchiveCard v) = v"
| "command_version (BlockCard x) = bl_expectedVersion x"
| "command_version (UnblockCard v) = v"

lemmas command_success = updating.success moving.success canceling.success reopening.success
  archiving.success blocking.success unblocking.success

lemmas command_failure = updating.failure moving.failure canceling.failure reopening.failure
  archiving.failure blocking.failure unblocking.failure

lemmas command_discreet = updating.discreet moving.discreet canceling.discreet
  reopening.discreet archiving.discreet blocking.discreet unblocking.discreet

interpretation command: card_command run_command command_permission command_version
proof
  fix E a i x w c' w'
  assume "run_command E a i x w = (Inr c', w')"
  then show "\<exists>c evs. admitted a i (command_permission x) (command_version x) c (w_db w)
      \<and> effect a c c' evs w w'"
    by (cases x) (auto dest!: command_success)
next
  fix E a i x w e w'
  assume run: "run_command E a i x w = (Inl e, w')"
  then show "undone w w'" by (cases x) (auto dest: command_failure)
  fix c assume "leaked_card e = Some c"
  with run show "accessibleCard a i (w_db w) = Inr c"
    by (cases x) (auto dest: command_discreet simp del: accessibleCard_iff)
qed

end
