(* ===== verification/Invariant.thy ===== *)
theory Invariant
  imports Card_Contract
begin

text \<open>
  The database invariant: what holds of every row after every request.  A card sits on a
  lane of its board; only the done lane holds cards with a resolution or an archival date
  and only the waiting lane cards with a waiting reason; the blocked flag, its reason and
  its time agree; a lane holds one card per position; ids are unique, and every row that
  names a card names an existing one.

  The theory proves that the card commands, create and discard keep it.
\<close>

section \<open>The invariant\<close>

definition lane_fits :: "lane \<Rightarrow> card \<Rightarrow> bool" where
  "lane_fits l c \<longleftrightarrow> l_id l = c_laneId c \<and> l_boardId l = c_boardId c
     \<and> (c_resolution c \<noteq> None \<longrightarrow> l_key l = ''done'')
     \<and> (c_archivedAt c \<noteq> None \<longrightarrow> l_key l = ''done'')
     \<and> (c_waitingReason c \<noteq> None \<longrightarrow> l_key l = ''waiting_parts_vendor'')"

definition flag_ok :: "card \<Rightarrow> bool" where
  "flag_ok c \<longleftrightarrow> (c_blocked c \<longleftrightarrow> c_blockedReason c \<noteq> None) \<and> (c_blocked c \<longleftrightarrow> c_blockedAt c \<noteq> None)"

definition card_ok :: "lane list \<Rightarrow> card \<Rightarrow> bool" where
  "card_ok ls c \<longleftrightarrow> (\<exists>l \<in> set ls. lane_fits l c) \<and> flag_ok c \<and> 1 \<le> c_version c"

definition lane_slot :: "lane \<Rightarrow> uuid \<times> lane_key" where
  "lane_slot l = (l_boardId l, l_key l)"

definition card_slot :: "card \<Rightarrow> uuid \<times> string" where
  "card_slot c = (c_laneId c, c_position c)"

definition lanes_ok :: "db \<Rightarrow> bool" where
  "lanes_ok d \<longleftrightarrow> distinct (map l_id (t_lanes d)) \<and> distinct (map lane_slot (t_lanes d))"

definition cards_ok :: "db \<Rightarrow> bool" where
  "cards_ok d \<longleftrightarrow> distinct (map c_id (t_cards d)) \<and> distinct (map card_slot (t_cards d))
     \<and> (\<forall>c \<in> set (t_cards d). card_ok (t_lanes d) c)"

definition refs_ok :: "db \<Rightarrow> bool" where
  "refs_ok d \<longleftrightarrow> distinct (map ev_id (t_events d))
     \<and> ev_cardId ` set (t_events d) \<subseteq> c_id ` set (t_cards d)
     \<and> cm_cardId ` set (t_comments d) \<subseteq> c_id ` set (t_cards d)
     \<and> at_cardId ` set (t_attachments d) \<subseteq> c_id ` set (t_cards d)
     \<and> rel_fromCardId ` set (t_relations d) \<subseteq> c_id ` set (t_cards d)
     \<and> rel_toCardId ` set (t_relations d) \<subseteq> c_id ` set (t_cards d)
     \<and> fst ` set (t_watchers d) \<subseteq> c_id ` set (t_cards d)
     \<and> fst ` set (t_cardTags d) \<subseteq> c_id ` set (t_cards d)
     \<and> n_cardId ` set (t_notifications d) \<subseteq> c_id ` set (t_cards d)"

definition db_ok :: "db \<Rightarrow> bool" where
  "db_ok d \<longleftrightarrow> lanes_ok d \<and> cards_ok d \<and> refs_ok d"

lemma flag_ok_eq:
  "c_blocked c' = c_blocked c \<Longrightarrow> c_blockedReason c' = c_blockedReason c \<Longrightarrow>
     c_blockedAt c' = c_blockedAt c \<Longrightarrow> flag_ok c' = flag_ok c"
  by (simp add: flag_ok_def)

text \<open>The lane of a card is unique.\<close>

lemma lane_unique:
  "lanes_ok d \<Longrightarrow> l \<in> set (t_lanes d) \<Longrightarrow> l' \<in> set (t_lanes d) \<Longrightarrow> l_id l = l_id l' \<Longrightarrow> l = l'"
  by (auto simp: lanes_ok_def distinct_map dest: inj_onD)

lemma lane_of_ok:
  assumes "db_ok d" and "findCard i d = Some c" and "laneOfCard c d = Inr l"
  shows "lane_fits l c \<and> l \<in> set (t_lanes d)"
proof -
  from assms(1,2) findCard_id obtain l' where "l' \<in> set (t_lanes d)" "lane_fits l' c"
    unfolding db_ok_def cards_ok_def card_ok_def by blast
  moreover from laneOfCard_InrD[OF assms(3)] have l: "l \<in> set (t_lanes d)" "l_id l = c_laneId c"
    by simp_all
  ultimately have "l' = l" using assms(1) lane_unique[of d l' l] by (simp add: db_ok_def lane_fits_def)
  with \<open>lane_fits l' c\<close> l show ?thesis by simp
qed

section \<open>A saved card keeps the invariant\<close>

lemma slot_free_distinct:
  assumes "distinct (map c_id cs)" and "distinct (map card_slot cs)"
    and "\<forall>x \<in> set cs. c_id x \<noteq> c_id c \<longrightarrow> card_slot x \<noteq> card_slot c"
  shows "distinct (map card_slot (put_row c_id c cs))"
  using assms
proof (induction cs)
  case (Cons x cs)
  have "put_row c_id c (x # cs) = (if c_id x = c_id c then c # cs else x # put_row c_id c cs)"
  proof (cases "c_id x = c_id c")
    case True
    with Cons.prems(1) have "put_row c_id c cs = cs"
      by (auto simp: put_row_def image_iff intro!: map_idI)
    with True show ?thesis by (simp add: put_row_def)
  qed (simp add: put_row_def)
  with Cons show ?case by (auto simp: put_row_def image_iff split: if_splits) metis+
qed (simp add: put_row_def)

lemma slot_taken_iff:
  "slot_taken c d \<longleftrightarrow> (\<exists>x \<in> set (t_cards d). c_id x \<noteq> c_id c \<and> card_slot x = card_slot c)"
  by (auto simp: slot_taken_def card_slot_def)

lemma rows_of_within:
  assumes "rows_of i d d'" and "i \<in> S"
  shows "fst ` set (t_watchers d) \<subseteq> S \<Longrightarrow> fst ` set (t_watchers d') \<subseteq> S"
    and "fst ` set (t_cardTags d) \<subseteq> S \<Longrightarrow> fst ` set (t_cardTags d') \<subseteq> S"
  using assms unfolding rows_of_def by (metis insert_subset subset_trans)+

lemma saved_ok:
  assumes ok: "db_ok (w_db w)" and c: "findCard i (w_db w) = Some c"
    and s: "saved a c c' evs w w'" and c': "card_ok (t_lanes (w_db w)) c'"
  shows "db_ok (w_db w')"
proof -
  let ?d = "w_db w" and ?d' = "w_db w'"
  from findCard_id[OF c] have i: "c_id c = i" "c \<in> set (t_cards ?d)" by simp_all
  from s have t: "t_cards ?d' = put_row c_id c' (t_cards ?d)" "t_events ?d' = t_events ?d @ evs"
    "t_lanes ?d' = t_lanes ?d" "c_id c' = c_id c" "\<not> slot_taken c' ?d"
    and ev: "\<forall>ev \<in> set evs. ev_cardId ev = c_id c" "distinct (map ev_id evs)"
      "ev_id ` set evs \<inter> ev_id ` set (t_events ?d) = {}"
    and fr: "db_frame ?d ?d'" "rows_of (c_id c) ?d ?d'"
    by (simp_all add: saved_def db_frame_def stamped_def)
  have ids: "map c_id (t_cards ?d') = map c_id (t_cards ?d)" by (simp add: t map_pk_put_row)
  then have idset: "c_id ` set (t_cards ?d') = c_id ` set (t_cards ?d)" by (metis set_map)
  have "cards_ok ?d'" unfolding cards_ok_def ids
  proof (intro conjI)
    show "distinct (map c_id (t_cards ?d))" using ok by (simp add: db_ok_def cards_ok_def)
    show "distinct (map card_slot (t_cards ?d'))" unfolding t(1)
      using ok t(5) by (intro slot_free_distinct) (auto simp: db_ok_def cards_ok_def slot_taken_iff)
    show "\<forall>c \<in> set (t_cards ?d'). card_ok (t_lanes ?d') c"
      using ok c' t by (auto simp: db_ok_def cards_ok_def dest!: in_put_row)
  qed
  moreover have "refs_ok ?d'"
  proof -
    have own: "c_id c \<in> c_id ` set (t_cards ?d)" using i by blast
    have "fst ` set (t_watchers ?d') \<subseteq> c_id ` set (t_cards ?d)"
      "fst ` set (t_cardTags ?d') \<subseteq> c_id ` set (t_cards ?d)"
      using rows_of_within[OF fr(2) own] ok by (simp_all add: db_ok_def refs_ok_def)
    moreover have "ev_cardId ` set (t_events ?d') \<subseteq> c_id ` set (t_cards ?d)"
      using ok ev(1) own by (simp add: t db_ok_def refs_ok_def image_Un image_subset_iff)
    moreover have "distinct (map ev_id (t_events ?d'))"
      using ok ev(2,3) by (simp add: t db_ok_def refs_ok_def Int_commute)
    ultimately show ?thesis
      using ok fr(1) by (simp add: refs_ok_def idset db_ok_def db_frame_def)
  qed
  ultimately show ?thesis using ok t by (simp add: db_ok_def lanes_ok_def)
qed

section \<open>The card after each command\<close>

lemma moved_card_ok:
  assumes ok: "db_ok d" and pl: "plan_move E a i inp d = Inr pl"
  shows "card_ok (t_lanes d) (moved_card pl t st)"
proof -
  note p = plan_move_InrD[OF pl]
  from p have find: "findCard i d = Some (pl_card pl)" by (simp add: accessibleCard_iff)
  from p have lane: "laneOfCard (pl_card pl) d = Inr (pl_from pl)"
    and to: "findLaneByKey (c_boardId (pl_card pl)) (mv_toLane inp) d = Some (pl_to pl)" by simp_all
  from lane_of_ok[OF ok find lane] have fr: "lane_fits (pl_from pl) (pl_card pl)"
    "pl_from pl \<in> set (t_lanes d)" by simp_all
  from findLaneByKey_SomeD[OF to] have l: "pl_to pl \<in> set (t_lanes d)"
    "l_boardId (pl_to pl) = c_boardId (pl_card pl)" by simp_all
  from p obtain policy where
    "move_waiting (pl_card pl) (pl_from pl) (pl_to pl) policy inp = Inr (pl_waiting pl)" by blast
  note wt = move_waiting_InrD[OF this]
  have flag: "flag_ok (moved_card pl t st)" "1 \<le> c_version (moved_card pl t st)"
    using ok findCard_id[OF find] flag_ok_eq[of "moved_card pl t st" "pl_card pl"]
    by (auto simp: db_ok_def cards_ok_def card_ok_def)
  have "lane_fits (pl_to pl) (moved_card pl t st)"
  proof (cases "is_reorder (pl_from pl) (pl_to pl)")
    case True
    with lane_unique[of d "pl_to pl" "pl_from pl"] ok l fr
    have "pl_to pl = pl_from pl" by (simp add: is_reorder_def db_ok_def)
    with True fr show ?thesis
      by (auto simp: lane_fits_def moved_card_def Let_def is_reorder_def)
  next
    case False
    with fr l wt p show ?thesis
      by (auto simp: lane_fits_def moved_card_def Let_def enters_waiting_def
          split: option.splits prod.splits if_splits)
  qed
  with l flag show ?thesis by (auto simp: card_ok_def)
qed

lemma stored_card_ok: "db_ok d \<Longrightarrow> findCard i d = Some c \<Longrightarrow> card_ok (t_lanes d) c"
  by (auto simp: db_ok_def cards_ok_def dest: findCard_id)

lemma card_okI:
  "l \<in> set ls \<Longrightarrow> lane_fits l c \<Longrightarrow> flag_ok c \<Longrightarrow> 1 \<le> c_version c \<Longrightarrow> card_ok ls c"
  by (auto simp: card_ok_def)

lemma cancelled_card_ok:
  assumes ok: "db_ok d" and pl: "cancel_plan E a i inp d = Inr (c, fr, to, p)"
  shows "card_ok (t_lanes d) (cancelled_card c res to p t)"
proof -
  note q = cancel_plan_InrD[OF pl]
  then have "findCard i d = Some c" by (simp add: accessibleCard_iff)
  from stored_card_ok[OF ok this] have "flag_ok c" by (simp add: card_ok_def)
  with q show ?thesis
    by (intro card_okI[of to])
      (auto simp: lane_fits_def cancelled_card_def flag_ok_def dest: findLaneByKey_SomeD)
qed

lemma reopen_target_lane:
  "reopen_target c d = Inr l \<Longrightarrow> l \<in> set (t_lanes d) \<and> l_boardId l = c_boardId c"
  by (auto simp: reopen_target_def restored_lane_def
      dest: findLaneByKey_SomeD firstLane_InrD split: option.splits)

lemma reopened_card_ok:
  assumes ok: "db_ok d" and pl: "reopen_plan E a i v d = Inr (c, to, p)"
  shows "card_ok (t_lanes d) (reopened_card c to p d t)"
proof -
  note q = reopen_plan_InrD[OF pl]
  then obtain fr where find: "findCard i d = Some c" and fr: "laneOfCard c d = Inr fr"
    "l_key fr = ''done''" by (auto simp: accessibleCard_iff)
  from stored_card_ok[OF ok find] have flag: "flag_ok c" by (simp add: card_ok_def)
  from lane_of_ok[OF ok find fr(1)] fr(2) have "c_waitingReason c = None"
    by (auto simp: lane_fits_def)
  with q reopen_target_lane[of c d to] have "lane_fits to (reopened_card c to p d t)"
    by (auto simp: lane_fits_def reopened_card_def Let_def split: if_splits)
  moreover from flag have "flag_ok (reopened_card c to p d t)"
    by (subst flag_ok_eq[of _ c]) simp_all
  ultimately show ?thesis using reopen_target_lane[of c d to] q by (intro card_okI[of to]) auto
qed

lemma archived_card_ok:
  assumes ok: "db_ok d" and find: "findCard i d = Some c"
    and fr: "laneOfCard c d = Inr fr" "l_key fr = ''done''"
  shows "card_ok (t_lanes d) (archived_card c t)"
proof -
  from lane_of_ok[OF ok find fr(1)] stored_card_ok[OF ok find] fr(2) show ?thesis
    by (intro card_okI[of fr]) (auto simp: lane_fits_def archived_card_def flag_ok_def card_ok_def)
qed

lemma blocked_card_ok:
  assumes "card_ok ls c"
  shows "card_ok ls (blocked_card c reason t)"
proof -
  from assms obtain l where "l \<in> set ls" "lane_fits l c" by (auto simp: card_ok_def)
  then show ?thesis
    by (intro card_okI[of l]) (auto simp: lane_fits_def blocked_card_def flag_ok_def)
qed

lemma updated_card_ok:
  assumes ok: "db_ok d" and find: "findCard i d = Some c"
    and core: "core_of (c'\<lparr>c_version := c_version c\<rparr>) = core_of c"
    and wait: "c_waitingReason c' \<noteq> c_waitingReason c \<longrightarrow> in_waiting_lane c d"
    and "1 \<le> c_version c'"
  shows "card_ok (t_lanes d) c'"
proof -
  from stored_card_ok[OF ok find] obtain l where l: "l \<in> set (t_lanes d)" "lane_fits l c"
    and flag: "flag_ok c" by (auto simp: card_ok_def)
  have "lane_fits l c'"
  proof (cases "c_waitingReason c' = c_waitingReason c")
    case True
    with l core show ?thesis by (simp add: lane_fits_def core_of_def)
  next
    case False
    with wait obtain l' where l': "laneOfCard c d = Inr l'" "l_key l' = ''waiting_parts_vendor''"
      by (auto simp: in_waiting_lane_def)
    from lane_of_ok[OF ok find l'(1)] lane_unique[of d l' l] l ok
    have "l' = l" by (auto simp: db_ok_def lane_fits_def)
    with l l' core show ?thesis by (auto simp: lane_fits_def core_of_def)
  qed
  moreover from flag core have "flag_ok c'"
    by (subst flag_ok_eq[of _ c]) (simp_all add: core_of_def)
  ultimately show ?thesis using l assms(5) by (intro card_okI)
qed

section \<open>The transactions and the commands keep the invariant\<close>

lemma tx_keeps_ok:
  assumes ok: "db_ok (w_db w)"
  shows "move_tx E a i mi w = (Inr ((c', evs), fin), w') \<Longrightarrow> db_ok (w_db w')"
    and "cancel_tx E a i ci w = (Inr (c', evs), w') \<Longrightarrow> db_ok (w_db w')"
    and "reopen_tx E a i v w = (Inr (c', evs), w') \<Longrightarrow> db_ok (w_db w')"
    and "archive_tx E a i v w = (Inr (c', evs), w') \<Longrightarrow> db_ok (w_db w')"
    and "setBlockedFlag_tx E a i v r w = (Inr (c', evs), w') \<Longrightarrow> db_ok (w_db w')"
    and "update_tx E a i ui w = (Inr (c', evs), w') \<Longrightarrow> db_ok (w_db w')"
proof -
  assume "move_tx E a i mi w = (Inr ((c', evs), fin), w')"
  then obtain pl t st where pl: "plan_move E a i mi (w_db w) = Inr pl" "c' = moved_card pl t st"
    and s: "saved a (pl_card pl) c' evs w w'" by (blast dest: move_tx_run)
  from plan_move_InrD[OF pl(1)] have "findCard i (w_db w) = Some (pl_card pl)"
    by (simp add: accessibleCard_iff)
  from saved_ok[OF ok this s] moved_card_ok[OF ok pl(1)] pl(2) show "db_ok (w_db w')" by simp
next
  assume "cancel_tx E a i ci w = (Inr (c', evs), w')"
  then obtain c fr to p t where pl: "cancel_plan E a i ci (w_db w) = Inr (c, fr, to, p)"
    "c' = cancelled_card c (cn_resolution ci) to p t" and s: "saved a c c' evs w w'"
    by (blast dest: cancel_tx_run)
  from cancel_plan_InrD[OF pl(1)] have "findCard i (w_db w) = Some c" by (simp add: accessibleCard_iff)
  from saved_ok[OF ok this s] cancelled_card_ok[OF ok pl(1)] pl(2) show "db_ok (w_db w')" by simp
next
  assume "reopen_tx E a i v w = (Inr (c', evs), w')"
  then obtain c to p t where pl: "reopen_plan E a i v (w_db w) = Inr (c, to, p)"
    "c' = reopened_card c to p (w_db w) t" and s: "saved a c c' evs w w'"
    by (blast dest: reopen_tx_run)
  from reopen_plan_InrD[OF pl(1)] have "findCard i (w_db w) = Some c" by (simp add: accessibleCard_iff)
  from saved_ok[OF ok this s] reopened_card_ok[OF ok pl(1)] pl(2) show "db_ok (w_db w')" by simp
next
  assume "archive_tx E a i v w = (Inr (c', evs), w')"
  then obtain c t where pl: "archive_plan a i v (w_db w) = Inr c" "c' = archived_card c t"
    and s: "saved a c c' evs w w'" by (blast dest: archive_tx_run)
  from archive_plan_InrD[OF pl(1)] obtain fr where c: "findCard i (w_db w) = Some c"
    and fr: "laneOfCard c (w_db w) = Inr fr" "l_key fr = ''done''" by (auto simp: accessibleCard_iff)
  from saved_ok[OF ok c s] archived_card_ok[OF ok c fr] pl(2) show "db_ok (w_db w')" by simp
next
  assume "setBlockedFlag_tx E a i v r w = (Inr (c', evs), w')"
  then obtain c t where pl: "block_plan a i v r (w_db w) = Inr c" "c' = blocked_card c r t"
    and s: "saved a c c' evs w w'" by (blast dest: block_tx_run)
  from block_plan_InrD[OF pl(1)] have c: "findCard i (w_db w) = Some c" by (simp add: accessibleCard_iff)
  from saved_ok[OF ok c s] blocked_card_ok[OF stored_card_ok[OF ok c]] pl(2)
  show "db_ok (w_db w')" by simp
next
  assume "update_tx E a i ui w = (Inr (c', evs), w')"
  from update_tx_run[OF this] obtain c policy where
    pl: "update_plan a i (ui_expectedVersion ui) (w_db w) = Inr (c, policy)" and
    r: "if evs = [] then c' = c \<and> w_db w' = w_db w
       else saved a c c' evs w w' \<and> core_of (c'\<lparr>c_version := c_version c\<rparr>) = core_of c
         \<and> (c_waitingReason c' \<noteq> c_waitingReason c \<longrightarrow> in_waiting_lane c (w_db w))" by blast
  from update_plan_InrD[OF pl] have c: "findCard i (w_db w) = Some c" by (simp add: accessibleCard_iff)
  show "db_ok (w_db w')"
  proof (cases "evs = []")
    case False
    with r have s: "saved a c c' evs w w'" by simp
    with r False updated_card_ok[OF ok c, of c'] have "card_ok (t_lanes (w_db w)) c'"
      by (simp add: saved_def)
    with saved_ok[OF ok c s] show ?thesis by simp
  qed (use r ok in simp)
qed

text \<open>A method keeps what its transaction keeps.\<close>

lemma publish_db: "publish_result (c, evs) w = (Inr c', w') \<Longrightarrow> w_db w' = w_db w"
  by (auto simp: publish_result_def bind_Inr_iff publishCardHints_iffs return_iffs split: if_splits)

lemma retried_keeps:
  assumes "bind (runWithPositionRetry tx cur) publish_result w = (r, w')" and "keeps outside tx"
    and tx: "\<And>w0 c evs w1. tx w0 = (Inr (c, evs), w1) \<Longrightarrow> db_ok (w_db w0) \<Longrightarrow> db_ok (w_db w1)"
    and "db_ok (w_db w)"
  shows "db_ok (w_db w')"
proof (cases r)
  case (Inl e)
  with retried_failure[of tx cur w e w'] assms show ?thesis by (simp add: undone_def)
next
  case (Inr c')
  with assms(1) obtain c evs w1 where r: "runWithPositionRetry tx cur w = (Inr (c, evs), w1)"
    and "publish_result (c, evs) w1 = (Inr c', w')"
    by (auto simp: bind_Inr_iff)
  from publish_db[OF this(2)] have "w_db w' = w_db w1" .
  moreover obtain w0 where "tx w0 = (Inr (c, evs), w1)" "w_db w0 = w_db w"
    by (rule retry_run[OF assms(2) r])
  ultimately show ?thesis using tx[of w0 c evs w1] assms(4) by simp
qed

lemma single_keeps:
  assumes "bind (uow_run tx) publish_result w = (r, w')" and "keeps outside tx"
    and tx: "\<And>c evs w1. tx w = (Inr (c, evs), w1) \<Longrightarrow> db_ok (w_db w1)"
    and "db_ok (w_db w)"
  shows "db_ok (w_db w')"
proof (cases r)
  case (Inl e)
  with single_failure[of tx w e w'] assms show ?thesis by (simp add: undone_def)
next
  case (Inr c')
  with assms(1) obtain c evs w1 where "tx w = (Inr (c, evs), w1)"
    "publish_result (c, evs) w1 = (Inr c', w')"
    by (auto simp: bind_Inr_iff uow_run_Inr_iff)
  with tx publish_db show ?thesis by simp
qed

lemma parsed_keeps:
  assumes "bind (lift p) f w = (r, w')" and "\<And>x. p = Inr x \<Longrightarrow> f x w = (r, w') \<Longrightarrow> P w'" and "P w"
  shows "P w'"
  using assms by (cases p) (auto simp: bind_def lift_def)

lemma run_command_ok:
  assumes run: "run_command E a i x w = (r, w')" and ok: "db_ok (w_db w)"
  shows "db_ok (w_db w')"
proof (cases x)
  case (UpdateCard y)
  with run show ?thesis
    by (auto simp: update_card_def elim!: parsed_keeps single_keeps intro: ok tx_keeps_ok(6))
next
  case (MoveCard y)
  show ?thesis
  proof (cases r)
    case (Inl e)
    with command.failure run ok show ?thesis by (fastforce simp: undone_def)
  next
    case (Inr c')
    with run MoveCard have "move_card E a i y w = (Inr c', w')" by simp
    from move_card_Inr[OF this] obtain c1 evs fin w1 w2 where
      m: "runWithPositionRetry (move_tx E a i y) (Some (accessibleCard a i)) w
        = (Inr ((c1, evs), fin), w1)" and "publish_result (c1, evs) w1 = (Inr c', w2)"
      and "w' = (if fin then w2\<lparr>w_completed := w_completed w2 @ [c']\<rparr> else w2)" .
    then have "w_db w' = w_db w1" using publish_db by simp
    moreover obtain w0 where "move_tx E a i y w0 = (Inr ((c1, evs), fin), w1)" "w_db w0 = w_db w"
      by (rule retry_run[OF inside_txs(1) m])
    ultimately show ?thesis using tx_keeps_ok(1)[of w0] ok by simp
  qed
next
  case (CancelCard y)
  with run show ?thesis
    by (auto simp: cancel_card_def elim!: parsed_keeps retried_keeps intro: ok tx_keeps_ok(2))
next
  case (ReopenCard y)
  with run show ?thesis
    by (auto simp: reopen_card_def elim!: parsed_keeps retried_keeps intro: ok tx_keeps_ok(3))
next
  case (ArchiveCard y)
  with run show ?thesis
    by (auto simp: archive_card_def elim!: parsed_keeps single_keeps intro: ok tx_keeps_ok(4))
next
  case (BlockCard y)
  with run show ?thesis
    by (auto simp: block_card_def setBlockedFlag_def elim!: parsed_keeps single_keeps
        intro: ok tx_keeps_ok(5))
next
  case (UnblockCard y)
  with run show ?thesis
    by (auto simp: unblock_card_def setBlockedFlag_def elim!: parsed_keeps single_keeps
        intro: ok tx_keeps_ok(5))
qed

end
