(* ===== verification/Card_Life.thy ===== *)
theory Card_Life
  imports Invariant
begin

text \<open>
  The two ends of a card's life: \<open>create\<close> and the discard of a draft (\<open>delete\<close>).  What
  each leaves behind, who may do it, and that both keep the database invariant.
\<close>

section \<open>Create\<close>

lemma nextCardId_fresh: "nextCardId d \<notin> c_id ` set (t_cards d)"
proof -
  have "c \<in> set cs \<Longrightarrow> c_id c \<le> foldr max (map c_id cs) 0" for c cs
    by (induction cs) (auto simp: le_max_iff_disj)
  then show ?thesis by (fastforce simp: nextCardId_def)
qed

lemma new_card_simps [simp]:
  "c_id (new_card E inp opts og rep l i p t) = i" "c_laneId (new_card E inp opts og rep l i p t) = l"
  "c_boardId (new_card E inp opts og rep l i p t) = e_boardId E"
  "c_position (new_card E inp opts og rep l i p t) = p"
  "c_version (new_card E inp opts og rep l i p t) = 1"
  "c_assigneeId (new_card E inp opts og rep l i p t) = ci_assigneeId inp"
  "c_reporterId (new_card E inp opts og rep l i p t) = rep"
  "c_title (new_card E inp opts og rep l i p t) = ci_title inp"
  by (simp_all add: new_card_def)

lemma create_plan_InrD:
  assumes "create_plan E a inp opts d = Inr (rep, entry, tp)"
  shows "(\<exists>b. findBoard (e_boardId E) d = Some b \<and> canAccessBoard a b d = Inr True)
    \<and> (\<exists>policy. activePolicy (e_boardId E) d = Inr policy \<and> permitted a PermCardCreate policy)
    \<and> firstLane (e_boardId E) d = Inr entry
    \<and> rep = default_to (a_id a) (co_reporterId opts) \<and> findUser rep d \<noteq> None
    \<and> (\<forall>x. ci_assigneeId inp = Some x \<longrightarrow> requireAssignable E x (e_boardId E) d = Inr ())
    \<and> tp = map_option c_position (edgeOfLane (l_id entry) FirstEdge d)"
  using assms unfolding create_plan_def sbind_Inr_iff Let_def
  by (auto simp: decide_iffs gated_action requireFound_iffs requireBoardAccess_iff)

text \<open>The watchers a new card starts with: its reporter, then its assignee.\<close>

definition auto_watch :: "card \<Rightarrow> instant \<Rightarrow> db \<Rightarrow> db" where
  "auto_watch c t d = (let d1 = addWatcher (c_id c) (c_reporterId c) t d in
     case c_assigneeId c of None \<Rightarrow> d1 | Some u \<Rightarrow> addWatcher (c_id c) u t d1)"

lemma auto_watch_tables [simp]:
  "t_cards (auto_watch c t d) = t_cards d" "t_events (auto_watch c t d) = t_events d"
  "t_lanes (auto_watch c t d) = t_lanes d" "t_cardTags (auto_watch c t d) = t_cardTags d"
  "t_tags (auto_watch c t d) = t_tags d" "db_frame d0 (auto_watch c t d) = db_frame d0 d"
  by (simp_all add: auto_watch_def Let_def split: option.splits)

lemma auto_watch_rows:
  "fst ` set (t_watchers (auto_watch c t d)) \<subseteq> insert (c_id c) (fst ` set (t_watchers d))"
  by (auto simp: auto_watch_def addWatcher_def Let_def split: option.splits)

lemma auto_watch_watching:
  "isWatching (c_id c) u (auto_watch c t d) \<longleftrightarrow>
     u = c_reporterId c \<or> c_assigneeId c = Some u \<or> isWatching (c_id c) u d"
  by (auto simp: auto_watch_def isWatching_addWatcher Let_def split: option.splits)

definition created_db ::
  "card \<Rightarrow> instant \<Rightarrow> tag list \<Rightarrow> tag list \<Rightarrow> card_event \<Rightarrow> db \<Rightarrow> db" where
  "created_db c t new tags ev d = (let d1 = auto_watch c t (d\<lparr>t_cards := t_cards d @ [c]\<rparr>) in
     d1\<lparr>t_tags := t_tags d1 @ new,
        t_cardTags := filter (\<lambda>r. fst r \<noteq> c_id c) (t_cardTags d1) @ map (Pair (c_id c)) (map tag_id tags),
        t_events := t_events d1 @ [ev]\<rparr>)"

lemma store_new_card_run:
  assumes "store_new_card E a names t c w = (Inr (c', evs), w')"
  shows "c' = c \<and> \<not> slot_taken c (w_db w) \<and> outside w' = outside w
    \<and> (\<exists>new tags ev. evs = [ev] \<and> ev_body ev = CardCreated c (map tag_name tags)
      \<and> stamped a (c_id c) ev \<and> ev_id ev \<notin> ev_id ` set (t_events (w_db w))
      \<and> map (\<lambda>t. to_lower (tag_name t)) tags = uniq (map to_lower names)
      \<and> set tags \<subseteq> set (t_tags (w_db w'))
      \<and> w_db w' = created_db c t new tags ev (w_db w))"
proof -
  from assms obtain w2 w4 w5 w6 tags ev where
    w2: "store (insertCard c) w = (Inr (), w2)"
    and w4: "resolveTags E names (w2\<lparr>w_db := auto_watch c t (w_db w2)\<rparr>) = (Inr tags, w4)"
    and w5: "store (setCardTags (c_id c) (map tag_id tags)) w4 = (Inr (), w5)"
    and w6: "makeEvent E a (c_id c) (CardCreated c (map tag_name tags)) w5 = (Inr ev, w6)"
      "store (appendEvent ev) w6 = (Inr (), w')" and c': "c' = c" "evs = [ev]"
    unfolding store_new_card_def
    by (auto simp: bind_Inr_iff put_db_iffs return_iffs auto_watch_def Let_def split: option.splits)
  define w3 where "w3 = w2\<lparr>w_db := auto_watch c t (w_db w2)\<rparr>"
  then have w3: "w_db w3 = auto_watch c t (w_db w2)" "outside w3 = outside w2" by simp_all
  note w4 = w4[folded w3_def]
  from resolveTags_run[OF w4] obtain new where
    n: "w4 = tags_grown w3 new" "set tags \<subseteq> set (t_tags (w_db w4))"
      "map (\<lambda>t. to_lower (tag_name t)) tags = uniq (map to_lower names)" by blast
  from w6 have ev: "stamped a (c_id c) ev" "ev_body ev = CardCreated c (map tag_name tags)"
      "ev_id ev \<notin> ev_id ` set (t_events (w_db w5))"
    and w': "w_db w' = (w_db w5)\<lparr>t_events := t_events (w_db w5) @ [ev]\<rparr>" "outside w' = outside w5"
    by (auto simp: run_simps stamped_def)
  from w2 have d2: "w_db w2 = (w_db w)\<lparr>t_cards := t_cards (w_db w) @ [c]\<rparr>"
    "\<not> slot_taken c (w_db w)" "outside w2 = outside w"
    by (auto simp: store_iffs insertCard_Inr_iff)
  from w5 have d5: "w_db w5 = (w_db w4)\<lparr>t_cardTags := filter (\<lambda>r. fst r \<noteq> c_id c)
      (t_cardTags (w_db w4)) @ map (Pair (c_id c)) (map tag_id tags)\<rparr>" "outside w5 = outside w4"
    by (auto simp: store_iffs setCardTags_Inr_iff)
  have "w_db w' = created_db c t new tags ev (w_db w)"
    by (simp add: created_db_def Let_def w' d5 n(1) w3 d2)
  moreover have "outside w' = outside w" by (simp add: w' d5 n(1) w3 d2)
  moreover have "set tags \<subseteq> set (t_tags (w_db w'))" using n(2) by (simp add: w' d5)
  moreover have "ev_id ev \<notin> ev_id ` set (t_events (w_db w))"
    using ev(3) by (simp add: d5 n(1) w3 d2)
  ultimately show ?thesis using c' d2(2) ev n(3) by blast
qed

lemma create_tx_run:
  assumes "create_tx E a inp opts og w = (Inr (c', evs), w')"
  shows "\<exists>rep entry tp p t. create_plan E a inp opts (w_db w) = Inr (rep, entry, tp)
    \<and> e_keyBetween E None tp = Some p
    \<and> c' = new_card E inp opts og rep (l_id entry) (nextCardId (w_db w)) p t
    \<and> \<not> slot_taken c' (w_db w) \<and> outside w' = outside w
    \<and> (\<exists>new tags ev. evs = [ev] \<and> ev_body ev = CardCreated c' (map tag_name tags)
      \<and> stamped a (c_id c') ev \<and> ev_id ev \<notin> ev_id ` set (t_events (w_db w))
      \<and> map (\<lambda>t. to_lower (tag_name t)) tags = uniq (map to_lower (ci_tags inp))
      \<and> set tags \<subseteq> set (t_tags (w_db w'))
      \<and> w_db w' = created_db c' t new tags ev (w_db w))"
proof -
  from assms obtain rep entry tp p where
    plan: "create_plan E a inp opts (w_db w) = Inr (rep, entry, tp)"
    and key: "e_keyBetween E None tp = Some p"
    and run: "store_new_card E a (ci_tags inp) (e_clock E (w_ticks w))
      (new_card E inp opts og rep (l_id entry) (nextCardId (w_db w)) p (e_clock E (w_ticks w)))
      (w\<lparr>w_ticks := Suc (w_ticks w)\<rparr>) = (Inr (c', evs), w')"
    unfolding create_tx_def
    by (auto simp: bind_Inr_iff ask_iff now_iffs lift_iffs keyBetween_iff split: prod.splits)
  from store_new_card_run[OF run] plan key show ?thesis
    by (intro exI[of _ rep] exI[of _ entry] exI[of _ tp] exI[of _ p]
        exI[of _ "e_clock E (w_ticks w)"]) simp
qed

lemma inside_create [intro, simp]: "keeps outside (create_tx E a inp opts og)"
  by (auto simp: create_tx_def store_new_card_def intro!: keeps_bind split: prod.split option.split)

section \<open>Discard\<close>

lemma hardDelete_Inr_iff:
  "hardDelete i d = Inr (ks, d') \<longleftrightarrow> i \<in> c_id ` set (t_cards d)
     \<and> ks = map at_storageKey (filter (\<lambda>a. at_cardId a = i) (t_attachments d))
     \<and> d' = d\<lparr>t_cardTags := filter (\<lambda>r. fst r \<noteq> i) (t_cardTags d),
          t_comments := filter (\<lambda>r. cm_cardId r \<noteq> i) (t_comments d),
          t_attachments := filter (\<lambda>r. at_cardId r \<noteq> i) (t_attachments d),
          t_events := filter (\<lambda>r. ev_cardId r \<noteq> i) (t_events d),
          t_relations := filter (\<lambda>r. rel_fromCardId r \<noteq> i \<and> rel_toCardId r \<noteq> i) (t_relations d),
          t_watchers := filter (\<lambda>r. fst r \<noteq> i) (t_watchers d),
          t_notifications := filter (\<lambda>r. n_cardId r \<noteq> i) (t_notifications d),
          t_cards := drop_row c_id i (t_cards d)\<rparr>"
  by (auto simp: hardDelete_def)

text \<open>Who may discard: the reporter (or the system), while the card is in the first column.\<close>

lemma delete_tx_run:
  assumes "delete_tx a i v w = (Inr ks, w')"
  shows "\<exists>c l. accessibleCard a i (w_db w) = Inr c \<and> c_version c = v
    \<and> (a_kind a = KSystem \<or> (a_scope a \<noteq> Some ReadScope \<and> a_id a = c_reporterId c))
    \<and> laneOfCard c (w_db w) = Inr l
    \<and> (\<forall>x \<in> set (t_lanes (w_db w)). l_boardId x = c_boardId c \<longrightarrow> l_position l \<le> l_position x)
    \<and> hardDelete i (w_db w) = Inr (ks, w_db w') \<and> outside w' = outside w"
proof -
  from assms obtain c policy l entry where "accessibleCard a i (w_db w) = Inr c"
    "evaluatePolicy a (ActCardDelete (c_reporterId c)) policy = Allow" "c_version c = v"
    and l: "laneOfCard c (w_db w) = Inr l" and e: "firstLane (c_boardId c) (w_db w) = Inr entry"
    and same: "l_id l = l_id entry" and "hardDelete i (w_db w) = Inr (ks, w_db w')"
      "outside w' = outside w"
    unfolding delete_tx_def
    by (auto simp: bind_Inr_iff ask_iff sbind_Inr_iff put_db_iffs return_iffs decide_iffs
        ensureVersion_iffs sguard_iffs simp del: accessibleCard_iff split: prod.splits)
  moreover from e have "firstLane (c_boardId c) (w_db w) = Inr l"
  proof -
    from l have "l \<in> set (listLanes (c_boardId c) (w_db w))"
      by (auto simp: laneOfCard_def requireFound_iffs find_Some_iff)
    moreover from l same have "find (\<lambda>x. l_id x = l_id entry) (listLanes (c_boardId c) (w_db w)) = Some l"
      using laneOfCard_InrD[OF l] by (simp add: laneOfCard_def requireFound_iffs)
    ultimately show ?thesis using e
      by (cases "listLanes (c_boardId c) (w_db w)") (auto simp: firstLane_def requireFound_iffs)
  qed
  ultimately show ?thesis
    using firstLane_InrD owner_action(1)[of a "c_reporterId c" policy]
    by (intro exI[of _ c] exI[of _ l]) (auto simp del: accessibleCard_iff)
qed

section \<open>Both keep the invariant\<close>

lemma new_card_ok:
  assumes "firstLane (e_boardId E) d = Inr entry"
  shows "card_ok (t_lanes d) (new_card E inp opts og rep (l_id entry) i p t)"
  using firstLane_InrD[OF assms]
  by (intro card_okI[of entry]) (auto simp: lane_fits_def flag_ok_def new_card_def)

lemma created_tables [simp]:
  "t_cards (created_db c t new tags ev d) = t_cards d @ [c]"
  "t_events (created_db c t new tags ev d) = t_events d @ [ev]"
  "t_lanes (created_db c t new tags ev d) = t_lanes d"
  "db_frame d0 (created_db c t new tags ev d) \<longleftrightarrow> db_frame d0 d"
  by (simp_all add: created_db_def Let_def)

lemma created_rows: "rows_of (c_id c) d (created_db c t new tags ev d)"
  using auto_watch_rows[of c t "d\<lparr>t_cards := t_cards d @ [c]\<rparr>"]
  by (auto simp: rows_of_def created_db_def Let_def)

lemma created_ok:
  assumes ok: "db_ok d" and c: "card_ok (t_lanes d) c" "c_id c \<notin> c_id ` set (t_cards d)"
    "\<not> slot_taken c d"
    and ev: "stamped a (c_id c) ev" "ev_id ev \<notin> ev_id ` set (t_events d)"
  shows "db_ok (created_db c t new tags ev d)"
proof -
  let ?d = "created_db c t new tags ev d" and ?S = "insert (c_id c) (c_id ` set (t_cards d))"
  from c(2,3) have "\<forall>x \<in> set (t_cards d). card_slot x \<noteq> card_slot c"
    unfolding slot_taken_iff by (metis imageI)
  then have "card_slot c \<notin> card_slot ` set (t_cards d)" by (metis imageE)
  with ok c have "cards_ok ?d" by (simp add: cards_ok_def db_ok_def)
  moreover have "refs_ok ?d"
  proof -
    have S: "c_id ` set (t_cards ?d) = ?S" by simp
    have frame: "db_frame d ?d" by simp
    have "c_id ` set (t_cards d) \<subseteq> ?S" by blast
    then have "fst ` set (t_watchers d) \<subseteq> ?S" "fst ` set (t_cardTags d) \<subseteq> ?S"
      "ev_cardId ` set (t_events ?d) \<subseteq> ?S"
      using ok ev(1) unfolding db_ok_def refs_ok_def stamped_def by auto
    moreover from rows_of_within[OF created_rows, of c ?S d] this
    have "fst ` set (t_watchers ?d) \<subseteq> ?S" "fst ` set (t_cardTags ?d) \<subseteq> ?S" by simp_all
    moreover have "distinct (map ev_id (t_events ?d))"
      using ok ev(2) by (simp add: db_ok_def refs_ok_def)
    moreover have "cm_cardId ` set (t_comments ?d) \<subseteq> ?S" "at_cardId ` set (t_attachments ?d) \<subseteq> ?S"
      "rel_fromCardId ` set (t_relations ?d) \<subseteq> ?S" "rel_toCardId ` set (t_relations ?d) \<subseteq> ?S"
      "n_cardId ` set (t_notifications ?d) \<subseteq> ?S"
      using ok frame unfolding db_ok_def refs_ok_def db_frame_def by auto
    ultimately show ?thesis unfolding refs_ok_def S by blast
  qed
  ultimately show ?thesis using ok by (simp add: db_ok_def lanes_ok_def)
qed

lemma create_tx_ok:
  assumes run: "create_tx E a inp opts og w = (Inr (c', evs), w')" and ok: "db_ok (w_db w)"
  shows "db_ok (w_db w')"
proof -
  from create_tx_run[OF run] obtain rep entry tp p t new tags ev where
    plan: "create_plan E a inp opts (w_db w) = Inr (rep, entry, tp)"
    and c: "c' = new_card E inp opts og rep (l_id entry) (nextCardId (w_db w)) p t"
      "\<not> slot_taken c' (w_db w)"
    and ev: "stamped a (c_id c') ev" "ev_id ev \<notin> ev_id ` set (t_events (w_db w))"
    and db: "w_db w' = created_db c' t new tags ev (w_db w)" by blast
  from create_plan_InrD[OF plan] have "firstLane (e_boardId E) (w_db w) = Inr entry" by blast
  from new_card_ok[OF this] c(1) have "card_ok (t_lanes (w_db w)) c'" by simp
  moreover have "c_id c' \<notin> c_id ` set (t_cards (w_db w))"
    unfolding c(1) new_card_simps by (rule nextCardId_fresh)
  ultimately show ?thesis unfolding db by (rule created_ok[OF ok _ _ c(2) ev])
qed

lemma create_card_ok:
  assumes "create_card E a raw opts w = (r, w')" and ok: "db_ok (w_db w)"
  shows "db_ok (w_db w')"
  using assms(1) unfolding create_card_def
proof (rule parsed_keeps)
  fix x assume "bind (lift (originOf (a_kind a))) (\<lambda>origin.
    bind (runWithPositionRetry (create_tx E a x opts origin) None) publish_result) w = (r, w')"
  then show "db_ok (w_db w')"
    by (rule parsed_keeps) (auto elim!: retried_keeps intro: ok create_tx_ok)
qed (rule ok)

lemma image_filter_subset:
  "f ` R \<subseteq> g ` S \<Longrightarrow> f ` {r \<in> R. f r \<noteq> i} \<subseteq> g ` {c \<in> S. g c \<noteq> i}"
  by auto

lemma hardDelete_ok:
  assumes "hardDelete i d = Inr (ks, d')" and ok: "db_ok d"
  shows "db_ok d'"
proof -
  from assms(1) have d': "t_cards d' = drop_row c_id i (t_cards d)" "t_lanes d' = t_lanes d"
    "t_events d' = filter (\<lambda>r. ev_cardId r \<noteq> i) (t_events d)"
    "t_comments d' = filter (\<lambda>r. cm_cardId r \<noteq> i) (t_comments d)"
    "t_attachments d' = filter (\<lambda>r. at_cardId r \<noteq> i) (t_attachments d)"
    "t_relations d' = filter (\<lambda>r. rel_fromCardId r \<noteq> i \<and> rel_toCardId r \<noteq> i) (t_relations d)"
    "t_watchers d' = filter (\<lambda>r. fst r \<noteq> i) (t_watchers d)"
    "t_cardTags d' = filter (\<lambda>r. fst r \<noteq> i) (t_cardTags d)"
    "t_notifications d' = filter (\<lambda>r. n_cardId r \<noteq> i) (t_notifications d)"
    by (auto simp: hardDelete_Inr_iff)
  have "cards_ok d'" using ok
    by (auto simp: cards_ok_def d' db_ok_def distinct_drop_row)
  moreover have "refs_ok d'"
  proof -
    let ?S = "set (t_cards d)"
    have S: "set (t_cards d') = {c \<in> ?S. c_id c \<noteq> i}" by (simp add: d')
    have refs: "refs_ok d" using ok by (simp add: db_ok_def)
    have rel: "rel_fromCardId ` set (t_relations d') \<subseteq> c_id ` {c \<in> ?S. c_id c \<noteq> i}"
      using refs unfolding refs_ok_def d' by auto
    have rel': "rel_toCardId ` set (t_relations d') \<subseteq> c_id ` {c \<in> ?S. c_id c \<noteq> i}"
      using refs unfolding refs_ok_def d' by auto
    show ?thesis
      using refs rel rel' unfolding refs_ok_def S
      by (simp add: d'(3,4,5,7,8,9) distinct_map_filter image_filter_subset)
  qed
  ultimately show ?thesis using ok by (simp add: db_ok_def lanes_ok_def d')
qed

lemma delete_blobs_db: "for_each ks (delete_blob E) w = (r, w') \<Longrightarrow>
    r = Inr () \<and> w_db w' = w_db w \<and> w_hints w' = w_hints w \<and> w_completed w' = w_completed w"
  by (induction ks arbitrary: w)
    (auto simp: return_def bind_def delete_blob_def modify_def split: if_splits)

lemma delete_card_ok:
  assumes "delete_card E a i v w = (r, w')" and ok: "db_ok (w_db w)"
  shows "db_ok (w_db w')"
proof (cases "uow_run (delete_tx a i v) w")
  case (Pair q w1)
  show ?thesis
  proof (cases q)
    case (Inl e)
    with Pair assms have "w' = w1" by (simp add: delete_card_def bind_def)
    moreover have "w_db w1 = w_db w" using Pair Inl by (simp add: uow_run_rollback)
    ultimately show ?thesis using ok by simp
  next
    case (Inr ks)
    with Pair assms(1) have "for_each ks (delete_blob E) w1 = (r, w')"
      by (simp add: delete_card_def bind_def)
    with delete_blobs_db have "w_db w' = w_db w1" by blast
    moreover from Pair Inr have "delete_tx a i v w = (Inr ks, w1)" by (simp add: uow_run_Inr_iff)
    ultimately show ?thesis using delete_tx_run hardDelete_ok[OF _ ok] by metis
  qed
qed

end
