(* ===== verification/Card_Order.thy ===== *)
theory Card_Order
  imports Card_Life
begin

text \<open>
  Positions.  The fractional keys come from the package \<open>fractional-indexing\<close>, whose
  documented law is that a generated key lies strictly between its bounds (\<open>lawful\<close>).
  From it: where a moved, cancelled, reopened or created card stands in its lane, and that
  the uniqueness backstop of the position index never fires.
\<close>

section \<open>Sorted lists with one more element\<close>

lemma sort_key_unique:
  assumes "mset xs = mset ys" and "inj_on f (set xs)" and "sorted (map f ys)"
  shows "sort_key f xs = ys"
  using sort_key_inj_key_eq[OF assms] .

lemma sort_place_before:
  fixes f :: "'r \<Rightarrow> 'k::linorder"
  assumes m: "mset S = add_mset c (mset R)" and inj: "inj_on f (set S)" and "distinct R"
    and n: "n \<in> set R" and cn: "f c < f n" and gap: "\<And>x. x \<in> set R \<Longrightarrow> f x < f n \<Longrightarrow> f x < f c"
  obtains xs ys where "sort_key f R = xs @ n # ys" and "sort_key f S = xs @ c # n # ys"
proof -
  from n have "n \<in> set (sort_key f R)" by simp
  then obtain xs ys where O: "sort_key f R = xs @ n # ys" by (meson split_list)
  have S: "set S = insert c (set R)" using m by (metis set_mset_add_mset_insert set_mset_mset)
  have "distinct (sort_key f R)" using \<open>distinct R\<close> by simp
  then have dist: "n \<notin> set xs" "n \<notin> set ys" unfolding O by auto
  have srt: "sorted (map f (xs @ n # ys))" unfolding O[symmetric] by simp
  have mem: "set (xs @ n # ys) = set R" unfolding O[symmetric] by simp
  have "f x < f c" if "x \<in> set xs" for x
  proof -
    from srt that have "f x \<le> f n" by (simp add: sorted_append)
    moreover have "x \<in> set R" using that mem by auto
    moreover have "f x \<noteq> f n"
    proof
      assume "f x = f n"
      with inj \<open>x \<in> set R\<close> n have "x = n" unfolding S by (auto dest: inj_onD)
      with that dist show False by simp
    qed
    ultimately show ?thesis using gap by simp
  qed
  then have "sorted (map f (xs @ c # n # ys))"
    using srt cn by (auto simp: sorted_append intro: less_imp_le order_trans)
  moreover have "mset S = mset (xs @ c # n # ys)"
    using m O by (metis (no_types, lifting) mset.simps(2) mset_append mset_sort
        union_mset_add_mset_right)
  ultimately have "sort_key f S = xs @ c # n # ys" using inj by (intro sort_key_unique)
  with O show ?thesis by (rule that)
qed

lemma sort_place_last:
  fixes f :: "'r \<Rightarrow> 'k::linorder"
  assumes "mset S = add_mset c (mset R)" and "inj_on f (set S)" and "\<And>x. x \<in> set R \<Longrightarrow> f x < f c"
  shows "sort_key f S = sort_key f R @ [c]"
  using assms by (intro sort_key_unique) (auto simp: sorted_append intro: less_imp_le)

lemma sort_place_first:
  fixes f :: "'r \<Rightarrow> 'k::linorder"
  assumes "mset S = add_mset c (mset R)" and "inj_on f (set S)" and "\<And>x. x \<in> set R \<Longrightarrow> f c < f x"
  shows "sort_key f S = c # sort_key f R"
  using assms by (intro sort_key_unique) (auto intro: less_imp_le)

lemma order_first_exists:
  assumes "x \<in> set rows"
  shows "\<exists>c. first_of (order_asc f rows) = Some c" and "\<exists>c. first_of (order_desc f rows) = Some c"
proof -
  from assms have "rows \<noteq> []" by auto
  then have "first_of (order_asc f rows) \<noteq> None" "first_of (order_desc f rows) \<noteq> None" by simp_all
  then show "\<exists>c. first_of (order_asc f rows) = Some c" "\<exists>c. first_of (order_desc f rows) = Some c"
    by blast+
qed

section \<open>The law of the key generator\<close>

definition lawful :: "(string option \<Rightarrow> string option \<Rightarrow> string option) \<Rightarrow> bool" where
  "lawful gkb \<longleftrightarrow> (\<forall>a b k. gkb a b = Some k \<longrightarrow>
     (\<forall>x. a = Some x \<longrightarrow> x < k) \<and> (\<forall>y. b = Some y \<longrightarrow> k < y))"

lemma lawful_above: "lawful g \<Longrightarrow> g (Some x) b = Some k \<Longrightarrow> x < k"
  by (simp add: lawful_def)

lemma lawful_below: "lawful g \<Longrightarrow> g a (Some y) = Some k \<Longrightarrow> k < y"
  by (simp add: lawful_def)

lemma edge_last_bound:
  assumes "lawful g" and k: "g (map_option c_position (edgeOfLane l LastEdge d)) None = Some k"
    and x: "x \<in> set (t_cards d)" "c_laneId x = l"
  shows "c_position x < k"
proof -
  let ?rows = "filter (\<lambda>c. c_laneId c = l) (t_cards d)"
  from x have xr: "x \<in> set ?rows" by simp
  obtain c where c: "first_of (order_desc c_position ?rows) = Some c"
    using order_first_exists(2)[OF xr] by blast
  from first_of_desc_greatest[OF c xr] have "c_position x \<le> c_position c" .
  also from c k assms(1) have "c_position c < k"
    by (auto simp: edgeOfLane_def Let_def dest: lawful_above)
  finally show ?thesis .
qed

lemma edge_first_bound:
  assumes "lawful g" and k: "g None (map_option c_position (edgeOfLane l FirstEdge d)) = Some k"
    and x: "x \<in> set (t_cards d)" "c_laneId x = l"
  shows "k < c_position x"
proof -
  let ?rows = "filter (\<lambda>c. c_laneId c = l) (t_cards d)"
  from x have xr: "x \<in> set ?rows" by simp
  obtain c where c: "first_of (order_asc c_position ?rows) = Some c"
    using order_first_exists(1)[OF xr] by blast
  from c k assms(1) have "k < c_position c"
    by (auto simp: edgeOfLane_def Let_def dest: lawful_below)
  also from first_of_asc_least[OF c xr] have "c_position c \<le> c_position x" .
  finally show ?thesis .
qed

lemma gap_bound:
  assumes "lawful g" and k: "g (positionBefore l np i d) np = Some k"
    and x: "x \<in> set (t_cards d)" "c_laneId x = l" "c_id x \<noteq> i"
  shows "(\<forall>p. np = Some p \<longrightarrow> k < p \<and> (c_position x < p \<longrightarrow> c_position x < k))
    \<and> (np = None \<longrightarrow> c_position x < k)"
proof -
  let ?below = "\<lambda>c. case np of None \<Rightarrow> True | Some p \<Rightarrow> c_position c < p"
  let ?rows = "filter (\<lambda>c. c_laneId c = l \<and> c_id c \<noteq> i \<and> ?below c) (t_cards d)"
  have "c_position x < k" if "?below x"
  proof -
    from that x have xr: "x \<in> set ?rows" by simp
    obtain c where c: "first_of (order_desc c_position ?rows) = Some c"
      using order_first_exists(2)[OF xr] by blast
    from first_of_desc_greatest[OF c xr] have "c_position x \<le> c_position c" .
    also from c k assms(1) have "c_position c < k"
      by (auto simp: positionBefore_def dest: lawful_above)
    finally show ?thesis .
  qed
  with assms(1) k show ?thesis by (auto dest: lawful_below)
qed

section \<open>Lanes after a write\<close>

definition lane_rows :: "uuid \<Rightarrow> db \<Rightarrow> card list" where
  "lane_rows l d = filter (\<lambda>c. c_laneId c = l) (t_cards d)"

definition others :: "card_no \<Rightarrow> card list \<Rightarrow> card list" where
  "others i cs = filter (\<lambda>c. c_id c \<noteq> i) cs"

lemma listByLane_all: "listByLane l False d = sort_key c_position (lane_rows l d)"
  by (simp add: listByLane_def order_asc_def lane_rows_def)

lemma listByLane_active:
  "listByLane l True d = filter (\<lambda>c. c_archivedAt c = None) (listByLane l False d)"
  by (simp add: listByLane_def order_asc_def filter_sort conj_commute)

lemma slots_inj: "cards_ok d \<Longrightarrow> inj_on c_position (set (lane_rows l d))"
  by (auto simp: cards_ok_def distinct_map card_slot_def lane_rows_def inj_on_def)

lemma mset_put_row:
  "distinct (map c_id cs) \<Longrightarrow> c_id c \<in> c_id ` set cs \<Longrightarrow>
     mset (put_row c_id c cs) = add_mset c (mset (others (c_id c) cs))"
proof (induction cs)
  case (Cons x cs)
  show ?case
  proof (cases "c_id x = c_id c")
    case True
    with Cons.prems have "c_id c \<notin> c_id ` set cs" by simp
    then have "put_row c_id c cs = cs" "others (c_id c) cs = cs"
      by (auto simp: put_row_def others_def image_iff intro!: map_idI filter_True)
    with True show ?thesis by (simp add: put_row_def others_def)
  next
    case False
    with Cons show ?thesis by (auto simp: put_row_def others_def)
  qed
qed simp

lemma others_lane: "others i (lane_rows l d) = lane_rows l (d\<lparr>t_cards := others i (t_cards d)\<rparr>)"
  by (simp add: others_def lane_rows_def conj_commute)

text \<open>The target lane holds its old rows, without the card, and the card as written.\<close>

lemma saved_lane_rows:
  assumes ok: "db_ok (w_db w)" and c: "findCard (c_id c) (w_db w) = Some c"
    and s: "saved a c c' evs w w'"
  shows "mset (lane_rows (c_laneId c') (w_db w')) =
    add_mset c' (mset (others (c_id c) (lane_rows (c_laneId c') (w_db w))))"
proof -
  from s have t: "t_cards (w_db w') = put_row c_id c' (t_cards (w_db w))" "c_id c' = c_id c"
    by (simp_all add: saved_def)
  from c have "c_id c' \<in> c_id ` set (t_cards (w_db w))" using findCard_id t(2) by (metis imageI)
  with ok have "mset (t_cards (w_db w')) = add_mset c' (mset (others (c_id c) (t_cards (w_db w))))"
    unfolding t(1) t(2)[symmetric] by (intro mset_put_row) (simp_all add: db_ok_def cards_ok_def)
  then show ?thesis unfolding others_lane
    by (simp add: lane_rows_def mset_filter[symmetric] del: mset_filter)
      (simp add: mset_filter)
qed

section \<open>The methods, from their transactions\<close>

lemma move_card_run:
  assumes "move_card E a i x w = (Inr c', w')"
  obtains pl t st ev where "plan_move E a i x (w_db w) = Inr pl" and "c' = moved_card pl t st"
    and "\<not> starts_work pl \<longrightarrow> st = c_workStartedAt (pl_card pl)" and "starts_work pl \<longrightarrow> st \<noteq> None"
    and "ev_body ev = move_body pl x (w_db w)" and "saved a (pl_card pl) c' [ev] w w'"
    and "announced c' [ev] w w'"
    and "w_completed w' = w_completed w @ (if completes pl then [c'] else [])"
    and "w_db w' = (w_db w)\<lparr>t_cards := put_row c_id c' (t_cards (w_db w)),
           t_events := t_events (w_db w) @ [ev]\<rparr>"
proof -
  from move_card_Inr[OF assms] obtain c1 evs fin w1 w2 where
    m: "runWithPositionRetry (move_tx E a i x) (Some (accessibleCard a i)) w
      = (Inr ((c1, evs), fin), w1)" and p: "publish_result (c1, evs) w1 = (Inr c', w2)"
    and w': "w' = (if fin then w2\<lparr>w_completed := w_completed w2 @ [c']\<rparr> else w2)" .
  obtain w0 where w0: "move_tx E a i x w0 = (Inr ((c1, evs), fin), w1)" "w_db w0 = w_db w"
    "outside w0 = outside w" by (rule retry_run[OF inside_txs(1) m])
  from move_tx_run[OF w0(1)] obtain pl t st ev where
    pl: "plan_move E a i x (w_db w) = Inr pl" "c1 = moved_card pl t st"
    and st: "\<not> starts_work pl \<longrightarrow> st = c_workStartedAt (pl_card pl)" "starts_work pl \<longrightarrow> st \<noteq> None"
    and ev: "evs = [ev]" "ev_body ev = move_body pl x (w_db w)" and fin: "fin = completes pl"
    and s: "saved a (pl_card pl) c1 evs w0 w1" and out: "outside w1 = outside w"
    and db: "w_db w1 = (w_db w)\<lparr>t_cards := put_row c_id c1 (t_cards (w_db w)),
        t_events := t_events (w_db w) @ evs\<rparr>"
    unfolding w0(2,3) by blast
  from publish_result_run[OF p] ev have q: "c' = c1" "w_db w2 = w_db w1"
    "w_completed w2 = w_completed w1" "announced c1 evs w1 w2" by simp_all
  show ?thesis
  proof (rule that[OF pl(1) _ st ev(2)])
    show "c' = moved_card pl t st" using pl(2) q by simp
    show "saved a (pl_card pl) c' [ev] w w'"
      using s ev q w' by (simp add: saved_def w0(2))
    show "announced c' [ev] w w'"
      using q out ev w' by (simp add: announced_def outside_def)
    show "w_completed w' = w_completed w @ (if completes pl then [c'] else [])"
      using q out w' fin by (simp add: outside_def)
    show "w_db w' = (w_db w)\<lparr>t_cards := put_row c_id c' (t_cards (w_db w)),
        t_events := t_events (w_db w) @ [ev]\<rparr>" using q db ev w' by simp
  qed
qed

lemma cancel_card_run:
  assumes "cancel_card E a i x w = (Inr c', w')"
  obtains c fr to p t ev where "cancel_plan E a i x (w_db w) = Inr (c, fr, to, p)"
    and "c' = cancelled_card c (cn_resolution x) to p t"
    and "ev_body ev = cancel_body c (cn_resolution x) fr" and "saved a c c' [ev] w w'"
    and "w_completed w' = w_completed w"
    and "w_db w' = (w_db w)\<lparr>t_cards := put_row c_id c' (t_cards (w_db w)),
           t_events := t_events (w_db w) @ [ev]\<rparr>"
proof -
  from assms obtain c1 evs w1 where
    m: "runWithPositionRetry (cancel_tx E a i x) (Some (accessibleCard a i)) w = (Inr (c1, evs), w1)"
    and p: "publish_result (c1, evs) w1 = (Inr c', w')"
    by (auto simp: cancel_card_def bind_Inr_iff lift_iffs parse_versions)
  obtain w0 where w0: "cancel_tx E a i x w0 = (Inr (c1, evs), w1)" "w_db w0 = w_db w"
    "outside w0 = outside w" by (rule retry_run[OF inside_txs(2) m])
  from cancel_tx_run[OF w0(1)] obtain c fr to p' t ev where
    pl: "cancel_plan E a i x (w_db w) = Inr (c, fr, to, p')"
    "c1 = cancelled_card c (cn_resolution x) to p' t"
    and ev: "evs = [ev]" "ev_body ev = cancel_body c (cn_resolution x) fr"
    and s: "saved a c c1 evs w0 w1" and out: "outside w1 = outside w"
    and db: "w_db w1 = (w_db w)\<lparr>t_cards := put_row c_id c1 (t_cards (w_db w)),
        t_events := t_events (w_db w) @ evs\<rparr>"
    unfolding w0(2,3) by blast
  from publish_result_run[OF p] ev have q: "c' = c1" "w_db w' = w_db w1"
    "w_completed w' = w_completed w1" by simp_all
  show ?thesis
    by (rule that[OF pl(1) _ ev(2)])
      (use pl(2) q s ev out db in \<open>simp_all add: saved_def w0(2) outside_def\<close>)
qed

lemma reopen_card_run:
  assumes "reopen_card E a i v w = (Inr c', w')"
  obtains c to p t ev where "reopen_plan E a i v (w_db w) = Inr (c, to, p)"
    and "c' = reopened_card c to p (w_db w) t"
    and "ev_body ev = CardReopened (l_key to)" and "saved a c c' [ev] w w'"
    and "w_db w' = (w_db w)\<lparr>t_cards := put_row c_id c' (t_cards (w_db w)),
           t_events := t_events (w_db w) @ [ev]\<rparr>"
proof -
  from assms obtain c1 evs w1 where
    m: "runWithPositionRetry (reopen_tx E a i v) (Some (accessibleCard a i)) w = (Inr (c1, evs), w1)"
    and p: "publish_result (c1, evs) w1 = (Inr c', w')"
    by (auto simp: reopen_card_def bind_Inr_iff lift_iffs parse_versions)
  obtain w0 where w0: "reopen_tx E a i v w0 = (Inr (c1, evs), w1)" "w_db w0 = w_db w"
    "outside w0 = outside w" by (rule retry_run[OF inside_txs(3) m])
  from reopen_tx_run[OF w0(1)] obtain c to p' t ev where
    pl: "reopen_plan E a i v (w_db w) = Inr (c, to, p')" "c1 = reopened_card c to p' (w_db w) t"
    and ev: "evs = [ev]" "ev_body ev = CardReopened (l_key to)"
    and s: "saved a c c1 evs w0 w1" and out: "outside w1 = outside w"
    and db: "w_db w1 = (w_db w)\<lparr>t_cards := put_row c_id c1 (t_cards (w_db w)),
        t_events := t_events (w_db w) @ evs\<rparr>"
    unfolding w0(2,3) by blast
  from publish_result_run[OF p] ev have q: "c' = c1" "w_db w' = w_db w1" by simp_all
  show ?thesis
    by (rule that[OF pl(1) _ ev(2)])
      (use pl(2) q s ev db in \<open>simp_all add: saved_def w0(2)\<close>)
qed

section \<open>Where a card lands\<close>

lemma others_listByLane:
  "others i (listByLane l False d) = sort_key c_position (others i (lane_rows l d))"
  by (simp add: listByLane_all others_def filter_sort)

lemma others_active:
  "others i (listByLane l True d) = filter (\<lambda>c. c_archivedAt c = None) (others i (listByLane l False d))"
  by (simp add: listByLane_active others_def conj_commute)

lemma distinct_lane_rows: "cards_ok d \<Longrightarrow> distinct (others i (lane_rows l d))"
  unfolding cards_ok_def others_def lane_rows_def by (auto simp: distinct_map)

text \<open>Between the gap's bounds: right before the next neighbour.\<close>

lemma lands_before:
  assumes "lawful (e_keyBetween E)" and ok: "db_ok (w_db w)" "db_ok (w_db w')"
    and c: "findCard (c_id c) (w_db w) = Some c" and s: "saved a c c' evs w w'"
    and k: "e_keyBetween E (positionBefore (c_laneId c') (Some (c_position n)) (c_id c) (w_db w))
      (Some (c_position n)) = Some (c_position c')"
    and n: "n \<in> set (t_cards (w_db w))" "c_laneId n = c_laneId c'" "c_id n \<noteq> c_id c"
  obtains xs ys where "others (c_id c) (listByLane (c_laneId c') False (w_db w)) = xs @ n # ys"
    and "listByLane (c_laneId c') False (w_db w') = xs @ c' # n # ys"
proof -
  let ?l = "c_laneId c'"
  let ?R = "others (c_id c) (lane_rows ?l (w_db w))"
  have m: "mset (lane_rows ?l (w_db w')) = add_mset c' (mset ?R)"
    by (rule saved_lane_rows[OF ok(1) c s])
  have inj: "inj_on c_position (set (lane_rows ?l (w_db w')))"
    using ok(2) by (intro slots_inj) (simp add: db_ok_def)
  have R: "n \<in> set ?R" using n by (simp add: others_def lane_rows_def)
  have dist: "distinct ?R" using ok(1) by (intro distinct_lane_rows) (simp add: db_ok_def)
  note g = gap_bound[OF assms(1) k]
  from g[OF n] have cn: "c_position c' < c_position n" by simp
  have "c_position x < c_position c'" if "x \<in> set ?R" "c_position x < c_position n" for x
    using g[of x] that by (simp add: others_def lane_rows_def)
  from sort_place_before[OF m inj dist R cn this] that
  show ?thesis unfolding others_listByLane listByLane_all[of ?l "w_db w'"] by blast
qed

lemma lands_last:
  assumes ok: "db_ok (w_db w)" "db_ok (w_db w')"
    and c: "findCard (c_id c) (w_db w) = Some c" and s: "saved a c c' evs w w'"
    and above: "\<And>x. x \<in> set (t_cards (w_db w)) \<Longrightarrow> c_laneId x = c_laneId c' \<Longrightarrow> c_id x \<noteq> c_id c \<Longrightarrow>
      c_position x < c_position c'"
  shows "listByLane (c_laneId c') False (w_db w')
    = others (c_id c) (listByLane (c_laneId c') False (w_db w)) @ [c']"
proof -
  let ?l = "c_laneId c'"
  have m: "mset (lane_rows ?l (w_db w')) = add_mset c' (mset (others (c_id c) (lane_rows ?l (w_db w))))"
    by (rule saved_lane_rows[OF ok(1) c s])
  have inj: "inj_on c_position (set (lane_rows ?l (w_db w')))"
    using ok(2) by (intro slots_inj) (simp add: db_ok_def)
  show ?thesis unfolding others_listByLane listByLane_all[of ?l "w_db w'"]
    by (rule sort_place_last[OF m inj]) (simp add: above others_def lane_rows_def)
qed

section \<open>The backstop never fires\<close>

lemma free_slot:
  "(\<And>x. x \<in> set (t_cards d) \<Longrightarrow> c_laneId x = c_laneId c \<Longrightarrow> c_id x \<noteq> c_id c \<Longrightarrow>
     c_position x \<noteq> c_position c) \<Longrightarrow> \<not> slot_taken c d"
  by (auto simp: slot_taken_def)

lemma moved_slot_free:
  assumes "lawful (e_keyBetween E)" and pl: "plan_move E a i inp d = Inr pl" and ok: "cards_ok d"
  shows "\<not> slot_taken (moved_card pl t st) d"
proof (rule free_slot, simp only: moved_card_simps)
  fix x assume x: "x \<in> set (t_cards d)" "c_laneId x = l_id (pl_to pl)" "c_id x \<noteq> c_id (pl_card pl)"
  from plan_move_InrD[OF pl] have
    "move_position E (pl_card pl) (pl_to pl) inp d = Inr (pl_position pl)" by blast
  from move_position_InrD[OF this] obtain nxt where
    n: "neighbor_ok (pl_card pl) (pl_to pl) (mv_nextCardId inp) d nxt"
    and k: "e_keyBetween E (positionBefore (l_id (pl_to pl)) (map_option c_position nxt)
      (c_id (pl_card pl)) d) (map_option c_position nxt) = Some (pl_position pl)" by blast
  note g = gap_bound[OF assms(1) k x]
  show "c_position x \<noteq> pl_position pl"
  proof (cases nxt)
    case None
    with g show ?thesis by auto
  next
    case (Some nb)
    with g have "pl_position pl < c_position nb"
      "c_position x < c_position nb \<longrightarrow> c_position x < pl_position pl" by auto
    then show ?thesis by (cases "c_position x < c_position nb") auto
  qed
qed

lemma bottom_slot_free:
  assumes "lawful (e_keyBetween E)"
    and "e_keyBetween E (map_option c_position (edgeOfLane (c_laneId c) LastEdge d)) None
      = Some (c_position c)"
  shows "\<not> slot_taken c d"
  by (rule free_slot) (use edge_last_bound[OF assms] in force)

lemma top_slot_free:
  assumes "lawful (e_keyBetween E)"
    and "e_keyBetween E None (map_option c_position (edgeOfLane (c_laneId c) FirstEdge d))
      = Some (c_position c)"
  shows "\<not> slot_taken c d"
  by (rule free_slot) (use edge_first_bound[OF assms] in force)

text \<open>What a retried transaction throws first is what the method throws.\<close>

lemma no_retry:
  assumes "\<And>w'. fn w \<noteq> (Inl DuplicatePositionError, w')"
  shows "runWithPositionRetry fn cur w = uow_run fn w"
proof -
  obtain r w1 where "fn w = (r, w1)" by fastforce
  with assms show ?thesis
    by (cases r; cases "projl r")
      (auto simp: runWithPositionRetry_def uow_run_def split: error.splits)
qed

lemma save_card_no_dup:
  "\<not> slot_taken u (w_db w) \<Longrightarrow> save_card E a u body w \<noteq> (Inl DuplicatePositionError, w')"
  by (auto simp: save_card_def bind_Inl_iff store_Inl_iff updateCard_def appendEvent_def
      run_simps split: if_splits)

named_theorems calm_intros \<open>reads that never report a taken position\<close>

definition calm :: "'a read \<Rightarrow> bool" where
  "calm r \<longleftrightarrow> r \<noteq> Inl DuplicatePositionError"

lemma calm_basic [calm_intros]:
  "calm (Inr a)" "e \<noteq> DuplicatePositionError \<Longrightarrow> calm (Inl e)"
  "e \<noteq> DuplicatePositionError \<Longrightarrow> calm (sguard b e)"
  "e \<noteq> DuplicatePositionError \<Longrightarrow> calm (of_option e v)" "calm (requireFound v r)"
  "calm (ensureVersion c n)" "calm (ensureNotArchived c)"
  by (auto simp: calm_def run_simps)

lemma calm_decide [calm_intros]: "calm (decide dec)"
  by (cases dec) (auto simp: calm_def)

lemma calm_sbind [calm_intros]: "calm m \<Longrightarrow> (\<And>a. calm (f a)) \<Longrightarrow> calm (sbind m f)"
  by (auto simp: calm_def sbind_Inl_iff)

lemma calm_cases [calm_intros]:
  "calm x \<Longrightarrow> calm y \<Longrightarrow> calm (if b then x else y)"
  "calm x \<Longrightarrow> (\<And>a. calm (f a)) \<Longrightarrow> calm (case v of None \<Rightarrow> x | Some a \<Rightarrow> f a)"
  by (auto split: option.splits)

lemma calm_policy [calm_intros]: "calm (globalPolicy d)" "calm (activePolicy i d)"
  unfolding activePolicy_def globalPolicy_def by (intro calm_intros)+

lemma calm_access [calm_intros]:
  "calm (canAccessBoard a b d)" "calm (requireBoardAccess a j d)" "calm (accessibleCard a i d)"
  unfolding accessibleCard_def requireBoardAccess_def canAccessBoard_def
  by (intro calm_intros; simp)+

lemma calm_lanes [calm_intros]:
  "calm (laneByKey i k d)" "calm (firstLane i d)" "calm (laneOfCard c d)"
  "calm (generateKeyBetween E x y)" "calm (keyBetween E x y c)" "calm (slug f s)"
  "calm (ensureActiveWaitingReason pol r c)"
  unfolding laneByKey_def firstLane_def laneOfCard_def generateKeyBetween_def keyBetween_def
    slug_def check_def ensureActiveWaitingReason_def
  by (intro calm_intros; simp)+

lemma calm_move [calm_intros]:
  "calm (move_gates a l l' policy)" "calm (move_waiting c l l' policy inp)"
  "calm (move_position E c l inp d)" "calm (reopen_target c d)" "calm (requireAssignable E i j d)"
  unfolding move_gates_def move_waiting_def move_position_def readNeighbor_def
    waitingLaneEntrySchema_def reopen_target_def requireAssignable_def
  by (intro calm_intros; simp)+

lemma calm_plans:
  "calm (plan_move E a i mi d)" "calm (cancel_plan E a i ci d)" "calm (reopen_plan E a i v d)"
  "calm (create_plan E a cr opts d)"
  unfolding plan_move_def cancel_plan_def reopen_plan_def create_plan_def Let_def
  by (intro calm_intros; simp)+

lemma move_tx_first_try:
  assumes "lawful (e_keyBetween E)" and "db_ok (w_db w)"
  shows "move_tx E a i x w \<noteq> (Inl DuplicatePositionError, w')"
proof
  assume "move_tx E a i x w = (Inl DuplicatePositionError, w')"
  then obtain pl t st body n where pl: "plan_move E a i x (w_db w) = Inr pl"
    and s: "save_card E a (moved_card pl t st) body (w\<lparr>w_ticks := n\<rparr>) = (Inl DuplicatePositionError, w')"
    using calm_plans(1)[of E a i x "w_db w"] unfolding move_tx_def calm_def
    by (auto simp: bind_Inl_iff bind_Inr_iff ask_iff now_iffs return_iffs split: if_splits)
  from moved_slot_free[OF assms(1) pl] assms(2) have "\<not> slot_taken (moved_card pl t st) (w_db (w\<lparr>w_ticks := n\<rparr>))"
    by (simp add: db_ok_def)
  from save_card_no_dup[OF this] s show False by blast
qed

lemma cancel_tx_first_try:
  assumes "lawful (e_keyBetween E)"
  shows "cancel_tx E a i x w \<noteq> (Inl DuplicatePositionError, w')"
proof
  assume "cancel_tx E a i x w = (Inl DuplicatePositionError, w')"
  then obtain c fr to p t n where pl: "cancel_plan E a i x (w_db w) = Inr (c, fr, to, p)"
    and s: "save_card E a (cancelled_card c (cn_resolution x) to p t)
      (cancel_body c (cn_resolution x) fr) (w\<lparr>w_ticks := n\<rparr>) = (Inl DuplicatePositionError, w')"
    using calm_plans(2)[of E a i x "w_db w"] unfolding cancel_tx_def calm_def
    by (auto simp: bind_Inl_iff bind_Inr_iff ask_iff now_iffs return_iffs split: prod.splits)
  from cancel_plan_InrD[OF pl]
  have "e_keyBetween E (map_option c_position (edgeOfLane (l_id to) LastEdge (w_db w))) None = Some p"
    by blast
  with assms have "\<not> slot_taken (cancelled_card c (cn_resolution x) to p t) (w_db (w\<lparr>w_ticks := n\<rparr>))"
    by (intro bottom_slot_free) (simp_all add: cancelled_card_def)
  from save_card_no_dup[OF this] s show False by blast
qed

lemma reopen_tx_first_try:
  assumes "lawful (e_keyBetween E)"
  shows "reopen_tx E a i v w \<noteq> (Inl DuplicatePositionError, w')"
proof
  assume "reopen_tx E a i v w = (Inl DuplicatePositionError, w')"
  then obtain c to p t n where pl: "reopen_plan E a i v (w_db w) = Inr (c, to, p)"
    and s: "save_card E a (reopened_card c to p (w_db w) t) (CardReopened (l_key to)) (w\<lparr>w_ticks := n\<rparr>)
      = (Inl DuplicatePositionError, w')"
    using calm_plans(3)[of E a i v "w_db w"] unfolding reopen_tx_def calm_def
    by (auto simp: bind_Inl_iff bind_Inr_iff ask_iff now_iffs return_iffs split: prod.splits)
  from reopen_plan_InrD[OF pl]
  have "e_keyBetween E (map_option c_position (edgeOfLane (l_id to) LastEdge (w_db w))) None = Some p"
    by blast
  with assms have "\<not> slot_taken (reopened_card c to p (w_db w) t) (w_db (w\<lparr>w_ticks := n\<rparr>))"
    by (intro bottom_slot_free) simp_all
  from save_card_no_dup[OF this] s show False by blast
qed

end
