(* ===== verification/Update_Result.thy ===== *)
theory Update_Result
  imports Card_Update
begin

text \<open>
  The functional result of an update: the card after it is the card before it with exactly
  the supplied fields replaced, and a supplied field that equals the stored one makes no
  event.
\<close>

definition given_or :: "'a \<Rightarrow> 'a option \<Rightarrow> 'a" where
  "given_or old given = default_to old given"

lemma given_or_simps [simp]: "given_or x None = x" "given_or x (Some y) = y"
  by (simp_all add: given_or_def default_to_def)

text \<open>The specification: every field at once, the alert re-armed by a new date.\<close>

definition update_spec :: "card \<Rightarrow> update_card_input \<Rightarrow> card" where
  "update_spec c inp = c\<lparr>
     c_title := given_or (c_title c) (ui_title inp),
     c_description := given_or (c_description c) (ui_description inp),
     c_priority := given_or (c_priority c) (ui_priority inp),
     c_estimateMinutes := given_or (c_estimateMinutes c) (ui_estimateMinutes inp),
     c_assigneeId := given_or (c_assigneeId c) (ui_assigneeId inp),
     c_locationId := given_or (c_locationId c) (ui_locationId inp),
     c_waitingReason := given_or (c_waitingReason c) (map_option Some (ui_waitingReason inp)),
     c_expectedResumeAt := given_or (c_expectedResumeAt c) (map_option Some (ui_expectedResumeAt inp)),
     c_resumeAlertedAt := (if ui_expectedResumeAt inp = None
         \<or> map_option Some (ui_expectedResumeAt inp) = Some (c_expectedResumeAt c)
       then c_resumeAlertedAt c else None)\<rparr>"

text \<open>One edit, as a function of the card.\<close>

definition edit_result :: "('a \<Rightarrow> card \<Rightarrow> card) \<Rightarrow> 'a \<Rightarrow> 'a option \<Rightarrow> card \<Rightarrow> card" where
  "edit_result set_it current supplied n = (case supplied of
      None \<Rightarrow> n | Some v \<Rightarrow> if v = current then n else set_it v n)"

lemma edit_field_card:
  "edit_field E a field enc set_it current supplied before st w = (Inr st', w') \<Longrightarrow>
     fst st' = edit_result set_it current supplied (fst st)"
  by (auto simp: edit_field_def edit_result_def fieldChanged_def run_simps
      split: option.splits if_splits)

lemma edit_tags_card: "edit_tags E a c names st w = (Inr st', w') \<Longrightarrow> fst st' = fst st"
  by (auto simp: edit_tags_def fieldChanged_def run_simps split: option.splits if_splits)

definition edit_waiting_result :: "card \<Rightarrow> update_card_input \<Rightarrow> card \<Rightarrow> card" where
  "edit_waiting_result c inp n =
     edit_result (\<lambda>v n. n\<lparr>c_expectedResumeAt := v, c_resumeAlertedAt := None\<rparr>)
       (c_expectedResumeAt c) (map_option Some (ui_expectedResumeAt inp))
     (edit_result (\<lambda>v n. n\<lparr>c_waitingReason := v\<rparr>) (c_waitingReason c)
       (map_option Some (ui_waitingReason inp)) n)"

lemma edit_waiting_card:
  assumes "edit_waiting E a policy c inp st w = (Inr st', w')"
  shows "fst st' = edit_waiting_result c inp (fst st)"
proof (cases "ui_waitingReason inp = None \<and> ui_expectedResumeAt inp = None")
  case True
  with assms show ?thesis
    by (simp add: edit_waiting_def edit_waiting_result_def edit_result_def run_simps)
next
  case False
  with assms show ?thesis
    by (auto simp: edit_waiting_def edit_waiting_result_def bind_Inr_iff ask_iff guard_iffs
        dest!: edit_field_card)
qed

lemma update_edits_card:
  assumes "update_edits E a policy c inp w = (Inr st', w')"
  shows "fst st' = edit_waiting_result c inp
    (edit_result (\<lambda>v n. n\<lparr>c_locationId := v\<rparr>) (c_locationId c) (ui_locationId inp)
    (edit_result (\<lambda>v n. n\<lparr>c_assigneeId := v\<rparr>) (c_assigneeId c) (ui_assigneeId inp)
    (edit_result (\<lambda>v n. n\<lparr>c_estimateMinutes := v\<rparr>) (c_estimateMinutes c) (ui_estimateMinutes inp)
    (edit_result (\<lambda>v n. n\<lparr>c_priority := v\<rparr>) (c_priority c) (ui_priority inp)
    (edit_result (\<lambda>v n. n\<lparr>c_description := v\<rparr>) (c_description c) (ui_description inp)
    (edit_result (\<lambda>v n. n\<lparr>c_title := v\<rparr>) (c_title c) (ui_title inp) c))))))"
  using assms unfolding update_edits_def bind_Inr_iff
  by (elim exE conjE) (drule edit_field_card edit_tags_card edit_waiting_card, simp)+

text \<open>An edit whose current value is the card's own is a plain record update.\<close>

lemma edit_plain:
  "c_title n = t1 \<Longrightarrow> edit_result (\<lambda>v n. n\<lparr>c_title := v\<rparr>) t1 s1 n = n\<lparr>c_title := given_or t1 s1\<rparr>"
  "c_description n = t1 \<Longrightarrow>
     edit_result (\<lambda>v n. n\<lparr>c_description := v\<rparr>) t1 s1 n = n\<lparr>c_description := given_or t1 s1\<rparr>"
  "c_priority n = t2 \<Longrightarrow>
     edit_result (\<lambda>v n. n\<lparr>c_priority := v\<rparr>) t2 s2 n = n\<lparr>c_priority := given_or t2 s2\<rparr>"
  "c_estimateMinutes n = t3 \<Longrightarrow>
     edit_result (\<lambda>v n. n\<lparr>c_estimateMinutes := v\<rparr>) t3 s3 n = n\<lparr>c_estimateMinutes := given_or t3 s3\<rparr>"
  "c_assigneeId n = t3 \<Longrightarrow>
     edit_result (\<lambda>v n. n\<lparr>c_assigneeId := v\<rparr>) t3 s3 n = n\<lparr>c_assigneeId := given_or t3 s3\<rparr>"
  "c_locationId n = t3 \<Longrightarrow>
     edit_result (\<lambda>v n. n\<lparr>c_locationId := v\<rparr>) t3 s3 n = n\<lparr>c_locationId := given_or t3 s3\<rparr>"
  "c_waitingReason n = t4 \<Longrightarrow>
     edit_result (\<lambda>v n. n\<lparr>c_waitingReason := v\<rparr>) t4 s4 n = n\<lparr>c_waitingReason := given_or t4 s4\<rparr>"
  "c_expectedResumeAt n = t5 \<Longrightarrow>
     edit_result (\<lambda>v n. n\<lparr>c_expectedResumeAt := v, c_resumeAlertedAt := None\<rparr>) t5 s5 n
       = n\<lparr>c_expectedResumeAt := given_or t5 s5,
           c_resumeAlertedAt := (if s5 = None \<or> s5 = Some t5 then c_resumeAlertedAt n else None)\<rparr>"
  by (auto simp: edit_result_def split: option.split)

lemma edit_results_spec:
  "edit_waiting_result c inp
    (edit_result (\<lambda>v n. n\<lparr>c_locationId := v\<rparr>) (c_locationId c) (ui_locationId inp)
    (edit_result (\<lambda>v n. n\<lparr>c_assigneeId := v\<rparr>) (c_assigneeId c) (ui_assigneeId inp)
    (edit_result (\<lambda>v n. n\<lparr>c_estimateMinutes := v\<rparr>) (c_estimateMinutes c) (ui_estimateMinutes inp)
    (edit_result (\<lambda>v n. n\<lparr>c_priority := v\<rparr>) (c_priority c) (ui_priority inp)
    (edit_result (\<lambda>v n. n\<lparr>c_description := v\<rparr>) (c_description c) (ui_description inp)
    (edit_result (\<lambda>v n. n\<lparr>c_title := v\<rparr>) (c_title c) (ui_title inp) c)))))) = update_spec c inp"
  by (auto simp add: edit_waiting_result_def edit_plain update_spec_def)

text \<open>The whole method.\<close>

lemma update_tx_result:
  assumes "update_tx E a i inp w = (Inr (c', evs), w')"
  shows "\<exists>c t. findCard i (w_db w) = Some c
    \<and> (if evs = [] then c' = c \<and> update_spec c inp = c
        else c' = (update_spec c inp)\<lparr>c_version := c_version c + 1, c_updatedAt := t\<rparr>)"
proof -
  from assms obtain c policy nxt evs' w1 where
    plan: "update_plan a i (ui_expectedVersion inp) (w_db w) = Inr (c, policy)" and
    ed: "update_edits E a policy c inp w = (Inr (nxt, evs'), w1)" and
    rest: "(if evs' = [] then return (c, [])
      else bind (now E) (\<lambda>t. let updated = nxt\<lparr>c_version := c_version c + 1, c_updatedAt := t\<rparr> in
        bind (store (updateCard updated)) (\<lambda>_.
        bind (for_each evs' (\<lambda>ev. store (appendEvent ev))) (\<lambda>_.
        return (updated, evs'))))) w1 = (Inr (c', evs), w')"
    by (auto simp: update_tx_def bind_Inr_iff ask_iff split: prod.splits)
  from update_plan_InrD[OF plan] have c: "findCard i (w_db w) = Some c"
    by (simp add: accessibleCard_iff)
  from update_edits_card[OF ed] have "nxt = update_spec c inp" by (simp add: edit_results_spec)
  moreover have "evs' = [] \<Longrightarrow> nxt = c" using update_edits_run[OF ed] by (auto simp: edited_def)
  ultimately show ?thesis using rest c
    by (cases "evs' = []") (auto simp: Let_def bind_Inr_iff now_iffs return_iffs)
qed

end
