(* ===== verification/Sample.thy ===== *)
theory Sample
  imports Card_Order Update_Result
begin

text \<open>
  A small concrete installation on which the witnesses evaluate: one board with the seven
  seeded columns and the seeded policy, an administrator and two users, and a few cards;
  a key generator that obeys the law of \<open>fractional-indexing\<close>, and a clock that ticks.
\<close>

text \<open>Keys above their lower bound by one more letter; below a bound only when there is room.\<close>

definition sample_key :: "string option \<Rightarrow> string option \<Rightarrow> string option" where
  "sample_key a b = (let k = default_to [] a @ ''A'' in
     case b of None \<Rightarrow> Some k | Some y \<Rightarrow> if k < y then Some k else None)"

lemma append_above: "(x :: string) < x @ c # cs"
  by (induction x) simp_all

lemma sample_key_lawful: "lawful sample_key"
  by (auto simp: lawful_def sample_key_def default_to_def Let_def append_above
      split: option.splits if_splits)

definition sample_env :: env where
  "sample_env = \<lparr>e_newId = (\<lambda>n. 1000 + n), e_clock = (\<lambda>n. 1000000 + int n),
     e_keyBetween = sample_key, e_keysAfter = (\<lambda>a n. map (\<lambda>i. default_to [] a @ replicate (Suc i) (CHR ''A'')) [0..<n]),
     e_blobPut = (\<lambda>k. True), e_blobDelete = (\<lambda>k. True), e_boardId = 10, e_systemUserId = 99\<rparr>"

definition sample_user :: "uuid \<Rightarrow> role_key \<Rightarrow> user" where
  "sample_user i role = \<lparr>u_id = i, u_email = ''u@x.org'', u_displayName = ''U'', u_role = role,
     u_mustChangePassword = False, u_slackUserId = None, u_isActive = True,
     u_timezone = ''UTC'', u_theme = Light, u_createdAt = int i\<rparr>"

definition sample_account :: "uuid \<Rightarrow> role_key \<Rightarrow> account" where
  "sample_account i role = \<lparr>acc_user = sample_user i role, acc_passwordHash = ''h''\<rparr>"

definition sample_board :: board where
  "sample_board = \<lparr>b_id = 10, b_name = ''Main'', b_isDefault = True, b_archivedAt = None,
     b_accessMode = AccessRestricted, b_allowedRoleKeys = [''user''], b_allowedUserIds = [],
     b_allowedGroupIds = [], b_createdAt = 1\<rparr>"

definition sample_lanes :: "lane list" where
  "sample_lanes = map (\<lambda>(n, k). \<lparr>l_id = 100 + n, l_boardId = 10, l_key = k, l_label = k,
     l_position = int n, l_wipLimit = (if n = 3 then Some 1 else None)\<rparr>)
     (zip [0, 1, 2, 3, 4, 5, 6] LANE_KEYS)"

definition sample_card :: "card_no \<Rightarrow> uuid \<Rightarrow> string \<Rightarrow> card" where
  "sample_card i l p = \<lparr>c_id = i, c_boardId = 10, c_laneId = l, c_position = p, c_title = ''T'',
     c_description = [], c_priority = P2, c_estimateMinutes = None, c_reporterId = 2,
     c_assigneeId = None, c_locationId = None, c_origin = OManual, c_resolution = None,
     c_blocked = False, c_blockedReason = None, c_blockedAt = None, c_waitingReason = None,
     c_expectedResumeAt = None, c_resumeAlertedAt = None, c_workStartedAt = None,
     c_slackChannelId = None, c_slackThreadTs = None, c_slackPermalink = None, c_version = 1,
     c_createdAt = 5, c_updatedAt = 5, c_archivedAt = None\<rparr>"

definition sample_cards :: "card list" where
  "sample_cards = [sample_card 1 102 ''B'', sample_card 2 102 ''D'', sample_card 3 103 ''C'',
     (sample_card 4 106 ''C'')\<lparr>c_resolution := Some Completed\<rparr>,
     (sample_card 5 104 ''C'')\<lparr>c_waitingReason := Some ''parts'', c_expectedResumeAt := Some 7\<rparr>]"

definition sample_db :: db where
  "sample_db = \<lparr>t_boards = [sample_board], t_defaults = [], t_groups = [],
     t_users = [sample_account 1 ''admin'', sample_account 2 ''user'', sample_account 3 ''user''],
     t_lanes = sample_lanes, t_locations = [], t_cards = sample_cards, t_tags = [],
     t_cardTags = [], t_comments = [], t_attachments = [], t_events = [], t_relations = [],
     t_watchers = [], t_notifications = [],
     t_policies = [\<lparr>bp_id = 500, bp_boardId = 10, bp_config = DEFAULT_POLICY_DOCUMENT,
       bp_createdBy = 1, bp_createdAt = 1\<rparr>],
     t_tokens = [], t_sessions = [], t_clients = [], t_codes = [], t_access = [], t_refresh = [],
     t_presets = []\<rparr>"

definition sample_world :: world where
  "sample_world = \<lparr>w_db = sample_db, w_ids = 0, w_ticks = 0, w_hints = [], w_completed = [],
     w_blobs = [], w_backoff = []\<rparr>"

definition sample_actor :: actor where
  "sample_actor = actor_of_user (sample_user 2 ''user'')"

definition sample_move :: "lane_key \<Rightarrow> card_no option \<Rightarrow> move_card_input" where
  "sample_move to nxt = \<lparr>mv_toLane = to, mv_prevCardId = None, mv_nextCardId = nxt,
     mv_waitingReason = None, mv_expectedResumeAt = None, mv_expectedVersion = 1\<rparr>"

text \<open>Did a method return?\<close>

definition returned :: "('w, 'e, 'a) prog \<Rightarrow> 'w \<Rightarrow> bool" where
  "returned m w \<longleftrightarrow> (case fst (m w) of Inl e \<Rightarrow> False | Inr a \<Rightarrow> True)"

lemma returned_iff: "returned m w \<longleftrightarrow> (\<exists>a w'. m w = (Inr a, w'))"
  by (cases "m w"; cases "fst (m w)") (auto simp: returned_def)

lemma sample_db_ok: "db_ok sample_db"
  by code_simp+

lemma sample_move_returns: "returned (move_card sample_env sample_actor 3 (sample_move ''ready'' (Some 2))) sample_world"
  by code_simp+

end
