(* ===== verification/Card_Claims.thy ===== *)
theory Card_Claims
  imports Sample
begin

text \<open>
  The properties of the card service, each with a witness on the sample installation.
\<close>

section \<open>Concrete runs\<close>

definition sample_command :: card_command_input where
  "sample_command = MoveCard (sample_move ''ready'' (Some 2))"

lemma sample_command_runs: "returned (run_command sample_env sample_actor 3 sample_command) sample_world"
  using sample_move_returns by (simp add: sample_command_def)

lemma sample_command_result:
  obtains c' w' where "run_command sample_env sample_actor 3 sample_command sample_world = (Inr c', w')"
  using sample_command_runs by (auto simp: returned_iff)

definition sample_done :: card_command_input where
  "sample_done = MoveCard (sample_move ''done'' None)"

definition after :: "'a step \<Rightarrow> world \<Rightarrow> world" where
  "after m w = snd (m w)"

definition sample_cancel :: cancel_card_input where
  "sample_cancel = \<lparr>cn_resolution = Duplicate, cn_expectedVersion = 1\<rparr>"

definition sample_create :: create_card_raw where
  "sample_create = \<lparr>cr_title = '' New '', cr_description = None, cr_priority = None,
     cr_assigneeId = Some 3, cr_locationId = None, cr_tags = Some [''a'', ''A''],
     cr_estimateMinutes = None\<rparr>"

definition no_options :: create_options where
  "no_options = \<lparr>co_reporterId = None, co_slackSource = None\<rparr>"

lemma sample_world_db [simp]: "w_db sample_world = sample_db"
  by (simp add: sample_world_def)

lemma sample_env_lawful: "lawful (e_keyBetween sample_env)"
  by (simp add: sample_env_def sample_key_lawful)

section \<open>Who may, and what a failure leaves\<close>

text \<open>C4: a command on a card succeeds only for an actor who may write, who may see the
  card's board, and whose role (by the application-wide role list) grants the command's
  permission on that board's policy.\<close>

theorem command_authorised:
  assumes "run_command E a i x w = (Inr c', w')"
  shows "may_write a \<and> (\<exists>c board policy. findCard i (w_db w) = Some c
    \<and> findBoard (c_boardId c) (w_db w) = Some board \<and> canAccessBoard a board (w_db w) = Inr True
    \<and> activePolicy (c_boardId c) (w_db w) = Inr policy
    \<and> permitted a (command_permission x) policy)"
  by (rule command.authorised[OF assms])

theorem command_authorised_witness:
  "\<exists>c' w' c board policy.
     run_command sample_env sample_actor 3 sample_command sample_world = (Inr c', w')
     \<and> findCard 3 (w_db sample_world) = Some c
     \<and> findBoard (c_boardId c) (w_db sample_world) = Some board
     \<and> canAccessBoard sample_actor board (w_db sample_world) = Inr True
     \<and> permitted sample_actor (command_permission sample_command) policy"
proof -
  obtain c' w' where "run_command sample_env sample_actor 3 sample_command sample_world = (Inr c', w')"
    by (rule sample_command_result)
  with command_authorised[OF this] show ?thesis by blast
qed

lemma create_failure:
  assumes "create_card E a raw opts w = (Inl e, w')"
  shows "undone w w'"
  using assms by (auto simp: create_card_def bind_Inl_iff lift_iffs publish_result_Inl
      dest: retry_undone[OF inside_create])

lemma delete_failure:
  assumes "delete_card E a i v w = (Inl e, w')"
  shows "undone w w'"
proof -
  have "keeps outside (delete_tx a i v)"
    by (auto simp: delete_tx_def intro!: keeps_bind split: prod.split)
  with assms show ?thesis
    by (auto simp: delete_card_def bind_Inl_iff dest: delete_blobs_db run_undone)
qed



text \<open>C6: no update is lost.  After a command that changed the database, every command on
  the same card that was prepared for the same version, by whomever, is refused and leaves
  nothing behind.\<close>

theorem no_lost_update:
  assumes "run_command E a i x w = (Inr c', w1)" and "w_db w1 \<noteq> w_db w"
    and "command_version y = command_version x"
  shows "\<exists>e w2. run_command E' b i y w1 = (Inl e, w2) \<and> undone w1 w2"
  by (rule command.second_writer_refused[OF assms])

lemma sample_command_changes:
  "run_command sample_env sample_actor 3 sample_command sample_world = (Inr c', w') \<Longrightarrow>
     w_db w' \<noteq> w_db sample_world"
  unfolding sample_command_def run_command.simps by (drule moving.event_written) auto

theorem no_lost_update_witness:
  "\<exists>c' w1 e w2. run_command sample_env sample_actor 3 sample_command sample_world = (Inr c', w1)
     \<and> run_command sample_env sample_actor 3 (CancelCard sample_cancel) w1 = (Inl e, w2)
     \<and> undone w1 w2"
proof -
  obtain c' w1 where r: "run_command sample_env sample_actor 3 sample_command sample_world = (Inr c', w1)"
    by (rule sample_command_result)
  from no_lost_update[OF r sample_command_changes[OF r], of "CancelCard sample_cancel"] r show ?thesis
    by (auto simp: sample_command_def sample_cancel_def sample_move_def)
qed

text \<open>C7: the audit log only grows; the new events are the acting user's (none for the
  system) on that card; the log grows exactly when the database changes, and exactly then
  clients get a hint.\<close>

theorem command_audited:
  assumes "run_command E a i x w = (Inr c', w')"
  shows "\<exists>evs. t_events (w_db w') = t_events (w_db w) @ evs \<and> (\<forall>ev \<in> set evs. stamped a i ev)
    \<and> (evs = [] \<longleftrightarrow> w_db w' = w_db w) \<and> (evs = [] \<longleftrightarrow> w_hints w' = w_hints w)"
  by (rule command.log_grows[OF assms])

theorem command_audited_witness:
  "\<exists>c' w' evs. run_command sample_env sample_actor 3 sample_command sample_world = (Inr c', w')
     \<and> evs \<noteq> [] \<and> t_events (w_db w') = t_events sample_db @ evs \<and> w_hints w' \<noteq> w_hints sample_world"
proof -
  obtain c' w' where r: "run_command sample_env sample_actor 3 sample_command sample_world = (Inr c', w')"
    by (rule sample_command_result)
  from command_audited[OF r] sample_command_changes[OF r] r show ?thesis by auto
qed

text \<open>C8: an error shows a card only to an actor who may see its board, and then it is the
  stored card the command named.\<close>

theorem errors_are_discreet:
  assumes "run_command E a i x w = (Inl e, w')" and "leaked_card e = Some c"
  shows "findCard i (w_db w) = Some c \<and> (\<exists>board. findBoard (c_boardId c) (w_db w) = Some board
    \<and> canAccessBoard a board (w_db w) = Inr True)"
  using command.discreet[OF assms] by (simp add: accessibleCard_iff)

definition stale_command :: card_command_input where
  "stale_command = CancelCard (sample_cancel\<lparr>cn_expectedVersion := 9\<rparr>)"

theorem errors_are_discreet_witness:
  "\<exists>e w' c board. run_command sample_env sample_actor 3 stale_command sample_world = (Inl e, w')
     \<and> leaked_card e = Some c \<and> findCard 3 sample_db = Some c
     \<and> findBoard (c_boardId c) sample_db = Some board
     \<and> canAccessBoard sample_actor board sample_db = Inr True"
proof -
  have "map_option c_id (case fst (run_command sample_env sample_actor 3 stale_command sample_world)
      of Inl e \<Rightarrow> leaked_card e | Inr c \<Rightarrow> None) = Some 3" by code_simp+
  then obtain e c w' where r: "run_command sample_env sample_actor 3 stale_command sample_world = (Inl e, w')"
    and l: "leaked_card e = Some c"
    by (cases "run_command sample_env sample_actor 3 stale_command sample_world";
        cases "fst (run_command sample_env sample_actor 3 stale_command sample_world)") auto
  from errors_are_discreet[OF r l] r l show ?thesis by auto
qed

section \<open>Where a moved card stands\<close>

lemma put_row_elsewhere:
  "distinct (map c_id cs) \<Longrightarrow> c_laneId c' \<noteq> l \<Longrightarrow>
     filter (\<lambda>c. c_laneId c = l) (put_row c_id c' cs)
       = others (c_id c') (filter (\<lambda>c. c_laneId c = l) cs)"
  by (induction cs) (auto simp: put_row_def others_def)

lemma other_lanes:
  assumes ok: "db_ok (w_db w)" and s: "saved a c c' evs w w'" and "l \<noteq> c_laneId c'"
  shows "listByLane l b (w_db w') = others (c_id c) (listByLane l b (w_db w))"
proof -
  from s have t: "t_cards (w_db w') = put_row c_id c' (t_cards (w_db w))" "c_id c' = c_id c"
    by (simp_all add: saved_def)
  have "lane_rows l (w_db w') = others (c_id c) (lane_rows l (w_db w))"
    unfolding lane_rows_def t(1) using put_row_elsewhere[of "t_cards (w_db w)" c' l] ok assms(3) t(2)
    by (simp add: db_ok_def cards_ok_def)
  then have "listByLane l False (w_db w') = others (c_id c) (listByLane l False (w_db w))"
    by (simp add: listByLane_all others_def filter_sort)
  then show ?thesis by (cases b) (simp_all add: listByLane_active others_active others_def conj_commute)
qed

lemma moved_neighbor:
  assumes pl: "plan_move E a i x d = Inr pl" and "mv_nextCardId x = Some n"
  obtains nb where "findCard n d = Some nb" and "c_id nb \<noteq> c_id (pl_card pl)"
    and "c_laneId nb = l_id (pl_to pl)" and "c_archivedAt nb = None"
    and "e_keyBetween E (positionBefore (l_id (pl_to pl)) (Some (c_position nb)) (c_id (pl_card pl)) d)
      (Some (c_position nb)) = Some (pl_position pl)"
proof -
  from plan_move_InrD[OF pl] have
    "move_position E (pl_card pl) (pl_to pl) x d = Inr (pl_position pl)" by blast
  from move_position_InrD[OF this] assms(2) that show ?thesis by (auto simp: neighbor_ok_def)
qed

lemma moved_at_end:
  assumes pl: "plan_move E a i x d = Inr pl" and "mv_nextCardId x = None"
  shows "e_keyBetween E (positionBefore (l_id (pl_to pl)) None (c_id (pl_card pl)) d) None
    = Some (pl_position pl)"
proof -
  from plan_move_InrD[OF pl] have
    "move_position E (pl_card pl) (pl_to pl) x d = Inr (pl_position pl)" by blast
  from move_position_InrD[OF this] assms(2) show ?thesis by (auto simp: neighbor_ok_def)
qed

lemma move_lands:
  assumes "lawful (e_keyBetween E)" and ok: "db_ok (w_db w)"
    and run: "move_card E a i x w = (Inr c', w')"
  shows "(\<exists>to. findLaneByKey (c_boardId c') (mv_toLane x) (w_db w) = Some to \<and> c_laneId c' = l_id to)
    \<and> (case mv_nextCardId x of
        None \<Rightarrow> listByLane (c_laneId c') b (w_db w') = others i (listByLane (c_laneId c') b (w_db w)) @ [c']
      | Some n \<Rightarrow> \<exists>nb xs ys. findCard n (w_db w) = Some nb
          \<and> others i (listByLane (c_laneId c') b (w_db w)) = xs @ nb # ys
          \<and> listByLane (c_laneId c') b (w_db w') = xs @ c' # nb # ys)
    \<and> (\<forall>l. l \<noteq> c_laneId c' \<longrightarrow> listByLane l b (w_db w') = others i (listByLane l b (w_db w)))"
proof -
  from run_command_ok[of E a i "MoveCard x" w "Inr c'" w'] run ok have ok': "db_ok (w_db w')" by simp
  obtain pl t st ev where pl: "plan_move E a i x (w_db w) = Inr pl" and c': "c' = moved_card pl t st"
    and s: "saved a (pl_card pl) c' [ev] w w'" by (rule move_card_run[OF run])
  from plan_move_InrD[OF pl] have find: "findCard i (w_db w) = Some (pl_card pl)"
    and arch: "c_archivedAt (pl_card pl) = None"
    and to: "findLaneByKey (c_boardId (pl_card pl)) (mv_toLane x) (w_db w) = Some (pl_to pl)"
    by (auto simp: accessibleCard_iff)
  from findCard_id[OF find] have i: "c_id (pl_card pl) = i" by simp
  have lane: "c_laneId c' = l_id (pl_to pl)" and act: "c_archivedAt c' = None" by (simp_all add: c' arch)
  have place: "case mv_nextCardId x of
        None \<Rightarrow> listByLane (c_laneId c') b (w_db w') = others i (listByLane (c_laneId c') b (w_db w)) @ [c']
      | Some n \<Rightarrow> \<exists>nb xs ys. findCard n (w_db w) = Some nb
          \<and> others i (listByLane (c_laneId c') b (w_db w)) = xs @ nb # ys
          \<and> listByLane (c_laneId c') b (w_db w') = xs @ c' # nb # ys"
  proof (cases "mv_nextCardId x")
    case None
    from gap_bound[OF assms(1) moved_at_end[OF pl None]]
    have "listByLane (c_laneId c') False (w_db w')
        = others (c_id (pl_card pl)) (listByLane (c_laneId c') False (w_db w)) @ [c']"
      by (intro lands_last[OF ok ok' _ s]) (auto simp: i find c')
    with None act show ?thesis by (cases b) (simp_all add: i listByLane_active others_def conj_commute)
  next
    case (Some n)
    from moved_neighbor[OF pl Some] obtain nb where nb: "findCard n (w_db w) = Some nb"
      "c_id nb \<noteq> c_id (pl_card pl)" "c_laneId nb = c_laneId c'" "c_archivedAt nb = None"
      and k: "e_keyBetween E (positionBefore (c_laneId c') (Some (c_position nb)) (c_id (pl_card pl))
        (w_db w)) (Some (c_position nb)) = Some (c_position c')" unfolding c' moved_card_simps .
    from findCard_id[OF nb(1)] have "nb \<in> set (t_cards (w_db w))" by simp
    from lands_before[OF assms(1) ok ok' _ s k this nb(3,2)] find i obtain xs ys where
      o: "others i (listByLane (c_laneId c') False (w_db w)) = xs @ nb # ys"
        "listByLane (c_laneId c') False (w_db w') = xs @ c' # nb # ys" by auto
    let ?P = "filter (\<lambda>c. c_archivedAt c = None)"
    have "others i (listByLane (c_laneId c') True (w_db w)) = ?P xs @ nb # ?P ys"
      by (simp add: others_active o nb)
    moreover have "listByLane (c_laneId c') True (w_db w') = ?P xs @ c' # nb # ?P ys"
      by (simp add: listByLane_active o nb act)
    ultimately show ?thesis using Some nb o by (cases b) auto
  qed
  have bd: "c_boardId c' = c_boardId (pl_card pl)" by (simp add: c')
  from place to lane other_lanes[OF ok s] show ?thesis by (simp add: i bd)
qed

text \<open>C9: with a key generator that obeys its law, a moved card stands in the requested lane
  immediately before the named next neighbour, whatever else lies in the gap, and last when
  none is named; every other card of every lane, archived ones too, keeps its relative
  order.\<close>

theorem move_places:
  assumes "lawful (e_keyBetween E)" and ok: "db_ok (w_db w)"
    and run: "move_card E a i x w = (Inr c', w')"
  shows "(\<exists>to. findLaneByKey (c_boardId c') (mv_toLane x) (w_db w) = Some to \<and> c_laneId c' = l_id to)
    \<and> (case mv_nextCardId x of
        None \<Rightarrow> listByLane (c_laneId c') b (w_db w') = others i (listByLane (c_laneId c') b (w_db w)) @ [c']
      | Some n \<Rightarrow> \<exists>nb xs ys. findCard n (w_db w) = Some nb
          \<and> others i (listByLane (c_laneId c') b (w_db w)) = xs @ nb # ys
          \<and> listByLane (c_laneId c') b (w_db w') = xs @ c' # nb # ys)
    \<and> (\<forall>l. l \<noteq> c_laneId c' \<longrightarrow> listByLane l b (w_db w') = others i (listByLane l b (w_db w)))"
  by (rule move_lands[OF assms])

theorem move_places_witness:
  "\<exists>c' w' nb xs ys. move_card sample_env sample_actor 3 (sample_move ''ready'' (Some 2)) sample_world
       = (Inr c', w')
     \<and> listByLane (c_laneId c') True (w_db w') = xs @ c' # nb # ys \<and> c_id nb = 2"
proof -
  obtain c' w' where r: "move_card sample_env sample_actor 3 (sample_move ''ready'' (Some 2)) sample_world
      = (Inr c', w')"
    using sample_command_result by (auto simp: sample_command_def)
  have "db_ok (w_db sample_world)" by (simp add: sample_db_ok)
  from move_places[OF sample_env_lawful this r, of True] r show ?thesis
    by (auto simp: sample_move_def dest: findCard_id)
qed

text \<open>C10: with a key generator that obeys its law, the uniqueness backstop of the position
  index never fires: a move, a cancel or a reopen behaves as one attempt would, so the retry
  and its conflict are for interleavings alone.\<close>

theorem retry_never_needed:
  assumes "lawful (e_keyBetween E)" and "db_ok (w_db w)"
  shows "runWithPositionRetry (move_tx E a i x) cur w = uow_run (move_tx E a i x) w
    \<and> runWithPositionRetry (cancel_tx E a i y) cur w = uow_run (cancel_tx E a i y) w
    \<and> runWithPositionRetry (reopen_tx E a i v) cur w = uow_run (reopen_tx E a i v) w"
  using move_tx_first_try[OF assms] cancel_tx_first_try[OF assms(1)]
    reopen_tx_first_try[OF assms(1)] by (simp add: no_retry)

theorem retry_never_needed_witness:
  "runWithPositionRetry (move_tx sample_env sample_actor 3 (sample_move ''ready'' (Some 2))) None sample_world
     = uow_run (move_tx sample_env sample_actor 3 (sample_move ''ready'' (Some 2))) sample_world"
  using retry_never_needed[OF sample_env_lawful, of sample_world] by (simp add: sample_db_ok)

section \<open>Waiting and done\<close>

text \<open>Two lanes of one board have different keys.\<close>

lemma other_lane_key:
  assumes ok: "db_ok d" and find: "findCard i d = Some c" and fr: "laneOfCard c d = Inr fr"
    and to: "findLaneByKey (c_boardId c) k d = Some to" and "\<not> is_reorder fr to"
  shows "l_key fr \<noteq> l_key to"
proof
  assume "l_key fr = l_key to"
  with laneOfCard_InrD[OF fr] findLaneByKey_SomeD[OF to] have "lane_slot fr = lane_slot to"
    by (simp add: lane_slot_def)
  with ok laneOfCard_InrD[OF fr] findLaneByKey_SomeD[OF to] have "fr = to"
    by (auto simp: db_ok_def lanes_ok_def distinct_map dest: inj_onD)
  with assms(5) show False by (simp add: is_reorder_def)
qed

text \<open>C11: a cross-lane move into the waiting lane needs a reason that is active in the board's
  policy and a resume date, and stores both with the alert armed; after any other cross-lane
  move the card has no waiting reason; a reorder leaves the waiting fields alone.\<close>

theorem move_waiting_rule:
  assumes ok: "db_ok (w_db w)" and run: "move_card E a i x w = (Inr c', w')"
  shows "\<exists>c fr to policy. findCard i (w_db w) = Some c \<and> laneOfCard c (w_db w) = Inr fr
    \<and> findLaneByKey (c_boardId c) (mv_toLane x) (w_db w) = Some to
    \<and> activePolicy (c_boardId c) (w_db w) = Inr policy
    \<and> (if is_reorder fr to then c_waitingReason c' = c_waitingReason c
          \<and> c_expectedResumeAt c' = c_expectedResumeAt c \<and> c_resumeAlertedAt c' = c_resumeAlertedAt c
       else if l_key to = ''waiting_parts_vendor''
       then \<exists>r t. mv_waitingReason x = Some r \<and> mv_expectedResumeAt x = Some t \<and> active_reason policy r
          \<and> c_waitingReason c' = Some r \<and> c_expectedResumeAt c' = Some t \<and> c_resumeAlertedAt c' = None
       else c_waitingReason c' = None)"
proof -
  obtain pl t st ev where pl: "plan_move E a i x (w_db w) = Inr pl" and c': "c' = moved_card pl t st"
    by (rule move_card_run[OF run])
  note p = plan_move_InrD[OF pl]
  then have find: "findCard i (w_db w) = Some (pl_card pl)"
    and lane: "laneOfCard (pl_card pl) (w_db w) = Inr (pl_from pl)"
    and to: "findLaneByKey (c_boardId (pl_card pl)) (mv_toLane x) (w_db w) = Some (pl_to pl)"
    by (auto simp: accessibleCard_iff)
  from p obtain policy where pol: "activePolicy (c_boardId (pl_card pl)) (w_db w) = Inr policy"
    and mw: "move_waiting (pl_card pl) (pl_from pl) (pl_to pl) policy x = Inr (pl_waiting pl)" by blast
  note wt = move_waiting_InrD[OF mw]
  from lane_of_ok[OF ok find lane] have fits: "lane_fits (pl_from pl) (pl_card pl)"
    "pl_from pl \<in> set (t_lanes (w_db w))" by simp_all
  have diff: "\<not> is_reorder (pl_from pl) (pl_to pl) \<Longrightarrow> l_key (pl_from pl) \<noteq> l_key (pl_to pl)"
    by (rule other_lane_key[OF ok find lane to])
  show ?thesis
    by (rule exI[of _ "pl_card pl"], rule exI[of _ "pl_from pl"], rule exI[of _ "pl_to pl"],
        rule exI[of _ policy])
      (use find lane to pol wt diff fits in
        \<open>auto simp: c' moved_card_def Let_def enters_waiting_def lane_fits_def split: option.splits prod.splits\<close>)
qed

definition sample_wait :: move_card_input where
  "sample_wait = (sample_move ''waiting_parts_vendor'' None)
     \<lparr>mv_waitingReason := Some ''parts'', mv_expectedResumeAt := Some 30\<rparr>"

theorem move_waiting_rule_witness:
  "\<exists>c' w'. move_card sample_env sample_actor 3 sample_wait sample_world = (Inr c', w')
     \<and> c_waitingReason c' = Some ''parts'' \<and> c_expectedResumeAt c' = Some 30"
proof -
  have "returned (move_card sample_env sample_actor 3 sample_wait) sample_world" by code_simp+
  then obtain c' w' where r: "move_card sample_env sample_actor 3 sample_wait sample_world = (Inr c', w')"
    by (auto simp: returned_iff)
  have "is_reorder fr to = False" if "findCard 3 sample_db = Some c" "laneOfCard c sample_db = Inr fr"
    "findLaneByKey (c_boardId c) ''waiting_parts_vendor'' sample_db = Some to" for c fr to
  proof -
    have "(case findCard 3 sample_db of None \<Rightarrow> True | Some c \<Rightarrow> (case laneOfCard c sample_db of Inl e \<Rightarrow> True
      | Inr fr \<Rightarrow> (case findLaneByKey (c_boardId c) ''waiting_parts_vendor'' sample_db of None \<Rightarrow> True
        | Some to \<Rightarrow> \<not> is_reorder fr to)))" by code_simp+
    with that show ?thesis by simp
  qed
  with move_waiting_rule[OF _ r] r sample_db_ok show ?thesis
    by (fastforce simp: sample_wait_def sample_move_def dest: findLaneByKey_SomeD)
qed

text \<open>C12: a cross-lane move into done stores the resolution \<open>completed\<close> and is the only move
  that sends a completion notice, one, for the card as stored; a cross-lane move out of done
  clears the resolution and needs the reopen grant as well; a reorder changes no resolution.\<close>

theorem move_done_rule:
  assumes ok: "db_ok (w_db w)" and run: "move_card E a i x w = (Inr c', w')"
  shows "\<exists>c fr to policy. findCard i (w_db w) = Some c \<and> laneOfCard c (w_db w) = Inr fr
    \<and> findLaneByKey (c_boardId c) (mv_toLane x) (w_db w) = Some to
    \<and> activePolicy (c_boardId c) (w_db w) = Inr policy
    \<and> w_completed w' = w_completed w
        @ (if \<not> is_reorder fr to \<and> l_key to = ''done'' then [c'] else [])
    \<and> c_resolution c' = (if is_reorder fr to then c_resolution c
        else if l_key to = ''done'' then Some Completed else None)
    \<and> (\<not> is_reorder fr to \<and> l_key fr = ''done'' \<longrightarrow> permitted a PermCardReopen policy)"
proof -
  obtain pl t st ev where pl: "plan_move E a i x (w_db w) = Inr pl" and c': "c' = moved_card pl t st"
    and cp: "w_completed w' = w_completed w @ (if completes pl then [c'] else [])"
    by (rule move_card_run[OF run])
  note p = plan_move_InrD[OF pl]
  then have find: "findCard i (w_db w) = Some (pl_card pl)"
    and lane: "laneOfCard (pl_card pl) (w_db w) = Inr (pl_from pl)"
    and to: "findLaneByKey (c_boardId (pl_card pl)) (mv_toLane x) (w_db w) = Some (pl_to pl)"
    by (auto simp: accessibleCard_iff)
  from p obtain policy where pol: "activePolicy (c_boardId (pl_card pl)) (w_db w) = Inr policy"
    and al: "move_allowed a (pl_from pl) (pl_to pl) policy" by blast
  from lane_of_ok[OF ok find lane] have fits: "lane_fits (pl_from pl) (pl_card pl)"
    "pl_from pl \<in> set (t_lanes (w_db w))" by simp_all
  have diff: "\<not> is_reorder (pl_from pl) (pl_to pl) \<Longrightarrow> l_key (pl_from pl) \<noteq> l_key (pl_to pl)"
    by (rule other_lane_key[OF ok find lane to])
  have res: "c_resolution c' = (if is_reorder (pl_from pl) (pl_to pl) then c_resolution (pl_card pl)
      else if l_key (pl_to pl) = ''done'' then Some Completed else None)"
    using diff fits by (auto simp: c' moved_card_def Let_def lane_fits_def split: option.splits prod.splits)
  show ?thesis
    by (rule exI[of _ "pl_card pl"], rule exI[of _ "pl_from pl"], rule exI[of _ "pl_to pl"],
        rule exI[of _ policy])
      (use find lane to pol al cp res in \<open>simp add: completes_def move_allowed_def\<close>)
qed

theorem move_done_rule_witness:
  "\<exists>c' w'. move_card sample_env sample_actor 3 (sample_move ''done'' None) sample_world = (Inr c', w')
     \<and> c_resolution c' = Some Completed \<and> w_completed w' = [c']"
proof -
  have "returned (move_card sample_env sample_actor 3 (sample_move ''done'' None)) sample_world"
    by code_simp+
  then obtain c' w' where
    r: "move_card sample_env sample_actor 3 (sample_move ''done'' None) sample_world = (Inr c', w')"
    by (auto simp: returned_iff)
  have "(case findCard 3 sample_db of None \<Rightarrow> True | Some c \<Rightarrow> (case laneOfCard c sample_db of Inl e \<Rightarrow> True
      | Inr fr \<Rightarrow> (case findLaneByKey (c_boardId c) ''done'' sample_db of None \<Rightarrow> True
        | Some to \<Rightarrow> \<not> is_reorder fr to)))" by code_simp+
  with move_done_rule[OF _ r] r sample_db_ok show ?thesis
    by (auto simp: sample_move_def sample_world_def dest: findLaneByKey_SomeD)
qed

section \<open>Cancel and reopen\<close>

lemma order_desc_newest:
  fixes f :: "'r \<Rightarrow> 'k::linorder"
  assumes "\<And>x. x \<in> set xs \<Longrightarrow> f x < f y"
  shows "order_desc f (xs @ [y]) = y # order_desc f xs"
proof -
  have stable: "filter (\<lambda>x. f k = f x) (sort_key f xs) = filter (\<lambda>x. f k = f x) xs" for k
    using sort_key_stable[of f "f k" xs] by (simp add: eq_commute)
  have "sort_key f (xs @ [y]) = sort_key f xs @ [y]"
    by (rule properties_for_sort_key)
      (auto simp: stable sorted_append intro: less_imp_le assms)
  then show ?thesis by (simp add: order_desc_def)
qed

text \<open>What a reopen reads back after a cancel: the event the cancel appended.\<close>

lemma payload_after_cancel:
  assumes "t_events d1 = t_events d @ [ev]" and "ev_body ev = cancel_body c res fr"
    and "ev_cardId ev = c_id c1" and "c_resolution c1 = Some (CancelledAs res)"
    and newest: "\<forall>e \<in> set (t_events d). event_key e < event_key ev"
  shows "cancel_payload c1 d1 = Some (l_key fr, c_waitingReason c,
    if c_waitingReason c = None then None else c_expectedResumeAt c)"
proof -
  let ?mine = "\<lambda>e. ev_cardId e = c_id c1 \<and> type_in (Some [TCardCancelled]) e"
  have "filter ?mine (t_events d1) = filter ?mine (t_events d) @ [ev]"
    using assms(1-3) by (simp add: type_in_def cancel_body_def)
  moreover have "order_desc event_key (filter ?mine (t_events d) @ [ev])
      = ev # order_desc event_key (filter ?mine (t_events d))"
    by (rule order_desc_newest) (use newest in auto)
  ultimately have "listLatestByCard (c_id c1) 1 (Some [TCardCancelled]) d1 = [ev]"
    by (simp add: listLatestByCard_def)
  with assms(2,4) show ?thesis by (simp add: cancel_payload_def was_cancelled_def cancel_body_def)
qed

lemma findLaneByKey_self:
  assumes "lanes_ok d" and "l \<in> set (t_lanes d)"
  shows "findLaneByKey (l_boardId l) (l_key l) d = Some l"
proof -
  obtain l' where l': "findLaneByKey (l_boardId l) (l_key l) d = Some l'"
    using assms(2) by (cases "findLaneByKey (l_boardId l) (l_key l) d")
      (auto simp: findLaneByKey_def find_None_iff)
  from findLaneByKey_SomeD[OF l'] have "l' \<in> set (t_lanes d)" "lane_slot l' = lane_slot l"
    by (simp_all add: lane_slot_def)
  with assms l' show ?thesis by (auto simp: lanes_ok_def distinct_map dest: inj_onD)
qed


definition sample_cancelled :: world where
  "sample_cancelled = after (cancel_card sample_env sample_actor 5 sample_cancel) sample_world"


section \<open>The ends of a card's life\<close>

lemma smap_tags: "smap tagNameSchema xs = Inr ys \<Longrightarrow> ys = map trim xs"
  by (induction xs arbitrary: ys) (auto simp: tagNameSchema_def sbind_Inr_iff dest!: trimmed_InrD)

lemma create_card_run:
  assumes "create_card E a raw opts w = (Inr c, w')"
  obtains inp og rep entry tp p t new tags ev where "parse_create raw = Inr inp"
    and "create_plan E a inp opts (w_db w) = Inr (rep, entry, tp)" and "e_keyBetween E None tp = Some p"
    and "c = new_card E inp opts og rep (l_id entry) (nextCardId (w_db w)) p t"
    and "ev_body ev = CardCreated c (map tag_name tags)" and "stamped a (c_id c) ev"
    and "map (\<lambda>t. to_lower (tag_name t)) tags = uniq (map to_lower (ci_tags inp))"
    and "w_db w' = created_db c t new tags ev (w_db w)"
proof -
  from assms obtain inp og c1 evs w1 where inp: "parse_create raw = Inr inp" and
    m: "runWithPositionRetry (create_tx E a inp opts og) None w = (Inr (c1, evs), w1)"
    and p: "publish_result (c1, evs) w1 = (Inr c, w')"
    by (auto simp: create_card_def bind_Inr_iff lift_iffs)
  obtain w0 where w0: "create_tx E a inp opts og w0 = (Inr (c1, evs), w1)" "w_db w0 = w_db w"
    by (rule retry_run[OF inside_create m])
  from create_tx_run[OF w0(1)] have "evs \<noteq> []" by blast
  from publish_result_run[OF p this] have q: "c = c1" "w_db w' = w_db w1" by simp_all
  from create_tx_run[OF w0(1)] that inp show ?thesis unfolding q w0(2) by blast
qed

lemma created_listByLane:
  assumes ok: "db_ok d'" and t: "t_cards d' = t_cards d @ [c]"
    and above: "\<And>x. x \<in> set (t_cards d) \<Longrightarrow> c_laneId x = c_laneId c \<Longrightarrow> c_position c < c_position x"
    and "c_archivedAt c = None"
  shows "listByLane (c_laneId c) b d' = c # listByLane (c_laneId c) b d"
proof -
  let ?l = "c_laneId c"
  have rows: "lane_rows ?l d' = lane_rows ?l d @ [c]" by (simp add: lane_rows_def t)
  have "sort_key c_position (lane_rows ?l d') = c # sort_key c_position (lane_rows ?l d)"
    using slots_inj[of d' ?l] ok above
    by (intro sort_place_first) (auto simp: rows t db_ok_def lane_rows_def)
  then have "listByLane ?l False d' = c # listByLane ?l False d" by (simp add: listByLane_all)
  then show ?thesis by (cases b) (simp_all add: listByLane_active assms(4))
qed



lemma update_card_run:
  assumes "update_card E a i x w = (Inr c', w')"
  obtains inp evs w1 where "parse_update x = Inr inp" and "update_tx E a i inp w = (Inr (c', evs), w1)"
    and "w_db w' = w_db w1"
proof -
  from assms obtain inp c1 evs w1 where inp: "parse_update x = Inr inp"
    and u: "update_tx E a i inp w = (Inr (c1, evs), w1)" and p: "publish_result (c1, evs) w1 = (Inr c', w')"
    by (auto simp: update_card_def bind_Inr_iff lift_iffs uow_run_Inr_iff)
  have "c' = c1" using p by (auto simp: publish_result_def bind_Inr_iff return_iffs)
  with that[OF inp] u publish_db[OF p] show ?thesis by simp
qed


definition sample_update :: update_card_input where
  "sample_update = \<lparr>ui_title = Some '' Boiler '', ui_description = None, ui_priority = None,
     ui_estimateMinutes = None, ui_assigneeId = Some (Some 3), ui_locationId = None,
     ui_tags = Some [''hot''], ui_waitingReason = None, ui_expectedResumeAt = Some 40,
     ui_expectedVersion = 1\<rparr>"


text \<open>C16: only the card's own reporter (or the system), with the current version and while
  the card is in a first column of its board, can discard it; afterwards no row of any table
  names the card and every other card and its log are as before.\<close>

theorem discard_erases:
  assumes "delete_card E a i v w = (Inr u, w')"
  shows "\<exists>c l. findCard i (w_db w) = Some c \<and> c_version c = v
    \<and> (a_kind a = KSystem \<or> (a_scope a \<noteq> Some ReadScope \<and> a_id a = c_reporterId c))
    \<and> laneOfCard c (w_db w) = Inr l
    \<and> (\<forall>x \<in> set (t_lanes (w_db w)). l_boardId x = c_boardId c \<longrightarrow> l_position l \<le> l_position x)
    \<and> i \<notin> c_id ` set (t_cards (w_db w')) \<union> ev_cardId ` set (t_events (w_db w'))
        \<union> cm_cardId ` set (t_comments (w_db w')) \<union> at_cardId ` set (t_attachments (w_db w'))
        \<union> rel_fromCardId ` set (t_relations (w_db w')) \<union> rel_toCardId ` set (t_relations (w_db w'))
        \<union> fst ` set (t_watchers (w_db w')) \<union> fst ` set (t_cardTags (w_db w'))
        \<union> n_cardId ` set (t_notifications (w_db w'))
    \<and> (\<forall>j. j \<noteq> i \<longrightarrow> findCard j (w_db w') = findCard j (w_db w)
        \<and> filter (\<lambda>e. ev_cardId e = j) (t_events (w_db w')) = filter (\<lambda>e. ev_cardId e = j) (t_events (w_db w)))"
proof -
  from assms obtain ks w1 where t: "delete_tx a i v w = (Inr ks, w1)"
    and f: "for_each ks (delete_blob E) w1 = (Inr u, w')"
    by (auto simp: delete_card_def bind_Inr_iff uow_run_Inr_iff)
  from delete_blobs_db[OF f] have d: "w_db w' = w_db w1" by simp
  from delete_tx_run[OF t] obtain c l where c: "findCard i (w_db w) = Some c" "c_version c = v"
    "a_kind a = KSystem \<or> (a_scope a \<noteq> Some ReadScope \<and> a_id a = c_reporterId c)"
    "laneOfCard c (w_db w) = Inr l"
    "\<forall>x \<in> set (t_lanes (w_db w)). l_boardId x = c_boardId c \<longrightarrow> l_position l \<le> l_position x"
    and h: "hardDelete i (w_db w) = Inr (ks, w_db w1)" by (auto simp: accessibleCard_iff)
  have "filter (\<lambda>e. ev_cardId e = j) (t_events (w_db w1)) = filter (\<lambda>e. ev_cardId e = j) (t_events (w_db w))"
    if "j \<noteq> i" for j
    using h that by (auto simp: hardDelete_Inr_iff intro!: filter_cong)
  moreover have "findCard j (w_db w1) = findCard j (w_db w)" if "j \<noteq> i" for j
    using h that by (simp add: hardDelete_Inr_iff findCard_def row_of_drop_row)
  moreover have "i \<notin> c_id ` set (t_cards (w_db w1)) \<union> ev_cardId ` set (t_events (w_db w1))
        \<union> cm_cardId ` set (t_comments (w_db w1)) \<union> at_cardId ` set (t_attachments (w_db w1))
        \<union> rel_fromCardId ` set (t_relations (w_db w1)) \<union> rel_toCardId ` set (t_relations (w_db w1))
        \<union> fst ` set (t_watchers (w_db w1)) \<union> fst ` set (t_cardTags (w_db w1))
        \<union> n_cardId ` set (t_notifications (w_db w1))"
    using h by (simp add: hardDelete_Inr_iff image_iff)
  ultimately show ?thesis
    unfolding d using c by (intro exI[of _ c] exI[of _ l]) simp
qed

definition sample_draft_db :: db where
  "sample_draft_db = sample_db\<lparr>t_cards := sample_cards @ [sample_card 6 100 ''C'']\<rparr>"

theorem discard_erases_witness:
  "\<exists>w'. delete_card sample_env sample_actor 6 1 (sample_world\<lparr>w_db := sample_draft_db\<rparr>) = (Inr (), w')
     \<and> 6 \<notin> c_id ` set (t_cards (w_db w')) \<and> findCard 3 (w_db w') = findCard 3 sample_draft_db"
proof -
  have "returned (delete_card sample_env sample_actor 6 1) (sample_world\<lparr>w_db := sample_draft_db\<rparr>)"
    by code_simp+
  then obtain w' where
    r: "delete_card sample_env sample_actor 6 1 (sample_world\<lparr>w_db := sample_draft_db\<rparr>) = (Inr (), w')"
    by (auto simp: returned_iff)
  from discard_erases[OF r] r show ?thesis by auto
qed

end
