(* ===== verification/Sound_Steps.thy ===== *)
theory Sound_Steps
  imports Card_Life
begin

text \<open>
  Preservation of the database invariant, one step at a time.  \<open>sound S m\<close> says that \<open>m\<close>,
  run on a database that satisfies the invariant and holds the cards \<open>S\<close>, keeps both,
  whatever its outcome.  The rules follow the structure of a service method: a lookup adds
  the card it found to \<open>S\<close>, and every write of a row that names a card of \<open>S\<close> is sound.
  The services beside the card service are shown sound with these rules alone.
\<close>

named_theorems sound_intros \<open>steps that keep the invariant\<close>

definition card_ids :: "db \<Rightarrow> card_no set" where
  "card_ids d = c_id ` set (t_cards d)"

definition sound :: "card_no set \<Rightarrow> 'a step \<Rightarrow> bool" where
  "sound S m \<longleftrightarrow> (\<forall>w. db_ok (w_db w) \<longrightarrow> S \<subseteq> card_ids (w_db w) \<longrightarrow>
     db_ok (w_db (snd (m w))) \<and> card_ids (w_db w) \<subseteq> card_ids (w_db (snd (m w))))"

lemma soundI:
  assumes "\<And>w r w'. m w = (r, w') \<Longrightarrow> db_ok (w_db w) \<Longrightarrow> S \<subseteq> card_ids (w_db w) \<Longrightarrow>
    db_ok (w_db w') \<and> card_ids (w_db w) \<subseteq> card_ids (w_db w')"
  shows "sound S m"
  using assms unfolding sound_def by (metis prod.collapse)

lemma soundD:
  assumes "sound S m" and "m w = (r, w')" and "db_ok (w_db w)" and "S \<subseteq> card_ids (w_db w)"
  shows "db_ok (w_db w')" and "card_ids (w_db w) \<subseteq> card_ids (w_db w')"
  using assms unfolding sound_def by (metis snd_conv)+

lemma sound_keeps: "keeps w_db m \<Longrightarrow> sound S m"
  by (rule soundI) (auto dest: keepsD)

lemma sound_weaken: "sound S m \<Longrightarrow> S \<subseteq> S' \<Longrightarrow> sound S' m"
  unfolding sound_def by blast

lemma keeps_db [intro, simp]:
  "keeps w_db (ask f)" "keeps w_db (newId E)" "keeps w_db (now E)" "keeps w_db (publish h)"
  "keeps w_db (cardCompleted c)" "keeps w_db (uow_read g)" "keeps w_db (makeEvent E a i body)"
  by (auto simp: keeps_def ask_def newId_def now_def publish_def cardCompleted_def uow_read_def
      makeEvent_def bind_def return_def)

lemma keeps_db_hints [intro, simp]:
  "keeps w_db (publishCardHints c evs)" "keeps w_db (publish_result r)"
  by (auto simp: publishCardHints_def publish_result_def)

lemma sound_basic [sound_intros]:
  "sound S (return x)" "sound S (throw e)" "sound S (lift r)" "sound S (guard b e)"
  "sound S (ask f)" "sound S (newId E)" "sound S (now E)" "sound S (publish h)"
  "sound S (cardCompleted c)" "sound S (uow_read g)" "sound S (makeEvent E a i body)"
  "sound S (publishCardHints c evs)"
  by (auto intro!: sound_keeps)

lemma sound_bind [sound_intros]:
  assumes m: "sound S m" and f: "\<And>a. sound S (f a)"
  shows "sound S (bind m f)"
proof (rule soundI)
  fix w r w'
  assume run: "bind m f w = (r, w')" and ok: "db_ok (w_db w)" "S \<subseteq> card_ids (w_db w)"
  obtain q w1 where q: "m w = (q, w1)" by fastforce
  note 1 = soundD[OF m q ok]
  show "db_ok (w_db w') \<and> card_ids (w_db w) \<subseteq> card_ids (w_db w')"
  proof (cases q)
    case (Inl e)
    with run q 1 show ?thesis by (simp add: bind_def)
  next
    case (Inr a)
    with run q have "f a w1 = (r, w')" by (simp add: bind_def)
    from soundD[OF f this 1(1)] 1(2) ok(2) show ?thesis by blast
  qed
qed

text \<open>A lookup tells that the cards it returns exist.\<close>

lemma sound_lookup:
  assumes "\<And>d x. f d = Inr x \<Longrightarrow> T x \<subseteq> card_ids d" and "\<And>x. sound (S \<union> T x) (g x)"
  shows "sound S (bind (ask f) g)"
proof (rule soundI)
  fix w r w'
  assume run: "bind (ask f) g w = (r, w')" and ok: "db_ok (w_db w)" "S \<subseteq> card_ids (w_db w)"
  show "db_ok (w_db w') \<and> card_ids (w_db w) \<subseteq> card_ids (w_db w')"
  proof (cases "f (w_db w)")
    case (Inl e)
    with run ok show ?thesis by (simp add: bind_def ask_def)
  next
    case (Inr x)
    with run have "g x w = (r, w')" by (simp add: bind_def ask_def)
    from soundD[OF assms(2) this ok(1)] assms(1)[OF Inr] ok(2) show ?thesis by blast
  qed
qed

lemma sound_store:
  assumes "\<And>d d'. f d = Inr d' \<Longrightarrow> db_ok d \<Longrightarrow> S \<subseteq> card_ids d \<Longrightarrow>
    db_ok d' \<and> card_ids d \<subseteq> card_ids d'"
  shows "sound S (store f)"
  by (rule soundI) (auto simp: store_def dest!: assms split: sum.splits)

lemma sound_put:
  assumes "\<And>d. db_ok d \<Longrightarrow> S \<subseteq> card_ids d \<Longrightarrow> db_ok (f d) \<and> card_ids d \<subseteq> card_ids (f d)"
  shows "sound S (put_db f)"
  using assms by (auto simp: sound_def put_db_def)

lemma sound_run [sound_intros]:
  assumes "sound S m" shows "sound S (uow_run m)"
proof (rule soundI)
  fix w r w'
  assume run: "uow_run m w = (r, w')" and ok: "db_ok (w_db w)" "S \<subseteq> card_ids (w_db w)"
  obtain q w1 where q: "m w = (q, w1)" by fastforce
  from soundD[OF assms q ok] ok run q
  show "db_ok (w_db w') \<and> card_ids (w_db w) \<subseteq> card_ids (w_db w')"
    by (auto simp: uow_run_def split: sum.splits)
qed

lemma sound_each [sound_intros]: "(\<And>x. sound S (f x)) \<Longrightarrow> sound S (for_each xs f)"
  by (induction xs) (simp_all add: sound_basic sound_bind)

lemma sound_map [sound_intros]: "(\<And>x. sound S (f x)) \<Longrightarrow> sound S (for_map xs f)"
  by (induction xs) (simp_all add: sound_basic sound_bind)

lemma sound_cases [sound_intros]:
  "(b \<Longrightarrow> sound S m) \<Longrightarrow> (\<not> b \<Longrightarrow> sound S m') \<Longrightarrow> sound S (if b then m else m')"
  "sound S p \<Longrightarrow> (\<And>x. sound S (q x)) \<Longrightarrow>
     sound S (case opt of None \<Rightarrow> p | Some x \<Rightarrow> q x)"
  by (auto split: option.splits)

section \<open>Rows that name a card\<close>

lemma annotated_ok:
  assumes "db_ok d" and "t_cards d' = t_cards d" and "t_lanes d' = t_lanes d" and "refs_ok d'"
  shows "db_ok d' \<and> card_ids d \<subseteq> card_ids d'"
  using assms by (simp add: db_ok_def lanes_ok_def cards_ok_def card_ids_def)

lemma sound_appendEvent [sound_intros]:
  "ev_cardId ev \<in> S \<Longrightarrow> sound S (store (appendEvent ev))"
  by (rule sound_store, rule annotated_ok)
    (auto simp: run_simps db_ok_def refs_ok_def card_ids_def)

lemma sound_insertComment [sound_intros]:
  "cm_cardId c \<in> S \<Longrightarrow> sound S (store (insertComment c))"
  by (rule sound_store, rule annotated_ok)
    (auto simp: run_simps db_ok_def refs_ok_def card_ids_def)

lemma sound_updateComment [sound_intros]:
  "cm_cardId c \<in> S \<Longrightarrow> sound S (store (updateComment c))"
  by (rule sound_store, rule annotated_ok)
    (auto simp: run_simps db_ok_def refs_ok_def card_ids_def dest!: in_put_row)

lemma sound_insertAttachment [sound_intros]:
  "at_cardId a \<in> S \<Longrightarrow> sound S (store (insertAttachment a))"
  by (rule sound_store, rule annotated_ok)
    (auto simp: run_simps db_ok_def refs_ok_def card_ids_def)

lemma sound_updateAttachment [sound_intros]:
  "at_cardId a \<in> S \<Longrightarrow> sound S (store (updateAttachment a))"
  by (rule sound_store, rule annotated_ok)
    (auto simp: run_simps db_ok_def refs_ok_def card_ids_def dest!: in_put_row)

lemma sound_insertRelation [sound_intros]:
  "rel_fromCardId r \<in> S \<Longrightarrow> rel_toCardId r \<in> S \<Longrightarrow> sound S (store (insertRelation r))"
  by (rule sound_store, rule annotated_ok)
    (auto simp: run_simps db_ok_def refs_ok_def card_ids_def)

lemma sound_insertNotification [sound_intros]:
  "n_cardId n \<in> S \<Longrightarrow> sound S (store (insertNotification n))"
  by (rule sound_store, rule annotated_ok)
    (auto simp: run_simps db_ok_def refs_ok_def card_ids_def)

lemma sound_addWatcher [sound_intros]: "i \<in> S \<Longrightarrow> sound S (put_db (addWatcher i u t))"
  by (rule sound_put, rule annotated_ok)
    (auto simp: addWatcher_def db_ok_def refs_ok_def card_ids_def)

text \<open>Deleting or marking rows never breaks a reference.\<close>

lemma sound_shrink [sound_intros]:
  "sound S (put_db (removeWatcher i u))" "sound S (put_db (deleteRelation k))"
proof -
  have "refs_ok (removeWatcher i u d)" "refs_ok (deleteRelation k d)" if "refs_ok d" for d
    using that unfolding refs_ok_def removeWatcher_def deleteRelation_def by auto
  note refs = this
  have same: "t_cards (removeWatcher i u d) = t_cards d" "t_lanes (removeWatcher i u d) = t_lanes d"
    "t_cards (deleteRelation k d) = t_cards d" "t_lanes (deleteRelation k d) = t_lanes d" for d
    by (simp_all add: removeWatcher_def deleteRelation_def)
  show "sound S (put_db (removeWatcher i u))"
    by (rule sound_put, rule annotated_ok) (simp_all add: same refs db_ok_def)
  show "sound S (put_db (deleteRelation k))"
    by (rule sound_put, rule annotated_ok) (simp_all add: same refs db_ok_def)
qed

lemma found_card: "findCard i d = Some c \<Longrightarrow> c_id c \<in> card_ids d"
  by (auto simp: card_ids_def dest: findCard_id)

lemma found_id: "findCard i d = Some c \<Longrightarrow> i \<in> card_ids d"
  using found_card findCard_id by metis

lemma accessible_id: "accessibleCard a i d = Inr c \<Longrightarrow> c_id c \<in> card_ids d"
  by (auto simp: run_simps intro: found_card)

lemma accessible_found: "accessibleCard a i d = Inr c \<Longrightarrow> findCard i d = Some c \<and> c_id c = i"
  by (auto simp: run_simps dest: findCard_id)

lemma accessible_ids: "accessibleCard a i d = Inr c \<Longrightarrow> i \<in> card_ids d"
  by (auto dest: accessible_found intro: found_id simp del: accessibleCard_iff)

section \<open>Methods of one transaction\<close>

text \<open>
  A method runs one transaction and then something that leaves the database alone and does
  not throw: either the database is as before or it is as the transaction left it.
\<close>

lemma committed:
  assumes "bind (uow_run tx) post w = (r, w')" and "\<And>x. keeps w_db (post x)"
  obtains "w_db w' = w_db w" | x w1 where "tx w = (Inr x, w1)" and "w_db w' = w_db w1"
proof (cases "uow_run tx w")
  case (Pair q w1)
  show ?thesis
  proof (cases q)
    case (Inl e)
    with Pair assms(1) have "w' = w1" by (simp add: bind_def)
    with Pair Inl that(1) show ?thesis by (simp add: uow_run_rollback)
  next
    case (Inr x)
    with Pair assms(1) have "post x w1 = (r, w')" by (simp add: bind_def)
    with assms(2) have "w_db w' = w_db w1" by (blast dest: keepsD)
    with that(2) Pair Inr show ?thesis by (simp add: uow_run_Inr_iff)
  qed
qed

definition silent :: "('a \<Rightarrow> 'b step) \<Rightarrow> bool" where
  "silent post \<longleftrightarrow> (\<forall>x w e w'. post x w \<noteq> (Inl e, w'))"

lemma failed_method:
  assumes "bind (uow_run tx) post w = (Inl e, w')" and "keeps outside tx" and "silent post"
  shows "undone w w'"
  using assms by (auto simp: bind_Inl_iff silent_def dest: run_undone)

text \<open>Reads of access do not look at the tables of cards.\<close>

lemma access_frame [simp]:
  "canAccessBoard a b (d\<lparr>t_watchers := ws\<rparr>) = canAccessBoard a b d"
  "canAccessBoard a b (d\<lparr>t_notifications := ns\<rparr>) = canAccessBoard a b d"
  "canAccessBoard a b (d\<lparr>t_comments := cs\<rparr>) = canAccessBoard a b d"
  "canAccessBoard a b (d\<lparr>t_events := es\<rparr>) = canAccessBoard a b d"
  "findUser i (d\<lparr>t_watchers := ws\<rparr>) = findUser i d"
  "findUser i (d\<lparr>t_notifications := ns\<rparr>) = findUser i d"
  "findUser i (d\<lparr>t_comments := cs\<rparr>) = findUser i d"
  "findUser i (d\<lparr>t_events := es\<rparr>) = findUser i d"
  by (simp_all add: canAccessBoard_def globalPolicy_def getDefault_def getActive_def findGroup_def
      findUser_def cong: if_cong)

lemma addWatcher_form: "addWatcher i u t d = d\<lparr>t_watchers := t_watchers (addWatcher i u t d)\<rparr>"
  by (simp add: addWatcher_def)

end
