(* ===== verification/Comments.thy ===== *)
theory Comments
  imports Sound_Steps Sample
begin

text \<open>
  \<open>CommentService\<close> of \<open>packages/core/src/services/comment-service.ts\<close>: threads of one
  level, @-mentions, edits by the author, soft deletes, and the redacted read.
\<close>

section \<open>The service\<close>

text \<open>Is the user a person who may be told about this board?\<close>

definition reachable_user :: "uuid \<Rightarrow> board \<Rightarrow> db \<Rightarrow> bool read" where
  "reachable_user userId board d = (case findUser userId d of
      None \<Rightarrow> Inr False
    | Some user \<Rightarrow> if \<not> u_isActive user then Inr False
        else canAccessBoard (actor_of_user user) board d)"

definition mention_row ::
  "uuid \<Rightarrow> uuid \<Rightarrow> card_no \<Rightarrow> uuid \<Rightarrow> uuid \<Rightarrow> instant \<Rightarrow> notification" where
  "mention_row i userId cardId authorId commentId t =
     \<lparr>n_id = i, n_userId = userId, n_cardId = cardId, n_actorId = Some authorId,
      n_eventType = NMention, n_commentId = Some commentId, n_createdAt = t, n_readAt = None\<rparr>"

text \<open>The loop of \<open>resolveMentions\<close> over the distinct ids.\<close>

fun mention_each ::
  "env \<Rightarrow> uuid \<Rightarrow> card_no \<Rightarrow> board \<Rightarrow> uuid \<Rightarrow> instant \<Rightarrow> uuid list \<Rightarrow> uuid list step" where
  "mention_each E authorId cardId board commentId t [] = return []"
| "mention_each E authorId cardId board commentId t (userId # rest) =
     (if userId = authorId then mention_each E authorId cardId board commentId t rest
      else bind (ask (reachable_user userId board)) (\<lambda>ok.
        if \<not> ok then mention_each E authorId cardId board commentId t rest
        else bind (put_db (addWatcher cardId userId t)) (\<lambda>_.
          bind (newId E) (\<lambda>i.
          bind (store (insertNotification (mention_row i userId cardId authorId commentId t))) (\<lambda>_.
          bind (mention_each E authorId cardId board commentId t rest) (\<lambda>resolved.
          return (userId # resolved)))))))"

definition resolveMentions ::
  "env \<Rightarrow> uuid list \<Rightarrow> uuid \<Rightarrow> card_no \<Rightarrow> uuid \<Rightarrow> instant \<Rightarrow> uuid list step" where
  "resolveMentions E rawMentions authorId cardId commentId t =
     bind (ask (\<lambda>d. sbind (requireFound (findCard cardId d) ''card'') (\<lambda>c.
        requireFound (findBoard (c_boardId c) d) ''board''))) (\<lambda>board.
     mention_each E authorId cardId board commentId t (uniq rawMentions))"

text \<open>The event names the comment, its parent, and the mentioned users when there are any.\<close>

definition added_body :: "comment_row \<Rightarrow> uuid list \<Rightarrow> event_body" where
  "added_body c mentioned = CommentAdded (cm_id c) (cm_parentCommentId c)
     (if mentioned = [] then None else Some mentioned)"

definition appendCommentEvent :: "env \<Rightarrow> actor \<Rightarrow> card \<Rightarrow> event_body \<Rightarrow> card_event step" where
  "appendCommentEvent E actor c body =
     bind (makeEvent E actor (c_id c) body) (\<lambda>ev.
     bind (store (appendEvent ev)) (\<lambda>_. return ev))"

definition requireActiveComment :: "uuid \<Rightarrow> db \<Rightarrow> comment_row read" where
  "requireActiveComment commentId d =
     sbind (requireFound (findComment commentId d) ''comment'') (\<lambda>c.
     sbind (sguard (cm_deletedAt c = None) (NotFoundError ''comment'')) (\<lambda>_. Inr c))"

text \<open>A reply to a reply attaches to the top-level parent.\<close>

definition threadParent :: "card \<Rightarrow> uuid option \<Rightarrow> db \<Rightarrow> uuid option read" where
  "threadParent c wanted d = (case wanted of
      None \<Rightarrow> Inr None
    | Some i \<Rightarrow> (case findComment i d of
        None \<Rightarrow> Inl (NotFoundError ''parent comment'')
      | Some parent \<Rightarrow>
          if cm_cardId parent \<noteq> c_id c then Inl (NotFoundError ''parent comment'')
          else Inr (Some (default_to (cm_id parent) (cm_parentCommentId parent)))))"

definition comment_plan ::
  "actor \<Rightarrow> card_no \<Rightarrow> add_comment_input \<Rightarrow> uuid \<Rightarrow> db \<Rightarrow> (card \<times> uuid option) read" where
  "comment_plan actor cardId inp authorId d =
     sbind (accessibleCard actor cardId d) (\<lambda>c.
     sbind (ensureNotArchived c) (\<lambda>_.
     sbind (activePolicy (c_boardId c) d) (\<lambda>policy.
     sbind (decide (evaluatePolicy actor ActCommentAdd policy)) (\<lambda>_.
     sbind (requireFound (findUser authorId d) ''author'') (\<lambda>_.
     sbind (threadParent c (ac_parentCommentId inp) d) (\<lambda>parent.
     Inr (c, parent)))))))"

definition comment_tx ::
  "env \<Rightarrow> actor \<Rightarrow> card_no \<Rightarrow> add_comment_input \<Rightarrow> uuid
     \<Rightarrow> (comment_row \<times> card \<times> card_event) step" where
  "comment_tx E actor cardId inp authorId =
     bind (ask (comment_plan actor cardId inp authorId)) (\<lambda>(c, parent).
     bind (now E) (\<lambda>t.
     bind (newId E) (\<lambda>i.
     let created = \<lparr>cm_id = i, cm_cardId = c_id c, cm_parentCommentId = parent,
       cm_authorId = authorId, cm_body = ac_body inp, cm_createdAt = t, cm_updatedAt = t,
       cm_deletedAt = None\<rparr> in
     bind (store (insertComment created)) (\<lambda>_.
     bind (put_db (addWatcher (c_id c) authorId t)) (\<lambda>_.
     bind (resolveMentions E (default_to [] (ac_mentions inp)) authorId (c_id c) i t) (\<lambda>mentioned.
     bind (appendCommentEvent E actor c (added_body created mentioned)) (\<lambda>ev.
     return (created, c, ev))))))))"

text \<open>The tail of the three mutations: the hint of the committed event, then the comment.\<close>

definition comment_hint :: "comment_row \<times> card \<times> card_event \<Rightarrow> comment_row step" where
  "comment_hint result =
     bind (publishCardHints (fst (snd result)) [snd (snd result)]) (\<lambda>_. return (fst result))"

definition add_comment ::
  "env \<Rightarrow> actor \<Rightarrow> card_no \<Rightarrow> add_comment_input \<Rightarrow> uuid option \<Rightarrow> comment_row step" where
  "add_comment E actor cardId raw authorOption =
     bind (lift (parse_add_comment raw)) (\<lambda>inp.
     bind (uow_run (comment_tx E actor cardId inp (default_to (a_id actor) authorOption)))
       comment_hint)"

definition comment_target ::
  "actor \<Rightarrow> uuid \<Rightarrow> (uuid \<Rightarrow> policy_action) \<Rightarrow> db \<Rightarrow> (comment_row \<times> card) read" where
  "comment_target actor commentId action d =
     sbind (requireActiveComment commentId d) (\<lambda>existing.
     sbind (accessibleCard actor (cm_cardId existing) d) (\<lambda>c.
     sbind (ensureNotArchived c) (\<lambda>_.
     sbind (activePolicy (c_boardId c) d) (\<lambda>policy.
     sbind (decide (evaluatePolicy actor (action (cm_authorId existing)) policy)) (\<lambda>_.
     Inr (existing, c))))))"

definition edit_comment_tx ::
  "env \<Rightarrow> actor \<Rightarrow> uuid \<Rightarrow> string \<Rightarrow> (comment_row \<times> card \<times> card_event) step" where
  "edit_comment_tx E actor commentId body =
     bind (ask (comment_target actor commentId ActCommentEdit)) (\<lambda>(existing, c).
     bind (now E) (\<lambda>t.
     let updated = existing\<lparr>cm_body := body, cm_updatedAt := t\<rparr> in
     bind (store (updateComment updated)) (\<lambda>_.
     bind (appendCommentEvent E actor c
       (CommentEdited (cm_id updated) (cm_parentCommentId updated))) (\<lambda>ev.
     return (updated, c, ev)))))"

definition edit_comment :: "env \<Rightarrow> actor \<Rightarrow> uuid \<Rightarrow> string \<Rightarrow> comment_row step" where
  "edit_comment E actor commentId raw =
     bind (lift (parse_edit_comment raw)) (\<lambda>body.
     bind (uow_run (edit_comment_tx E actor commentId body)) comment_hint)"

definition softDelete_tx ::
  "env \<Rightarrow> actor \<Rightarrow> uuid \<Rightarrow> (comment_row \<times> card \<times> card_event) step" where
  "softDelete_tx E actor commentId =
     bind (ask (comment_target actor commentId ActCommentDelete)) (\<lambda>(existing, c).
     bind (now E) (\<lambda>t.
     let updated = existing\<lparr>cm_deletedAt := Some t, cm_updatedAt := t\<rparr> in
     bind (store (updateComment updated)) (\<lambda>_.
     bind (appendCommentEvent E actor c
       (CommentDeleted (cm_id updated) (cm_parentCommentId updated))) (\<lambda>ev.
     return (updated, c, ev)))))"

definition softDelete_comment :: "env \<Rightarrow> actor \<Rightarrow> uuid \<Rightarrow> comment_row step" where
  "softDelete_comment E actor commentId =
     bind (uow_run (softDelete_tx E actor commentId)) comment_hint"

definition listForCard :: "actor \<Rightarrow> card_no \<Rightarrow> comment_row list step" where
  "listForCard actor cardId =
     bind (uow_read (\<lambda>d. sbind (accessibleCard actor cardId d) (\<lambda>_. Inr (listComments cardId d))))
       (\<lambda>thread. return (redactDeletedComments thread))"

section \<open>The services keep the invariant\<close>

lemma sound_mentions [sound_intros]:
  "cardId \<in> S \<Longrightarrow> sound S (mention_each E authorId cardId board commentId t us)"
  by (induction us) (auto intro!: sound_intros simp: mention_row_def)

lemma sound_resolveMentions [sound_intros]:
  "cardId \<in> S \<Longrightarrow> sound S (resolveMentions E ms authorId cardId commentId t)"
  by (simp add: resolveMentions_def sound_intros)

lemma sound_commentEvent [sound_intros]:
  "c_id c \<in> S \<Longrightarrow> sound S (appendCommentEvent E a c body)"
proof -
  assume c: "c_id c \<in> S"
  have "sound S (bind (makeEvent E a (c_id c) body) (\<lambda>ev. bind (store (appendEvent ev)) (\<lambda>_. return ev)))"
    by (rule soundI) (use c in \<open>auto simp: bind_def makeEvent_def newId_def now_def return_def
        store_def appendEvent_def db_ok_def lanes_ok_def cards_ok_def refs_ok_def card_ids_def
        split: if_splits\<close>)
  then show ?thesis by (simp add: appendCommentEvent_def)
qed

lemma comment_plan_card: "comment_plan a i inp u d = Inr (c, p) \<Longrightarrow> findCard i d = Some c \<and> c_id c = i"
  by (auto simp: comment_plan_def run_simps dest: findCard_id)

lemma comment_target_card: "comment_target a k act d = Inr (m, c) \<Longrightarrow>
    findComment k d = Some m \<and> cm_deletedAt m = None \<and> findCard (cm_cardId m) d = Some c
    \<and> c_id c = cm_cardId m \<and> c_archivedAt c = None"
  by (auto simp: comment_target_def requireActiveComment_def run_simps dest: findCard_id)

lemma sound_comment_tx [sound_intros]: "sound S (comment_tx E a i inp u)"
  unfolding comment_tx_def
  by (rule sound_lookup[where T = "\<lambda>x. {c_id (fst x)}"])
    (auto intro!: sound_intros simp: Let_def dest!: comment_plan_card intro: found_card)

lemma sound_comment_hint [sound_intros]: "sound S (comment_hint r)"
  by (auto intro!: sound_intros simp: comment_hint_def)

lemma sound_edit_tx [sound_intros]: "sound S (edit_comment_tx E a k body)"
  unfolding edit_comment_tx_def
  by (rule sound_lookup[where T = "\<lambda>x. {c_id (snd x), cm_cardId (fst x)}"])
    (auto intro!: sound_intros simp: Let_def dest!: comment_target_card intro: found_id)

lemma sound_softDelete_tx [sound_intros]: "sound S (softDelete_tx E a k)"
  unfolding softDelete_tx_def
  by (rule sound_lookup[where T = "\<lambda>x. {c_id (snd x), cm_cardId (fst x)}"])
    (auto intro!: sound_intros simp: Let_def dest!: comment_target_card intro: found_id)

lemma sound_comments [sound_intros]:
  "sound S (add_comment E a i raw u)" "sound S (edit_comment E a k body)"
  "sound S (softDelete_comment E a k)"
  by (auto intro!: sound_intros simp: add_comment_def edit_comment_def softDelete_comment_def)

section \<open>Mentions\<close>

lemma reachable_frame [simp]:
  "reachable_user u b (d\<lparr>t_watchers := ws\<rparr>) = reachable_user u b d"
  "reachable_user u b (d\<lparr>t_notifications := ns\<rparr>) = reachable_user u b d"
  "reachable_user u b (d\<lparr>t_comments := cs\<rparr>) = reachable_user u b d"
  by (simp_all add: reachable_user_def cong: option.case_cong if_cong)

definition mentionable :: "uuid \<Rightarrow> board \<Rightarrow> db \<Rightarrow> uuid \<Rightarrow> bool" where
  "mentionable authorId board d u \<longleftrightarrow> u \<noteq> authorId \<and> reachable_user u board d = Inr True"

definition mention_notice :: "uuid \<Rightarrow> card_no \<Rightarrow> uuid \<Rightarrow> notification \<Rightarrow> bool" where
  "mention_notice authorId i k n \<longleftrightarrow> n_cardId n = i \<and> n_actorId n = Some authorId
     \<and> n_eventType n = NMention \<and> n_commentId n = Some k \<and> n_readAt n = None"

lemma mention_each_run:
  "mention_each E u i b k t us w = (Inr rs, w') \<Longrightarrow>
     rs = filter (mentionable u b (w_db w)) us
     \<and> (\<exists>ws ns. w_db w' = (w_db w)\<lparr>t_watchers := ws, t_notifications := t_notifications (w_db w) @ ns\<rparr>
          \<and> map n_userId ns = rs \<and> (\<forall>n \<in> set ns. mention_notice u i k n)
          \<and> set (t_watchers (w_db w)) \<subseteq> set ws \<and> (\<forall>x \<in> set rs. \<exists>t. (i, x, t) \<in> set ws))"
proof (induction us arbitrary: w rs w')
  case Nil
  then have "rs = [] \<and> w' = w" by (simp add: run_simps)
  then show ?case
    by (intro conjI exI[of _ "t_watchers (w_db w)"] exI[of _ "[]"]) simp_all
next
  case (Cons x us)
  show ?case
  proof (cases "mentionable u b (w_db w) x")
    case False
    with Cons.prems have "mention_each E u i b k t us w = (Inr rs, w')"
      by (auto simp: mentionable_def bind_Inr_iff ask_iff split: if_splits)
    with Cons.IH False show ?thesis by simp
  next
    case True
    let ?row = "mention_row (e_newId E (w_ids w)) x i u k t"
    let ?d1 = "addWatcher i x t (w_db w)"
    let ?w1 = "w\<lparr>w_ids := Suc (w_ids w), w_db := ?d1\<lparr>t_notifications := t_notifications (w_db w) @ [?row]\<rparr>\<rparr>"
    from True Cons.prems obtain rs' where
      r: "mention_each E u i b k t us ?w1 = (Inr rs', w')" and rs: "rs = x # rs'"
      by (auto simp: mentionable_def run_simps)
    have frame: "mentionable u b (w_db ?w1) = mentionable u b (w_db w)"
      by (rule ext) (simp add: mentionable_def addWatcher_def)
    from Cons.IH[OF r] obtain ws ns where
      d': "w_db w' = (w_db ?w1)\<lparr>t_watchers := ws, t_notifications := t_notifications (w_db ?w1) @ ns\<rparr>"
      and ns: "map n_userId ns = rs'" "\<forall>n \<in> set ns. mention_notice u i k n"
      and ws: "set (t_watchers (w_db ?w1)) \<subseteq> set ws" "\<forall>x \<in> set rs'. \<exists>t. (i, x, t) \<in> set ws"
      and rs': "rs' = filter (mentionable u b (w_db w)) us"
      unfolding frame by blast
    have "isWatching i x ?d1" by (simp add: isWatching_addWatcher)
    with ws(1) have x: "\<exists>t. (i, x, t) \<in> set ws" by (force simp: isWatching_def)
    have "set (t_watchers (w_db w)) \<subseteq> set ws" using ws(1) by (auto simp: addWatcher_def split: if_splits)
    moreover have "w_db w' = (w_db w)\<lparr>t_watchers := ws, t_notifications := t_notifications (w_db w) @ (?row # ns)\<rparr>"
      using d' by (simp add: addWatcher_def)
    moreover have "mention_notice u i k ?row" "n_userId ?row = x"
      by (simp_all add: mention_notice_def mention_row_def)
    ultimately show ?thesis using True rs rs' ns ws(2) x
      by (intro conjI exI[of _ ws] exI[of _ "?row # ns"]) simp_all
  qed
qed

lemma comment_tx_run:
  assumes "comment_tx E a i inp u w = (Inr (m, c, ev), w')"
  shows "\<exists>b p ws ns. comment_plan a i inp u (w_db w) = Inr (c, p) \<and> c_id c = i
    \<and> findBoard (c_boardId c) (w_db w) = Some b
    \<and> cm_cardId m = i \<and> cm_authorId m = u \<and> cm_body m = ac_body inp \<and> cm_parentCommentId m = p
    \<and> cm_deletedAt m = None \<and> cm_id m \<notin> cm_id ` set (t_comments (w_db w))
    \<and> w_db w' = (w_db w)\<lparr>t_comments := t_comments (w_db w) @ [m], t_watchers := ws,
        t_notifications := t_notifications (w_db w) @ ns, t_events := t_events (w_db w) @ [ev]\<rparr>
    \<and> map n_userId ns = filter (mentionable u b (w_db w)) (uniq (default_to [] (ac_mentions inp)))
    \<and> (\<forall>n \<in> set ns. mention_notice u i (cm_id m) n \<and> (\<exists>t. (i, n_userId n, t) \<in> set ws))
    \<and> (\<exists>t. (i, u, t) \<in> set ws) \<and> set (t_watchers (w_db w)) \<subseteq> set ws
    \<and> stamped a i ev \<and> ev_body ev = added_body m (map n_userId ns)"
proof -
  from assms obtain p rs w1 where
    plan: "comment_plan a i inp u (w_db w) = Inr (c, p)"
    and m: "m = \<lparr>cm_id = e_newId E (w_ids w), cm_cardId = c_id c, cm_parentCommentId = p,
        cm_authorId = u, cm_body = ac_body inp, cm_createdAt = e_clock E (w_ticks w),
        cm_updatedAt = e_clock E (w_ticks w), cm_deletedAt = None\<rparr>"
    and fresh: "cm_id m \<notin> cm_id ` set (t_comments (w_db w))"
    and men: "resolveMentions E (default_to [] (ac_mentions inp)) u (c_id c) (cm_id m) (e_clock E (w_ticks w))
       (w\<lparr>w_ticks := Suc (w_ticks w), w_ids := Suc (w_ids w),
         w_db := addWatcher (c_id c) u (e_clock E (w_ticks w)) ((w_db w)\<lparr>t_comments := t_comments (w_db w) @ [m]\<rparr>)\<rparr>)
       = (Inr rs, w1)" (is "resolveMentions E ?ms u _ _ _ ?w0 = _")
    and ev: "appendCommentEvent E a c (added_body m rs) w1 = (Inr ev, w')"
    by (auto simp: comment_tx_def bind_Inr_iff ask_iff now_iffs newId_iffs Let_def store_iffs
        put_db_iffs insertComment_Inr_iff return_iffs)
  from comment_plan_card[OF plan] have c: "findCard i (w_db w) = Some c" "c_id c = i" by simp_all
  have db0: "w_db ?w0 = (w_db w)\<lparr>t_comments := t_comments (w_db w) @ [m],
      t_watchers := t_watchers (w_db ?w0)\<rparr>"
    by (simp add: addWatcher_def)
  from men c obtain b where b: "findBoard (c_boardId c) (w_db w) = Some b"
    and e: "mention_each E u i b (cm_id m) (e_clock E (w_ticks w)) (uniq ?ms) ?w0 = (Inr rs, w1)"
    by (auto simp: resolveMentions_def run_simps findCard_def findBoard_def)
  have frame: "mentionable u b (w_db ?w0) = mentionable u b (w_db w)"
    by (rule ext) (simp add: mentionable_def addWatcher_def)
  from mention_each_run[OF e] obtain ws ns where
    d1: "w_db w1 = (w_db ?w0)\<lparr>t_watchers := ws, t_notifications := t_notifications (w_db ?w0) @ ns\<rparr>"
    and ns: "map n_userId ns = rs" "\<forall>n \<in> set ns. mention_notice u i (cm_id m) n"
    and ws: "set (t_watchers (w_db ?w0)) \<subseteq> set ws" "\<forall>x \<in> set rs. \<exists>t. (i, x, t) \<in> set ws"
    and rs: "rs = filter (mentionable u b (w_db w)) (uniq ?ms)"
    unfolding frame by blast
  have u: "\<exists>t. (i, u, t) \<in> set ws"
  proof -
    have "isWatching i u (w_db ?w0)" by (simp add: isWatching_addWatcher c)
    with ws(1) show ?thesis by (force simp: isWatching_def)
  qed
  have old: "set (t_watchers (w_db w)) \<subseteq> set ws" using ws(1) by (auto simp: addWatcher_def split: if_splits)
  have w': "w_db w' = (w_db w1)\<lparr>t_events := t_events (w_db w1) @ [ev]\<rparr>" "stamped a i ev"
    "ev_body ev = added_body m rs"
    using ev c by (auto simp: appendCommentEvent_def run_simps stamped_def)
  have "w_db w' = (w_db w)\<lparr>t_comments := t_comments (w_db w) @ [m], t_watchers := ws,
      t_notifications := t_notifications (w_db w) @ ns, t_events := t_events (w_db w) @ [ev]\<rparr>"
    unfolding w' d1 by (subst db0) simp
  moreover have "\<forall>n \<in> set ns. \<exists>t. (i, n_userId n, t) \<in> set ws" using ws(2) ns(1) by fastforce
  moreover have "cm_cardId m = i" "cm_authorId m = u" "cm_body m = ac_body inp"
    "cm_parentCommentId m = p" "cm_deletedAt m = None" using m c by simp_all
  moreover have "map n_userId ns = filter (mentionable u b (w_db w)) (uniq ?ms)"
    "ev_body ev = added_body m (map n_userId ns)" using ns(1) rs w'(3) by simp_all
  ultimately show ?thesis using plan c(2) b fresh ns(2) u old w'(2)
    by (intro exI[of _ b] exI[of _ p] exI[of _ ws] exI[of _ ns]) blast
qed

section \<open>Threads of one level\<close>

definition threads_ok :: "comment_row list \<Rightarrow> bool" where
  "threads_ok cs \<longleftrightarrow> distinct (map cm_id cs)
     \<and> (\<forall>c \<in> set cs. \<forall>p. cm_parentCommentId c = Some p \<longrightarrow>
          (\<exists>q \<in> set cs. cm_id q = p \<and> cm_cardId q = cm_cardId c \<and> cm_parentCommentId q = None))"

lemma threadParent_InrD:
  assumes "threadParent c wanted d = Inr (Some p)" and "threads_ok (t_comments d)"
  shows "\<exists>q \<in> set (t_comments d). cm_id q = p \<and> cm_cardId q = c_id c \<and> cm_parentCommentId q = None"
proof -
  from assms(1) obtain i parent where f: "findComment i d = Some parent" "cm_cardId parent = c_id c"
    "p = default_to (cm_id parent) (cm_parentCommentId parent)"
    by (auto simp: threadParent_def split: option.splits if_splits)
  then have "parent \<in> set (t_comments d)" by (auto simp: findComment_def dest: row_of_SomeD)
  with assms(2) f show ?thesis
    by (cases "cm_parentCommentId parent") (auto simp: threads_ok_def default_to_def)
qed

lemma threads_snoc:
  assumes "threads_ok (t_comments d)" and "threadParent c wanted d = Inr (cm_parentCommentId m)"
    and "cm_cardId m = c_id c" and "cm_id m \<notin> cm_id ` set (t_comments d)"
  shows "threads_ok (t_comments d @ [m])"
  using assms threadParent_InrD[of c wanted d] by (auto simp: threads_ok_def)

lemma threads_put:
  assumes "threads_ok cs" and "m \<in> set cs" and "cm_id m' = cm_id m" "cm_cardId m' = cm_cardId m"
    and "cm_parentCommentId m' = cm_parentCommentId m"
  shows "threads_ok (put_row cm_id m' cs)"
proof -
  have set: "set (put_row cm_id m' cs) = insert m' (set cs - {m})"
    using assms by (intro set_put_row) (auto simp: threads_ok_def)
  show ?thesis unfolding threads_ok_def map_pk_put_row
  proof (intro conjI ballI allI impI)
    show "distinct (map cm_id cs)" using assms by (simp add: threads_ok_def)
    fix c p assume c: "c \<in> set (put_row cm_id m' cs)" "cm_parentCommentId c = Some p"
    then obtain c0 where "c0 \<in> set cs" "cm_parentCommentId c0 = Some p" "cm_cardId c0 = cm_cardId c"
      using set assms by auto
    then obtain q where "q \<in> set cs" "cm_id q = p" "cm_cardId q = cm_cardId c" "cm_parentCommentId q = None"
      using assms(1) unfolding threads_ok_def by metis
    then show "\<exists>q \<in> set (put_row cm_id m' cs). cm_id q = p \<and> cm_cardId q = cm_cardId c
        \<and> cm_parentCommentId q = None"
      unfolding set using assms by (cases "q = m") auto
  qed
qed

lemma threads_filter: "threads_ok cs \<Longrightarrow> threads_ok (filter (\<lambda>r. cm_cardId r \<noteq> i) cs)"
  unfolding threads_ok_def by (auto simp: distinct_map_filter) metis

lemma comment_hint_silent [intro, simp]: "silent comment_hint"
  by (simp add: silent_def comment_hint_def bind_Inl_iff publishCardHints_iffs return_iffs)

lemma comment_hint_run: "comment_hint (m, c, ev) w = (Inr m', w') \<Longrightarrow> m' = m \<and> w_db w' = w_db w"
  by (auto simp: comment_hint_def bind_Inr_iff publishCardHints_iffs return_iffs)

lemma comment_hint_keeps [intro, simp]: "keeps w_db (comment_hint r)"
  by (auto simp: comment_hint_def)

lemma edit_comment_tx_run:
  assumes "edit_comment_tx E a k body w = (Inr (m, c, ev), w')"
  shows "\<exists>old t. comment_target a k ActCommentEdit (w_db w) = Inr (old, c)
    \<and> m = old\<lparr>cm_body := body, cm_updatedAt := t\<rparr>
    \<and> w_db w' = (w_db w)\<lparr>t_comments := put_row cm_id m (t_comments (w_db w)),
        t_events := t_events (w_db w) @ [ev]\<rparr>
    \<and> stamped a (c_id c) ev \<and> ev_body ev = CommentEdited (cm_id m) (cm_parentCommentId m)"
  using assms by (auto simp: edit_comment_tx_def appendCommentEvent_def Let_def run_simps stamped_def)

lemma softDelete_tx_run:
  assumes "softDelete_tx E a k w = (Inr (m, c, ev), w')"
  shows "\<exists>old t. comment_target a k ActCommentDelete (w_db w) = Inr (old, c)
    \<and> m = old\<lparr>cm_deletedAt := Some t, cm_updatedAt := t\<rparr>
    \<and> w_db w' = (w_db w)\<lparr>t_comments := put_row cm_id m (t_comments (w_db w)),
        t_events := t_events (w_db w) @ [ev]\<rparr>
    \<and> stamped a (c_id c) ev \<and> ev_body ev = CommentDeleted (cm_id m) (cm_parentCommentId m)"
  using assms by (auto simp: softDelete_tx_def appendCommentEvent_def Let_def run_simps stamped_def)

lemma inside_mentions [intro, simp]: "keeps outside (mention_each E u i b k t us)"
  by (induction us) (auto intro!: keeps_bind)

lemma inside_comment_txs [intro, simp]:
  "keeps outside (comment_tx E a i inp u)" "keeps outside (edit_comment_tx E a k body)"
  "keeps outside (softDelete_tx E a k)"
  by (auto simp: comment_tx_def edit_comment_tx_def softDelete_tx_def appendCommentEvent_def
      resolveMentions_def Let_def intro!: keeps_bind split: prod.split)

lemma comment_in_table: "findComment k d = Some m \<Longrightarrow> m \<in> set (t_comments d) \<and> cm_id m = k"
  by (auto simp: findComment_def dest: row_of_SomeD)

lemma comment_target_iff:
  "comment_target a k act d = Inr (m, c) \<longleftrightarrow> findComment k d = Some m \<and> cm_deletedAt m = None
     \<and> accessibleCard a (cm_cardId m) d = Inr c \<and> c_archivedAt c = None
     \<and> (\<exists>policy. activePolicy (c_boardId c) d = Inr policy
          \<and> evaluatePolicy a (act (cm_authorId m)) policy = Allow)"
  by (auto simp: comment_target_def requireActiveComment_def run_simps)

lemma comments_keep_threads:
  assumes ok: "threads_ok (t_comments (w_db w))"
  shows "add_comment E a i raw u w = (r, w') \<Longrightarrow> threads_ok (t_comments (w_db w'))"
    and "edit_comment E a k body w = (r, w') \<Longrightarrow> threads_ok (t_comments (w_db w'))"
    and "softDelete_comment E a k w = (r, w') \<Longrightarrow> threads_ok (t_comments (w_db w'))"
proof -
  assume "add_comment E a i raw u w = (r, w')"
  then show "threads_ok (t_comments (w_db w'))" unfolding add_comment_def
  proof (rule parsed_keeps)
    fix inp
    let ?u = "default_to (a_id a) u"
    assume "bind (uow_run (comment_tx E a i inp ?u)) comment_hint w = (r, w')"
    then show ?thesis
    proof (rule committed)
      fix x w1 assume "comment_tx E a i inp ?u w = (Inr x, w1)" and w': "w_db w' = w_db w1"
      then obtain m c ev where "comment_tx E a i inp ?u w = (Inr (m, c, ev), w1)" by (cases x) auto
      from comment_tx_run[OF this] obtain p where plan: "comment_plan a i inp ?u (w_db w) = Inr (c, p)"
        and m: "c_id c = i" "cm_cardId m = i" "cm_parentCommentId m = p"
          "cm_id m \<notin> cm_id ` set (t_comments (w_db w))"
        and d: "t_comments (w_db w1) = t_comments (w_db w) @ [m]" by fastforce
      from plan have "threadParent c (ac_parentCommentId inp) (w_db w) = Inr p"
        by (auto simp: comment_plan_def run_simps)
      with threads_snoc[OF ok] m show ?thesis by (simp add: w' d)
    qed (use ok in auto)
  qed (rule ok)
next
  have put: "threads_ok (put_row cm_id m' (t_comments (w_db w)))"
    if "comment_target a k act (w_db w) = Inr (m, c)" "cm_id m' = cm_id m" "cm_cardId m' = cm_cardId m"
      "cm_parentCommentId m' = cm_parentCommentId m" for act m c m'
    using that ok by (auto simp: comment_target_iff intro!: threads_put dest: comment_in_table)
  {
    assume "edit_comment E a k body w = (r, w')"
    then show "threads_ok (t_comments (w_db w'))" unfolding edit_comment_def
    proof (rule parsed_keeps)
      fix inp assume "bind (uow_run (edit_comment_tx E a k inp)) comment_hint w = (r, w')"
      then show ?thesis
        by (rule committed) (use ok put in \<open>auto dest!: edit_comment_tx_run\<close>)
    qed (rule ok)
  next
    assume "softDelete_comment E a k w = (r, w')"
    then show "threads_ok (t_comments (w_db w'))" unfolding softDelete_comment_def
      by (rule committed) (use ok put in \<open>auto dest!: softDelete_tx_run\<close>)
  }
qed

end
