(* ===== verification/Links.thy ===== *)
theory Links
  imports Comments
begin

text \<open>
  \<open>CardRelationService\<close> (\<open>packages/core/src/services/relation-service.ts\<close>) and
  \<open>CardWatchService\<close> (\<open>watch-service.ts\<close>): typed links between cards, and who follows a card.
\<close>

section \<open>Relations\<close>

definition toView ::
  "actor \<Rightarrow> card_no \<Rightarrow> card_relation \<Rightarrow> db \<Rightarrow> card_relation_view option read" where
  "toView actor cardId r d = (let
     direction = (if rel_fromCardId r = cardId then Outgoing else Incoming);
     otherId = (if direction = Outgoing then rel_toCardId r else rel_fromCardId r)
   in case findCard otherId d of
      None \<Rightarrow> Inr None
    | Some other \<Rightarrow> (case findBoard (c_boardId other) d of
        None \<Rightarrow> Inr None
      | Some board \<Rightarrow> sbind (canAccessBoard actor board d) (\<lambda>ok.
          Inr (if ok then Some \<lparr>rv_id = rel_id r, rv_type = rel_type r, rv_direction = direction,
                 rv_cardId = c_id other, rv_cardTitle = c_title other\<rparr>
               else None))))"

definition list_relations :: "actor \<Rightarrow> card_no \<Rightarrow> card_relation_view list step" where
  "list_relations actor cardId = uow_read (\<lambda>d.
     sbind (accessibleCard actor cardId d) (\<lambda>_.
     sbind (smap (\<lambda>r. toView actor cardId r d) (listRelations cardId d)) (\<lambda>views.
     Inr (concat (map (\<lambda>v. case v of None \<Rightarrow> [] | Some x \<Rightarrow> [x]) views)))))"

record create_relation_input =
  cri_toCardId :: card_no
  cri_type :: relation_type

definition parse_create_relation :: "create_relation_input \<Rightarrow> create_relation_input read" where
  "parse_create_relation raw =
     sbind (positive ''toCardId'' (cri_toCardId raw)) (\<lambda>_. Inr raw)"

text \<open>For a symmetric type the reverse row counts as the same relation.\<close>

definition duplicate_relation :: "card_no \<Rightarrow> card_no \<Rightarrow> relation_type \<Rightarrow> db \<Rightarrow> bool" where
  "duplicate_relation frm to ty d \<longleftrightarrow> relationExists frm to ty d
     \<or> (isSymmetricRelation ty \<and> relationExists to frm ty d)"

definition relation_plan ::
  "actor \<Rightarrow> card_no \<Rightarrow> create_relation_input \<Rightarrow> db \<Rightarrow> (card \<times> card) read" where
  "relation_plan actor cardId inp d =
     sbind (accessibleCard actor cardId d) (\<lambda>frm.
     sbind (accessibleCard actor (cri_toCardId inp) d) (\<lambda>to.
     sbind (sguard (c_boardId frm = c_boardId to)
       (ConflictError ''related cards must be on the same board'' None)) (\<lambda>_.
     sbind (globalPolicy d) (\<lambda>policy.
     sbind (ensurePermission actor PermCardUpdate policy) (\<lambda>_.
     sbind (sguard (\<not> duplicate_relation (c_id frm) (c_id to) (cri_type inp) d)
       (ConflictError ''that relation already exists'' None)) (\<lambda>_. Inr (frm, to)))))))"

definition relation_tx ::
  "env \<Rightarrow> actor \<Rightarrow> card_no \<Rightarrow> create_relation_input \<Rightarrow> card_relation_view step" where
  "relation_tx E actor cardId inp =
     bind (ask (relation_plan actor cardId inp)) (\<lambda>(frm, to).
     bind (newId E) (\<lambda>i.
     bind (now E) (\<lambda>t.
     bind (store (insertRelation \<lparr>rel_id = i, rel_fromCardId = c_id frm, rel_toCardId = c_id to,
       rel_type = cri_type inp, rel_createdAt = t\<rparr>)) (\<lambda>_.
     return \<lparr>rv_id = i, rv_type = cri_type inp, rv_direction = Outgoing, rv_cardId = c_id to,
       rv_cardTitle = c_title to\<rparr>))))"

definition create_relation ::
  "env \<Rightarrow> actor \<Rightarrow> card_no \<Rightarrow> create_relation_input \<Rightarrow> card_relation_view step" where
  "create_relation E actor cardId raw =
     bind (lift (parse_create_relation raw)) (\<lambda>inp.
     bind (guard (cri_toCardId inp \<noteq> cardId)
       (ConflictError ''a card cannot be related to itself'' None)) (\<lambda>_.
     uow_run (relation_tx E actor cardId inp)))"

definition unlink_plan :: "actor \<Rightarrow> card_no \<Rightarrow> uuid \<Rightarrow> db \<Rightarrow> unit read" where
  "unlink_plan actor cardId relationId d =
     sbind (accessibleCard actor cardId d) (\<lambda>_.
     sbind (globalPolicy d) (\<lambda>policy.
     sbind (ensurePermission actor PermCardUpdate policy) (\<lambda>_.
     sbind (requireFound (findRelation relationId d) ''relation'') (\<lambda>r.
     sguard (rel_fromCardId r = cardId \<or> rel_toCardId r = cardId) (NotFoundError ''relation'')))))"

definition delete_relation :: "actor \<Rightarrow> card_no \<Rightarrow> uuid \<Rightarrow> unit step" where
  "delete_relation actor cardId relationId =
     uow_run (bind (ask (unlink_plan actor cardId relationId)) (\<lambda>_.
       put_db (deleteRelation relationId)))"

section \<open>Watching\<close>

definition is_watching :: "actor \<Rightarrow> card_no \<Rightarrow> bool step" where
  "is_watching actor cardId = uow_read (\<lambda>d.
     sbind (accessibleCard actor cardId d) (\<lambda>_. Inr (isWatching cardId (a_id actor) d)))"

definition watch_card :: "env \<Rightarrow> actor \<Rightarrow> card_no \<Rightarrow> unit step" where
  "watch_card E actor cardId = uow_run (
     bind (ask (accessibleCard actor cardId)) (\<lambda>_.
     bind (now E) (\<lambda>t. put_db (addWatcher cardId (a_id actor) t))))"

definition unwatch_card :: "actor \<Rightarrow> card_no \<Rightarrow> unit step" where
  "unwatch_card actor cardId = uow_run (
     bind (ask (accessibleCard actor cardId)) (\<lambda>_.
     put_db (removeWatcher cardId (a_id actor))))"

section \<open>The services keep the invariant\<close>

lemma relation_plan_iff:
  "relation_plan a i inp d = Inr (frm, to) \<longleftrightarrow>
     accessibleCard a i d = Inr frm \<and> accessibleCard a (cri_toCardId inp) d = Inr to
     \<and> c_boardId frm = c_boardId to
     \<and> (\<exists>policy. globalPolicy d = Inr policy \<and> permitted a PermCardUpdate policy)
     \<and> \<not> duplicate_relation (c_id frm) (c_id to) (cri_type inp) d"
  by (auto simp: relation_plan_def run_simps)

lemma sound_relation_tx [sound_intros]: "sound S (relation_tx E a i inp)"
  unfolding relation_tx_def
  by (rule sound_lookup[where T = "\<lambda>x. {c_id (fst x), c_id (snd x)}"])
    (auto intro!: sound_intros simp: relation_plan_iff dest: accessible_id simp del: accessibleCard_iff)

lemma sound_relations [sound_intros]:
  "sound S (create_relation E a i raw)" "sound S (delete_relation a i k)"
  by (auto intro!: sound_intros simp: create_relation_def delete_relation_def)

lemma sound_watch [sound_intros]: "sound S (watch_card E a i)" "sound S (unwatch_card a i)"
proof -
  have "sound S (bind (ask (accessibleCard a i)) (\<lambda>_. bind (now E) (\<lambda>t. put_db (addWatcher i (a_id a) t))))"
    by (rule sound_lookup[where T = "\<lambda>_. {i}"])
      (auto intro!: sound_intros simp: run_simps intro: found_id)
  then show "sound S (watch_card E a i)" by (auto simp: watch_card_def intro: sound_intros)
  show "sound S (unwatch_card a i)" by (auto simp: unwatch_card_def intro!: sound_intros)
qed

section \<open>No relation twice, and none to itself\<close>

text \<open>The relation a row stands for: an unordered pair for a symmetric type.\<close>

definition link_of :: "card_relation \<Rightarrow> relation_type \<times> card_no set \<times> card_no" where
  "link_of r = (rel_type r, {rel_fromCardId r, rel_toCardId r},
     if isSymmetricRelation (rel_type r) then 0 else rel_fromCardId r)"

definition relations_ok :: "card_relation list \<Rightarrow> bool" where
  "relations_ok rs \<longleftrightarrow> distinct (map rel_id rs) \<and> distinct (map link_of rs)
     \<and> (\<forall>r \<in> set rs. rel_fromCardId r \<noteq> rel_toCardId r)"

lemma link_of_eq_iff:
  "rel_fromCardId r \<noteq> rel_toCardId r \<Longrightarrow> link_of r = link_of s \<longleftrightarrow> rel_type r = rel_type s
     \<and> ((rel_fromCardId r = rel_fromCardId s \<and> rel_toCardId r = rel_toCardId s)
        \<or> (isSymmetricRelation (rel_type r) \<and> rel_fromCardId r = rel_toCardId s
            \<and> rel_toCardId r = rel_fromCardId s))"
  by (auto simp: link_of_def doubleton_eq_iff)

lemma relations_snoc:
  assumes "relations_ok (t_relations d)" and "rel_fromCardId r \<noteq> rel_toCardId r"
    and "rel_id r \<notin> rel_id ` set (t_relations d)"
    and "\<not> duplicate_relation (rel_fromCardId r) (rel_toCardId r) (rel_type r) d"
  shows "relations_ok (t_relations d @ [r])"
proof -
  have "link_of r \<notin> link_of ` set (t_relations d)"
  proof
    assume "link_of r \<in> link_of ` set (t_relations d)"
    then obtain s where "s \<in> set (t_relations d)" "link_of r = link_of s" by blast
    with link_of_eq_iff[OF assms(2), of s] assms(4) show False
      unfolding duplicate_relation_def relationExists_def by metis
  qed
  with assms show ?thesis by (auto simp: relations_ok_def)
qed

lemma relations_filter: "relations_ok rs \<Longrightarrow> relations_ok (filter P rs)"
  by (auto simp: relations_ok_def distinct_map_filter)

lemma relation_tx_run:
  assumes "relation_tx E a i inp w = (Inr v, w')"
  shows "\<exists>r frm to. relation_plan a i inp (w_db w) = Inr (frm, to) \<and> c_id frm = i
    \<and> c_id to = cri_toCardId inp \<and> rel_id r \<notin> rel_id ` set (t_relations (w_db w))
    \<and> rel_fromCardId r = i \<and> rel_toCardId r = cri_toCardId inp \<and> rel_type r = cri_type inp
    \<and> v = \<lparr>rv_id = rel_id r, rv_type = rel_type r, rv_direction = Outgoing,
         rv_cardId = rel_toCardId r, rv_cardTitle = c_title to\<rparr>
    \<and> w_db w' = (w_db w)\<lparr>t_relations := t_relations (w_db w) @ [r]\<rparr>"
proof -
  from assms obtain frm to where plan: "relation_plan a i inp (w_db w) = Inr (frm, to)"
    and rest: "bind (newId E) (\<lambda>i. bind (now E) (\<lambda>t. bind (store (insertRelation
       \<lparr>rel_id = i, rel_fromCardId = c_id frm, rel_toCardId = c_id to, rel_type = cri_type inp,
        rel_createdAt = t\<rparr>)) (\<lambda>_. return \<lparr>rv_id = i, rv_type = cri_type inp,
        rv_direction = Outgoing, rv_cardId = c_id to, rv_cardTitle = c_title to\<rparr>))) w = (Inr v, w')"
    by (auto simp: relation_tx_def bind_Inr_iff ask_iff)
  from plan have "c_id frm = i" "c_id to = cri_toCardId inp"
    by (auto simp: relation_plan_iff dest: accessible_found simp del: accessibleCard_iff)
  with plan rest show ?thesis
    by (intro exI[of _ "\<lparr>rel_id = e_newId E (w_ids w), rel_fromCardId = i, rel_toCardId = cri_toCardId inp,
          rel_type = cri_type inp, rel_createdAt = e_clock E (w_ticks w)\<rparr>"] exI[of _ frm] exI[of _ to])
      (auto simp: run_simps simp del: accessibleCard_iff)
qed

lemma relations_kept:
  assumes ok: "relations_ok (t_relations (w_db w))"
  shows "create_relation E a i raw w = (r, w') \<Longrightarrow> relations_ok (t_relations (w_db w'))"
    and "delete_relation a i k w = (r', w') \<Longrightarrow> relations_ok (t_relations (w_db w'))"
proof -
  assume run: "create_relation E a i raw w = (r, w')"
  show "relations_ok (t_relations (w_db w'))"
  proof (cases "uow_run (relation_tx E a i raw) w = (r, w') \<and> cri_toCardId raw \<noteq> i")
    case False
    with run ok show ?thesis
      by (auto simp: create_relation_def parse_create_relation_def bind_def lift_def guard_def
          return_def throw_def sbind_def positive_def check_def sguard_def split: if_splits)
  next
    case True
    show ?thesis
    proof (cases r)
      case (Inl e)
      with True ok show ?thesis by (auto dest: uow_run_rollback)
    next
      case (Inr v)
      with True have "relation_tx E a i raw w = (Inr v, w')" by (simp add: uow_run_Inr_iff)
      from relation_tx_run[OF this] obtain k where
        "w_db w' = (w_db w)\<lparr>t_relations := t_relations (w_db w) @ [k]\<rparr>"
        "rel_id k \<notin> rel_id ` set (t_relations (w_db w))" "rel_fromCardId k = i"
        "rel_toCardId k = cri_toCardId raw" "\<not> duplicate_relation i (cri_toCardId raw) (rel_type k) (w_db w)"
        by (auto simp: relation_plan_iff simp del: accessibleCard_iff)
      with True relations_snoc[OF ok, of k] show ?thesis by simp
    qed
  qed
next
  assume "delete_relation a i k w = (r', w')"
  then show "relations_ok (t_relations (w_db w'))"
    using ok by (auto simp: delete_relation_def uow_run_def bind_def ask_def put_db_def
        deleteRelation_def drop_row_def relations_filter split: sum.splits)
qed

end
