(* ===== verification/Attachments.thy ===== *)
theory Attachments
  imports Links
begin

text \<open>
  \<open>AttachmentService\<close> of \<open>packages/core/src/services/attachment-service.ts\<close>: the blob is
  stored first, then the metadata in a transaction; a transaction that throws takes the
  blob with it, as far as the store allows.
\<close>

section \<open>The service\<close>

definition blob_put :: "env \<Rightarrow> uuid \<Rightarrow> string \<Rightarrow> unit step" where
  "blob_put E key content w =
     (if e_blobPut E key
      then (Inr (), w\<lparr>w_blobs := filter (\<lambda>b. fst b \<noteq> key) (w_blobs w) @ [(key, content)]\<rparr>)
      else (Inl (PlainError ''blob store''), w))"

text \<open>\<open>try m catch (error) { cleanup; throw error }\<close>\<close>

definition on_error :: "'a step \<Rightarrow> unit step \<Rightarrow> 'a step" where
  "on_error m cleanup w = (case m w of
      (Inl e, w1) \<Rightarrow> (Inl e, snd (cleanup w1))
    | (Inr a, w1) \<Rightarrow> (Inr a, w1))"

definition active_attachments :: "card_no \<Rightarrow> db \<Rightarrow> attachment list" where
  "active_attachments cardId d = filter (\<lambda>a. at_deletedAt a = None) (listAttachments cardId d)"

definition attach_plan :: "actor \<Rightarrow> card_no \<Rightarrow> db \<Rightarrow> card read" where
  "attach_plan actor cardId d =
     sbind (accessibleCard actor cardId d) (\<lambda>c.
     sbind (ensureNotArchived c) (\<lambda>_.
     sbind (activePolicy (c_boardId c) d) (\<lambda>policy.
     sbind (decide (evaluatePolicy actor ActAttachmentAdd policy)) (\<lambda>_.
     sbind (requireFound (findUser (a_id actor) d) ''uploader'') (\<lambda>_.
     sbind (sguard (length (active_attachments (c_id c) d) < MAX_ACTIVE_ATTACHMENTS_PER_CARD)
       (LimitExceededError ''card already has the maximum number of active attachments''
         (int MAX_ACTIVE_ATTACHMENTS_PER_CARD))) (\<lambda>_. Inr c))))))"

text \<open>The row, its event and the card it belongs to.\<close>

definition attach_tx ::
  "env \<Rightarrow> actor \<Rightarrow> card_no \<Rightarrow> add_attachment_input \<Rightarrow> uuid
     \<Rightarrow> (attachment \<times> card \<times> card_event) step" where
  "attach_tx E actor cardId inp storageKey =
     bind (ask (attach_plan actor cardId)) (\<lambda>c.
     bind (newId E) (\<lambda>i.
     bind (now E) (\<lambda>t.
     let created = \<lparr>at_id = i, at_cardId = c_id c, at_filename = aa_filename inp,
       at_mime = aa_mime inp, at_bytes = length (aa_content inp), at_sha256 = aa_sha256 inp,
       at_storageKey = storageKey, at_uploadedBy = a_id actor, at_createdAt = t,
       at_deletedAt = None\<rparr> in
     bind (store (insertAttachment created)) (\<lambda>_.
     bind (appendCommentEvent E actor c (AttachmentAdded (at_id created) (at_filename created))) (\<lambda>ev.
     return (created, c, ev))))))"

definition attachment_hint :: "attachment \<times> card \<times> card_event \<Rightarrow> attachment step" where
  "attachment_hint result =
     bind (publishCardHints (fst (snd result)) [snd (snd result)]) (\<lambda>_. return (fst result))"

definition add_attachment ::
  "env \<Rightarrow> actor \<Rightarrow> card_no \<Rightarrow> add_attachment_input \<Rightarrow> attachment step" where
  "add_attachment E actor cardId raw =
     bind (lift (parse_add_attachment raw)) (\<lambda>inp.
     bind (guard (int (length (aa_content inp)) \<le> MAX_ATTACHMENT_BYTES)
       (LimitExceededError ''attachment exceeds the 25 MB limit'' MAX_ATTACHMENT_BYTES)) (\<lambda>_.
     bind (newId E) (\<lambda>storageKey.
     bind (blob_put E storageKey (aa_content inp)) (\<lambda>_.
     on_error (bind (uow_run (attach_tx E actor cardId inp storageKey)) attachment_hint)
       (delete_blob E storageKey)))))"

definition activeAttachment :: "uuid \<Rightarrow> db \<Rightarrow> attachment read" where
  "activeAttachment attachmentId d =
     sbind (requireFound (findAttachment attachmentId d) ''attachment'') (\<lambda>m.
     sbind (sguard (at_deletedAt m = None) (NotFoundError ''attachment'')) (\<lambda>_. Inr m))"

definition getActive_attachment :: "actor \<Rightarrow> uuid \<Rightarrow> attachment step" where
  "getActive_attachment actor attachmentId = uow_read (\<lambda>d.
     sbind (activeAttachment attachmentId d) (\<lambda>m.
     sbind (accessibleCard actor (at_cardId m) d) (\<lambda>_. Inr m)))"

definition detach_plan :: "actor \<Rightarrow> uuid \<Rightarrow> db \<Rightarrow> (attachment \<times> card) read" where
  "detach_plan actor attachmentId d =
     sbind (activeAttachment attachmentId d) (\<lambda>existing.
     sbind (accessibleCard actor (at_cardId existing) d) (\<lambda>c.
     sbind (ensureNotArchived c) (\<lambda>_.
     sbind (activePolicy (c_boardId c) d) (\<lambda>policy.
     sbind (decide (evaluatePolicy actor (ActAttachmentRemove (at_uploadedBy existing)) policy)) (\<lambda>_.
     Inr (existing, c))))))"

definition detach_tx :: "env \<Rightarrow> actor \<Rightarrow> uuid \<Rightarrow> (attachment \<times> card \<times> card_event) step" where
  "detach_tx E actor attachmentId =
     bind (ask (detach_plan actor attachmentId)) (\<lambda>(existing, c).
     bind (now E) (\<lambda>t.
     let updated = existing\<lparr>at_deletedAt := Some t\<rparr> in
     bind (store (updateAttachment updated)) (\<lambda>_.
     bind (appendCommentEvent E actor c (AttachmentRemoved (at_id updated) (at_filename updated))) (\<lambda>ev.
     return (updated, c, ev)))))"

definition remove_attachment :: "env \<Rightarrow> actor \<Rightarrow> uuid \<Rightarrow> attachment step" where
  "remove_attachment E actor attachmentId =
     bind (uow_run (detach_tx E actor attachmentId)) (\<lambda>result.
     bind (attachment_hint result) (\<lambda>removed.
     bind (delete_blob E (at_storageKey removed)) (\<lambda>_. return removed)))"

section \<open>The service keeps the invariant\<close>

lemma attach_plan_iff:
  "attach_plan a i d = Inr c \<longleftrightarrow> accessibleCard a i d = Inr c \<and> c_archivedAt c = None
     \<and> (\<exists>policy. activePolicy (c_boardId c) d = Inr policy \<and> permitted a PermAttachmentAdd policy)
     \<and> (\<exists>u. findUser (a_id a) d = Some u)
     \<and> length (active_attachments (c_id c) d) < MAX_ACTIVE_ATTACHMENTS_PER_CARD"
  by (auto simp: attach_plan_def run_simps gated_action[of ActAttachmentAdd, simplified])

lemma detach_plan_iff:
  "detach_plan a k d = Inr (m, c) \<longleftrightarrow> findAttachment k d = Some m \<and> at_deletedAt m = None
     \<and> accessibleCard a (at_cardId m) d = Inr c \<and> c_archivedAt c = None
     \<and> (\<exists>policy. activePolicy (c_boardId c) d = Inr policy
          \<and> evaluatePolicy a (ActAttachmentRemove (at_uploadedBy m)) policy = Allow)"
  by (auto simp: detach_plan_def activeAttachment_def run_simps)

lemma sound_attach_tx [sound_intros]: "sound S (attach_tx E a i inp key)"
  unfolding attach_tx_def
  by (rule sound_lookup[where T = "\<lambda>c. {c_id c}"])
    (auto intro!: sound_intros simp: Let_def attach_plan_iff dest: accessible_id
      simp del: accessibleCard_iff)

lemma sound_detach_tx [sound_intros]: "sound S (detach_tx E a k)"
  unfolding detach_tx_def
  by (rule sound_lookup[where T = "\<lambda>x. {c_id (snd x), at_cardId (fst x)}"])
    (auto intro!: sound_intros simp: Let_def detach_plan_iff dest: accessible_id accessible_ids
      simp del: accessibleCard_iff)

lemma keeps_db_blobs [intro, simp]:
  "keeps w_db (blob_put E k x)" "keeps w_db (delete_blob E k)" "keeps w_db (attachment_hint r)"
  by (auto simp: attachment_hint_def intro!: keeps_bind)
    (auto simp: keeps_def blob_put_def delete_blob_def modify_def)

lemma sound_on_error [sound_intros]:
  assumes "sound S m" and c: "keeps w_db c" shows "sound S (on_error m c)"
proof (rule soundI)
  fix w r w'
  assume run: "on_error m c w = (r, w')" and ok: "db_ok (w_db w)" "S \<subseteq> card_ids (w_db w)"
  obtain q w1 where q: "m w = (q, w1)" by fastforce
  have "w_db w' = w_db w1" using run q c by (auto simp: on_error_def keeps_def split: sum.splits)
  with soundD[OF assms(1) q ok] show "db_ok (w_db w') \<and> card_ids (w_db w) \<subseteq> card_ids (w_db w')" by simp
qed

lemma sound_attachments [sound_intros]:
  "sound S (add_attachment E a i raw)" "sound S (remove_attachment E a k)"
  by (auto intro!: sound_intros simp: add_attachment_def remove_attachment_def
      intro: sound_keeps keeps_db_blobs)

section \<open>What a transaction writes\<close>

lemma attach_tx_run:
  assumes "attach_tx E a i inp key w = (Inr (m, c, ev), w')"
  shows "attach_plan a i (w_db w) = Inr c \<and> at_cardId m = c_id c \<and> c_id c = i \<and> at_deletedAt m = None
    \<and> at_bytes m = length (aa_content inp) \<and> at_storageKey m = key \<and> at_uploadedBy m = a_id a
    \<and> at_filename m = aa_filename inp \<and> at_mime m = aa_mime inp \<and> at_sha256 m = aa_sha256 inp
    \<and> at_id m \<notin> at_id ` set (t_attachments (w_db w))
    \<and> w_db w' = (w_db w)\<lparr>t_attachments := t_attachments (w_db w) @ [m],
        t_events := t_events (w_db w) @ [ev]\<rparr>
    \<and> outside w' = outside w \<and> stamped a i ev \<and> ev_body ev = AttachmentAdded (at_id m) (at_filename m)"
  using assms
  by (auto simp: attach_tx_def appendCommentEvent_def Let_def run_simps stamped_def attach_plan_iff
      outside_def dest!: findCard_id)

lemma detach_tx_run:
  assumes "detach_tx E a k w = (Inr (m, c, ev), w')"
  shows "\<exists>old t. detach_plan a k (w_db w) = Inr (old, c) \<and> m = old\<lparr>at_deletedAt := Some t\<rparr>
    \<and> w_db w' = (w_db w)\<lparr>t_attachments := put_row at_id m (t_attachments (w_db w)),
        t_events := t_events (w_db w) @ [ev]\<rparr>
    \<and> outside w' = outside w
    \<and> stamped a (c_id c) ev \<and> ev_body ev = AttachmentRemoved (at_id m) (at_filename m)"
  using assms
  by (auto simp: detach_tx_def appendCommentEvent_def Let_def run_simps stamped_def outside_def)

section \<open>The caps\<close>

definition count_active :: "card_no \<Rightarrow> attachment list \<Rightarrow> nat" where
  "count_active i ms = length (filter (\<lambda>m. at_cardId m = i \<and> at_deletedAt m = None) ms)"

definition caps_ok :: "attachment list \<Rightarrow> bool" where
  "caps_ok ms \<longleftrightarrow> distinct (map at_id ms)
     \<and> (\<forall>i. count_active i ms \<le> MAX_ACTIVE_ATTACHMENTS_PER_CARD)
     \<and> (\<forall>m \<in> set ms. int (at_bytes m) \<le> MAX_ATTACHMENT_BYTES)"

lemma length_filter_sort: "length (filter P (sort_key f xs)) = length (filter P xs)"
  by (metis mset_filter mset_sort size_mset)

lemma active_count: "length (active_attachments i d) = count_active i (t_attachments d)"
  unfolding active_attachments_def listAttachments_def order_asc_def count_active_def
    length_filter_sort filter_filter ..

lemma caps_snoc:
  assumes "caps_ok ms" and "count_active (at_cardId m) ms < MAX_ACTIVE_ATTACHMENTS_PER_CARD"
    and "int (at_bytes m) \<le> MAX_ATTACHMENT_BYTES" and "at_id m \<notin> at_id ` set ms"
  shows "caps_ok (ms @ [m])"
  using assms by (auto simp: caps_ok_def count_active_def)

lemma count_put_deleted:
  "at_deletedAt m' \<noteq> None \<Longrightarrow> count_active i (put_row at_id m' ms) \<le> count_active i ms"
  by (induction ms) (auto simp: count_active_def put_row_def)

lemma caps_put:
  assumes "caps_ok ms" and "at_deletedAt m' \<noteq> None" and "int (at_bytes m') \<le> MAX_ATTACHMENT_BYTES"
  shows "caps_ok (put_row at_id m' ms)"
  using assms count_put_deleted[OF assms(2)]
  by (auto simp: caps_ok_def map_pk_put_row dest!: in_put_row intro: le_trans)

lemma count_filter_le: "count_active i (filter P ms) \<le> count_active i ms"
  by (induction ms) (auto simp: count_active_def)

lemma caps_filter: "caps_ok ms \<Longrightarrow> caps_ok (filter P ms)"
  by (auto simp: caps_ok_def distinct_map_filter intro: le_trans[OF count_filter_le])

lemma on_error_db: "keeps w_db c \<Longrightarrow> on_error m c w = (r, w') \<Longrightarrow>
    \<exists>w1. m w = (r, w1) \<and> w_db w' = w_db w1"
  by (auto simp: on_error_def keeps_def split: prod.splits sum.splits)

lemma parse_attachment_content: "parse_add_attachment raw = Inr inp \<Longrightarrow>
    aa_content inp = aa_content raw \<and> aa_mime inp = aa_mime raw \<and> aa_sha256 inp = aa_sha256 raw"
  by (auto simp: parse_add_attachment_def run_simps)

lemma caps_kept_add:
  assumes ok: "caps_ok (t_attachments (w_db w))" and run: "add_attachment E a i raw w = (r, w')"
  shows "caps_ok (t_attachments (w_db w'))"
proof -
  let ?key = "e_newId E (w_ids w)"
  show ?thesis using run unfolding add_attachment_def
  proof (rule parsed_keeps)
    fix inp let ?m = "bind (uow_run (attach_tx E a i inp ?key)) attachment_hint"
    assume go: "bind (guard (int (length (aa_content inp)) \<le> MAX_ATTACHMENT_BYTES)
        (LimitExceededError ''attachment exceeds the 25 MB limit'' MAX_ATTACHMENT_BYTES)) (\<lambda>_.
      bind (newId E) (\<lambda>k. bind (blob_put E k (aa_content inp)) (\<lambda>_.
        on_error (bind (uow_run (attach_tx E a i inp k)) attachment_hint) (delete_blob E k)))) w = (r, w')"
    show ?thesis
    proof (cases "int (length (aa_content inp)) \<le> MAX_ATTACHMENT_BYTES \<and> e_blobPut E ?key")
      case False
      with go ok show ?thesis
        by (auto simp: bind_def guard_def return_def throw_def newId_def blob_put_def split: if_splits)
    next
      case True
      define w0 where "w0 = w\<lparr>w_ids := Suc (w_ids w),
        w_blobs := filter (\<lambda>b. fst b \<noteq> ?key) (w_blobs w) @ [(?key, aa_content inp)]\<rparr>"
      from True go have w0: "w_db w0 = w_db w" "on_error ?m (delete_blob E ?key) w0 = (r, w')"
        by (simp_all add: w0_def bind_Inr_iff bind_def guard_def return_def newId_def blob_put_def)
      then obtain w1 where "?m w0 = (r, w1)" and w': "w_db w' = w_db w1"
        using on_error_db[OF keeps_db_blobs(2)] by blast
      from this(1) show ?thesis
      proof (rule committed)
        fix x w2 assume "attach_tx E a i inp ?key w0 = (Inr x, w2)" and w1: "w_db w1 = w_db w2"
        then obtain m c ev where t: "attach_tx E a i inp ?key w0 = (Inr (m, c, ev), w2)" by (cases x) auto
        note f = attach_tx_run[OF t]
        then have "count_active (at_cardId m) (t_attachments (w_db w)) < MAX_ACTIVE_ATTACHMENTS_PER_CARD"
          by (auto simp: attach_plan_iff w0 active_count simp del: accessibleCard_iff)
        moreover have "t_attachments (w_db w2) = t_attachments (w_db w) @ [m]"
          "int (at_bytes m) \<le> MAX_ATTACHMENT_BYTES" "at_id m \<notin> at_id ` set (t_attachments (w_db w))"
          using f True by (simp_all add: w0)
        ultimately show ?thesis using caps_snoc[OF ok] by (simp add: w' w1)
      qed (use ok w' w0 in auto)
    qed
  qed (rule ok)
qed

lemma caps_kept_remove:
  assumes ok: "caps_ok (t_attachments (w_db w))" and run: "remove_attachment E a k w = (r, w')"
  shows "caps_ok (t_attachments (w_db w'))"
  using run unfolding remove_attachment_def
proof (rule committed)
  fix x w1 assume "detach_tx E a k w = (Inr x, w1)" and w': "w_db w' = w_db w1"
  then obtain m c ev where t: "detach_tx E a k w = (Inr (m, c, ev), w1)" by (cases x) auto
  from detach_tx_run[OF t] obtain old t where "findAttachment k (w_db w) = Some old"
    "m = old\<lparr>at_deletedAt := Some t\<rparr>" "t_attachments (w_db w1) = put_row at_id m (t_attachments (w_db w))"
    by (auto simp: detach_plan_iff simp del: accessibleCard_iff)
  moreover from this(1) have "old \<in> set (t_attachments (w_db w))"
    by (auto simp: findAttachment_def dest: row_of_SomeD)
  ultimately show ?thesis using ok by (auto simp: w' caps_ok_def[of "t_attachments (w_db w)"] intro!: caps_put)
qed (use ok in \<open>auto intro!: keeps_bind\<close>)

end
