(* ===== verification/Notifications.thy ===== *)
theory Notifications
  imports Attachments
begin

text \<open>
  \<open>NotificationService\<close> of \<open>packages/core/src/services/notification-service.ts\<close>: the
  fan-out of a committed event to the watchers of its card, and the inbox of a user.
\<close>

section \<open>The fan-out\<close>

definition DEFAULT_LIST_LIMIT :: nat where "DEFAULT_LIST_LIMIT = 50"

text \<open>Never the actor; for a comment, never somebody it mentions.\<close>

definition excluded :: "card_event \<Rightarrow> uuid \<Rightarrow> bool" where
  "excluded ev u \<longleftrightarrow> ev_actorId ev = Some u
     \<or> (case ev_body ev of CommentAdded k p (Some ms) \<Rightarrow> u \<in> set ms | _ \<Rightarrow> False)"

definition comment_of :: "card_event \<Rightarrow> uuid option" where
  "comment_of ev = (case ev_body ev of CommentAdded k p ms \<Rightarrow> Some k | _ \<Rightarrow> None)"

definition recipients_of :: "card_event \<Rightarrow> board \<Rightarrow> uuid list \<Rightarrow> db \<Rightarrow> uuid list read" where
  "recipients_of ev board watchers d =
     sfilter (\<lambda>u. if excluded ev u then Inr False else reachable_user u board d) watchers"

text \<open>\<open>None\<close> where the method returns the empty list early.\<close>

definition fan_plan :: "card_no \<Rightarrow> uuid \<Rightarrow> db \<Rightarrow> (card_event \<times> uuid list) option read" where
  "fan_plan cardId eventId d = (case findEvent eventId d of
      None \<Rightarrow> Inr None
    | Some ev \<Rightarrow> if \<not> isNotifiableEvent (type_of (ev_body ev)) then Inr None
        else (case findCard cardId d of
          None \<Rightarrow> Inr None
        | Some c \<Rightarrow> if ev_cardId ev \<noteq> cardId then Inr None
            else (case findBoard (c_boardId c) d of
              None \<Rightarrow> Inr None
            | Some board \<Rightarrow> sbind (recipients_of ev board (listWatcherIds cardId d) d) (\<lambda>rs.
                Inr (Some (ev, rs))))))"

definition event_notice :: "uuid \<Rightarrow> uuid \<Rightarrow> card_no \<Rightarrow> card_event \<Rightarrow> instant \<Rightarrow> notification" where
  "event_notice i userId cardId ev t =
     \<lparr>n_id = i, n_userId = userId, n_cardId = cardId, n_actorId = ev_actorId ev,
      n_eventType = NEvent (type_of (ev_body ev)), n_commentId = comment_of ev, n_createdAt = t,
      n_readAt = None\<rparr>"

definition notify_each :: "env \<Rightarrow> card_no \<Rightarrow> card_event \<Rightarrow> instant \<Rightarrow> uuid list \<Rightarrow> unit step" where
  "notify_each E cardId ev t rs = for_each rs (\<lambda>u.
     bind (newId E) (\<lambda>i. store (insertNotification (event_notice i u cardId ev t))))"

definition fan_tx :: "env \<Rightarrow> card_no \<Rightarrow> uuid \<Rightarrow> uuid list step" where
  "fan_tx E cardId eventId =
     bind (ask (fan_plan cardId eventId)) (\<lambda>plan. case plan of
        None \<Rightarrow> return []
      | Some p \<Rightarrow> bind (now E) (\<lambda>t.
          bind (notify_each E cardId (fst p) t (snd p)) (\<lambda>_. return (snd p))))"

definition fanOutForEvent :: "env \<Rightarrow> card_no \<Rightarrow> uuid \<Rightarrow> uuid list step" where
  "fanOutForEvent E cardId eventId = uow_run (fan_tx E cardId eventId)"

section \<open>The inbox\<close>

record notification_view =
  nv_id :: uuid
  nv_cardId :: card_no
  nv_cardTitle :: string
  nv_eventType :: notification_kind
  nv_actorName :: "string option"
  nv_commentId :: "uuid option"
  nv_createdAt :: instant
  nv_read :: bool

definition notification_toView :: "db \<Rightarrow> notification \<Rightarrow> notification_view" where
  "notification_toView d row = \<lparr>nv_id = n_id row, nv_cardId = n_cardId row,
     nv_cardTitle = (case findCard (n_cardId row) d of None \<Rightarrow> [] | Some c \<Rightarrow> c_title c),
     nv_eventType = n_eventType row,
     nv_actorName = (case n_actorId row of None \<Rightarrow> None
        | Some u \<Rightarrow> map_option u_displayName (findUser u d)),
     nv_commentId = n_commentId row, nv_createdAt = n_createdAt row,
     nv_read = (n_readAt row \<noteq> None)\<rparr>"

definition list_notifications ::
  "actor \<Rightarrow> nat option \<Rightarrow> bool \<Rightarrow> notification_view list step" where
  "list_notifications actor limit unreadOnly = uow_read (\<lambda>d.
     sbind (visibleBoardIds actor d) (\<lambda>ids.
     Inr (map (notification_toView d)
       (listForUser (a_id actor) (default_to DEFAULT_LIST_LIMIT limit) unreadOnly ids d))))"

definition unreadCount :: "actor \<Rightarrow> nat step" where
  "unreadCount actor = uow_read (\<lambda>d.
     sbind (visibleBoardIds actor d) (\<lambda>ids. Inr (unreadCountRows (a_id actor) ids d)))"

definition markRead :: "env \<Rightarrow> actor \<Rightarrow> uuid \<Rightarrow> unit step" where
  "markRead E actor i = uow_run (bind (now E) (\<lambda>t. put_db (markReadRow i (a_id actor) t)))"

definition markUnread :: "actor \<Rightarrow> uuid \<Rightarrow> unit step" where
  "markUnread actor i = uow_run (put_db (markUnreadRow i (a_id actor)))"

definition markAllRead :: "env \<Rightarrow> actor \<Rightarrow> nat step" where
  "markAllRead E actor = uow_run (bind (now E) (\<lambda>t.
     bind (ask (visibleBoardIds actor)) (\<lambda>ids.
     bind (ask (\<lambda>d. Inr (unreadCountRows (a_id actor) ids d))) (\<lambda>n.
     bind (put_db (markAllReadRows (a_id actor) t ids)) (\<lambda>_. return n)))))"

definition clear_notification :: "actor \<Rightarrow> uuid \<Rightarrow> unit step" where
  "clear_notification actor i = uow_run (put_db (clearRow i (a_id actor)))"

definition clearAll :: "actor \<Rightarrow> nat step" where
  "clearAll actor = uow_run (
     bind (ask (visibleBoardIds actor)) (\<lambda>ids.
     bind (ask (\<lambda>d. Inr (length (filter (clearable (a_id actor) ids d) (t_notifications d))))) (\<lambda>n.
     bind (put_db (clearAllRows (a_id actor) ids)) (\<lambda>_. return n))))"

section \<open>The service keeps the invariant\<close>

lemma notices_ok:
  assumes "n_cardId ` set ns \<subseteq> n_cardId ` set (t_notifications d)" and "db_ok d"
  shows "db_ok (d\<lparr>t_notifications := ns\<rparr>) \<and> card_ids d \<subseteq> card_ids (d\<lparr>t_notifications := ns\<rparr>)"
proof -
  have refs: "refs_ok d" using assms(2) by (simp add: db_ok_def)
  then have "n_cardId ` set (t_notifications d) \<subseteq> c_id ` set (t_cards d)" unfolding refs_ok_def by blast
  with assms(1) have "n_cardId ` set ns \<subseteq> c_id ` set (t_cards d)" by (rule order_trans)
  with refs have "refs_ok (d\<lparr>t_notifications := ns\<rparr>)" unfolding refs_ok_def by simp
  then show ?thesis by (intro annotated_ok[OF assms(2)]) simp_all
qed

lemma sound_inbox_rows [sound_intros]:
  "sound S (put_db (markReadRow i u t))" "sound S (put_db (markUnreadRow i u))"
  "sound S (put_db (markAllReadRows u t ids))" "sound S (put_db (clearRow i u))"
  "sound S (put_db (clearAllRows u ids))"
  unfolding markReadRow_def markUnreadRow_def markAllReadRows_def clearRow_def clearAllRows_def
  by (rule sound_put, rule notices_ok, force, assumption)+

lemma fan_plan_SomeD:
  "fan_plan i k d = Inr (Some (ev, rs)) \<Longrightarrow> findEvent k d = Some ev \<and> ev_cardId ev = i
     \<and> isNotifiableEvent (type_of (ev_body ev))
     \<and> (\<exists>c b. findCard i d = Some c \<and> findBoard (c_boardId c) d = Some b
          \<and> recipients_of ev b (listWatcherIds i d) d = Inr rs)"
  by (auto simp: fan_plan_def run_simps split: option.splits if_splits)

lemma sound_fan_tx [sound_intros]: "sound S (fan_tx E i k)"
  unfolding fan_tx_def
  by (rule sound_lookup[where T = "\<lambda>p. case p of None \<Rightarrow> {} | Some x \<Rightarrow> {i}"])
    (auto intro!: sound_intros simp: notify_each_def event_notice_def split: option.splits
      dest: fan_plan_SomeD intro: found_id)

lemma sound_notifications [sound_intros]:
  "sound S (fanOutForEvent E i k)" "sound S (markRead E a n)" "sound S (markUnread a n)"
  "sound S (markAllRead E a)" "sound S (clear_notification a n)" "sound S (clearAll a)"
  by (auto intro!: sound_intros simp: fanOutForEvent_def markRead_def markUnread_def markAllRead_def
      clear_notification_def clearAll_def)

section \<open>Who is told\<close>

lemma sfilter_Inr: "sfilter p xs = Inr ys \<Longrightarrow> ys = filter (\<lambda>x. p x = Inr True) xs"
  by (induction xs arbitrary: ys) (auto simp: run_simps)

lemma recipients_Inr:
  "recipients_of ev b us d = Inr rs \<Longrightarrow>
     rs = filter (\<lambda>u. \<not> excluded ev u \<and> reachable_user u b d = Inr True) us"
  unfolding recipients_of_def by (drule sfilter_Inr) (auto intro!: filter_cong)

definition told :: "card_no \<Rightarrow> card_event \<Rightarrow> notification \<Rightarrow> bool" where
  "told i ev n \<longleftrightarrow> n_cardId n = i \<and> n_actorId n = ev_actorId ev
     \<and> n_eventType n = NEvent (type_of (ev_body ev)) \<and> n_commentId n = comment_of ev
     \<and> n_readAt n = None"

lemma notify_each_run:
  "notify_each E i ev t rs w = (Inr u, w') \<Longrightarrow>
     \<exists>ns. w_db w' = (w_db w)\<lparr>t_notifications := t_notifications (w_db w) @ ns\<rparr>
       \<and> map n_userId ns = rs \<and> (\<forall>n \<in> set ns. told i ev n)"
proof (induction rs arbitrary: w)
  case Nil
  then show ?case by (auto simp: notify_each_def run_simps)
next
  case (Cons r rs)
  let ?n = "event_notice (e_newId E (w_ids w)) r i ev t"
  let ?w1 = "w\<lparr>w_ids := Suc (w_ids w),
    w_db := (w_db w)\<lparr>t_notifications := t_notifications (w_db w) @ [?n]\<rparr>\<rparr>"
  from Cons.prems have "notify_each E i ev t rs ?w1 = (Inr u, w')"
    by (auto simp: notify_each_def run_simps)
  from Cons.IH[OF this] obtain ns where
    "w_db w' = (w_db ?w1)\<lparr>t_notifications := t_notifications (w_db ?w1) @ ns\<rparr>"
    "map n_userId ns = rs" "\<forall>n \<in> set ns. told i ev n" by blast
  moreover have "told i ev ?n" "n_userId ?n = r" by (simp_all add: told_def event_notice_def)
  ultimately show ?case by (intro exI[of _ "?n # ns"]) simp
qed

lemma listWatcherIds_set: "u \<in> set (listWatcherIds i d) \<longleftrightarrow> isWatching i u d"
  by (force simp: listWatcherIds_def isWatching_def)

lemma visible_frame [simp]:
  "visibleBoardIds a (d\<lparr>t_notifications := ns\<rparr>) = visibleBoardIds a d"
  by (simp add: visibleBoardIds_def listBoards_def)

lemma scope_frame [simp]: "board_scope ids (d\<lparr>t_notifications := ns\<rparr>) n = board_scope ids d n"
  "board_scope ids d (n\<lparr>n_readAt := t\<rparr>) = board_scope ids d n"
  by (simp_all add: board_scope_def)

end
