(* ===== verification/Talk_Claims.thy ===== *)
theory Talk_Claims
  imports Notifications
begin

text \<open>
  The properties of comments, relations, attachments and notifications, each with a witness
  on the sample installation.
\<close>

lemma drop_row_absent: "k \<notin> pk ` set rows \<Longrightarrow> drop_row pk k rows = rows"
  by (induction rows) (auto simp: drop_row_def)

lemma not_returned: "\<not> returned m w \<Longrightarrow> \<exists>e w'. m w = (Inl e, w')"
  by (cases "m w"; cases "fst (m w)") (auto simp: returned_def)

section \<open>Comments\<close>

definition say :: "string \<Rightarrow> uuid list \<Rightarrow> add_comment_input" where
  "say text who = \<lparr>ac_body = text, ac_parentCommentId = None, ac_mentions = Some who\<rparr>"

lemma add_comment_run:
  assumes "add_comment E a i raw opt w = (Inr m, w')"
  obtains inp c ev w1 where "parse_add_comment raw = Inr inp"
    and "comment_tx E a i inp (default_to (a_id a) opt) w = (Inr (m, c, ev), w1)" and "w_db w' = w_db w1"
proof -
  from assms obtain inp r w1 where "parse_add_comment raw = Inr inp"
    "comment_tx E a i inp (default_to (a_id a) opt) w = (Inr r, w1)" "comment_hint r w1 = (Inr m, w')"
    by (auto simp: add_comment_def bind_Inr_iff lift_iffs uow_run_Inr_iff)
  with comment_hint_run that show ?thesis by (cases r) blast
qed



text \<open>Only its author (or the system) edits a comment, and only while it is not deleted;
  the edit replaces the text and the edit time and nothing else, and is recorded.\<close>

theorem comment_edit_by_author:
  assumes "edit_comment E a k raw w = (Inr m, w')"
  shows "\<exists>old t ev. findComment k (w_db w) = Some old \<and> cm_deletedAt old = None
    \<and> (a_kind a = KSystem \<or> (a_scope a \<noteq> Some ReadScope \<and> a_id a = cm_authorId old))
    \<and> m = old\<lparr>cm_body := trim raw, cm_updatedAt := t\<rparr>
    \<and> 1 \<le> length (cm_body m) \<and> length (cm_body m) \<le> 10000
    \<and> findComment k (w_db w') = Some m \<and> (\<forall>j. j \<noteq> k \<longrightarrow> findComment j (w_db w') = findComment j (w_db w))
    \<and> t_events (w_db w') = t_events (w_db w) @ [ev] \<and> stamped a (cm_cardId old) ev
    \<and> ev_body ev = CommentEdited k (cm_parentCommentId old)"
proof -
  from assms obtain inp r w1 where p: "parse_edit_comment raw = Inr inp"
    and t: "edit_comment_tx E a k inp w = (Inr r, w1)" and h: "comment_hint r w1 = (Inr m, w')"
    by (auto simp: edit_comment_def bind_Inr_iff lift_iffs uow_run_Inr_iff)
  from p have inp: "inp = trim raw" "1 \<le> length inp" "length inp \<le> 10000"
    by (auto simp: parse_edit_comment_def dest!: trimmed_InrD)
  obtain m' c ev where r: "r = (m', c, ev)" by (cases r)
  with h comment_hint_run have m': "m' = m" and w': "w_db w' = w_db w1" by blast+
  from edit_comment_tx_run[OF t[unfolded r m']] obtain old t where
    tgt: "comment_target a k ActCommentEdit (w_db w) = Inr (old, c)"
    and m: "m = old\<lparr>cm_body := inp, cm_updatedAt := t\<rparr>"
    and d: "w_db w1 = (w_db w)\<lparr>t_comments := put_row cm_id m (t_comments (w_db w)),
        t_events := t_events (w_db w) @ [ev]\<rparr>"
    and ev: "stamped a (c_id c) ev" "ev_body ev = CommentEdited (cm_id m) (cm_parentCommentId m)" by blast
  from tgt have old: "findComment k (w_db w) = Some old" "cm_deletedAt old = None" "c_id c = cm_cardId old"
    and auth: "a_kind a = KSystem \<or> (a_scope a \<noteq> Some ReadScope \<and> a_id a = cm_authorId old)"
    by (auto simp: comment_target_iff owner_action dest: accessible_found simp del: accessibleCard_iff)
  from comment_in_table[OF old(1)] have id: "old \<in> set (t_comments (w_db w))" "cm_id old = k" by simp_all
  have find: "findComment j (w_db w1) = (if j = k then Some m else findComment j (w_db w))" for j
    using id m by (auto simp: findComment_def d row_of_put_row)
  from old auth m inp ev id find show ?thesis
    by (intro exI[of _ old] exI[of _ t] exI[of _ ev]) (simp add: w', simp add: d)
qed

definition talked :: world where
  "talked = snd (add_comment sample_env sample_actor 1 (say ''hello'' []) None sample_world)"

text \<open>A deleted comment is gone: nobody can edit or delete it again, no reader gets its
  text, and its row keeps its place in the thread.\<close>

theorem deleted_comment_is_gone:
  assumes "softDelete_comment E a k w = (Inr m, w1)"
  shows "(\<forall>E' b raw r w2. edit_comment E' b k raw w1 = (r, w2) \<longrightarrow> (\<exists>e. r = Inl e) \<and> undone w1 w2)
    \<and> (\<forall>E' b r w2. softDelete_comment E' b k w1 = (r, w2) \<longrightarrow> (\<exists>e. r = Inl e) \<and> undone w1 w2)
    \<and> (\<forall>b i ms w2. listForCard b i w1 = (Inr ms, w2) \<longrightarrow> (\<forall>x \<in> set ms. cm_id x = k \<longrightarrow> cm_body x = []))
    \<and> map cm_id (t_comments (w_db w1)) = map cm_id (t_comments (w_db w))"
proof -
  from assms obtain r w0 where t: "softDelete_tx E a k w = (Inr r, w0)" and h: "comment_hint r w0 = (Inr m, w1)"
    by (auto simp: softDelete_comment_def bind_Inr_iff uow_run_Inr_iff)
  obtain m' c ev where r: "r = (m', c, ev)" by (cases r)
  with h comment_hint_run have m': "m' = m" and w1: "w_db w1 = w_db w0" by blast+
  from softDelete_tx_run[OF t[unfolded r m']] obtain old s where
    tgt: "comment_target a k ActCommentDelete (w_db w) = Inr (old, c)"
    and m: "m = old\<lparr>cm_deletedAt := Some s, cm_updatedAt := s\<rparr>"
    and d: "w_db w0 = (w_db w)\<lparr>t_comments := put_row cm_id m (t_comments (w_db w)),
        t_events := t_events (w_db w) @ [ev]\<rparr>" by blast
  from tgt comment_in_table[of k "w_db w" old] have old: "old \<in> set (t_comments (w_db w))" "cm_id old = k"
    by (auto simp: comment_target_iff simp del: accessibleCard_iff)
  have find: "findComment k (w_db w1) = Some m"
    using old m by (auto simp: findComment_def w1 d row_of_put_row)
  have target: "\<exists>e. comment_target b k act (w_db w1) = Inl e" for b act
    using find m by (auto simp: comment_target_def requireActiveComment_def requireFound_def)
  have gone: "(\<exists>e. r' = Inl e) \<and> undone w1 w2"
    if "bind (uow_run (bind (ask (comment_target b k act)) f)) comment_hint w1 = (r', w2)" for b act f r' w2
    using that target[of b act]
    by (auto simp: bind_def uow_run_def ask_def undone_def)
  have "\<forall>x \<in> set (t_comments (w_db w1)). cm_id x = k \<longrightarrow> cm_deletedAt x \<noteq> None"
    using m old by (auto simp: w1 d dest!: in_put_row)
  then have "\<forall>x \<in> set ms. cm_id x = k \<longrightarrow> cm_body x = []" if "listForCard b i w1 = (Inr ms, w2)" for b i ms w2
    using that by (auto simp: listForCard_def bind_Inr_iff uow_read_iff return_iffs sbind_Inr_iff
        redactDeletedComments_def listComments_def split: if_splits)
  moreover have "(\<exists>e. r' = Inl e) \<and> undone w1 w2" if "edit_comment E' b k raw w1 = (r', w2)" for E' b raw r' w2
    using that gone unfolding edit_comment_def edit_comment_tx_def
    by (cases "parse_edit_comment raw") (auto simp: bind_def[of "lift _"] lift_def)
  moreover have "(\<exists>e. r' = Inl e) \<and> undone w1 w2" if "softDelete_comment E' b k w1 = (r', w2)" for E' b r' w2
    using that gone unfolding softDelete_comment_def softDelete_tx_def by blast
  ultimately show ?thesis using m old by (simp add: w1 d map_pk_put_row)
qed

section \<open>Relations\<close>

lemma smap_member: "smap f xs = Inr ys \<Longrightarrow> x \<in> set xs \<Longrightarrow> \<exists>y \<in> set ys. f x = Inr y"
  by (induction xs arbitrary: ys) (auto simp: run_simps)

lemma listed_view:
  assumes "list_relations b j w = (Inr vs, w2)" and "r \<in> set (t_relations (w_db w))"
    and "j = rel_fromCardId r \<or> j = rel_toCardId r" and "toView b j r (w_db w) = Inr (Some v)"
  shows "v \<in> set vs"
proof -
  from assms(1) obtain us where us: "smap (\<lambda>r. toView b j r (w_db w)) (listRelations j (w_db w)) = Inr us"
    and vs: "vs = concat (map (\<lambda>v. case v of None \<Rightarrow> [] | Some x \<Rightarrow> [x]) us)"
    by (auto simp: list_relations_def uow_read_iff sbind_Inr_iff)
  have "r \<in> set (listRelations j (w_db w))" using assms(2,3) by (auto simp: listRelations_def)
  from smap_member[OF us this] assms(4) have "Some v \<in> set us" by auto
  then show ?thesis by (force simp: vs)
qed

lemma create_relation_run:
  assumes "create_relation E a i raw w = (Inr v, w')"
  shows "relation_tx E a i raw w = (Inr v, w') \<and> cri_toCardId raw \<noteq> i"
  using assms by (auto simp: create_relation_def parse_create_relation_def bind_Inr_iff lift_iffs
      guard_iffs sbind_Inr_iff uow_run_Inr_iff)

text \<open>A relation is read from both its cards: outgoing with the other card's id from the
  card it was created on, incoming from the other, by everybody who may list either; and
  unlinking it from either side restores the relations as they were.\<close>

theorem relation_seen_from_both:
  assumes run: "create_relation E a i raw w = (Inr v, w1)"
  shows "(\<forall>b vs w2. list_relations b i w1 = (Inr vs, w2) \<longrightarrow>
        v \<in> set vs \<and> rv_direction v = Outgoing \<and> rv_cardId v = cri_toCardId raw)
    \<and> (\<forall>b vs w2. list_relations b (cri_toCardId raw) w1 = (Inr vs, w2) \<longrightarrow>
        (\<exists>u \<in> set vs. rv_id u = rv_id v \<and> rv_type u = rv_type v \<and> rv_direction u = Incoming \<and> rv_cardId u = i))
    \<and> (\<forall>b j w2. j \<in> {i, cri_toCardId raw} \<longrightarrow> delete_relation b j (rv_id v) w1 = (Inr (), w2) \<longrightarrow>
        t_relations (w_db w2) = t_relations (w_db w))"
proof -
  from create_relation_run[OF run] have tx: "relation_tx E a i raw w = (Inr v, w1)"
    and ne: "cri_toCardId raw \<noteq> i" by simp_all
  from relation_tx_run[OF tx] obtain r frm to where
    plan: "relation_plan a i raw (w_db w) = Inr (frm, to)"
    and ids: "c_id frm = i" "c_id to = cri_toCardId raw" "rel_id r \<notin> rel_id ` set (t_relations (w_db w))"
      "rel_fromCardId r = i" "rel_toCardId r = cri_toCardId raw"
    and v: "v = \<lparr>rv_id = rel_id r, rv_type = rel_type r, rv_direction = Outgoing,
         rv_cardId = rel_toCardId r, rv_cardTitle = c_title to\<rparr>"
    and d: "w_db w1 = (w_db w)\<lparr>t_relations := t_relations (w_db w) @ [r]\<rparr>" by blast
  from plan have cards: "findCard i (w_db w) = Some frm" "findCard (cri_toCardId raw) (w_db w) = Some to"
    and same: "c_boardId frm = c_boardId to"
    by (auto simp: relation_plan_iff dest: accessible_found simp del: accessibleCard_iff)
  have cards1: "findCard i (w_db w1) = Some frm" "findCard (cri_toCardId raw) (w_db w1) = Some to"
    using cards by (simp_all add: findCard_def d)
  have r1: "r \<in> set (t_relations (w_db w1))" by (simp add: d)
  have seen: "\<exists>bd. findBoard (c_boardId to) (w_db w1) = Some bd \<and> canAccessBoard b bd (w_db w1) = Inr True"
    if "list_relations b j w1 = (Inr vs, w2)" "j = i \<or> j = cri_toCardId raw" for b j vs w2
    using that cards1 same by (auto simp: list_relations_def uow_read_iff sbind_Inr_iff accessibleCard_iff)
  have "v \<in> set vs" if l: "list_relations b i w1 = (Inr vs, w2)" for b vs w2
  proof -
    from seen[OF l] have "toView b i r (w_db w1) = Inr (Some v)"
      using ids cards1 v by (auto simp: toView_def Let_def)
    with listed_view[OF l r1] ids show ?thesis by simp
  qed
  moreover have "\<exists>u \<in> set vs. rv_id u = rv_id v \<and> rv_type u = rv_type v \<and> rv_direction u = Incoming
      \<and> rv_cardId u = i" if l: "list_relations b (cri_toCardId raw) w1 = (Inr vs, w2)" for b vs w2
  proof -
    let ?u = "\<lparr>rv_id = rel_id r, rv_type = rel_type r, rv_direction = Incoming, rv_cardId = i,
      rv_cardTitle = c_title frm\<rparr>"
    from seen[OF l] have "toView b (cri_toCardId raw) r (w_db w1) = Inr (Some ?u)"
      using ids cards1 ne same by (auto simp: toView_def Let_def)
    with listed_view[OF l r1] ids have "?u \<in> set vs" by simp
    then show ?thesis by (rule bexI[rotated]) (simp add: v)
  qed
  moreover have "t_relations (w_db w2) = t_relations (w_db w)"
    if "delete_relation b j (rv_id v) w1 = (Inr (), w2)" for b j w2
  proof -
    from that have "w_db w2 = deleteRelation (rel_id r) (w_db w1)"
      by (auto simp: delete_relation_def v run_simps simp del: accessibleCard_iff)
    moreover have "drop_row rel_id (rel_id r) (t_relations (w_db w)) = t_relations (w_db w)"
      by (rule drop_row_absent[OF ids(3)])
    ultimately show ?thesis by (simp add: deleteRelation_def d drop_row_def)
  qed
  ultimately show ?thesis using v ids by auto
qed

section \<open>Attachments\<close>

lemma blob_put_run:
  "blob_put E k x w = (Inr u, w') \<longleftrightarrow> e_blobPut E k
     \<and> w' = w\<lparr>w_blobs := filter (\<lambda>b. fst b \<noteq> k) (w_blobs w) @ [(k, x)]\<rparr>"
  by (auto simp: blob_put_def)

lemma blob_put_failed: "blob_put E k x w = (Inl e, w') \<Longrightarrow> w' = w"
  by (auto simp: blob_put_def split: if_splits)

lemma delete_blob_run: "snd (delete_blob E k w) =
    (if e_blobDelete E k then w\<lparr>w_blobs := filter (\<lambda>b. fst b \<noteq> k) (w_blobs w)\<rparr> else w)"
  by (simp add: delete_blob_def modify_def)

lemma attachment_hint_silent: "silent attachment_hint"
  by (simp add: silent_def attachment_hint_def bind_Inl_iff publishCardHints_iffs return_iffs)

lemma attachment_hint_run: "attachment_hint (m, c, ev) w = (Inr m', w') \<Longrightarrow>
    m' = m \<and> w_db w' = w_db w \<and> w_blobs w' = w_blobs w"
  by (auto simp: attachment_hint_def bind_Inr_iff publishCardHints_iffs return_iffs)

lemma inside_attach [intro, simp]: "keeps outside (attach_tx E a i inp key)"
  by (auto simp: attach_tx_def appendCommentEvent_def Let_def intro!: keeps_bind)


definition sample_file :: add_attachment_input where
  "sample_file = \<lparr>aa_filename = ''a.png'', aa_mime = ''image/png'', aa_content = ''xyz'',
     aa_sha256 = replicate 64 (CHR ''0'')\<rparr>"


text \<open>An upload that returns has stored the file's very bytes under the key of its row,
  and whoever can see the card gets that row; after a removal nobody gets it any more, its
  row stays for the record, and the file is gone if the store deletes it.\<close>

theorem attachment_life:
  assumes run: "add_attachment E a i raw w = (Inr m, w1)"
  shows "at_cardId m = i \<and> at_bytes m = length (aa_content raw) \<and> at_deletedAt m = None
    \<and> (at_storageKey m, aa_content raw) \<in> set (w_blobs w1)
    \<and> (\<forall>b x w2. getActive_attachment b (at_id m) w1 = (Inr x, w2) \<longrightarrow> x = m)
    \<and> (\<forall>E' b x w2. remove_attachment E' b (at_id m) w1 = (Inr x, w2) \<longrightarrow>
        (\<forall>c r w3. getActive_attachment c (at_id m) w2 = (r, w3) \<longrightarrow> (\<exists>e. r = Inl e))
        \<and> (\<exists>t. findAttachment (at_id m) (w_db w2) = Some (m\<lparr>at_deletedAt := Some t\<rparr>))
        \<and> (e_blobDelete E' (at_storageKey m) \<longrightarrow> at_storageKey m \<notin> fst ` set (w_blobs w2)))"
proof -
  let ?key = "e_newId E (w_ids w)"
  from run obtain inp :: add_attachment_input and w2 where p: "parse_add_attachment raw = Inr inp"
    and put: "blob_put E ?key (aa_content inp) (w\<lparr>w_ids := Suc (w_ids w)\<rparr>) = (Inr (), w2)"
    and go: "on_error (bind (uow_run (attach_tx E a i inp ?key)) attachment_hint) (delete_blob E ?key) w2
      = (Inr m, w1)"
    by (auto simp: add_attachment_def bind_Inr_iff lift_iffs guard_iffs newId_iffs)
  from go obtain r w3 where t: "attach_tx E a i inp ?key w2 = (Inr r, w3)" and h: "attachment_hint r w3 = (Inr m, w1)"
    by (auto simp: on_error_def bind_Inr_iff uow_run_Inr_iff split: prod.splits sum.splits)
  obtain m' c ev where r: "r = (m', c, ev)" by (cases r)
  with h attachment_hint_run have m': "m' = m" "w_db w1 = w_db w3" "w_blobs w1 = w_blobs w3" by blast+
  note f = attach_tx_run[OF t[unfolded r m'(1)]]
  have blob: "(?key, aa_content inp) \<in> set (w_blobs w1)"
    using f put m' by (simp add: blob_put_run outside_def)
  have find: "findAttachment (at_id m) (w_db w1) = Some m"
    using f m' by (simp add: findAttachment_def row_of_snoc)
  have "x = m" if "getActive_attachment b (at_id m) w1 = (Inr x, w4)" for b x w4
    using that find
    by (auto simp: getActive_attachment_def activeAttachment_def uow_read_iff sbind_Inr_iff
        requireFound_iffs sguard_iffs)
  moreover have "(\<forall>c r w3. getActive_attachment c (at_id m) w4 = (r, w3) \<longrightarrow> (\<exists>e. r = Inl e))
      \<and> (\<exists>t. findAttachment (at_id m) (w_db w4) = Some (m\<lparr>at_deletedAt := Some t\<rparr>))
      \<and> (e_blobDelete E' (at_storageKey m) \<longrightarrow> at_storageKey m \<notin> fst ` set (w_blobs w4))"
    if rem: "remove_attachment E' b (at_id m) w1 = (Inr x, w4)" for E' b x w4
  proof -
    from rem obtain q w5 w6 u where d: "detach_tx E' b (at_id m) w1 = (Inr q, w5)"
      and h2: "attachment_hint q w5 = (Inr x, w6)" and db: "delete_blob E' (at_storageKey x) w6 = (Inr u, w4)"
      by (auto simp: remove_attachment_def bind_Inr_iff uow_run_Inr_iff return_iffs)
    obtain m2 c2 ev2 where q: "q = (m2, c2, ev2)" by (cases q)
    with h2 attachment_hint_run have m2: "m2 = x" "w_db w6 = w_db w5" by blast+
    from detach_tx_run[OF d[unfolded q m2(1)]] obtain old s where
      plan: "detach_plan b (at_id m) (w_db w1) = Inr (old, c2)" and x: "x = old\<lparr>at_deletedAt := Some s\<rparr>"
      and t5: "w_db w5 = (w_db w1)\<lparr>t_attachments := put_row at_id x (t_attachments (w_db w1)),
        t_events := t_events (w_db w1) @ [ev2]\<rparr>" by blast
    from plan find have old: "old = m" by (auto simp: detach_plan_iff simp del: accessibleCard_iff)
    have w4: "w_db w4 = w_db w6"
      "e_blobDelete E' (at_storageKey x) \<Longrightarrow> w_blobs w4 = filter (\<lambda>b. fst b \<noteq> at_storageKey x) (w_blobs w6)"
      using db delete_blob_run[of E' "at_storageKey x" w6] by (auto split: if_splits)
    have find4: "findAttachment (at_id m) (w_db w4) = Some (m\<lparr>at_deletedAt := Some s\<rparr>)"
      using find x old by (auto simp: w4 m2 t5 findAttachment_def row_of_put_row dest: row_of_SomeD)
    then have "\<exists>e. r = Inl e" if "getActive_attachment c (at_id m) w4 = (r, w7)" for c r w7
      using that by (auto simp: getActive_attachment_def activeAttachment_def uow_read_iff
          requireFound_def)
    with find4 w4(2) x old show ?thesis by auto
  qed
  ultimately show ?thesis using f blob find parse_attachment_content[OF p] by auto
qed

section \<open>Notifications\<close>

lemma fan_out:
  assumes run: "fanOutForEvent E i k w = (Inr rs, w')"
    and ev: "findEvent k (w_db w) = Some ev" "ev_cardId ev = i"
    and c: "findCard i (w_db w) = Some c" "findBoard (c_boardId c) (w_db w) = Some b"
  shows "if isNotifiableEvent (type_of (ev_body ev))
    then rs = filter (\<lambda>u. \<not> excluded ev u \<and> reachable_user u b (w_db w) = Inr True)
           (listWatcherIds i (w_db w))
      \<and> (\<exists>ns. w_db w' = (w_db w)\<lparr>t_notifications := t_notifications (w_db w) @ ns\<rparr>
           \<and> map n_userId ns = rs \<and> (\<forall>n \<in> set ns. told i ev n))
      \<and> (\<forall>u. ev_actorId ev = Some u \<longrightarrow> u \<notin> set rs)
    else rs = [] \<and> w' = w"
proof (cases "isNotifiableEvent (type_of (ev_body ev))")
  case True
  from run obtain plan where plan: "fan_plan i k (w_db w) = Inr plan"
    and go: "(case plan of None \<Rightarrow> return [] | Some p \<Rightarrow> bind (now E) (\<lambda>t.
          bind (notify_each E i (fst p) t (snd p)) (\<lambda>_. return (snd p)))) w = (Inr rs, w')"
    by (auto simp: fanOutForEvent_def fan_tx_def uow_run_Inr_iff bind_Inr_iff ask_iff)
  from plan True ev c obtain us where us: "plan = Some (ev, us)"
    "recipients_of ev b (listWatcherIds i (w_db w)) (w_db w) = Inr us"
    by (auto simp: fan_plan_def sbind_Inr_iff)
  with go obtain u where "notify_each E i ev (e_clock E (w_ticks w)) us (w\<lparr>w_ticks := Suc (w_ticks w)\<rparr>)
      = (Inr u, w')" and rs: "rs = us" by (auto simp: bind_Inr_iff now_iffs return_iffs)
  from notify_each_run[OF this(1)] obtain ns where
    "w_db w' = (w_db w)\<lparr>t_notifications := t_notifications (w_db w) @ ns\<rparr>"
    "map n_userId ns = us" "\<forall>n \<in> set ns. told i ev n" by auto
  moreover note recipients_Inr[OF us(2)]
  ultimately show ?thesis using True rs by (auto simp: excluded_def)
next
  case False
  with run ev show ?thesis
    by (auto simp: fanOutForEvent_def fan_tx_def fan_plan_def uow_run_Inr_iff bind_Inr_iff ask_iff
        return_iffs)
qed

text \<open>C19: a committed event is announced once to exactly the watchers of its card who are
  active and may still see the board, never to its actor and, for a comment, never to those
  it mentions; an event of a kind nobody is told about changes nothing.\<close>

theorem fan_out_reaches_watchers:
  assumes run: "fanOutForEvent E i k w = (Inr rs, w')"
    and ev: "findEvent k (w_db w) = Some ev" "ev_cardId ev = i"
    and c: "findCard i (w_db w) = Some c" "findBoard (c_boardId c) (w_db w) = Some b"
  shows "if isNotifiableEvent (type_of (ev_body ev))
    then rs = filter (\<lambda>u. \<not> excluded ev u \<and> reachable_user u b (w_db w) = Inr True)
           (listWatcherIds i (w_db w))
      \<and> (\<exists>ns. w_db w' = (w_db w)\<lparr>t_notifications := t_notifications (w_db w) @ ns\<rparr>
           \<and> map n_userId ns = rs \<and> (\<forall>n \<in> set ns. told i ev n))
      \<and> (\<forall>u. ev_actorId ev = Some u \<longrightarrow> u \<notin> set rs)
    else rs = [] \<and> w' = w"
  by (rule fan_out[OF assms])

definition watched :: world where
  "watched = snd (watch_card sample_env (actor_of_user (sample_user 3 ''user'')) 1 talked)"

definition watched_day :: "world \<Rightarrow> bool" where
  "watched_day w \<longleftrightarrow> returned (fanOutForEvent sample_env 1 1001) w
     \<and> findCard 1 (w_db w) = Some (sample_card 1 102 ''B'') \<and> findBoard 10 (w_db w) = Some sample_board
     \<and> (case findEvent 1001 (w_db w) of None \<Rightarrow> False | Some ev \<Rightarrow> ev_cardId ev = 1 \<and> isNotifiableEvent (type_of (ev_body ev))
          \<and> filter (\<lambda>u. \<not> excluded ev u \<and> reachable_user u sample_board (w_db w) = Inr True) (listWatcherIds 1 (w_db w)) = [3])"

theorem fan_out_reaches_watchers_witness:
  "returned (fanOutForEvent sample_env 1 1001) watched
   \<and> fst (fanOutForEvent sample_env 1 1001 watched) = Inr [3]"
proof -
  have "watched_day watched" by code_simp+
  then obtain ev where r: "returned (fanOutForEvent sample_env 1 1001) watched"
    and c: "findCard 1 (w_db watched) = Some (sample_card 1 102 ''B'')" "findBoard 10 (w_db watched) = Some sample_board"
    and ev: "findEvent 1001 (w_db watched) = Some ev" "ev_cardId ev = 1" "isNotifiableEvent (type_of (ev_body ev))"
    and us: "filter (\<lambda>u. \<not> excluded ev u \<and> reachable_user u sample_board (w_db watched) = Inr True) (listWatcherIds 1 (w_db watched)) = [3]"
    unfolding watched_day_def by (auto split: option.splits)
  from r obtain rs w' where run: "fanOutForEvent sample_env 1 1001 watched = (Inr rs, w')"
    by (auto simp: returned_iff)
  have "findBoard (c_boardId (sample_card 1 102 ''B'')) (w_db watched) = Some sample_board"
    using c(2) by (simp add: sample_card_def)
  from fan_out_reaches_watchers[OF run ev(1,2) c(1) this] have "rs = [3]" unfolding if_P[OF ev(3)] us by blast
  with r run show ?thesis by simp
qed

text \<open>Whoever adds a comment and lets its event fan out tells nobody twice: every user
  has at most one new notification, mentioned users a mention and other watchers a notice,
  and the author has no mention.\<close>

theorem comment_notifies_once:
  assumes add: "add_comment E a i raw opt w = (Inr m, w1)"
    and ev: "last (t_events (w_db w1)) = ev" and find: "findEvent (ev_id ev) (w_db w1) = Some ev"
    and fan: "fanOutForEvent E' i (ev_id ev) w1 = (Inr rs, w2)"
    and once: "distinct (listWatcherIds i (w_db w1))"
  shows "\<exists>ns. t_notifications (w_db w2) = t_notifications (w_db w) @ ns \<and> distinct (map n_userId ns)
    \<and> (\<forall>n \<in> set ns. n_eventType n = NMention \<longrightarrow> n_userId n \<noteq> cm_authorId m)"
proof -
  obtain inp c ev' w0 where t: "comment_tx E a i inp (default_to (a_id a) opt) w = (Inr (m, c, ev'), w0)"
    and w1: "w_db w1 = w_db w0" by (rule add_comment_run[OF add])
  from comment_tx_run[OF t] obtain b p ws ms where
    plan: "comment_plan a i inp (default_to (a_id a) opt) (w_db w) = Inr (c, p)"
    and bd: "findBoard (c_boardId c) (w_db w) = Some b"
    and au: "cm_authorId m = default_to (a_id a) opt"
    and d: "w_db w0 = (w_db w)\<lparr>t_comments := t_comments (w_db w) @ [m], t_watchers := ws,
        t_notifications := t_notifications (w_db w) @ ms, t_events := t_events (w_db w) @ [ev']\<rparr>"
    and ms: "map n_userId ms = filter (mentionable (default_to (a_id a) opt) b (w_db w))
        (uniq (default_to [] (ac_mentions inp)))"
    and st: "stamped a i ev'" and body: "ev_body ev' = added_body m (map n_userId ms)" by blast
  from ev have e: "ev = ev'" by (simp add: w1 d)
  from comment_plan_card[OF plan] have "findCard i (w_db w1) = Some c" by (simp add: w1 d findCard_def)
  moreover have "findBoard (c_boardId c) (w_db w1) = Some b" using bd by (simp add: w1 d findBoard_def)
  moreover have "isNotifiableEvent (type_of (ev_body ev))"
    by (simp add: e body added_body_def isNotifiableEvent_def NON_NOTIFIABLE_def)
  moreover have "ev_cardId ev = i" using st by (simp add: e stamped_def)
  ultimately have rs: "rs = filter (\<lambda>u. \<not> excluded ev u \<and> reachable_user u b (w_db w1) = Inr True)
           (listWatcherIds i (w_db w1))" and
    "\<exists>ns. w_db w2 = (w_db w1)\<lparr>t_notifications := t_notifications (w_db w1) @ ns\<rparr>
           \<and> map n_userId ns = rs \<and> (\<forall>n \<in> set ns. told i ev n)"
    using fan_out[OF fan find] by auto
  then obtain ns where n: "t_notifications (w_db w2) = t_notifications (w_db w) @ ms @ ns"
    "map n_userId ns = rs" "\<forall>n \<in> set ns. told i ev n" by (auto simp: w1 d)
  have "u \<notin> set rs" if "u \<in> set (map n_userId ms)" for u
    using that by (auto simp: rs excluded_def e body added_body_def)
  moreover have "distinct rs" "distinct (map n_userId ms)" using once ms by (auto simp: rs)
  moreover have "\<forall>x \<in> set ms. n_userId x \<noteq> cm_authorId m"
  proof
    fix x assume "x \<in> set ms"
    then have "n_userId x \<in> set (map n_userId ms)" by simp
    then show "n_userId x \<noteq> cm_authorId m" unfolding ms au by (simp add: mentionable_def)
  qed
  ultimately show ?thesis using n
    by (intro exI[of _ "ms @ ns"]) (auto simp: told_def)
qed

text \<open>Writes that only touch rows of one user.\<close>

lemma own_map:
  assumes "\<And>n. n_userId n = u \<Longrightarrow> n_userId (f n) = u" and "\<And>n. n_userId n \<noteq> u \<Longrightarrow> f n = n"
  shows "filter (\<lambda>n. n_userId n \<noteq> u) (map f ns) = filter (\<lambda>n. n_userId n \<noteq> u) ns"
  using assms by (induction ns) auto

lemma others_kept:
  "filter (\<lambda>n. n_userId n \<noteq> u) (t_notifications (markReadRow i u t d)) = filter (\<lambda>n. n_userId n \<noteq> u) (t_notifications d)"
  "filter (\<lambda>n. n_userId n \<noteq> u) (t_notifications (markUnreadRow i u d)) = filter (\<lambda>n. n_userId n \<noteq> u) (t_notifications d)"
  "filter (\<lambda>n. n_userId n \<noteq> u) (t_notifications (markAllReadRows u t ids d)) = filter (\<lambda>n. n_userId n \<noteq> u) (t_notifications d)"
  "filter (\<lambda>n. n_userId n \<noteq> u) (t_notifications (clearRow i u d)) = filter (\<lambda>n. n_userId n \<noteq> u) (t_notifications d)"
  "filter (\<lambda>n. n_userId n \<noteq> u) (t_notifications (clearAllRows u ids d)) = filter (\<lambda>n. n_userId n \<noteq> u) (t_notifications d)"
  by (auto simp: markReadRow_def markUnreadRow_def markAllReadRows_def clearRow_def
      clearAllRows_def unread_in_def clearable_def own_map intro!: filter_cong)

lemma after_markAll:
  assumes "n' \<in> set (t_notifications (markAllReadRows u t ids d))" and "t_cards d' = t_cards d"
  shows "\<not> unread_in u ids d' n'"
proof -
  let ?mark = "\<lambda>n. if unread_in u ids d n then n\<lparr>n_readAt := Some t\<rparr> else n"
  from assms(1) have "n' \<in> ?mark ` set (t_notifications d)" by (simp add: markAllReadRows_def)
  then obtain n where n': "n' = ?mark n" by (rule imageE)
  have "board_scope ids d' m = board_scope ids d m" for m using assms(2) by (simp add: board_scope_def)
  then have "unread_in u ids d' m = unread_in u ids d m" for m by (simp add: unread_in_def)
  then show ?thesis unfolding n' by (cases "unread_in u ids d n") (simp_all add: unread_in_def)
qed

text \<open>The badge counts what the inbox shows: the unread count is the length of the
  unread inbox when the page is long enough, marking everything read affects exactly that
  many rows, and then nothing is unread; and no operation on an inbox touches a row of
  anybody else's.\<close>

theorem inbox_counts:
  assumes "unreadCount a w = (Inr n, w1)"
  shows "(n \<le> k \<longrightarrow> (\<exists>vs. list_notifications a (Some k) True w = (Inr vs, w) \<and> length vs = n
        \<and> (\<forall>v \<in> set vs. \<not> nv_read v)))
    \<and> (\<exists>w2. markAllRead E a w = (Inr n, w2) \<and> fst (unreadCount a w2) = Inr 0
        \<and> fst (list_notifications a (Some k) True w2) = Inr [])
    \<and> (\<forall>m r w2. m \<in> {markRead E a j, markUnread a j, clear_notification a j} \<longrightarrow> m w = (r, w2) \<longrightarrow>
        filter (\<lambda>x. n_userId x \<noteq> a_id a) (t_notifications (w_db w2))
        = filter (\<lambda>x. n_userId x \<noteq> a_id a) (t_notifications (w_db w)))
    \<and> (\<forall>m r w2. m \<in> {markAllRead E a, clearAll a} \<longrightarrow> m w = (r, w2) \<longrightarrow>
        filter (\<lambda>x. n_userId x \<noteq> a_id a) (t_notifications (w_db w2))
        = filter (\<lambda>x. n_userId x \<noteq> a_id a) (t_notifications (w_db w)))"
proof -
  let ?d = "w_db w" and ?t = "e_clock E (w_ticks w)"
  from assms obtain ids where ids: "visibleBoardIds a ?d = Inr ids" and n: "n = unreadCountRows (a_id a) ids ?d"
    by (auto simp: unreadCount_def uow_read_iff sbind_Inr_iff)
  have rows: "filter (\<lambda>n. n_userId n = a_id a \<and> (True \<longrightarrow> n_readAt n = None) \<and> board_scope ids d n)
      (t_notifications d) = filter (unread_in (a_id a) ids d) (t_notifications d)" for d
    by (auto simp: unread_in_def intro: filter_cong)
  have inbox: "listForUser (a_id a) k True ids d
      = take k (order_desc (\<lambda>n. (n_createdAt n, n_id n)) (filter (unread_in (a_id a) ids d) (t_notifications d)))" for d
    by (simp only: listForUser_def rows)
  have len: "length (order_desc f xs) = length xs" for f :: "notification \<Rightarrow> instant \<times> uuid" and xs
    by (simp add: order_desc_def)
  have page: "list_notifications a (Some k) True w
      = (Inr (map (notification_toView ?d) (listForUser (a_id a) k True ids ?d)), w)"
    by (simp add: list_notifications_def uow_read_def ask_def ids default_to_def)
  have long: "length (listForUser (a_id a) k True ids ?d) = n" if "n \<le> k"
    using that by (simp add: inbox len n unreadCountRows_def)
  have unread: "\<not> nv_read v" if "v \<in> set (map (notification_toView ?d) (listForUser (a_id a) k True ids ?d))" for v
    using that by (auto simp: inbox unread_in_def notification_toView_def dest!: in_set_takeD)
  have marked: "\<exists>w2. markAllRead E a w = (Inr n, w2) \<and> fst (unreadCount a w2) = Inr 0
        \<and> fst (list_notifications a (Some k) True w2) = Inr []"
  proof -
    let ?w2 = "w\<lparr>w_ticks := Suc (w_ticks w), w_db := markAllReadRows (a_id a) ?t ids ?d\<rparr>"
    have m: "markAllRead E a w = (Inr n, ?w2)"
      using ids n by (simp add: markAllRead_def uow_run_Inr_iff bind_Inr_iff ask_iff now_iffs put_db_iffs return_iffs)
    have ids2: "visibleBoardIds a (w_db ?w2) = Inr ids" by (simp add: ids markAllReadRows_def)
    have "filter (unread_in (a_id a) ids (w_db ?w2)) (t_notifications (w_db ?w2)) = []"
      using after_markAll[of _ "a_id a" ?t ids ?d "w_db ?w2"]
      by (auto simp: filter_empty_conv markAllReadRows_def)
    then have "fst (unreadCount a ?w2) = Inr 0" "fst (list_notifications a (Some k) True ?w2) = Inr []"
      using ids2 by (simp_all add: unreadCount_def list_notifications_def uow_read_def ask_def
          unreadCountRows_def default_to_def inbox order_desc_def)
    with m show ?thesis by blast
  qed
  have one: "filter (\<lambda>x. n_userId x \<noteq> a_id a) (t_notifications (w_db w2))
        = filter (\<lambda>x. n_userId x \<noteq> a_id a) (t_notifications ?d)"
    if "m w = (r, w2)" "m \<in> {markRead E a j, markUnread a j, clear_notification a j}" for m r w2
    using that by (auto simp: markRead_def markUnread_def clear_notification_def uow_run_def bind_def
        now_def put_db_def others_kept)
  have all: "filter (\<lambda>x. n_userId x \<noteq> a_id a) (t_notifications (w_db w2))
        = filter (\<lambda>x. n_userId x \<noteq> a_id a) (t_notifications ?d)"
    if "m w = (r, w2)" "m \<in> {markAllRead E a, clearAll a}" for m and r :: "error + nat" and w2
    using that ids by (auto simp: markAllRead_def clearAll_def uow_run_def bind_def ask_def return_def
        now_def put_db_def others_kept)
  from page long unread have "n \<le> k \<longrightarrow> (\<exists>vs. list_notifications a (Some k) True w = (Inr vs, w)
      \<and> length vs = n \<and> (\<forall>v \<in> set vs. \<not> nv_read v))" by simp
  with marked one all show ?thesis by blast
qed

end
