(* ===== verification/Frames.thy ===== *)
theory Frames
  imports Talk_Claims
begin

text \<open>
  What the operations of one service leave alone.  A view of the database that does not look
  at the tables a service writes is kept by every method of that service; the locales state
  which tables a view ignores, and the tables of comments, relations and attachments are
  interpreted as views that ignore each other's services.
\<close>

section \<open>Views that ignore what the card service writes\<close>

lemma keeps_run: "keeps (\<lambda>w. obs (w_db w)) m \<Longrightarrow> keeps (\<lambda>w. obs (w_db w)) (uow_run m)"
  by (auto simp: keeps_def uow_run_def split: prod.splits sum.splits) (metis snd_conv)

lemma keeps_retry:
  assumes "keeps (\<lambda>w. obs (w_db w)) m"
  shows "keeps (\<lambda>w. obs (w_db w)) (runWithPositionRetry m cur)"
proof -
  have "obs (w_db (snd (runWithPositionRetry m cur w))) = obs (w_db w)" for w
  proof -
    obtain r w1 where r: "uow_run m w = (r, w1)" by fastforce
    obtain s w2 where s: "uow_run m w1 = (s, w2)" by fastforce
    from keepsD[OF keeps_run[OF assms] r] keepsD[OF keeps_run[OF assms] s] r s
    show ?thesis
      by (auto simp: runWithPositionRetry_def split: sum.splits error.splits option.splits)
  qed
  then show ?thesis by (simp add: keeps_def)
qed

lemma keeps_store:
  "(\<And>d d'. f d = Inr d' \<Longrightarrow> obs d' = obs d) \<Longrightarrow> keeps (\<lambda>w. obs (w_db w)) (store f)"
  by (auto simp: keeps_def store_def split: sum.splits)

lemma keeps_put: "(\<And>d. obs (f d) = obs d) \<Longrightarrow> keeps (\<lambda>w. obs (w_db w)) (put_db f)"
  by (simp add: keeps_def put_db_def)

lemma keeps_if_db: "keeps w_db m \<Longrightarrow> keeps (\<lambda>w. obs (w_db w)) m"
  by (simp add: keeps_def)

locale card_view =
  fixes obs :: "db \<Rightarrow> 'x"
  assumes ignores_cards: "obs (t_cards_update f d) = obs d"
    and ignores_tags: "obs (t_tags_update g d) = obs d"
    and ignores_cardTags: "obs (t_cardTags_update h d) = obs d"
    and ignores_events: "obs (t_events_update k d) = obs d"
    and ignores_watchers: "obs (t_watchers_update l d) = obs d"
    and ignores_notifications: "obs (t_notifications_update m d) = obs d"
begin

abbreviation seen :: "world \<Rightarrow> 'x" where "seen w \<equiv> obs (w_db w)"

lemmas ignores = ignores_cards ignores_tags ignores_cardTags ignores_events ignores_watchers
  ignores_notifications

lemma seen_steps [intro, simp]:
  "keeps seen (ask q)" "keeps seen (newId E)" "keeps seen (now E)" "keeps seen (uow_read q')"
  "keeps seen (makeEvent E a i body)" "keeps seen (publishCardHints c evs)"
  "keeps seen (publish_result r)" "keeps seen (cardCompleted c)" "keeps seen (publish hint)"
  by (auto intro: keeps_if_db)

lemma seen_stores [intro, simp]:
  "keeps seen (store (updateCard c))" "keeps seen (store (insertCard c))"
  "keeps seen (store (insertTag t))" "keeps seen (store (setCardTags i ts))"
  "keeps seen (store (appendEvent ev))" "keeps seen (put_db (addWatcher i u t'))"
  "keeps seen (store (insertNotification n))"
  by (auto intro!: keeps_store keeps_put simp: run_simps addWatcher_def ignores)

lemma seen_resolve [intro, simp]: "keeps seen (resolveTags_from E skip names)"
  by (induction E skip names rule: resolveTags_from.induct)
    (auto intro!: keeps_bind split: option.splits)

lemma seen_resolveTags [intro, simp]: "keeps seen (resolveTags E names)"
  by (simp add: resolveTags_def)

lemma seen_save_card [intro, simp]: "keeps seen (save_card E a u body)"
  by (auto simp: save_card_def intro!: keeps_bind)

lemma seen_edit [intro, simp]:
  "keeps seen before \<Longrightarrow>
     keeps seen (edit_field E a field enc set_it current supplied before st)"
  by (auto simp: edit_field_def fieldChanged_def intro!: keeps_bind split: option.split)

lemma seen_before [intro, simp]:
  "keeps seen (before_assign E c v)" "keeps seen (before_locate x)"
  unfolding before_assign_def before_locate_def
  by (auto intro!: keeps_bind split: option.split)

lemma seen_edit_more [intro, simp]:
  "keeps seen (edit_tags E a c names st)" "keeps seen (edit_waiting E a policy c inp st)"
  by (auto simp: edit_tags_def edit_waiting_def fieldChanged_def intro!: keeps_bind split: option.split)

lemma seen_update [intro, simp]: "keeps seen (update_tx E a i inp)"
  unfolding update_tx_def update_edits_def
  by (auto simp: Let_def intro!: keeps_bind keeps_for_each split: prod.split)

lemma seen_create [intro, simp]: "keeps seen (create_tx E a inp opts og)"
  by (auto simp: create_tx_def store_new_card_def intro!: keeps_bind split: prod.split option.split)

lemma seen_txs [intro, simp]:
  "keeps seen (move_tx E a i mi)" "keeps seen (cancel_tx E a i ci)"
  "keeps seen (reopen_tx E a i v)" "keeps seen (archive_tx E a i v)"
  "keeps seen (setBlockedFlag_tx E a i v r)"
  by (auto simp: move_tx_def cancel_tx_def reopen_tx_def archive_tx_def setBlockedFlag_tx_def
      intro!: keeps_bind split: prod.split)

lemma seen_commentEvent [intro, simp]: "keeps seen (appendCommentEvent E a c body)"
  by (auto simp: appendCommentEvent_def intro!: keeps_bind)

lemma seen_removeWatcher [intro, simp]: "keeps seen (put_db (removeWatcher i u))"
  by (auto intro!: keeps_put simp: removeWatcher_def ignores)

lemma watch_sees: "keeps seen (watch_card E a i)" "keeps seen (unwatch_card a i)"
  by (auto simp: watch_card_def unwatch_card_def intro!: keeps_bind keeps_run)

lemma create_sees: "keeps seen (create_card E a raw opts)"
  by (auto simp: create_card_def intro!: keeps_bind keeps_retry)

lemma command_sees: "keeps seen (run_command E a i x)"
  by (cases x) (auto simp: update_card_def move_card_def cancel_card_def reopen_card_def archive_card_def
      block_card_def unblock_card_def setBlockedFlag_def intro!: keeps_bind keeps_retry keeps_run
      split: prod.split)

end

section \<open>Views that ignore a service of the conversation\<close>

locale comment_view = card_view +
  assumes ignores_comments: "obs (t_comments_update n d) = obs d"
begin

lemma seen_comment_rows [intro, simp]:
  "keeps seen (store (insertComment c))" "keeps seen (store (updateComment c))"
  by (auto intro!: keeps_store simp: run_simps ignores_comments)

lemma seen_mentions [intro, simp]: "keeps seen (mention_each E u b i k t us)"
  by (induction us) (auto intro!: keeps_bind)

lemma seen_comment_steps [intro, simp]:
  "keeps seen (resolveMentions E us u i k t)" "keeps seen (comment_hint r)"
  by (auto simp: resolveMentions_def comment_hint_def intro!: keeps_bind split: prod.split)

lemma seen_comment_txs [intro, simp]:
  "keeps seen (comment_tx E a i inp u)" "keeps seen (edit_comment_tx E a k body)"
  "keeps seen (softDelete_tx E a k)"
  by (auto simp: comment_tx_def edit_comment_tx_def softDelete_tx_def Let_def intro!: keeps_bind
      split: prod.split)

lemma comment_sees:
  "keeps seen (add_comment E a i raw u)" "keeps seen (edit_comment E a k body)"
  "keeps seen (softDelete_comment E a k)"
  unfolding add_comment_def edit_comment_def softDelete_comment_def
  by (intro keeps_bind keeps_run seen_comment_txs seen_comment_steps keeps_lift)+

end

locale relation_view = card_view +
  assumes ignores_relations: "obs (t_relations_update n d) = obs d"
begin

lemma seen_relation_rows [intro, simp]:
  "keeps seen (store (insertRelation r))" "keeps seen (put_db (deleteRelation k))"
  by (auto intro!: keeps_store keeps_put simp: run_simps deleteRelation_def ignores_relations)

lemma relation_sees:
  "keeps seen (create_relation E a i raw)" "keeps seen (delete_relation a i k)"
  by (auto simp: create_relation_def delete_relation_def relation_tx_def
      intro!: keeps_bind keeps_run split: prod.split)

end

locale attachment_view = card_view +
  assumes ignores_attachments: "obs (t_attachments_update n d) = obs d"
begin

lemma seen_attachment_rows [intro, simp]:
  "keeps seen (store (insertAttachment m))" "keeps seen (store (updateAttachment m))"
  by (auto intro!: keeps_store simp: run_simps ignores_attachments)

lemma seen_on_error: "keeps seen m \<Longrightarrow> keeps w_db c \<Longrightarrow> keeps seen (on_error m c)"
  by (auto simp: keeps_def on_error_def split: prod.splits sum.splits) (metis snd_conv)+

lemma attachment_sees:
  "keeps seen (add_attachment E a i inp)" "keeps seen (remove_attachment E a k)"
  by (auto simp: add_attachment_def remove_attachment_def attach_tx_def detach_tx_def
      attachment_hint_def Let_def intro!: keeps_bind keeps_run seen_on_error intro: keeps_if_db
      split: prod.split)

end

section \<open>Views that ignore the inbox\<close>

context card_view
begin

lemma seen_inbox_rows [intro, simp]:
  "keeps seen (put_db (markReadRow k u t))" "keeps seen (put_db (markUnreadRow k u))"
  "keeps seen (put_db (markAllReadRows u t bs))" "keeps seen (put_db (clearRow k u))"
  "keeps seen (put_db (clearAllRows u bs))"
  by (auto intro!: keeps_put simp: markReadRow_def markUnreadRow_def markAllReadRows_def clearRow_def
      clearAllRows_def ignores)

lemma notification_sees:
  "keeps seen (fanOutForEvent E i k)" "keeps seen (markRead E a k)" "keeps seen (markUnread a k)"
  "keeps seen (markAllRead E a)" "keeps seen (clear_notification a k)" "keeps seen (clearAll a)"
  by (auto simp: fanOutForEvent_def fan_tx_def notify_each_def markRead_def markUnread_def
      markAllRead_def clear_notification_def clearAll_def
      intro!: keeps_bind keeps_run keeps_for_each split: option.split)

end

section \<open>The three tables\<close>

interpretation comments_of: relation_view t_comments by unfold_locales simp_all
interpretation comments_too: attachment_view t_comments by unfold_locales simp_all
interpretation relations_of: comment_view t_relations by unfold_locales simp_all
interpretation relations_too: attachment_view t_relations by unfold_locales simp_all
interpretation attachments_of: comment_view t_attachments by unfold_locales simp_all
interpretation attachments_too: relation_view t_attachments by unfold_locales simp_all

end
