(* ===== verification/System.thy ===== *)
theory System
  imports Card_Claims Frames
begin

text \<open>
  The server as a transition system: one request after the other, each on the world the
  last one left.  \<open>kept_by_requests\<close> lifts what every request keeps to every reachable
  world; it is interpreted on the database invariant and on the invariants of threads,
  relations and attachments.
\<close>

section \<open>Reachable worlds\<close>

inductive served :: "('r \<Rightarrow> world \<Rightarrow> world) \<Rightarrow> world \<Rightarrow> world \<Rightarrow> bool" for serve where
  served_nothing: "served serve w w"
| served_next: "served serve w w1 \<Longrightarrow> served serve w (serve r w1)"

inductive_cases served_cases: "served serve w w'"

locale kept_by_requests =
  fixes serve :: "'r \<Rightarrow> world \<Rightarrow> world" and inv :: "world \<Rightarrow> bool"
  assumes kept: "inv w \<Longrightarrow> inv (serve r w)"
begin

lemma reachable_inv: "served serve w w' \<Longrightarrow> inv w \<Longrightarrow> inv w'"
  by (induction rule: served.induct) (simp_all add: kept)

end

section \<open>The requests\<close>

datatype request =
    CreateRequest actor create_card_raw create_options
  | CommandRequest actor card_no card_command_input
  | DiscardRequest actor card_no nat
  | TalkRequest talk_request
and talk_request =
    AddComment actor card_no add_comment_input "uuid option"
  | EditComment actor uuid string
  | DeleteComment actor uuid
  | AddRelation actor card_no create_relation_input
  | DeleteRelation actor card_no uuid
  | WatchCard actor card_no
  | UnwatchCard actor card_no
  | AddAttachment actor card_no add_attachment_input
  | RemoveAttachment actor uuid
  | FanOut card_no uuid
  | MarkRead actor uuid
  | MarkUnread actor uuid
  | MarkAllRead actor
  | ClearNotification actor uuid
  | ClearAll actor

fun serve_talk :: "env \<Rightarrow> talk_request \<Rightarrow> world \<Rightarrow> world" where
  "serve_talk E (AddComment a i raw u) w = snd (add_comment E a i raw u w)"
| "serve_talk E (EditComment a k body) w = snd (edit_comment E a k body w)"
| "serve_talk E (DeleteComment a k) w = snd (softDelete_comment E a k w)"
| "serve_talk E (AddRelation a i raw) w = snd (create_relation E a i raw w)"
| "serve_talk E (DeleteRelation a i k) w = snd (delete_relation a i k w)"
| "serve_talk E (WatchCard a i) w = snd (watch_card E a i w)"
| "serve_talk E (UnwatchCard a i) w = snd (unwatch_card a i w)"
| "serve_talk E (AddAttachment a i raw) w = snd (add_attachment E a i raw w)"
| "serve_talk E (RemoveAttachment a k) w = snd (remove_attachment E a k w)"
| "serve_talk E (FanOut i k) w = snd (fanOutForEvent E i k w)"
| "serve_talk E (MarkRead a k) w = snd (markRead E a k w)"
| "serve_talk E (MarkUnread a k) w = snd (markUnread a k w)"
| "serve_talk E (MarkAllRead a) w = snd (markAllRead E a w)"
| "serve_talk E (ClearNotification a k) w = snd (clear_notification a k w)"
| "serve_talk E (ClearAll a) w = snd (clearAll a w)"

fun serve_request :: "env \<Rightarrow> request \<Rightarrow> world \<Rightarrow> world" where
  "serve_request E (CreateRequest a raw opts) w = snd (create_card E a raw opts w)"
| "serve_request E (CommandRequest a i x) w = snd (run_command E a i x w)"
| "serve_request E (DiscardRequest a i v) w = snd (delete_card E a i v w)"
| "serve_request E (TalkRequest t) w = serve_talk E t w"

section \<open>Every request keeps the invariant\<close>

lemma sound_outcome: "sound {} m \<Longrightarrow> db_ok (w_db w) \<Longrightarrow> db_ok (w_db (snd (m w)))"
  by (simp add: sound_def)

lemma talk_ok: "db_ok (w_db w) \<Longrightarrow> db_ok (w_db (serve_talk E t w))"
  by (cases t) (auto intro!: sound_outcome sound_intros)

interpretation database: kept_by_requests "serve_request E" "\<lambda>w. db_ok (w_db w)"
proof
  fix w :: world and r :: request
  assume ok: "db_ok (w_db w)"
  show "db_ok (w_db (serve_request E r w))"
  proof (cases r)
    case (CreateRequest a raw opts)
    with create_card_ok[OF _ ok] show ?thesis by (metis prod.collapse serve_request.simps(1))
  next
    case (CommandRequest a i x)
    with run_command_ok[OF _ ok] show ?thesis by (metis prod.collapse serve_request.simps(2))
  next
    case (DiscardRequest a i v)
    with delete_card_ok[OF _ ok] show ?thesis by (metis prod.collapse serve_request.simps(3))
  qed (simp add: talk_ok ok)
qed

section \<open>The invariants of the conversation\<close>

text \<open>A discarded draft takes its rows with it; nothing else of the three tables changes.\<close>

lemma discard_rows:
  "\<exists>keep. let d = w_db w; d' = w_db (snd (delete_card E a i v w)) in
     (d' = d \<or> t_comments d' = filter (\<lambda>r. cm_cardId r \<noteq> i) (t_comments d)
       \<and> t_relations d' = filter keep (t_relations d)
       \<and> t_attachments d' = filter (\<lambda>r. at_cardId r \<noteq> i) (t_attachments d))"
proof (cases "uow_run (delete_tx a i v) w")
  case (Pair q w1)
  show ?thesis
  proof (cases q)
    case (Inl e)
    with Pair have "snd (delete_card E a i v w) = w1" by (simp add: delete_card_def bind_def)
    moreover have "w_db w1 = w_db w" using Pair Inl by (simp add: uow_run_rollback)
    ultimately show ?thesis by simp
  next
    case (Inr ks)
    with Pair have "w_db (snd (delete_card E a i v w)) = w_db w1"
      using delete_blobs_db[of ks E w1] by (simp add: delete_card_def bind_def) (metis prod.collapse)
    moreover from Pair Inr have "delete_tx a i v w = (Inr ks, w1)" by (simp add: uow_run_Inr_iff)
    then have "hardDelete i (w_db w) = Inr (ks, w_db w1)" using delete_tx_run by blast
    ultimately show ?thesis by (auto simp: hardDelete_Inr_iff Let_def)
  qed
qed

lemma seen_snd: "keeps obs m \<Longrightarrow> obs (snd (m w)) = obs w"
  by (simp add: keeps_def)

lemmas seen_by_cards =
  comments_of.create_sees comments_of.command_sees relations_of.create_sees
  relations_of.command_sees attachments_of.create_sees attachments_of.command_sees

lemma threads_kept_talk:
  "threads_ok (t_comments (w_db w)) \<Longrightarrow> threads_ok (t_comments (w_db (serve_talk E t w)))"
  by (cases t) (auto simp: comments_keep_threads[OF _ prod.collapse[symmetric]]
      comments_of.relation_sees[THEN seen_snd] comments_of.watch_sees[THEN seen_snd]
      comments_too.attachment_sees[THEN seen_snd] comments_of.notification_sees[THEN seen_snd])

lemma relations_kept_talk:
  "relations_ok (t_relations (w_db w)) \<Longrightarrow> relations_ok (t_relations (w_db (serve_talk E t w)))"
  by (cases t) (auto simp: relations_of.comment_sees[THEN seen_snd]
      relations_of.watch_sees[THEN seen_snd]
      relations_too.attachment_sees[THEN seen_snd] relations_of.notification_sees[THEN seen_snd]
      relations_kept(1)[OF _ prod.collapse[symmetric]] relations_kept(2)[OF _ prod.collapse[symmetric]])

lemma caps_kept_talk:
  "caps_ok (t_attachments (w_db w)) \<Longrightarrow> caps_ok (t_attachments (w_db (serve_talk E t w)))"
  by (cases t) (auto simp: attachments_of.comment_sees[THEN seen_snd]
      attachments_of.watch_sees[THEN seen_snd]
      attachments_too.relation_sees[THEN seen_snd] attachments_of.notification_sees[THEN seen_snd]
      caps_kept_add[OF _ prod.collapse[symmetric]] caps_kept_remove[OF _ prod.collapse[symmetric]])

text \<open>One interpretation per table.\<close>

interpretation threads: kept_by_requests "serve_request E" "\<lambda>w. threads_ok (t_comments (w_db w))"
proof
  fix w :: world and r :: request
  assume ok: "threads_ok (t_comments (w_db w))"
  show "threads_ok (t_comments (w_db (serve_request E r w)))"
  proof (cases r)
    case (DiscardRequest a i v)
    with discard_rows[of w E a i v] ok show ?thesis by (auto simp: Let_def threads_filter)
  qed (use ok in \<open>simp_all add: threads_kept_talk seen_by_cards[THEN seen_snd]\<close>)
qed

interpretation links: kept_by_requests "serve_request E" "\<lambda>w. relations_ok (t_relations (w_db w))"
proof
  fix w :: world and r :: request
  assume ok: "relations_ok (t_relations (w_db w))"
  show "relations_ok (t_relations (w_db (serve_request E r w)))"
  proof (cases r)
    case (DiscardRequest a i v)
    with discard_rows[of w E a i v] ok show ?thesis by (auto simp: Let_def relations_filter)
  qed (use ok in \<open>simp_all add: relations_kept_talk seen_by_cards[THEN seen_snd]\<close>)
qed

interpretation uploads: kept_by_requests "serve_request E" "\<lambda>w. caps_ok (t_attachments (w_db w))"
proof
  fix w :: world and r :: request
  assume ok: "caps_ok (t_attachments (w_db w))"
  show "caps_ok (t_attachments (w_db (serve_request E r w)))"
  proof (cases r)
    case (DiscardRequest a i v)
    with discard_rows[of w E a i v] ok show ?thesis by (auto simp: Let_def caps_filter)
  qed (use ok in \<open>simp_all add: caps_kept_talk seen_by_cards[THEN seen_snd]\<close>)
qed

text \<open>A conversation on the sample board: a comment, a reply, a relation and an upload.\<close>

definition sample_talk :: "request list" where
  "sample_talk = map TalkRequest [
     AddComment sample_actor 3
       \<lparr>ac_body = ''first'', ac_parentCommentId = None, ac_mentions = None\<rparr> None,
     AddComment sample_actor 3
       \<lparr>ac_body = ''reply'', ac_parentCommentId = Some 1000, ac_mentions = None\<rparr> None,
     AddRelation sample_actor 3 \<lparr>cri_toCardId = 2, cri_type = RelatesTo\<rparr>,
     AddAttachment sample_actor 3 sample_file]"

end
