(* ===== verification/Credentials.thy ===== *)
theory Credentials
  imports Access
begin

text \<open>
  Accounts and credentials: the repositories of users, sessions, service tokens and OAuth
  rows (\<open>packages/db/src/repositories\<close>), the secrets (\<open>oauth-hash.ts\<close>, \<open>pkce.ts\<close>), the URI
  rules (\<open>canonical-uri.ts\<close>, \<open>redirect-match.ts\<close>), the password policy and the login backoff
  (\<open>packages/server/src/auth\<close>).

  What the code takes from outside is a field of \<open>auth_env\<close>: the random bytes (the \<open>n\<close>-th draw,
  in base64url), sha256 in hex and in base64url, argon2, the WHATWG URL parser, the check of
  an email address, the IANA zones of the runtime, the list of common passwords, and the text
  of an id.  The
  foreign keys of these tables are not checked in the model: the services write rows of users
  and clients they have just read, and neither is ever deleted.
\<close>

section \<open>Environment\<close>

record url =
  url_protocol :: string
  url_userinfo :: string
  url_hostname :: string
  url_port :: string
  url_pathname :: string
  url_search :: string
  url_hash :: string

record auth_env =
  ae_env :: env
  ae_random :: "nat \<Rightarrow> string"
  ae_sha256 :: "string \<Rightarrow> string"
  ae_s256 :: "string \<Rightarrow> string"
  ae_hash :: "string \<Rightarrow> string \<Rightarrow> string"
  ae_verify :: "string \<Rightarrow> string \<Rightarrow> bool"
  ae_url :: "string \<Rightarrow> url option"
  ae_email :: "string \<Rightarrow> bool"
  ae_timezone :: "string \<Rightarrow> bool"
  ae_common :: "string \<Rightarrow> bool"
  ae_idText :: "uuid \<Rightarrow> string"
  ae_maxBackoff :: nat
  ae_canonicalMcpUri :: string
  ae_authCodeTtlMs :: int
  ae_accessTokenTtlMs :: int
  ae_refreshTokenTtlMs :: int

text \<open>\<open>randomBytes(n).toString('base64url')\<close>: draws share the counter of the ids.\<close>

definition draw :: "auth_env \<Rightarrow> string step" where
  "draw A w = (Inr (ae_random A (w_ids w)), w\<lparr>w_ids := Suc (w_ids w)\<rparr>)"

lemma draw_iffs [run_simps]:
  "draw A w = (Inr s, w') \<longleftrightarrow> s = ae_random A (w_ids w) \<and> w' = w\<lparr>w_ids := Suc (w_ids w)\<rparr>"
  "draw A w = (Inl e, w') \<longleftrightarrow> False"
  by (auto simp: draw_def)

section \<open>Secrets\<close>

definition ACCESS_TOKEN_PREFIX :: string where "ACCESS_TOKEN_PREFIX = ''rka_''"
definition REFRESH_TOKEN_PREFIX :: string where "REFRESH_TOKEN_PREFIX = ''rkr_''"

text \<open>A raw secret and the hash that is stored.\<close>

definition mintSecret :: "auth_env \<Rightarrow> string \<Rightarrow> (string \<times> string) step" where
  "mintSecret A prefix = bind (draw A) (\<lambda>r. return (prefix @ r, ae_sha256 A (prefix @ r)))"

definition assertS256 :: "string \<Rightarrow> unit read" where
  "assertS256 method = sguard (method = ''S256'') (OAuthError InvalidRequest)"

definition verifyPkce :: "auth_env \<Rightarrow> string \<Rightarrow> string \<Rightarrow> bool" where
  "verifyPkce A codeVerifier codeChallenge \<longleftrightarrow> (let computed = ae_s256 A codeVerifier in
     if length computed \<noteq> length codeChallenge then False else computed = codeChallenge)"

lemma verifyPkce_iff [simp]: "verifyPkce A v c \<longleftrightarrow> ae_s256 A v = c"
  by (auto simp: verifyPkce_def Let_def)

section \<open>URIs\<close>

text \<open>\<open>url.href\<close> of a URL with an authority.\<close>

definition href :: "url \<Rightarrow> string" where
  "href u = url_protocol u @ ''//''
     @ (if url_userinfo u = [] then [] else url_userinfo u @ ''@'')
     @ url_hostname u @ (if url_port u = [] then [] else CHR '':'' # url_port u)
     @ url_pathname u @ url_search u @ url_hash u"

definition canonicalizeResource :: "auth_env \<Rightarrow> string \<Rightarrow> string" where
  "canonicalizeResource A uri = (case ae_url A uri of
      None \<Rightarrow> uri
    | Some u0 \<Rightarrow> (let u = u0\<lparr>url_hash := []\<rparr>; p = url_pathname u in
        href (if p \<noteq> ''/'' \<and> p \<noteq> [] \<and> last p = CHR ''/''
          then u\<lparr>url_pathname := butlast p\<rparr> else u)))"

definition LOOPBACK_HOSTS :: "string list" where
  "LOOPBACK_HOSTS = [''127.0.0.1'', ''localhost'', ''[::1]'', ''::1'']"

definition isLoopbackRedirectUri :: "auth_env \<Rightarrow> string \<Rightarrow> bool" where
  "isLoopbackRedirectUri A uri \<longleftrightarrow> (case ae_url A uri of
      None \<Rightarrow> False
    | Some u \<Rightarrow> url_protocol u = ''http:'' \<and> url_hostname u \<in> set LOOPBACK_HOSTS)"

definition loopbackKey :: "url \<Rightarrow> string" where
  "loopbackKey u = href (u\<lparr>url_port := []\<rparr>)"

definition redirectUriMatches :: "auth_env \<Rightarrow> string \<Rightarrow> string \<Rightarrow> bool" where
  "redirectUriMatches A registered candidate \<longleftrightarrow>
     (if registered = candidate then True
      else if \<not> isLoopbackRedirectUri A registered \<or> \<not> isLoopbackRedirectUri A candidate then False
      else (case (ae_url A registered, ae_url A candidate) of
          (Some r, Some c) \<Rightarrow> loopbackKey r = loopbackKey c
        | _ \<Rightarrow> False))"

definition findMatchingRedirectUri :: "auth_env \<Rightarrow> string list \<Rightarrow> string \<Rightarrow> string option" where
  "findMatchingRedirectUri A registered candidate =
     find (\<lambda>uri. redirectUriMatches A uri candidate) registered"

definition isRegistrableRedirectUri :: "auth_env \<Rightarrow> string \<Rightarrow> bool" where
  "isRegistrableRedirectUri A uri \<longleftrightarrow>
     (if isLoopbackRedirectUri A uri then True
      else (case ae_url A uri of None \<Rightarrow> False | Some u \<Rightarrow> url_protocol u = ''https:''))"

section \<open>Passwords and the backoff\<close>

definition PASSWORD_MIN_LENGTH :: nat where "PASSWORD_MIN_LENGTH = 12"
definition PASSWORD_MAX_LENGTH :: nat where "PASSWORD_MAX_LENGTH = 128"

definition passwordPolicyViolation :: "auth_env \<Rightarrow> string \<Rightarrow> string option" where
  "passwordPolicyViolation A password =
     (if length password < PASSWORD_MIN_LENGTH then Some ''password must be at least 12 characters''
      else if length password > PASSWORD_MAX_LENGTH
      then Some ''password must be at most 128 characters''
      else if ae_common A (to_lower password) then Some ''password is too common''
      else None)"

definition BACKOFF_BASE_MS :: int where "BACKOFF_BASE_MS = 1000"
definition BACKOFF_CAP_MS :: int where "BACKOFF_CAP_MS = 60000"

definition backoffDelayMs :: "nat \<Rightarrow> int" where
  "backoffDelayMs failures =
     (if failures = 0 then 0 else min (BACKOFF_BASE_MS * 2 ^ (failures - 1)) BACKOFF_CAP_MS)"

text \<open>The map is in insertion order: its first entry is the stalest.\<close>

definition backoff_entry_of :: "string \<Rightarrow> (string \<times> backoff_entry) list \<Rightarrow> backoff_entry option" where
  "backoff_entry_of account b = map_option snd (row_of fst (to_lower account) b)"

definition retryAfterMs :: "auth_env \<Rightarrow> string \<Rightarrow> int step" where
  "retryAfterMs A account w = (case backoff_entry_of account (w_backoff w) of
      None \<Rightarrow> (Inr 0, w)
    | Some entry \<Rightarrow> bind (now (ae_env A)) (\<lambda>t.
        return (max 0 (be_lastFailureAtMs entry + backoffDelayMs (be_failures entry) - t))) w)"

definition failed_once :: "nat \<Rightarrow> string \<Rightarrow> instant \<Rightarrow> (string \<times> backoff_entry) list
    \<Rightarrow> (string \<times> backoff_entry) list" where
  "failed_once maxEntries account t b = (let
     key = to_lower account;
     failures = (case row_of fst key b of None \<Rightarrow> 0 | Some e \<Rightarrow> be_failures (snd e));
     rest = drop_row fst key b;
     kept = (if maxEntries \<le> length rest then tl rest else rest)
   in kept @ [(key, \<lparr>be_failures = failures + 1, be_lastFailureAtMs = t\<rparr>)])"

definition recordFailure :: "auth_env \<Rightarrow> string \<Rightarrow> unit step" where
  "recordFailure A account = bind (now (ae_env A)) (\<lambda>t.
     modify (\<lambda>w. w\<lparr>w_backoff := failed_once (ae_maxBackoff A) account t (w_backoff w)\<rparr>))"

definition reset_backoff :: "string \<Rightarrow> unit step" where
  "reset_backoff account =
     modify (\<lambda>w. w\<lparr>w_backoff := drop_row fst (to_lower account) (w_backoff w)\<rparr>)"

section \<open>Accounts\<close>

definition findAccountByEmail :: "string \<Rightarrow> db \<Rightarrow> account option" where
  "findAccountByEmail email d =
     find (\<lambda>a. to_lower (u_email (acc_user a)) = to_lower email) (t_users d)"

definition findAccount :: "uuid \<Rightarrow> db \<Rightarrow> account option" where
  "findAccount i d = row_of (u_id \<circ> acc_user) i (t_users d)"

definition countHumanUsers :: "uuid \<Rightarrow> db \<Rightarrow> nat" where
  "countHumanUsers system d = length (filter (\<lambda>a. u_id (acc_user a) \<noteq> system) (t_users d))"

definition email_taken :: "user \<Rightarrow> db \<Rightarrow> bool" where
  "email_taken u d \<longleftrightarrow> (\<exists>a \<in> set (t_users d).
     u_id (acc_user a) \<noteq> u_id u \<and> to_lower (u_email (acc_user a)) = to_lower (u_email u))"

definition insertAccount :: "user \<Rightarrow> string \<Rightarrow> db \<Rightarrow> db read" where
  "insertAccount u passwordHash d =
     (if u_id u \<in> (u_id \<circ> acc_user) ` set (t_users d) then Inl (PlainError ''UNIQUE users.id'')
      else if email_taken u d then Inl (ConflictError ''email already in use'' None)
      else Inr (d\<lparr>t_users := t_users d @ [\<lparr>acc_user = u, acc_passwordHash = passwordHash\<rparr>]\<rparr>))"

text \<open>The password hash and the time of creation are not written.\<close>

definition updateAccount :: "user \<Rightarrow> db \<Rightarrow> db read" where
  "updateAccount u d =
     (if u_id u \<notin> (u_id \<circ> acc_user) ` set (t_users d) then Inl (NotFoundError ''user'')
      else if email_taken u d then Inl (ConflictError ''email already in use'' None)
      else Inr (d\<lparr>t_users := map (\<lambda>a. if u_id (acc_user a) = u_id u
             then a\<lparr>acc_user := u\<lparr>u_createdAt := u_createdAt (acc_user a)\<rparr>\<rparr> else a) (t_users d)\<rparr>))"

definition setPassword :: "uuid \<Rightarrow> string \<Rightarrow> bool \<Rightarrow> db \<Rightarrow> db read" where
  "setPassword userId passwordHash mustChange d =
     (if userId \<notin> (u_id \<circ> acc_user) ` set (t_users d) then Inl (NotFoundError ''user'')
      else Inr (d\<lparr>t_users := map (\<lambda>a. if u_id (acc_user a) = userId
             then \<lparr>acc_user = (acc_user a)\<lparr>u_mustChangePassword := mustChange\<rparr>,
                   acc_passwordHash = passwordHash\<rparr> else a) (t_users d)\<rparr>))"

section \<open>Sessions\<close>

definition findSession :: "string \<Rightarrow> db \<Rightarrow> session option" where
  "findSession idHash d = row_of se_id idHash (t_sessions d)"

definition createSession :: "session \<Rightarrow> db \<Rightarrow> db read" where
  "createSession s d =
     (if se_id s \<in> se_id ` set (t_sessions d) then Inl (PlainError ''UNIQUE sessions.id'')
      else Inr (d\<lparr>t_sessions := t_sessions d @ [s]\<rparr>))"

definition touchSession :: "string \<Rightarrow> instant \<Rightarrow> instant \<Rightarrow> db \<Rightarrow> db" where
  "touchSession idHash lastSeenAt expiresAt d = d\<lparr>t_sessions := map (\<lambda>s. if se_id s = idHash
     then s\<lparr>se_lastSeenAt := lastSeenAt, se_expiresAt := expiresAt\<rparr> else s) (t_sessions d)\<rparr>"

definition revokeSession :: "string \<Rightarrow> db \<Rightarrow> db" where
  "revokeSession idHash d = d\<lparr>t_sessions := drop_row se_id idHash (t_sessions d)\<rparr>"

definition revokeOthersForUser :: "uuid \<Rightarrow> string option \<Rightarrow> db \<Rightarrow> db" where
  "revokeOthersForUser userId exceptIdHash d = d\<lparr>t_sessions := filter (\<lambda>s.
     \<not> (se_userId s = userId \<and> (case exceptIdHash of None \<Rightarrow> True | Some h \<Rightarrow> se_id s \<noteq> h)))
       (t_sessions d)\<rparr>"

definition deleteExpired :: "instant \<Rightarrow> db \<Rightarrow> db" where
  "deleteExpired t d = d\<lparr>t_sessions := filter (\<lambda>s. \<not> se_expiresAt s \<le> t) (t_sessions d)\<rparr>"

section \<open>Service tokens\<close>

definition findTokenByHash :: "string \<Rightarrow> db \<Rightarrow> service_token option" where
  "findTokenByHash h d = row_of st_tokenHash h (t_tokens d)"

definition updateTokenLastUsed :: "uuid \<Rightarrow> instant \<Rightarrow> db \<Rightarrow> db read" where
  "updateTokenLastUsed i t d =
     (if i \<notin> st_id ` set (t_tokens d) then Inl (NotFoundError ''service token'')
      else Inr (d\<lparr>t_tokens := map (\<lambda>k. if st_id k = i then k\<lparr>st_lastUsedAt := Some t\<rparr> else k)
        (t_tokens d)\<rparr>))"

definition insertToken :: "service_token \<Rightarrow> db \<Rightarrow> db read" where
  "insertToken k d =
     (if st_id k \<in> st_id ` set (t_tokens d) then Inl (PlainError ''UNIQUE service_tokens.id'')
      else if st_tokenHash k \<in> st_tokenHash ` set (t_tokens d)
      then Inl (ConflictError ''service token hash already exists'' None)
      else Inr (d\<lparr>t_tokens := t_tokens d @ [k]\<rparr>))"

text \<open>An already revoked token keeps its time.\<close>

definition revokeToken :: "uuid \<Rightarrow> instant \<Rightarrow> db \<Rightarrow> db read" where
  "revokeToken i t d =
     (if i \<notin> st_id ` set (t_tokens d) then Inl (NotFoundError ''service token'')
      else Inr (d\<lparr>t_tokens := map (\<lambda>k. if st_id k = i \<and> st_revokedAt k = None
        then k\<lparr>st_revokedAt := Some t\<rparr> else k) (t_tokens d)\<rparr>))"

definition rotateHash :: "uuid \<Rightarrow> string \<Rightarrow> db \<Rightarrow> (service_token \<times> db) read" where
  "rotateHash i h d = (case row_of st_id i (t_tokens d) of
      None \<Rightarrow> Inl (NotFoundError ''service token'')
    | Some row \<Rightarrow>
        if st_revokedAt row \<noteq> None then Inl (ConflictError ''service token is revoked'' None)
        else if \<exists>k \<in> set (t_tokens d). st_id k \<noteq> i \<and> st_tokenHash k = h
        then Inl (PlainError ''UNIQUE service_tokens.token_hash'')
        else Inr (row\<lparr>st_tokenHash := h\<rparr>,
          d\<lparr>t_tokens := map (\<lambda>k. if st_id k = i then k\<lparr>st_tokenHash := h\<rparr> else k) (t_tokens d)\<rparr>))"

section \<open>OAuth rows\<close>

definition findClient :: "uuid \<Rightarrow> db \<Rightarrow> oauth_client option" where
  "findClient i d = row_of oc_id i (t_clients d)"

definition insertClient :: "oauth_client \<Rightarrow> db \<Rightarrow> db read" where
  "insertClient c d =
     (if oc_id c \<in> oc_id ` set (t_clients d) then Inl (PlainError ''UNIQUE oauth_clients.id'')
      else Inr (d\<lparr>t_clients := t_clients d @ [c]\<rparr>))"

definition findCode :: "string \<Rightarrow> db \<Rightarrow> oauth_code option" where
  "findCode h d = row_of co_codeHash h (t_codes d)"

definition insertCode :: "oauth_code \<Rightarrow> db \<Rightarrow> db read" where
  "insertCode c d =
     (if co_codeHash c \<in> co_codeHash ` set (t_codes d)
      then Inl (PlainError ''UNIQUE oauth_authorization_codes.code_hash'')
      else Inr (d\<lparr>t_codes := t_codes d @ [c]\<rparr>))"

text \<open>\<open>DELETE \<dots> RETURNING\<close>\<close>

definition consumeCode :: "string \<Rightarrow> oauth_code option step" where
  "consumeCode h w = (Inr (findCode h (w_db w)),
     w\<lparr>w_db := (w_db w)\<lparr>t_codes := drop_row co_codeHash h (t_codes (w_db w))\<rparr>\<rparr>)"

definition revokeCodesForUser :: "uuid \<Rightarrow> db \<Rightarrow> db" where
  "revokeCodesForUser userId d = d\<lparr>t_codes := filter (\<lambda>c. co_userId c \<noteq> userId) (t_codes d)\<rparr>"

definition findAccessByHash :: "string \<Rightarrow> db \<Rightarrow> access_token option" where
  "findAccessByHash h d = row_of ot_tokenHash h (t_access d)"

definition insertAccess :: "access_token \<Rightarrow> db \<Rightarrow> db read" where
  "insertAccess k d =
     (if ot_id k \<in> ot_id ` set (t_access d) then Inl (PlainError ''UNIQUE oauth_access_tokens.id'')
      else if ot_tokenHash k \<in> ot_tokenHash ` set (t_access d)
      then Inl (PlainError ''UNIQUE oauth_access_tokens.token_hash'')
      else Inr (d\<lparr>t_access := t_access d @ [k]\<rparr>))"

text \<open>A revocation stamps the rows that are still live; \<open>t\<close> is the clock of the repository.\<close>

definition stamp_access :: "(access_token \<Rightarrow> bool) \<Rightarrow> instant \<Rightarrow> db \<Rightarrow> db" where
  "stamp_access P t d = d\<lparr>t_access := map (\<lambda>k. if P k \<and> ot_revokedAt k = None
     then k\<lparr>ot_revokedAt := Some t\<rparr> else k) (t_access d)\<rparr>"

definition revokeAccess :: "uuid \<Rightarrow> instant \<Rightarrow> db \<Rightarrow> db" where
  "revokeAccess i = stamp_access (\<lambda>k. ot_id k = i)"

definition revokeAccessForUser :: "uuid \<Rightarrow> instant \<Rightarrow> db \<Rightarrow> db" where
  "revokeAccessForUser userId = stamp_access (\<lambda>k. ot_userId k = userId)"

definition revokeAccessForClient :: "uuid \<Rightarrow> uuid \<Rightarrow> instant \<Rightarrow> db \<Rightarrow> db" where
  "revokeAccessForClient userId clientId =
     stamp_access (\<lambda>k. ot_userId k = userId \<and> ot_clientId k = clientId)"

definition updateAccessLastUsed :: "uuid \<Rightarrow> instant \<Rightarrow> db \<Rightarrow> db" where
  "updateAccessLastUsed i t d = d\<lparr>t_access := map (\<lambda>k. if ot_id k = i
     then k\<lparr>ot_lastUsedAt := Some t\<rparr> else k) (t_access d)\<rparr>"

definition findRefreshByHash :: "string \<Rightarrow> db \<Rightarrow> refresh_token option" where
  "findRefreshByHash h d = row_of rt_tokenHash h (t_refresh d)"

definition insertRefresh :: "refresh_token \<Rightarrow> db \<Rightarrow> db read" where
  "insertRefresh k d =
     (if rt_id k \<in> rt_id ` set (t_refresh d) then Inl (PlainError ''UNIQUE oauth_refresh_tokens.id'')
      else if rt_tokenHash k \<in> rt_tokenHash ` set (t_refresh d)
      then Inl (PlainError ''UNIQUE oauth_refresh_tokens.token_hash'')
      else Inr (d\<lparr>t_refresh := t_refresh d @ [k]\<rparr>))"

text \<open>\<open>UPDATE \<dots> WHERE used_at IS NULL\<close>: did exactly one row change?\<close>

definition markUsed :: "uuid \<Rightarrow> instant \<Rightarrow> bool step" where
  "markUsed i t w = (let d = w_db w; hit = (\<lambda>k. rt_id k = i \<and> rt_usedAt k = None) in
     (Inr (length (filter hit (t_refresh d)) = 1),
      w\<lparr>w_db := d\<lparr>t_refresh := map (\<lambda>k. if hit k then k\<lparr>rt_usedAt := Some t\<rparr> else k)
        (t_refresh d)\<rparr>\<rparr>))"

definition stamp_refresh :: "(refresh_token \<Rightarrow> bool) \<Rightarrow> instant \<Rightarrow> db \<Rightarrow> db" where
  "stamp_refresh P t d = d\<lparr>t_refresh := map (\<lambda>k. if P k \<and> rt_revokedAt k = None
     then k\<lparr>rt_revokedAt := Some t\<rparr> else k) (t_refresh d)\<rparr>"

definition revokeFamily :: "uuid \<Rightarrow> instant \<Rightarrow> db \<Rightarrow> db" where
  "revokeFamily familyId = stamp_refresh (\<lambda>k. rt_familyId k = familyId)"

definition revokeRefreshForUser :: "uuid \<Rightarrow> instant \<Rightarrow> db \<Rightarrow> db" where
  "revokeRefreshForUser userId = stamp_refresh (\<lambda>k. rt_userId k = userId)"

text \<open>Browser and delegated credentials die in the transaction of the account change.\<close>

definition revokeUserCredentials :: "auth_env \<Rightarrow> uuid \<Rightarrow> string option \<Rightarrow> unit step" where
  "revokeUserCredentials A userId keepSessionHash =
     bind (put_db (revokeOthersForUser userId keepSessionHash)) (\<lambda>_.
     bind (put_db (revokeCodesForUser userId)) (\<lambda>_.
     bind (now (ae_env A)) (\<lambda>t. bind (put_db (revokeAccessForUser userId t)) (\<lambda>_.
     bind (now (ae_env A)) (\<lambda>t'. put_db (revokeRefreshForUser userId t'))))))"

end
