(* ===== verification/Accounts.thy ===== *)
theory Accounts
  imports Credentials
begin

text \<open>
  The services around accounts: \<open>AuthService\<close> and \<open>SetupService\<close>
  (\<open>packages/server/src/auth\<close>), \<open>UserAdminService\<close> (\<open>users/user-admin-service.ts\<close>),
  \<open>ServiceTokenService\<close> (\<open>tokens/service-token-service.ts\<close>) and the bearer gate of \<open>/mcp\<close>
  (\<open>mcp/mcp-auth.ts\<close>).

  Attempts for one account are queued by the code, so an attempt is one step here.  The
  write that slides a session is not awaited by the code; the model makes it before the
  method returns.
\<close>

section \<open>Sessions and passwords\<close>

definition SESSION_IDLE_MS :: int where "SESSION_IDLE_MS = 7 * 86400000"
definition SESSION_ABSOLUTE_MS :: int where "SESSION_ABSOLUTE_MS = 30 * 86400000"
definition SESSION_TOUCH_THROTTLE_MS :: int where "SESSION_TOUCH_THROTTLE_MS = 5 * 60000"

definition foldedExpiry :: "instant \<Rightarrow> instant \<Rightarrow> instant" where
  "foldedExpiry createdAt t = min (t + SESSION_IDLE_MS) (createdAt + SESSION_ABSOLUTE_MS)"

text \<open>The raw session id and the row.\<close>

definition mintSession :: "auth_env \<Rightarrow> uuid \<Rightarrow> instant \<Rightarrow> (string \<times> session) step" where
  "mintSession A userId t = bind (draw A) (\<lambda>raw. return (raw,
     \<lparr>se_id = ae_sha256 A raw, se_userId = userId, se_createdAt = t, se_expiresAt = foldedExpiry t t,
      se_lastSeenAt = t\<rparr>))"

text \<open>\<open>if (waitMs > 0) throw new BackoffActiveError(Math.ceil(waitMs / 1000))\<close>\<close>

definition backoff_gate :: "auth_env \<Rightarrow> string \<Rightarrow> unit step" where
  "backoff_gate A email = bind (retryAfterMs A email) (\<lambda>waitMs.
     guard (waitMs \<le> 0) (ServerError (BackoffActiveError (nat ((waitMs + 999) div 1000)))))"

definition open_session :: "auth_env \<Rightarrow> account \<Rightarrow> session \<Rightarrow> user step" where
  "open_session A credentials s = uow_run (
     bind (ask (\<lambda>d. Inr (findAccount (u_id (acc_user credentials)) d))) (\<lambda>current.
     bind (guard (case current of None \<Rightarrow> False | Some c \<Rightarrow> u_isActive (acc_user c)
         \<and> acc_passwordHash c = acc_passwordHash credentials) (ServerError InvalidCredentialsError)) (\<lambda>_.
     bind (store (createSession s)) (\<lambda>_. return (acc_user (the current))))))"

definition login :: "auth_env \<Rightarrow> string \<Rightarrow> string \<Rightarrow> (user \<times> string) step" where
  "login A email password =
     bind (backoff_gate A email) (\<lambda>_.
     bind (uow_read (\<lambda>d. Inr (findAccountByEmail email d))) (\<lambda>found. case found of
        None \<Rightarrow> bind (recordFailure A email) (\<lambda>_. throw (ServerError InvalidCredentialsError))
      | Some credentials \<Rightarrow>
          if \<not> ae_verify A (acc_passwordHash credentials) password
             \<or> \<not> u_isActive (acc_user credentials)
          then bind (recordFailure A email) (\<lambda>_. throw (ServerError InvalidCredentialsError))
          else bind (reset_backoff email) (\<lambda>_.
            bind (now (ae_env A)) (\<lambda>t.
            bind (mintSession A (u_id (acc_user credentials)) t) (\<lambda>minted.
            bind (open_session A credentials (snd minted)) (\<lambda>user.
            return (user, fst minted)))))))"

definition live_session :: "string \<Rightarrow> instant \<Rightarrow> db \<Rightarrow> (session \<times> user) option" where
  "live_session idHash t d = (case findSession idHash d of
      None \<Rightarrow> None
    | Some s \<Rightarrow> if se_expiresAt s \<le> t then None
        else map_option (Pair s) (findUser (se_userId s) d))"

definition authenticate :: "auth_env \<Rightarrow> string \<Rightarrow> user option step" where
  "authenticate A rawSessionId = (let idHash = ae_sha256 A rawSessionId in
     bind (now (ae_env A)) (\<lambda>t.
     bind (uow_read (\<lambda>d. Inr (live_session idHash t d))) (\<lambda>resolved. case resolved of
        None \<Rightarrow> return None
      | Some (s, user) \<Rightarrow>
          if \<not> u_isActive user
          then bind (uow_run (put_db (revokeSession idHash))) (\<lambda>_. return None)
          else if t - se_lastSeenAt s \<ge> SESSION_TOUCH_THROTTLE_MS
          then bind (uow_run (put_db (touchSession idHash t (foldedExpiry (se_createdAt s) t))))
            (\<lambda>_. return (Some user))
          else return (Some user))))"

definition logout :: "auth_env \<Rightarrow> string \<Rightarrow> unit step" where
  "logout A rawSessionId = uow_run (put_db (revokeSession (ae_sha256 A rawSessionId)))"

definition password_tx ::
  "auth_env \<Rightarrow> uuid \<Rightarrow> account \<Rightarrow> string \<Rightarrow> string \<Rightarrow> unit step" where
  "password_tx A userId credentials keepHash newHash =
     bind (ask (\<lambda>d. Inr (findAccount userId d))) (\<lambda>current.
     bind (ask (\<lambda>d. Inr (findSession keepHash d))) (\<lambda>s.
     bind (guard (case current of None \<Rightarrow> False | Some c \<Rightarrow> u_isActive (acc_user c)
         \<and> acc_passwordHash c = acc_passwordHash credentials) (ServerError CurrentPasswordMismatchError)) (\<lambda>_.
     bind (guard (case s of None \<Rightarrow> False | Some x \<Rightarrow> se_userId x = userId)
         (ServerError CurrentPasswordMismatchError)) (\<lambda>_.
     bind (now (ae_env A)) (\<lambda>t.
     bind (guard (t < se_expiresAt (the s)) (ServerError CurrentPasswordMismatchError)) (\<lambda>_.
     bind (store (setPassword userId newHash False)) (\<lambda>_.
     revokeUserCredentials A userId (Some keepHash))))))))"

definition changePassword ::
  "auth_env \<Rightarrow> uuid \<Rightarrow> string \<Rightarrow> string \<Rightarrow> string \<Rightarrow> unit step" where
  "changePassword A userId rawSessionId currentPassword newPassword =
     bind (uow_read (\<lambda>d. of_option (ServerError CurrentPasswordMismatchError) (findAccount userId d)))
       (\<lambda>credentials. let email = u_email (acc_user credentials) in
     bind (backoff_gate A email) (\<lambda>_.
     bind (if ae_verify A (acc_passwordHash credentials) currentPassword then return ()
       else bind (recordFailure A email) (\<lambda>_. throw (ServerError CurrentPasswordMismatchError))) (\<lambda>_.
     bind (reset_backoff email) (\<lambda>_.
     bind (guard (passwordPolicyViolation A newPassword = None)
       (ServerError (PasswordPolicyError (the (passwordPolicyViolation A newPassword))))) (\<lambda>_.
     bind (draw A) (\<lambda>salt.
     uow_run (password_tx A userId credentials (ae_sha256 A rawSessionId)
       (ae_hash A salt newPassword))))))))"

definition updateProfile :: "auth_env \<Rightarrow> uuid \<Rightarrow> string \<Rightarrow> theme \<Rightarrow> user step" where
  "updateProfile A userId timezone thm' =
     bind (lift (sguard (ae_timezone A timezone) (ZodError ''timezone''))) (\<lambda>_.
     uow_run (
       bind (ask (\<lambda>d. requireFound (findUser userId d) ''user'')) (\<lambda>found.
       let updated = found\<lparr>u_timezone := timezone, u_theme := thm'\<rparr> in
       bind (store (updateAccount updated)) (\<lambda>_. return updated))))"

definition deleteExpiredSessions :: "auth_env \<Rightarrow> nat step" where
  "deleteExpiredSessions A = bind (now (ae_env A)) (\<lambda>t. uow_run (
     bind (ask (\<lambda>d. Inr (length (filter (\<lambda>s. se_expiresAt s \<le> t) (t_sessions d))))) (\<lambda>n.
     bind (put_db (deleteExpired t)) (\<lambda>_. return n))))"

section \<open>First-boot setup\<close>

definition DEFAULT_TIMEZONE :: string where "DEFAULT_TIMEZONE = ''America/Los_Angeles''"
definition DEFAULT_THEME :: theme where "DEFAULT_THEME = SystemTheme"

record setup_admin_input =
  su_email :: string
  su_displayName :: string
  su_password :: string
  su_timezone :: "string option"
  su_theme :: "theme option"

definition emailSchema :: "auth_env \<Rightarrow> string \<Rightarrow> unit read" where
  "emailSchema A email = sguard (ae_email A email \<and> length email \<le> 254) (ZodError ''email'')"

definition parse_setup_admin :: "auth_env \<Rightarrow> setup_admin_input \<Rightarrow> setup_admin_input read" where
  "parse_setup_admin A raw =
     sbind (emailSchema A (su_email raw)) (\<lambda>_.
     sbind (trimmed 1 100 ''displayName'' (su_displayName raw)) (\<lambda>name.
     sbind (sguard (1 \<le> length (su_password raw) \<and> length (su_password raw) \<le> 1024)
       (ZodError ''password'')) (\<lambda>_.
     sbind (sguard (case su_timezone raw of None \<Rightarrow> True | Some z \<Rightarrow> ae_timezone A z)
       (ZodError ''timezone'')) (\<lambda>_.
     Inr (raw\<lparr>su_displayName := name\<rparr>)))))"

definition isRequired :: "auth_env \<Rightarrow> bool step" where
  "isRequired A = uow_read (\<lambda>d. Inr (countHumanUsers (e_systemUserId (ae_env A)) d = 0))"

definition first_admin :: "setup_admin_input \<Rightarrow> uuid \<Rightarrow> instant \<Rightarrow> user" where
  "first_admin inp i t = \<lparr>u_id = i, u_email = to_lower (su_email inp),
     u_displayName = su_displayName inp, u_role = ''admin'', u_mustChangePassword = False,
     u_slackUserId = None, u_isActive = True,
     u_timezone = default_to DEFAULT_TIMEZONE (su_timezone inp),
     u_theme = default_to DEFAULT_THEME (su_theme inp), u_createdAt = t\<rparr>"

definition setup_tx :: "auth_env \<Rightarrow> user \<Rightarrow> string \<Rightarrow> session \<Rightarrow> unit step" where
  "setup_tx A user passwordHash s =
     bind (ask (\<lambda>d. sguard (countHumanUsers (e_systemUserId (ae_env A)) d = 0)
       (ServerError SetupAlreadyCompleteError))) (\<lambda>_.
     bind (store (insertAccount user passwordHash)) (\<lambda>_.
     store (createSession s)))"

definition createFirstAdmin :: "auth_env \<Rightarrow> setup_admin_input \<Rightarrow> (user \<times> string) step" where
  "createFirstAdmin A raw =
     bind (lift (parse_setup_admin A raw)) (\<lambda>inp.
     bind (guard (passwordPolicyViolation A (su_password inp) = None)
       (ServerError (PasswordPolicyError (the (passwordPolicyViolation A (su_password inp)))))) (\<lambda>_.
     bind (draw A) (\<lambda>salt.
     bind (now (ae_env A)) (\<lambda>t.
     bind (newId (ae_env A)) (\<lambda>i.
     bind (mintSession A i t) (\<lambda>minted.
     let user = first_admin inp i t in
     bind (uow_run (setup_tx A user (ae_hash A salt (su_password inp)) (snd minted))) (\<lambda>_.
     return (user, fst minted))))))))"

section \<open>User administration\<close>

definition roleExists :: "policy_document \<Rightarrow> role_key \<Rightarrow> bool" where
  "roleExists policy roleKey \<longleftrightarrow> (\<exists>r \<in> set (p_roles policy). r_key r = roleKey)"

definition manageUsersRoleKeys :: "policy_document \<Rightarrow> role_key list" where
  "manageUsersRoleKeys policy =
     map r_key (filter (\<lambda>r. PermManageUsers \<in> set (r_permissions r)) (p_roles policy))"

definition roleSchema :: "role_key \<Rightarrow> unit read" where
  "roleSchema r = sguard (1 \<le> length r \<and> length r \<le> 40) (ZodError ''role'')"

text \<open>The gate of the admin services: the policy of the board, with the global roles.\<close>

definition admin_policy :: "auth_env \<Rightarrow> actor \<Rightarrow> permission \<Rightarrow> db \<Rightarrow> policy_document read" where
  "admin_policy A actor perm d =
     sbind (activePolicy (e_boardId (ae_env A)) d) (\<lambda>policy.
     sbind (ensurePermission actor perm policy) (\<lambda>_. Inr policy))"

record create_user_input =
  nu_email :: string
  nu_displayName :: string
  nu_role :: role_key

definition parse_create_user :: "auth_env \<Rightarrow> create_user_input \<Rightarrow> create_user_input read" where
  "parse_create_user A raw =
     sbind (emailSchema A (nu_email raw)) (\<lambda>_.
     sbind (trimmed 1 100 ''displayName'' (nu_displayName raw)) (\<lambda>name.
     sbind (roleSchema (nu_role raw)) (\<lambda>_. Inr (raw\<lparr>nu_displayName := name\<rparr>))))"

definition listActive :: "auth_env \<Rightarrow> user list step" where
  "listActive A = uow_read (\<lambda>d. Inr (filter (\<lambda>u. u_isActive u \<and> u_id u \<noteq> e_systemUserId (ae_env A))
     (listUsers d)))"

definition new_user :: "create_user_input \<Rightarrow> uuid \<Rightarrow> instant \<Rightarrow> user" where
  "new_user inp i t = \<lparr>u_id = i, u_email = to_lower (nu_email inp), u_displayName = nu_displayName inp,
     u_role = nu_role inp, u_mustChangePassword = True, u_slackUserId = None, u_isActive = True,
     u_timezone = DEFAULT_TIMEZONE, u_theme = DEFAULT_THEME, u_createdAt = t\<rparr>"

definition known_role :: "policy_document \<Rightarrow> role_key option \<Rightarrow> unit read" where
  "known_role policy r = sguard (case r of None \<Rightarrow> True | Some k \<Rightarrow> roleExists policy k)
     (ServerError (RequestValidationError ''role'' ''unknown role''))"

definition create_user :: "auth_env \<Rightarrow> actor \<Rightarrow> create_user_input \<Rightarrow> (user \<times> string) step" where
  "create_user A actor raw =
     bind (lift (parse_create_user A raw)) (\<lambda>inp.
     bind (draw A) (\<lambda>tempPassword.
     bind (draw A) (\<lambda>salt.
     bind (newId (ae_env A)) (\<lambda>i.
     bind (now (ae_env A)) (\<lambda>t.
     let user = new_user inp i t in
     bind (uow_run (
       bind (ask (admin_policy A actor PermManageUsers)) (\<lambda>policy.
       bind (lift (known_role policy (Some (nu_role inp)))) (\<lambda>_.
       store (insertAccount user (ae_hash A salt tempPassword)))))) (\<lambda>_.
     bind (publish UserUpdated) (\<lambda>_. return (user, tempPassword))))))))"

record update_user_input =
  uu_displayName :: "string option"
  uu_role :: "role_key option"
  uu_isActive :: "bool option"
  uu_resetPassword :: bool

definition parse_update_user :: "update_user_input \<Rightarrow> update_user_input read" where
  "parse_update_user raw =
     sbind (optional (trimmed 1 100 ''displayName'') (uu_displayName raw)) (\<lambda>name.
     sbind (case uu_role raw of None \<Rightarrow> Inr () | Some r \<Rightarrow> roleSchema r) (\<lambda>_.
     sbind (sguard (uu_displayName raw \<noteq> None \<or> uu_role raw \<noteq> None \<or> uu_isActive raw \<noteq> None
         \<or> uu_resetPassword raw) (ZodError ''no fields to update'')) (\<lambda>_.
     Inr (raw\<lparr>uu_displayName := name\<rparr>))))"

text \<open>The last account that can manage users is protected.\<close>

definition other_active_admins :: "auth_env \<Rightarrow> role_key list \<Rightarrow> user \<Rightarrow> db \<Rightarrow> user list" where
  "other_active_admins A adminRoles found d = filter (\<lambda>u. u_role u \<in> set adminRoles \<and> u_isActive u
     \<and> u_id u \<noteq> u_id found \<and> u_id u \<noteq> e_systemUserId (ae_env A)) (listUsers d)"

definition update_user_plan ::
  "auth_env \<Rightarrow> actor \<Rightarrow> uuid \<Rightarrow> update_user_input \<Rightarrow> db \<Rightarrow> user read" where
  "update_user_plan A actor userId inp d =
     sbind (admin_policy A actor PermManageUsers d) (\<lambda>policy.
     sbind (known_role policy (uu_role inp)) (\<lambda>_.
     sbind (requireFound (findUser userId d) ''user'') (\<lambda>found.
     let adminRoles = manageUsersRoleKeys policy;
         demotesAdmin = (case uu_role inp of None \<Rightarrow> False | Some r \<Rightarrow> r \<notin> set adminRoles);
         deactivates = (uu_isActive inp = Some False) in
     sbind (sguard (\<not> (u_role found \<in> set adminRoles \<and> u_isActive found
         \<and> (demotesAdmin \<or> deactivates) \<and> other_active_admins A adminRoles found d = []))
       (ServerError LastActiveAdminError)) (\<lambda>_. Inr found))))"

definition updated_user :: "update_user_input \<Rightarrow> user \<Rightarrow> user" where
  "updated_user inp found = found\<lparr>
     u_displayName := default_to (u_displayName found) (uu_displayName inp),
     u_role := default_to (u_role found) (uu_role inp),
     u_isActive := default_to (u_isActive found) (uu_isActive inp),
     u_mustChangePassword := (if uu_resetPassword inp then True else u_mustChangePassword found)\<rparr>"

definition update_user_tx ::
  "auth_env \<Rightarrow> actor \<Rightarrow> uuid \<Rightarrow> update_user_input \<Rightarrow> string \<Rightarrow> user step" where
  "update_user_tx A actor userId inp passwordHash =
     bind (ask (update_user_plan A actor userId inp)) (\<lambda>found.
     let updated = updated_user inp found in
     bind (store (updateAccount updated)) (\<lambda>_.
     bind (if uu_resetPassword inp then store (setPassword userId passwordHash True) else return ()) (\<lambda>_.
     bind (if u_role updated \<noteq> u_role found \<or> u_isActive found \<and> \<not> u_isActive updated
           \<or> uu_resetPassword inp
         then revokeUserCredentials A userId None else return ()) (\<lambda>_.
     return updated))))"

definition update_user ::
  "auth_env \<Rightarrow> actor \<Rightarrow> uuid \<Rightarrow> update_user_input \<Rightarrow> (user \<times> string option) step" where
  "update_user A actor userId raw =
     bind (lift (parse_update_user raw)) (\<lambda>inp.
     bind (if uu_resetPassword inp then bind (draw A) (\<lambda>temp. bind (draw A) (\<lambda>salt.
         return (Some temp, ae_hash A salt temp))) else return (None, [])) (\<lambda>temp.
     bind (uow_run (update_user_tx A actor userId inp (snd temp))) (\<lambda>user.
     bind (publish UserUpdated) (\<lambda>_. return (user, fst temp)))))"

section \<open>Service tokens\<close>

record create_token_input =
  nt_name :: string
  nt_role :: role_key
  nt_scope :: token_scope

definition parse_create_token :: "create_token_input \<Rightarrow> create_token_input read" where
  "parse_create_token raw =
     sbind (trimmed 1 100 ''name'' (nt_name raw)) (\<lambda>name.
     sbind (roleSchema (nt_role raw)) (\<lambda>_. Inr (raw\<lparr>nt_name := name\<rparr>)))"

definition mintRawToken :: "auth_env \<Rightarrow> (string \<times> string) step" where
  "mintRawToken A = mintSecret A ''rkb_''"

definition create_token ::
  "auth_env \<Rightarrow> actor \<Rightarrow> create_token_input \<Rightarrow> (service_token \<times> string) step" where
  "create_token A actor raw =
     bind (lift (parse_create_token raw)) (\<lambda>inp.
     bind (mintRawToken A) (\<lambda>(rawToken, tokenHash).
     bind (newId (ae_env A)) (\<lambda>i.
     bind (now (ae_env A)) (\<lambda>t.
     let token = \<lparr>st_id = i, st_name = nt_name inp, st_tokenHash = tokenHash, st_role = nt_role inp,
       st_scope = nt_scope inp, st_createdBy = a_id actor, st_createdAt = t, st_lastUsedAt = None,
       st_revokedAt = None\<rparr> in
     bind (uow_run (
       bind (ask (admin_policy A actor PermManageTokens)) (\<lambda>policy.
       bind (lift (known_role policy (Some (nt_role inp)))) (\<lambda>_.
       store (insertToken token))))) (\<lambda>_.
     return (token, rawToken))))))"

definition swap_hash :: "uuid \<Rightarrow> string \<Rightarrow> service_token step" where
  "swap_hash i h w = (case rotateHash i h (w_db w) of
      Inl e \<Rightarrow> (Inl e, w)
    | Inr (k, d) \<Rightarrow> (Inr k, w\<lparr>w_db := d\<rparr>))"

definition rotate_token :: "auth_env \<Rightarrow> actor \<Rightarrow> uuid \<Rightarrow> (service_token \<times> string) step" where
  "rotate_token A actor tokenId =
     bind (mintRawToken A) (\<lambda>(rawToken, tokenHash).
     bind (uow_run (bind (ask (admin_policy A actor PermManageTokens)) (\<lambda>_.
       swap_hash tokenId tokenHash))) (\<lambda>token.
     return (token, rawToken)))"

definition list_tokens :: "auth_env \<Rightarrow> actor \<Rightarrow> service_token list step" where
  "list_tokens A actor = uow_run (
     bind (ask (admin_policy A actor PermManageTokens)) (\<lambda>_. ask (\<lambda>d. Inr (listTokens d))))"

definition revoke_token :: "auth_env \<Rightarrow> actor \<Rightarrow> uuid \<Rightarrow> unit step" where
  "revoke_token A actor tokenId = bind (now (ae_env A)) (\<lambda>t. uow_run (
     bind (ask (admin_policy A actor PermManageTokens)) (\<lambda>_. store (revokeToken tokenId t))))"

section \<open>The bearer gate\<close>

definition LAST_USED_THROTTLE_MS :: int where "LAST_USED_THROTTLE_MS = 60000"

text \<open>The token of a header that matches \<open>/^Bearer +(\S+)$/i\<close>.\<close>

definition bearer_token :: "string \<Rightarrow> string option" where
  "bearer_token h = (let rest = drop 6 h; tok = dropWhile (\<lambda>c. c = CHR '' '') rest in
     if to_lower (take 6 h) = ''bearer'' \<and> rest \<noteq> [] \<and> hd rest = CHR '' '' \<and> tok \<noteq> []
        \<and> (\<forall>c \<in> set tok. \<not> is_space c)
     then Some tok else None)"

definition throttleElapsed :: "instant option \<Rightarrow> instant \<Rightarrow> bool" where
  "throttleElapsed lastUsedAt t \<longleftrightarrow>
     (case lastUsedAt of None \<Rightarrow> True | Some u \<Rightarrow> t - u \<ge> LAST_USED_THROTTLE_MS)"

definition reject :: error where
  "reject = ServerError (BearerAuthRequiredError True)"

definition authenticateServiceToken :: "auth_env \<Rightarrow> string \<Rightarrow> actor step" where
  "authenticateServiceToken A rawToken =
     bind (uow_read (\<lambda>d. Inr (findTokenByHash (ae_sha256 A rawToken) d))) (\<lambda>token. case token of
        None \<Rightarrow> throw reject
      | Some k \<Rightarrow> if st_revokedAt k \<noteq> None then throw reject
          else bind (now (ae_env A)) (\<lambda>t.
            bind (if throttleElapsed (st_lastUsedAt k) t
              then uow_run (store (updateTokenLastUsed (st_id k) t)) else return ()) (\<lambda>_.
            return \<lparr>a_kind = KMcp, a_id = st_id k, a_role = st_role k, a_scope = Some (st_scope k),
              a_client = None\<rparr>)))"

definition authenticateAccessToken :: "auth_env \<Rightarrow> string \<Rightarrow> actor step" where
  "authenticateAccessToken A rawToken =
     bind (now (ae_env A)) (\<lambda>t.
     bind (uow_read (\<lambda>d. Inr (case findAccessByHash (ae_sha256 A rawToken) d of
         None \<Rightarrow> None
       | Some k \<Rightarrow> Some (k, findUser (ot_userId k) d, findClient (ot_clientId k) d)))) (\<lambda>found.
     case found of
       Some (token, Some user, client) \<Rightarrow>
         if \<not> u_isActive user \<or> u_mustChangePassword user then throw reject
         else if ot_revokedAt token \<noteq> None \<or> ot_expiresAt token \<le> t
           \<or> canonicalizeResource A (ot_resource token) \<noteq> ae_canonicalMcpUri A
         then throw reject
         else bind (if throttleElapsed (ot_lastUsedAt token) t
             then uow_run (put_db (updateAccessLastUsed (ot_id token) t)) else return ()) (\<lambda>_.
           return \<lparr>a_kind = KAgent, a_id = ot_userId token, a_role = u_role user,
             a_scope = Some (ot_scope token),
             a_client = Some (ot_clientId token, case client of None \<Rightarrow> ae_idText A (ot_clientId token) | Some c \<Rightarrow> oc_name c)\<rparr>)
     | _ \<Rightarrow> throw reject))"

definition authenticateBearer :: "auth_env \<Rightarrow> string \<Rightarrow> actor step" where
  "authenticateBearer A authorization = (case bearer_token authorization of
      None \<Rightarrow> throw (ServerError (BearerAuthRequiredError False))
    | Some rawToken \<Rightarrow> if take 4 rawToken = ACCESS_TOKEN_PREFIX
        then authenticateAccessToken A rawToken else authenticateServiceToken A rawToken)"

end
