(* ===== verification/OAuth.thy ===== *)
theory OAuth
  imports Accounts
begin

text \<open>
  The OAuth 2.1 authorization server (\<open>packages/server/src/oauth\<close>): registration of clients,
  authorization codes with PKCE, and the token endpoint with rotating refresh tokens.

  A grant that is refused reports the refusal as a value of its transaction, so that the
  consumed code or the revoked family stays written; the throw follows the commit.
\<close>

section \<open>Registration\<close>

record register_client_request =
  rc_redirect_uris :: "string list"
  rc_client_name :: "string option"

definition parse_register_client :: "register_client_request \<Rightarrow> register_client_request read" where
  "parse_register_client raw =
     sbind (sguard (1 \<le> length (rc_redirect_uris raw) \<and> length (rc_redirect_uris raw) \<le> 8
        \<and> (\<forall>u \<in> set (rc_redirect_uris raw). 1 \<le> length u \<and> length u \<le> 2048)) (ZodError ''redirect_uris'')) (\<lambda>_.
     sbind (sguard (case rc_client_name raw of None \<Rightarrow> True | Some n \<Rightarrow> 1 \<le> length n \<and> length n \<le> 255)
        (ZodError ''client_name'')) (\<lambda>_. Inr raw))"

definition register :: "auth_env \<Rightarrow> register_client_request \<Rightarrow> oauth_client step" where
  "register A raw =
     bind (lift (parse_register_client raw)) (\<lambda>inp.
     bind (guard (\<forall>u \<in> set (rc_redirect_uris inp). isRegistrableRedirectUri A u)
       (OAuthError InvalidRedirectUri)) (\<lambda>_.
     bind (newId (ae_env A)) (\<lambda>i.
     bind (now (ae_env A)) (\<lambda>t.
     let client = \<lparr>oc_id = i, oc_name = default_to ''OAuth client'' (rc_client_name inp),
       oc_redirectUris = rc_redirect_uris inp, oc_createdAt = t\<rparr> in
     bind (uow_run (store (insertClient client))) (\<lambda>_. return client)))))"

section \<open>Authorization\<close>

record authorize_request =
  az_clientId :: uuid
  az_redirectUri :: string
  az_resource :: string
  az_scope :: token_scope
  az_codeChallenge :: string
  az_codeChallengeMethod :: string

definition parse_authorize :: "authorize_request \<Rightarrow> authorize_request read" where
  "parse_authorize raw =
     sbind (sguard (az_redirectUri raw \<noteq> []) (ZodError ''redirectUri'')) (\<lambda>_.
     sbind (sguard (az_resource raw \<noteq> []) (ZodError ''resource'')) (\<lambda>_.
     sbind (sguard (az_codeChallenge raw \<noteq> []) (ZodError ''codeChallenge'')) (\<lambda>_.
     sbind (sguard (az_codeChallengeMethod raw = ''S256'') (ZodError ''codeChallengeMethod'')) (\<lambda>_.
     Inr raw))))"

text \<open>An account that may hold delegated credentials.\<close>

definition usable :: "account option \<Rightarrow> bool" where
  "usable a \<longleftrightarrow> (case a of None \<Rightarrow> False
     | Some c \<Rightarrow> u_isActive (acc_user c) \<and> \<not> u_mustChangePassword (acc_user c))"

definition authorize_plan :: "auth_env \<Rightarrow> uuid \<Rightarrow> authorize_request \<Rightarrow> db \<Rightarrow> unit read" where
  "authorize_plan A userId inp d =
     sbind (sguard (usable (findAccount userId d)) (OAuthError AccessDenied)) (\<lambda>_.
     sbind (of_option (OAuthError InvalidClient) (findClient (az_clientId inp) d)) (\<lambda>client.
     sguard (findMatchingRedirectUri A (oc_redirectUris client) (az_redirectUri inp) \<noteq> None)
       (OAuthError InvalidRedirectUri)))"

definition authorize :: "auth_env \<Rightarrow> uuid \<Rightarrow> authorize_request \<Rightarrow> string step" where
  "authorize A userId raw =
     bind (lift (parse_authorize raw)) (\<lambda>inp.
     bind (lift (assertS256 (az_codeChallengeMethod inp))) (\<lambda>_.
     let resource = canonicalizeResource A (az_resource inp) in
     bind (guard (resource = ae_canonicalMcpUri A) (OAuthError InvalidRequest)) (\<lambda>_.
     bind (mintSecret A []) (\<lambda>(code, codeHash).
     bind (now (ae_env A)) (\<lambda>t.
     let row = \<lparr>co_codeHash = codeHash, co_clientId = az_clientId inp, co_userId = userId,
       co_redirectUri = az_redirectUri inp, co_resource = resource, co_scope = az_scope inp,
       co_codeChallenge = az_codeChallenge inp, co_expiresAt = t + ae_authCodeTtlMs A\<rparr> in
     bind (uow_run (bind (ask (authorize_plan A userId inp)) (\<lambda>_. store (insertCode row)))) (\<lambda>_.
     return code))))))"

section \<open>The token endpoint\<close>

record code_grant =
  cg_code :: string
  cg_codeVerifier :: string
  cg_clientId :: uuid
  cg_redirectUri :: string

record refresh_grant =
  rg_refreshToken :: string
  rg_clientId :: uuid

record token_response =
  tr_accessToken :: string
  tr_refreshToken :: string
  tr_expiresIn :: int
  tr_scope :: token_scope

record issue_args =
  ia_userId :: uuid
  ia_clientId :: uuid
  ia_scope :: token_scope
  ia_resource :: string
  ia_familyId :: uuid
  ia_now :: instant

definition issued_access ::
  "auth_env \<Rightarrow> issue_args \<Rightarrow> uuid \<Rightarrow> string \<Rightarrow> access_token" where
  "issued_access A g i h = \<lparr>ot_id = i, ot_tokenHash = h, ot_userId = ia_userId g,
     ot_clientId = ia_clientId g, ot_scope = ia_scope g, ot_resource = ia_resource g,
     ot_expiresAt = ia_now g + ae_accessTokenTtlMs A, ot_revokedAt = None, ot_lastUsedAt = None,
     ot_createdAt = ia_now g\<rparr>"

definition issued_refresh ::
  "auth_env \<Rightarrow> issue_args \<Rightarrow> uuid \<Rightarrow> string \<Rightarrow> refresh_token" where
  "issued_refresh A g i h = \<lparr>rt_id = i, rt_tokenHash = h, rt_familyId = ia_familyId g,
     rt_userId = ia_userId g, rt_clientId = ia_clientId g, rt_scope = ia_scope g,
     rt_resource = ia_resource g, rt_expiresAt = ia_now g + ae_refreshTokenTtlMs A,
     rt_usedAt = None, rt_revokedAt = None, rt_createdAt = ia_now g\<rparr>"

definition issue :: "auth_env \<Rightarrow> issue_args \<Rightarrow> token_response step" where
  "issue A g =
     bind (ask (\<lambda>d. sguard (usable (findAccount (ia_userId g) d)) (OAuthError InvalidGrant))) (\<lambda>_.
     bind (mintSecret A ACCESS_TOKEN_PREFIX) (\<lambda>(accessRaw, accessHash).
     bind (mintSecret A REFRESH_TOKEN_PREFIX) (\<lambda>(refreshRaw, refreshHash).
     bind (newId (ae_env A)) (\<lambda>i.
     bind (newId (ae_env A)) (\<lambda>j.
     bind (store (insertAccess (issued_access A g i accessHash))) (\<lambda>_.
     bind (store (insertRefresh (issued_refresh A g j refreshHash))) (\<lambda>_.
     return \<lparr>tr_accessToken = accessRaw, tr_refreshToken = refreshRaw,
       tr_expiresIn = ae_accessTokenTtlMs A div 1000, tr_scope = ia_scope g\<rparr>)))))))"

text \<open>\<open>catch (error) { if (error instanceof OAuthError) return error; throw error }\<close>: the error
  becomes a value of the transaction.\<close>

definition oauth_value :: "'a step \<Rightarrow> (oauth_error_code + 'a) step" where
  "oauth_value m w = (case m w of
      (Inl (OAuthError e), w') \<Rightarrow> (Inr (Inl e), w')
    | (Inl e, w') \<Rightarrow> (Inl e, w')
    | (Inr a, w') \<Rightarrow> (Inr (Inr a), w'))"

text \<open>\<open>if (result instanceof OAuthError) throw result\<close>, after the commit.\<close>

definition thrown_after :: "(oauth_error_code + 'a) step \<Rightarrow> 'a step" where
  "thrown_after m = bind m (\<lambda>r. case r of Inl e \<Rightarrow> throw (OAuthError e) | Inr a \<Rightarrow> return a)"

text \<open>The checks of a consumed code.\<close>

definition code_fits :: "auth_env \<Rightarrow> code_grant \<Rightarrow> instant \<Rightarrow> oauth_code \<Rightarrow> bool" where
  "code_fits A g t c \<longleftrightarrow> \<not> co_expiresAt c \<le> t \<and> co_clientId c = cg_clientId g
     \<and> co_redirectUri c = cg_redirectUri g \<and> verifyPkce A (cg_codeVerifier g) (co_codeChallenge c)"

definition code_args :: "oauth_code \<Rightarrow> uuid \<Rightarrow> instant \<Rightarrow> issue_args" where
  "code_args c family t = \<lparr>ia_userId = co_userId c, ia_clientId = co_clientId c,
     ia_scope = co_scope c, ia_resource = co_resource c, ia_familyId = family, ia_now = t\<rparr>"

definition code_tx ::
  "auth_env \<Rightarrow> code_grant \<Rightarrow> instant \<Rightarrow> (oauth_error_code + token_response) step" where
  "code_tx A g t =
     bind (consumeCode (ae_sha256 A (cg_code g))) (\<lambda>code. case code of
        None \<Rightarrow> return (Inl InvalidGrant)
      | Some c \<Rightarrow> if \<not> code_fits A g t c then return (Inl InvalidGrant)
          else bind (newId (ae_env A)) (\<lambda>family. oauth_value (issue A (code_args c family t))))"

definition parse_code_grant :: "code_grant \<Rightarrow> code_grant read" where
  "parse_code_grant g =
     sbind (sguard (cg_code g \<noteq> []) (ZodError ''code'')) (\<lambda>_.
     sbind (sguard (cg_codeVerifier g \<noteq> []) (ZodError ''codeVerifier'')) (\<lambda>_.
     sbind (sguard (cg_redirectUri g \<noteq> []) (ZodError ''redirectUri'')) (\<lambda>_. Inr g)))"

definition authorizationCodeGrant :: "auth_env \<Rightarrow> code_grant \<Rightarrow> token_response step" where
  "authorizationCodeGrant A raw =
     bind (lift (parse_code_grant raw)) (\<lambda>g.
     bind (now (ae_env A)) (\<lambda>t.
     thrown_after (uow_run (code_tx A g t))))"

definition refresh_args :: "auth_env \<Rightarrow> refresh_token \<Rightarrow> instant \<Rightarrow> issue_args" where
  "refresh_args A row t = \<lparr>ia_userId = rt_userId row, ia_clientId = rt_clientId row,
     ia_scope = rt_scope row, ia_resource = canonicalizeResource A (rt_resource row),
     ia_familyId = rt_familyId row, ia_now = t\<rparr>"

definition refresh_plan :: "auth_env \<Rightarrow> refresh_grant \<Rightarrow> instant \<Rightarrow> db \<Rightarrow> refresh_token read" where
  "refresh_plan A g t d =
     sbind (of_option (OAuthError InvalidGrant) (findRefreshByHash (ae_sha256 A (rg_refreshToken g)) d)) (\<lambda>row.
     sbind (sguard (\<not> (rt_revokedAt row \<noteq> None \<or> rt_expiresAt row \<le> t)) (OAuthError InvalidGrant)) (\<lambda>_.
     sbind (sguard (rt_clientId row = rg_clientId g) (OAuthError InvalidGrant)) (\<lambda>_. Inr row)))"

text \<open>\<open>Inl InvalidGrant\<close> is the value \<open>{ reuse: true }\<close>.\<close>

definition refresh_tx ::
  "auth_env \<Rightarrow> refresh_grant \<Rightarrow> instant \<Rightarrow> (oauth_error_code + token_response) step" where
  "refresh_tx A g t =
     bind (ask (refresh_plan A g t)) (\<lambda>row.
     bind (now (ae_env A)) (\<lambda>u.
     bind (markUsed (rt_id row) u) (\<lambda>claimed.
       if \<not> claimed
       then bind (now (ae_env A)) (\<lambda>u1. bind (put_db (revokeFamily (rt_familyId row) u1)) (\<lambda>_.
         bind (now (ae_env A)) (\<lambda>u2. bind (put_db (revokeAccessForUser (rt_userId row) u2)) (\<lambda>_.
         return (Inl InvalidGrant)))))
       else bind (issue A (refresh_args A row t)) (\<lambda>r. return (Inr r)))))"

definition parse_refresh_grant :: "refresh_grant \<Rightarrow> refresh_grant read" where
  "parse_refresh_grant g = sbind (sguard (rg_refreshToken g \<noteq> []) (ZodError ''refreshToken'')) (\<lambda>_. Inr g)"

definition refreshTokenGrant :: "auth_env \<Rightarrow> refresh_grant \<Rightarrow> token_response step" where
  "refreshTokenGrant A raw =
     bind (lift (parse_refresh_grant raw)) (\<lambda>g.
     bind (now (ae_env A)) (\<lambda>t.
     thrown_after (uow_run (refresh_tx A g t))))"

datatype token_request = CodeRequest code_grant | RefreshRequest refresh_grant

fun token :: "auth_env \<Rightarrow> token_request \<Rightarrow> token_response step" where
  "token A (CodeRequest g) = authorizationCodeGrant A g"
| "token A (RefreshRequest g) = refreshTokenGrant A g"

section \<open>Revocation\<close>

definition revoke_refresh :: "auth_env \<Rightarrow> string \<Rightarrow> uuid \<Rightarrow> unit step" where
  "revoke_refresh A tokenHash clientId =
     bind (ask (\<lambda>d. Inr (findRefreshByHash tokenHash d))) (\<lambda>refresh. case refresh of
        None \<Rightarrow> return ()
      | Some r \<Rightarrow> if rt_clientId r \<noteq> clientId then return ()
          else if rt_revokedAt r \<noteq> None then return ()
          else bind (now (ae_env A)) (\<lambda>t. if rt_expiresAt r \<le> t then return ()
            else bind (now (ae_env A)) (\<lambda>u. bind (put_db (revokeFamily (rt_familyId r) u)) (\<lambda>_.
              bind (now (ae_env A)) (\<lambda>u'. put_db (revokeAccessForClient (rt_userId r) clientId u'))))))"

definition revoke_tx :: "auth_env \<Rightarrow> string \<Rightarrow> uuid \<Rightarrow> unit step" where
  "revoke_tx A tokenHash clientId =
     bind (ask (\<lambda>d. Inr (findAccessByHash tokenHash d))) (\<lambda>access.
     case access of Some k \<Rightarrow>
         if ot_clientId k = clientId
         then bind (now (ae_env A)) (\<lambda>t. put_db (revokeAccess (ot_id k) t))
         else revoke_refresh A tokenHash clientId
     | None \<Rightarrow> revoke_refresh A tokenHash clientId)"

definition revoke :: "auth_env \<Rightarrow> string \<Rightarrow> uuid \<Rightarrow> unit step" where
  "revoke A rawToken clientId = uow_run (revoke_tx A (ae_sha256 A rawToken) clientId)"

end
