(* ===== verification/OAuth_Laws.thy ===== *)
theory OAuth_Laws
  imports OAuth System
begin

text \<open>
  What a grant writes, and the rules for invariants of the credential tables.  \<open>steady\<close> is the
  contract of a world predicate that depends on the database and survives the drawing of ids;
  under it a method keeps the predicate when its writes do.
\<close>

section \<open>What the token endpoint writes\<close>

lemma mintSecret_iffs [run_simps]:
  "mintSecret A p w = (Inr x, w') \<longleftrightarrow> x = (p @ ae_random A (w_ids w), ae_sha256 A (p @ ae_random A (w_ids w)))
     \<and> w' = w\<lparr>w_ids := Suc (w_ids w)\<rparr>"
  "mintSecret A p w = (Inl e, w') \<longleftrightarrow> False"
  by (auto simp: mintSecret_def run_simps bind_Inl_iff)

lemma insertRefresh_iff [run_simps]:
  "insertRefresh k d = Inr d' \<longleftrightarrow> rt_id k \<notin> rt_id ` set (t_refresh d)
     \<and> rt_tokenHash k \<notin> rt_tokenHash ` set (t_refresh d) \<and> d' = d\<lparr>t_refresh := t_refresh d @ [k]\<rparr>"
  by (auto simp: insertRefresh_def)

lemma insertAccess_iff [run_simps]:
  "insertAccess k d = Inr d' \<longleftrightarrow> ot_id k \<notin> ot_id ` set (t_access d)
     \<and> ot_tokenHash k \<notin> ot_tokenHash ` set (t_access d) \<and> d' = d\<lparr>t_access := t_access d @ [k]\<rparr>"
  by (auto simp: insertAccess_def)

text \<open>One access token and one refresh token, for the user, client, scope and audience given.\<close>

definition issued :: "auth_env \<Rightarrow> issue_args \<Rightarrow> token_response \<Rightarrow> db \<Rightarrow> db \<Rightarrow> bool" where
  "issued A g r d d' \<longleftrightarrow> (\<exists>i j.
     (let k = issued_access A g i (ae_sha256 A (tr_accessToken r));
          q = issued_refresh A g j (ae_sha256 A (tr_refreshToken r))
      in d' = d\<lparr>t_access := t_access d @ [k], t_refresh := t_refresh d @ [q]\<rparr>
         \<and> i \<notin> ot_id ` set (t_access d) \<and> j \<notin> rt_id ` set (t_refresh d)
         \<and> ot_tokenHash k \<notin> ot_tokenHash ` set (t_access d)
         \<and> rt_tokenHash q \<notin> rt_tokenHash ` set (t_refresh d)))"

lemma issue_run:
  assumes "issue A g w = (Inr r, w')"
  shows "usable (findAccount (ia_userId g) (w_db w))" and "issued A g r (w_db w) (w_db w')"
    and "w_ids w' = w_ids w + 4" and "tr_scope r = ia_scope g"
    and "take 4 (tr_accessToken r) = ACCESS_TOKEN_PREFIX"
proof -
  let ?i = "e_newId (ae_env A) (Suc (Suc (w_ids w)))" and ?j = "e_newId (ae_env A) (Suc (Suc (Suc (w_ids w))))"
  show "usable (findAccount (ia_userId g) (w_db w))" "w_ids w' = w_ids w + 4" "tr_scope r = ia_scope g"
    "take 4 (tr_accessToken r) = ACCESS_TOKEN_PREFIX"
    using assms by (auto simp: issue_def run_simps ACCESS_TOKEN_PREFIX_def)
  show "issued A g r (w_db w) (w_db w')"
    using assms unfolding issued_def
    by (intro exI[of _ ?i] exI[of _ ?j]) (auto simp: issue_def run_simps issued_access_def issued_refresh_def)
qed

lemma findRefreshByHash_SomeD:
  "findRefreshByHash h d = Some k \<Longrightarrow> k \<in> set (t_refresh d) \<and> rt_tokenHash k = h"
  by (auto simp: findRefreshByHash_def dest: row_of_SomeD)

lemma refresh_plan_iff:
  "refresh_plan A g t d = Inr k \<longleftrightarrow> findRefreshByHash (ae_sha256 A (rg_refreshToken g)) d = Some k
     \<and> rt_revokedAt k = None \<and> t < rt_expiresAt k \<and> rt_clientId k = rg_clientId g"
  by (auto simp: refresh_plan_def run_simps)

definition mark_row :: "uuid \<Rightarrow> instant \<Rightarrow> refresh_token \<Rightarrow> refresh_token" where
  "mark_row i u k = (if rt_id k = i \<and> rt_usedAt k = None then k\<lparr>rt_usedAt := Some u\<rparr> else k)"

lemma markUsed_iffs [run_simps]:
  "markUsed i u w = (Inr b, w') \<longleftrightarrow>
     b = (length (filter (\<lambda>k. rt_id k = i \<and> rt_usedAt k = None) (t_refresh (w_db w))) = 1)
     \<and> w' = w\<lparr>w_db := (w_db w)\<lparr>t_refresh := map (mark_row i u) (t_refresh (w_db w))\<rparr>\<rparr>"
  "markUsed i u w = (Inl e, w') \<longleftrightarrow> False"
  by (auto simp: markUsed_def Let_def mark_row_def[abs_def])

lemma unique_row_count:
  assumes "distinct (map f xs)" and "x \<in> set xs"
  shows "length (filter (\<lambda>y. f y = f x \<and> P y) xs) = (if P x then 1 else 0)"
  using assms by (induction xs) (auto simp: image_iff filter_empty_conv)

text \<open>A rotation: the presented token is spent and a pair is issued in its family.\<close>

lemma refresh_tx_rotates:
  assumes "refresh_tx A g t w = (Inr (Inr r), w')"
  shows "\<exists>k u. refresh_plan A g t (w_db w) = Inr k
     \<and> length (filter (\<lambda>x. rt_id x = rt_id k \<and> rt_usedAt x = None) (t_refresh (w_db w))) = 1
     \<and> usable (findAccount (rt_userId k) (w_db w))
     \<and> issued A (refresh_args A k t) r
         ((w_db w)\<lparr>t_refresh := map (mark_row (rt_id k) u) (t_refresh (w_db w))\<rparr>) (w_db w')
     \<and> w_ids w' = w_ids w + 4"
proof -
  from assms obtain k u w1 where plan: "refresh_plan A g t (w_db w) = Inr k"
    and one: "length (filter (\<lambda>x. rt_id x = rt_id k \<and> rt_usedAt x = None) (t_refresh (w_db w))) = 1"
    and w1: "w1 = w\<lparr>w_ticks := Suc (w_ticks w),
        w_db := (w_db w)\<lparr>t_refresh := map (mark_row (rt_id k) u) (t_refresh (w_db w))\<rparr>\<rparr>"
    and i: "issue A (refresh_args A k t) w1 = (Inr r, w')"
    by (auto simp: refresh_tx_def run_simps split: if_splits)
  from issue_run[OF i] plan one show ?thesis
    by (intro exI[of _ k] exI[of _ u]) (simp add: w1 refresh_args_def findAccount_def)
qed

text \<open>A replay: the family and the access tokens of the user are revoked.\<close>

lemma refresh_tx_replay:
  assumes "refresh_tx A g t w = (Inr (Inl e), w')"
  shows "\<exists>k u u1 u2. refresh_plan A g t (w_db w) = Inr k \<and> e = InvalidGrant
     \<and> length (filter (\<lambda>x. rt_id x = rt_id k \<and> rt_usedAt x = None) (t_refresh (w_db w))) \<noteq> 1
     \<and> w_db w' = revokeAccessForUser (rt_userId k) u2 (revokeFamily (rt_familyId k) u1
         ((w_db w)\<lparr>t_refresh := map (mark_row (rt_id k) u) (t_refresh (w_db w))\<rparr>))
     \<and> w_ids w' = w_ids w"
proof -
  let ?t = "\<lambda>n. e_clock (ae_env A) (w_ticks w + n)"
  from assms obtain k where "refresh_plan A g t (w_db w) = Inr k" "e = InvalidGrant"
    "length (filter (\<lambda>x. rt_id x = rt_id k \<and> rt_usedAt x = None) (t_refresh (w_db w))) \<noteq> 1"
    "w_db w' = revokeAccessForUser (rt_userId k) (?t 2) (revokeFamily (rt_familyId k) (?t 1)
         ((w_db w)\<lparr>t_refresh := map (mark_row (rt_id k) (?t 0)) (t_refresh (w_db w))\<rparr>))"
    "w_ids w' = w_ids w"
    by (auto simp: refresh_tx_def run_simps numeral_2_eq_2 split: if_splits)
  then show ?thesis by blast
qed

lemma thrown_after_Inr_iff: "thrown_after m w = (Inr r, w') \<longleftrightarrow> m w = (Inr (Inr r), w')"
  by (cases "m w") (auto simp: thrown_after_def bind_def return_def throw_def split: sum.splits)

lemma refresh_grant_Inr_iff:
  "refreshTokenGrant A g w = (Inr r, w') \<longleftrightarrow> rg_refreshToken g \<noteq> []
     \<and> refresh_tx A g (e_clock (ae_env A) (w_ticks w)) (w\<lparr>w_ticks := Suc (w_ticks w)\<rparr>) = (Inr (Inr r), w')"
  by (auto simp: refreshTokenGrant_def parse_refresh_grant_def thrown_after_Inr_iff run_simps)

lemma code_grant_Inr_iff:
  "authorizationCodeGrant A g w = (Inr r, w') \<longleftrightarrow> parse_code_grant g = Inr g
     \<and> code_tx A g (e_clock (ae_env A) (w_ticks w)) (w\<lparr>w_ticks := Suc (w_ticks w)\<rparr>) = (Inr (Inr r), w')"
  by (auto simp: authorizationCodeGrant_def parse_code_grant_def thrown_after_Inr_iff run_simps)

lemma consumeCode_iffs [run_simps]:
  "consumeCode h w = (Inr c, w') \<longleftrightarrow> c = findCode h (w_db w)
     \<and> w' = w\<lparr>w_db := (w_db w)\<lparr>t_codes := drop_row co_codeHash h (t_codes (w_db w))\<rparr>\<rparr>"
  "consumeCode h w = (Inl e, w') \<longleftrightarrow> False"
  by (auto simp: consumeCode_def)

lemma oauth_value_Inr_iff:
  "oauth_value m w = (Inr (Inr a), w') \<longleftrightarrow> m w = (Inr a, w')"
  "oauth_value m w = (Inr (Inl e), w') \<longleftrightarrow> m w = (Inl (OAuthError e), w')"
  by (auto simp: oauth_value_def split: prod.splits sum.splits error.splits)

lemma code_tx_issues:
  assumes "code_tx A g t w = (Inr (Inr r), w')"
  shows "\<exists>c. findCode (ae_sha256 A (cg_code g)) (w_db w) = Some c \<and> code_fits A g t c
     \<and> usable (findAccount (co_userId c) (w_db w))
     \<and> issued A (code_args c (e_newId (ae_env A) (w_ids w)) t) r
         ((w_db w)\<lparr>t_codes := drop_row co_codeHash (ae_sha256 A (cg_code g)) (t_codes (w_db w))\<rparr>) (w_db w')
     \<and> w_ids w' = w_ids w + 5"
proof -
  let ?h = "ae_sha256 A (cg_code g)"
  from assms obtain c where c: "findCode ?h (w_db w) = Some c" "code_fits A g t c"
    and i: "issue A (code_args c (e_newId (ae_env A) (w_ids w)) t)
        (w\<lparr>w_db := (w_db w)\<lparr>t_codes := drop_row co_codeHash ?h (t_codes (w_db w))\<rparr>,
           w_ids := Suc (w_ids w)\<rparr>) = (Inr r, w')"
    by (auto simp: code_tx_def run_simps oauth_value_Inr_iff split: option.splits if_splits)
  from issue_run[OF i] c show ?thesis by (simp add: code_args_def findAccount_def)
qed

end
