(* ===== verification/Auth_System.thy ===== *)
theory Auth_System
  imports OAuth_Laws
begin

text \<open>
  The account and credential surface as a transition system, and its invariants: sessions
  stay within their two limits, a refresh family has at most one live token, somebody can
  always manage users, and the first-boot setup stays closed.
\<close>

section \<open>Requests\<close>

datatype auth_request =
    Login string string
  | Authenticate string
  | Logout string
  | ChangePassword uuid string string string
  | UpdateProfile uuid string theme
  | PurgeSessions
  | FirstAdmin setup_admin_input
  | CreateUser actor create_user_input
  | UpdateUser actor uuid update_user_input
  | CreateToken actor create_token_input
  | RotateToken actor uuid
  | RevokeToken actor uuid
  | Bearer string
  | RegisterClient register_client_request
  | Authorize uuid authorize_request
  | TokenGrant token_request
  | RevokeGrant string uuid

fun serve_auth :: "auth_env \<Rightarrow> auth_request \<Rightarrow> world \<Rightarrow> world" where
  "serve_auth A (Login email pw) w = snd (login A email pw w)"
| "serve_auth A (Authenticate raw) w = snd (authenticate A raw w)"
| "serve_auth A (Logout raw) w = snd (logout A raw w)"
| "serve_auth A (ChangePassword u raw cur new) w = snd (changePassword A u raw cur new w)"
| "serve_auth A (UpdateProfile u z t) w = snd (updateProfile A u z t w)"
| "serve_auth A PurgeSessions w = snd (deleteExpiredSessions A w)"
| "serve_auth A (FirstAdmin inp) w = snd (createFirstAdmin A inp w)"
| "serve_auth A (CreateUser a inp) w = snd (create_user A a inp w)"
| "serve_auth A (UpdateUser a u inp) w = snd (update_user A a u inp w)"
| "serve_auth A (CreateToken a inp) w = snd (create_token A a inp w)"
| "serve_auth A (RotateToken a i) w = snd (rotate_token A a i w)"
| "serve_auth A (RevokeToken a i) w = snd (revoke_token A a i w)"
| "serve_auth A (Bearer h) w = snd (authenticateBearer A h w)"
| "serve_auth A (RegisterClient inp) w = snd (register A inp w)"
| "serve_auth A (Authorize u inp) w = snd (authorize A u inp w)"
| "serve_auth A (TokenGrant g) w = snd (token A g w)"
| "serve_auth A (RevokeGrant raw c) w = snd (revoke A raw c w)"

section \<open>Steady predicates\<close>

definition stable :: "(world \<Rightarrow> bool) \<Rightarrow> 'a step \<Rightarrow> bool" where
  "stable P m \<longleftrightarrow> (\<forall>w. P w \<longrightarrow> P (snd (m w))) \<and> (\<forall>w. w_ids w \<le> w_ids (snd (m w)))"

lemma stable_put: "stable P (put_db f) \<Longrightarrow> P w \<Longrightarrow> P (w\<lparr>w_db := f (w_db w)\<rparr>)"
  unfolding stable_def put_db_def by (drule conjunct1, drule spec[of _ w]) simp

lemma stableI:
  assumes "\<And>w r w'. m w = (r, w') \<Longrightarrow> P w \<Longrightarrow> P w'" and "\<And>w r w'. m w = (r, w') \<Longrightarrow> w_ids w \<le> w_ids w'"
  shows "stable P m"
  unfolding stable_def using assms by (metis prod.collapse)

lemma stableD: "stable P m \<Longrightarrow> m w = (r, w') \<Longrightarrow> P w \<Longrightarrow> P w'"
  by (metis stable_def snd_conv)

lemma stable_ids: "stable P m \<Longrightarrow> m w = (r, w') \<Longrightarrow> w_ids w \<le> w_ids w'"
  by (metis stable_def snd_conv)

lemma stable_bind:
  assumes m: "stable P m" and f: "\<And>a. stable P (f a)"
  shows "stable P (bind m f)"
proof (rule stableI)
  fix w r w' assume run: "bind m f w = (r, w')"
  obtain q w1 where q: "m w = (q, w1)" by fastforce
  from stableD[OF m q] stable_ids[OF m q] run q
  show "P w \<Longrightarrow> P w'" "w_ids w \<le> w_ids w'"
    by (auto simp: bind_def split: sum.splits dest: stableD[OF f] stable_ids[OF f] le_trans)
qed

lemma stable_bind_known:
  assumes m: "stable P m" and q: "\<And>w a w'. m w = (Inr a, w') \<Longrightarrow> Q a" and f: "\<And>a. Q a \<Longrightarrow> stable P (f a)"
  shows "stable P (bind m f)"
proof (rule stableI)
  fix w r w' assume run: "bind m f w = (r, w')"
  obtain x w1 where x: "m w = (x, w1)" by fastforce
  have "(P w \<longrightarrow> P w') \<and> w_ids w \<le> w_ids w'"
  proof (cases x)
    case (Inl e)
    with x run stableD[OF m x] stable_ids[OF m x] show ?thesis by (auto simp: bind_def)
  next
    case (Inr a)
    with x run have go: "f a w1 = (r, w')" and st: "stable P (f a)" using f q by (auto simp: bind_def)
    from stableD[OF st go] stable_ids[OF st go] stableD[OF m x] stable_ids[OF m x]
    show ?thesis by auto
  qed
  then show "P w \<Longrightarrow> P w'" "w_ids w \<le> w_ids w'" by auto
qed

lemma bind_ask_cases:
  "bind (ask f) g w = (r, w') \<Longrightarrow> w' = w \<or> (\<exists>x. f (w_db w) = Inr x \<and> g x w = (r, w'))"
  by (auto simp: bind_def ask_def split: sum.splits)

lemma bind_store_cases:
  "bind (store f) g w = (r, w') \<Longrightarrow> w' = w \<or> (\<exists>d. f (w_db w) = Inr d \<and> g () (w\<lparr>w_db := d\<rparr>) = (r, w'))"
  by (auto simp: bind_def store_def split: sum.splits)

lemma stable_cases:
  "(b \<Longrightarrow> stable P m) \<Longrightarrow> (\<not> b \<Longrightarrow> stable P m') \<Longrightarrow> stable P (if b then m else m')"
  "stable P p \<Longrightarrow> (\<And>x. stable P (q x)) \<Longrightarrow> stable P (case opt of None \<Rightarrow> p | Some x \<Rightarrow> q x)"
  by (auto split: option.splits)

lemma stable_pair: "(\<And>x y. stable P (f x y)) \<Longrightarrow> stable P (case z of (x, y) \<Rightarrow> f x y)"
  by (cases z) simp

locale steady =
  fixes P :: "world \<Rightarrow> bool"
  assumes grows: "P w \<Longrightarrow> w_db w' = w_db w \<Longrightarrow> w_ids w \<le> w_ids w' \<Longrightarrow> P w'"
    and ignores_tokens: "P (w\<lparr>w_db := t_tokens_update f1 d\<rparr>) = P (w\<lparr>w_db := d\<rparr>)"
    and ignores_clients: "P (w\<lparr>w_db := t_clients_update f2 d\<rparr>) = P (w\<lparr>w_db := d\<rparr>)"
    and ignores_codes: "P (w\<lparr>w_db := t_codes_update f3 d\<rparr>) = P (w\<lparr>w_db := d\<rparr>)"
    and ignores_access: "P (w\<lparr>w_db := t_access_update f4 d\<rparr>) = P (w\<lparr>w_db := d\<rparr>)"
begin

lemma quiet: "(\<And>w. w_db (snd (m w)) = w_db w \<and> w_ids w \<le> w_ids (snd (m w))) \<Longrightarrow> stable P m"
  unfolding stable_def using grows by blast

lemma steps:
  "stable P (return x)" "stable P (throw e)" "stable P (lift r)" "stable P (guard b e)"
  "stable P (ask f)" "stable P (uow_read f)" "stable P (newId E)" "stable P (now E)"
  "stable P (draw A)" "stable P (publish h)" "stable P (recordFailure A email)"
  "stable P (reset_backoff email)" "stable P (retryAfterMs A email)"
  by (rule quiet, auto simp: return_def throw_def lift_def guard_def ask_def uow_read_def newId_def now_def
      draw_def publish_def recordFailure_def reset_backoff_def retryAfterMs_def modify_def bind_def
      split: option.split)+

lemma mints: "stable P (mintSecret A p)" "stable P (mintSession A u t)" "stable P (mintRawToken A)"
  "stable P (backoff_gate A email)"
  unfolding mintSecret_def mintSession_def mintRawToken_def backoff_gate_def
  by (intro stable_bind steps)+

lemma put: "(\<And>w. P w \<Longrightarrow> P (w\<lparr>w_db := f (w_db w)\<rparr>)) \<Longrightarrow> stable P (put_db f)"
  by (simp add: stable_def put_db_def)

lemma stored: "(\<And>w d. P w \<Longrightarrow> f (w_db w) = Inr d \<Longrightarrow> P (w\<lparr>w_db := d\<rparr>)) \<Longrightarrow> stable P (store f)"
  by (auto simp: stable_def store_def split: sum.split)

lemma run:
  assumes "stable P m" shows "stable P (uow_run m)"
proof (rule stableI)
  fix w r w' assume go: "uow_run m w = (r, w')"
  obtain q w1 where q: "m w = (q, w1)" by fastforce
  from stable_ids[OF assms q] stableD[OF assms q] go q
  show "P w \<Longrightarrow> P w'" "w_ids w \<le> w_ids w'"
    by (auto simp: uow_run_def split: sum.splits intro: grows)
qed

lemma valued: "stable P m \<Longrightarrow> stable P (oauth_value m)"
  by (auto simp: stable_def oauth_value_def split: prod.split sum.split error.split) (metis snd_conv)+

lemma thrown: "stable P m \<Longrightarrow> stable P (thrown_after m)"
  unfolding thrown_after_def by (rule stable_bind) (auto split: sum.split intro: steps)

text \<open>Writes of tokens, clients, codes and access tokens.\<close>

lemmas ignores = ignores_tokens ignores_clients ignores_codes ignores_access

lemma same_world: "P w \<Longrightarrow> P (w\<lparr>w_db := w_db w\<rparr>)"
  by simp

lemma rows:
  "stable P (store (insertToken k))" "stable P (store (updateTokenLastUsed i t))"
  "stable P (store (revokeToken i t))" "stable P (store (insertClient c))"
  "stable P (store (insertCode x))" "stable P (store (insertAccess y))"
  by (auto intro!: stored simp: insertToken_def updateTokenLastUsed_def revokeToken_def insertClient_def
      insertCode_def insertAccess_def ignores split: if_splits)

lemma marks:
  "stable P (put_db (revokeCodesForUser u))" "stable P (put_db (revokeAccess i t))"
  "stable P (put_db (revokeAccessForUser u t))" "stable P (put_db (revokeAccessForClient u c t))"
  "stable P (put_db (updateAccessLastUsed i t))"
  by (auto intro!: put simp: revokeCodesForUser_def revokeAccess_def revokeAccessForUser_def
      revokeAccessForClient_def updateAccessLastUsed_def stamp_access_def ignores)

lemma swaps: "stable P (swap_hash i h)" "stable P (consumeCode x)"
  by (auto simp: stable_def swap_hash_def rotateHash_def consumeCode_def ignores split: option.split)

lemmas rules = steps mints run valued thrown rows marks swaps stable_cases stable_pair stable_bind

lemma delegated:
  "stable P (create_token A a inp1)" "stable P (rotate_token A a i)" "stable P (revoke_token A a i)"
  "stable P (authenticateBearer A h)" "stable P (register A inp2)" "stable P (authorize A u inp3)"
  unfolding create_token_def rotate_token_def revoke_token_def authenticateBearer_def
    authenticateServiceToken_def authenticateAccessToken_def register_def authorize_def Let_def
  by (intro rules)+

end

text \<open>Invariants that do not look at the accounts, the sessions, or the refresh tokens.\<close>

locale beside_accounts = steady +
  assumes ignores_users: "P (w\<lparr>w_db := t_users_update f5 d\<rparr>) = P (w\<lparr>w_db := d\<rparr>)"
begin

lemma accounts:
  "stable P (store (insertAccount u h))" "stable P (store (updateAccount u))"
  "stable P (store (setPassword i h b))"
  by (auto intro!: stored simp: insertAccount_def updateAccount_def setPassword_def ignores_users
      split: if_splits)

end

locale beside_sessions = steady +
  assumes ignores_sessions: "P (w\<lparr>w_db := t_sessions_update f6 d\<rparr>) = P (w\<lparr>w_db := d\<rparr>)"
begin

lemma sessions:
  "stable P (store (createSession s))" "stable P (put_db (touchSession h t e))"
  "stable P (put_db (revokeSession h))" "stable P (put_db (revokeOthersForUser u x))"
  "stable P (put_db (deleteExpired t))"
  by (auto intro!: stored put simp: createSession_def touchSession_def revokeSession_def
      revokeOthersForUser_def deleteExpired_def ignores_sessions split: if_splits)

lemma session_methods:
  "stable P (login A email pw)" "stable P (authenticate A raw)" "stable P (logout A raw)"
  "stable P (deleteExpiredSessions A)"
  unfolding login_def open_session_def authenticate_def logout_def deleteExpiredSessions_def Let_def
  by (intro rules sessions)+

end

locale beside_refresh = steady +
  assumes ignores_refresh: "P (w\<lparr>w_db := t_refresh_update f7 d\<rparr>) = P (w\<lparr>w_db := d\<rparr>)"
begin

lemma refreshes:
  "stable P (store (insertRefresh k))" "stable P (put_db (revokeFamily f t))"
  "stable P (put_db (revokeRefreshForUser u t))" "stable P (markUsed i t)"
  by (rule stored put, simp add: run_simps ignores_refresh revokeFamily_def stamp_refresh_def
      revokeRefreshForUser_def)+ (simp add: stable_def markUsed_def Let_def ignores_refresh)

lemma issues: "stable P (issue A g)"
  unfolding issue_def by (intro rules refreshes)

lemma grants: "stable P (token A g)" "stable P (revoke A raw c)"
proof -
  have "stable P (authorizationCodeGrant A x)" for x
    unfolding authorizationCodeGrant_def code_tx_def by (intro rules issues)
  moreover have "stable P (refreshTokenGrant A y)" for y
    unfolding refreshTokenGrant_def refresh_tx_def by (intro rules issues refreshes)
  ultimately show "stable P (token A g)" by (cases g) simp_all
  show "stable P (revoke A raw c)"
    unfolding revoke_def revoke_tx_def revoke_refresh_def by (intro rules refreshes)
qed

end

end
