(* ===== verification/Boards.thy ===== *)
theory Boards
  imports Access Commands
begin

text \<open>
  \<open>BoardService\<close> (\<open>packages/core/src/services/board-service.ts\<close>) with its inputs
  (\<open>domain/boards.ts\<close>): boards and who may see them, the boards users start on, and the groups
  that grant access.
\<close>

section \<open>Inputs\<close>

record default_assignments =
  da_application :: bool
  da_roleKeys :: "role_key list"
  da_groupIds :: "uuid list"

record board_input =
  bi_name :: string
  bi_accessMode :: access_mode
  bi_allowedRoleKeys :: "role_key list"
  bi_allowedUserIds :: "uuid list"
  bi_allowedGroupIds :: "uuid list option"
  bi_defaultAssignments :: "default_assignments option"

record group_input =
  gi_name :: string
  gi_userIds :: "uuid list"

definition boardDefaultAssignmentsSchema :: "default_assignments \<Rightarrow> default_assignments read" where
  "boardDefaultAssignmentsSchema a =
     sbind (check (length (da_roleKeys a) \<le> 100) ''roleKeys'') (\<lambda>_.
     sbind (check (length (da_groupIds a) \<le> 1000) ''groupIds'') (\<lambda>_. Inr a))"

definition parse_board_input :: "board_input \<Rightarrow> board_input read" where
  "parse_board_input raw =
     sbind (trimmed 1 80 ''name'' (bi_name raw)) (\<lambda>name.
     sbind (check (length (bi_allowedRoleKeys raw) \<le> 100
       \<and> (\<forall>k \<in> set (bi_allowedRoleKeys raw). 1 \<le> length k \<and> length k \<le> 40)) ''allowedRoleKeys'') (\<lambda>_.
     sbind (check (length (bi_allowedUserIds raw) \<le> 1000) ''allowedUserIds'') (\<lambda>_.
     sbind (check (length (default_to [] (bi_allowedGroupIds raw)) \<le> 100) ''allowedGroupIds'') (\<lambda>_.
     sbind (optional boardDefaultAssignmentsSchema (bi_defaultAssignments raw)) (\<lambda>_.
     Inr (raw\<lparr>bi_name := name\<rparr>))))))"

definition parse_group_input :: "group_input \<Rightarrow> group_input read" where
  "parse_group_input raw =
     sbind (trimmed 1 80 ''name'' (gi_name raw)) (\<lambda>name.
     sbind (check (length (gi_userIds raw) \<le> 1000) ''userIds'') (\<lambda>_. Inr (raw\<lparr>gi_name := name\<rparr>)))"

text \<open>The columns a new board starts with: key, label, WIP limit.\<close>

definition DEFAULT_LANES :: "(lane_key \<times> string \<times> nat option) list" where
  "DEFAULT_LANES = [
     (''intake'', ''Intake'', None),
     (''waiting_approval'', ''Waiting for Approval'', None),
     (''ready'', ''Ready'', None),
     (''in_progress'', ''In Progress'', Some 5),
     (''waiting_parts_vendor'', ''Waiting on Parts / Vendor'', Some 8),
     (''review'', ''Review'', Some 5),
     (''done'', ''Done'', None)]"

section \<open>The catalog\<close>

datatype default_source = SourcePersonal | SourceGroup | SourceRole | SourceApplication | SourceFallback

record board_catalog =
  cat_items :: "board list"
  cat_canManage :: bool
  cat_preferredBoardId :: "uuid option"
  cat_defaultBoardId :: "uuid option"
  cat_defaultSource :: default_source
  cat_defaultAssignments :: "board_default list"

text \<open>A board as those see it who may not manage boards.\<close>

definition without_access :: "board \<Rightarrow> board" where
  "without_access b = b\<lparr>b_allowedRoleKeys := [], b_allowedUserIds := [], b_allowedGroupIds := []\<rparr>"

text \<open>The boards the groups of a user start on.\<close>

definition group_boards :: "actor \<Rightarrow> board_default list \<Rightarrow> db \<Rightarrow> uuid list" where
  "group_boards actor rows d = (if a_kind actor \<noteq> KUser then [] else
     uniq (map bd_boardId (filter (\<lambda>r. bd_scope r = DGroup \<and> (case bd_subject r of
         SubjId g \<Rightarrow> (case findGroup g d of None \<Rightarrow> False | Some x \<Rightarrow> a_id actor \<in> set (g_userIds x))
       | _ \<Rightarrow> False)) rows)))"

definition board_of :: "(board_default \<Rightarrow> bool) \<Rightarrow> board_default list \<Rightarrow> uuid option" where
  "board_of p rows = map_option bd_boardId (find p rows)"

text \<open>The candidates in the order of precedence.\<close>

definition default_candidates ::
  "actor \<Rightarrow> board_default list \<Rightarrow> db \<Rightarrow> (default_source \<times> uuid option) list" where
  "default_candidates actor rows d = [
     (SourcePersonal, board_of (\<lambda>r. bd_scope r = DUser) rows),
     (SourceGroup, case group_boards actor rows d of [b] \<Rightarrow> Some b | _ \<Rightarrow> None),
     (SourceRole, board_of (\<lambda>r. bd_scope r = DRole \<and> bd_subject r = SubjRole (a_role actor)) rows),
     (SourceApplication, board_of (\<lambda>r. bd_scope r = DApplication) rows)]"

definition catalog :: "actor \<Rightarrow> db \<Rightarrow> board_catalog read" where
  "catalog actor d =
     sbind (globalPolicy d) (\<lambda>policy.
     let canManage = hasPermission actor PermManagePolicy policy in
     sbind (sfilter (\<lambda>b. canAccessBoard actor b d) (listBoards d)) (\<lambda>boards.
     let items = (if canManage then boards else map without_access boards);
         allowed = filter (\<lambda>r. bd_boardId r \<in> b_id ` set items)
           (listDefaults (if a_kind actor = KUser then Some (a_id actor) else None) d);
         chosen = find (\<lambda>c. snd c \<noteq> None) (default_candidates actor allowed d)
     in Inr \<lparr>cat_items = items, cat_canManage = canManage,
       cat_preferredBoardId = board_of (\<lambda>r. bd_scope r = DUser) allowed,
       cat_defaultBoardId = (case chosen of Some c \<Rightarrow> snd c | None \<Rightarrow> map_option b_id (first_of items)),
       cat_defaultSource = (case chosen of Some c \<Rightarrow> fst c | None \<Rightarrow> SourceFallback),
       cat_defaultAssignments = filter (\<lambda>r. bd_scope r = DApplication
         \<or> canManage \<and> bd_scope r \<noteq> DUser) allowed\<rparr>))"

definition list_boards :: "actor \<Rightarrow> board_catalog step" where
  "list_boards actor = uow_read (catalog actor)"

definition require_access :: "actor \<Rightarrow> uuid \<Rightarrow> board step" where
  "require_access actor boardId = uow_read (requireBoardAccess actor boardId)"

text \<open>Does a hint reach a subscriber of the board?  \<open>'cardId' in hint\<close> holds of card hints.\<close>

definition acceptsHint :: "actor \<Rightarrow> uuid \<Rightarrow> hint \<Rightarrow> bool step" where
  "acceptsHint actor boardId h = uow_read (\<lambda>d.
     sbind (requireBoardAccess actor boardId d) (\<lambda>_. Inr (case h of
         CardHint ty cardId version ev \<Rightarrow> (case findCard cardId d of
            None \<Rightarrow> False | Some c \<Rightarrow> c_boardId c = boardId)
       | _ \<Rightarrow> True)))"

section \<open>Administration\<close>

definition lockAdministration :: "actor \<Rightarrow> db \<Rightarrow> unit read" where
  "lockAdministration actor d =
     sbind (requireFound (getDefault d) ''default board'') (\<lambda>authority.
     sbind (requireFound (getActive (b_id authority) d) ''policy'') (\<lambda>policy.
     ensurePermission actor PermManagePolicy (bp_config policy)))"

definition validateAccess :: "role_key list \<Rightarrow> uuid list \<Rightarrow> uuid list \<Rightarrow> db \<Rightarrow> unit read" where
  "validateAccess roleKeys userIds groupIds d =
     sbind (globalPolicy d) (\<lambda>policy.
     sbind (sguard (\<forall>k \<in> set roleKeys. k \<in> set (map r_key (p_roles policy))) (NotFoundError ''role'')) (\<lambda>_.
     sbind (smap (\<lambda>i. requireFound (findUser i d) ''user'') (uniq userIds)) (\<lambda>_.
     sbind (smap (\<lambda>i. requireFound (findGroup i d) ''group'') (uniq groupIds)) (\<lambda>_. Inr ()))))"

definition validate_input :: "board_input \<Rightarrow> db \<Rightarrow> unit read" where
  "validate_input inp = validateAccess (bi_allowedRoleKeys inp) (bi_allowedUserIds inp)
     (default_to [] (bi_allowedGroupIds inp))"

text \<open>The assignments a board should have.\<close>

definition desired_defaults :: "uuid \<Rightarrow> default_assignments \<Rightarrow> board_default list" where
  "desired_defaults boardId a =
     (if da_application a then [\<lparr>bd_scope = DApplication, bd_subject = SubjAll, bd_boardId = boardId\<rparr>] else [])
     @ map (\<lambda>k. \<lparr>bd_scope = DRole, bd_subject = SubjRole k, bd_boardId = boardId\<rparr>) (uniq (da_roleKeys a))
     @ map (\<lambda>g. \<lparr>bd_scope = DGroup, bd_subject = SubjId g, bd_boardId = boardId\<rparr>) (uniq (da_groupIds a))"

definition saveDefaults :: "uuid \<Rightarrow> default_assignments option \<Rightarrow> unit step" where
  "saveDefaults boardId inp = (case inp of None \<Rightarrow> return () | Some a \<Rightarrow>
     bind (ask (validateAccess (da_roleKeys a) [] (da_groupIds a))) (\<lambda>_.
     let desired = desired_defaults boardId a in
     bind (ask (\<lambda>d. Inr (listDefaults None d))) (\<lambda>rows.
     bind (for_each rows (\<lambda>row.
       if bd_boardId row = boardId \<and> default_key row \<notin> set (map default_key desired)
       then put_db (setDefault (bd_scope row) (bd_subject row) None) else return ())) (\<lambda>_.
     for_each desired (\<lambda>row. put_db (setDefault (bd_scope row) (bd_subject row) (Some boardId)))))))"

text \<open>One row per starting column, positions from 0.\<close>

definition insert_default_lane :: "env \<Rightarrow> uuid \<Rightarrow> nat \<times> lane_key \<times> string \<times> nat option \<Rightarrow> unit step" where
  "insert_default_lane E boardId row = bind (newId E) (\<lambda>i. store (insertLane
     \<lparr>l_id = i, l_boardId = boardId, l_key = fst (snd row), l_label = fst (snd (snd row)),
      l_position = int (fst row), l_wipLimit = snd (snd (snd row))\<rparr>))"

definition created_board :: "board_input \<Rightarrow> uuid \<Rightarrow> instant \<Rightarrow> board" where
  "created_board inp i t = \<lparr>b_id = i, b_name = bi_name inp, b_isDefault = False, b_archivedAt = None,
     b_accessMode = bi_accessMode inp, b_allowedRoleKeys = bi_allowedRoleKeys inp,
     b_allowedUserIds = bi_allowedUserIds inp,
     b_allowedGroupIds = default_to [] (bi_allowedGroupIds inp), b_createdAt = t\<rparr>"

definition create_board_tx :: "env \<Rightarrow> actor \<Rightarrow> board_input \<Rightarrow> board step" where
  "create_board_tx E actor inp =
     bind (ask (lockAdministration actor)) (\<lambda>_.
     bind (ask (validate_input inp)) (\<lambda>_.
     bind (newId E) (\<lambda>i.
     bind (now E) (\<lambda>t.
     let created = created_board inp i t in
     bind (store (insertBoard created)) (\<lambda>_.
     bind (saveDefaults i (bi_defaultAssignments inp)) (\<lambda>_.
     bind (for_each (enumerate 0 DEFAULT_LANES) (insert_default_lane E i)) (\<lambda>_.
     bind (newId E) (\<lambda>p.
     bind (ask globalPolicy) (\<lambda>global.
     bind (store (insertPolicy \<lparr>bp_id = p, bp_boardId = i,
       bp_config = DEFAULT_POLICY_DOCUMENT\<lparr>p_roles := p_roles global\<rparr>,
       bp_createdBy = a_id actor, bp_createdAt = t\<rparr>)) (\<lambda>_.
     return created))))))))))"

definition create_board :: "env \<Rightarrow> actor \<Rightarrow> board_input \<Rightarrow> board step" where
  "create_board E actor raw =
     bind (lift (parse_board_input raw)) (\<lambda>inp.
     bind (uow_run (create_board_tx E actor inp)) (\<lambda>board.
     bind (publish BoardUpdated) (\<lambda>_. return board)))"

definition updated_board :: "board_input \<Rightarrow> board \<Rightarrow> board" where
  "updated_board inp current = current\<lparr>b_name := bi_name inp, b_accessMode := bi_accessMode inp,
     b_allowedRoleKeys := bi_allowedRoleKeys inp, b_allowedUserIds := bi_allowedUserIds inp,
     b_allowedGroupIds := default_to [] (bi_allowedGroupIds inp)\<rparr>"

definition update_board_tx :: "actor \<Rightarrow> uuid \<Rightarrow> board_input \<Rightarrow> board step" where
  "update_board_tx actor boardId inp =
     bind (ask (lockAdministration actor)) (\<lambda>_.
     bind (ask (requireBoardAccess actor boardId)) (\<lambda>current.
     bind (ask (validate_input inp)) (\<lambda>_.
     let updated = updated_board inp current in
     bind (put_db (updateBoard updated)) (\<lambda>_.
     bind (saveDefaults boardId (bi_defaultAssignments inp)) (\<lambda>_.
     return updated)))))"

definition update_board :: "actor \<Rightarrow> uuid \<Rightarrow> board_input \<Rightarrow> board step" where
  "update_board actor boardId raw =
     bind (lift (parse_board_input raw)) (\<lambda>inp.
     bind (uow_run (update_board_tx actor boardId inp)) (\<lambda>board.
     bind (publish BoardUpdated) (\<lambda>_. return board)))"

text \<open>A deleted board is archived; the last one cannot be.\<close>

definition remove_board_tx :: "env \<Rightarrow> actor \<Rightarrow> uuid \<Rightarrow> unit step" where
  "remove_board_tx E actor boardId =
     bind (ask (lockAdministration actor)) (\<lambda>_.
     bind (ask (requireBoardAccess actor boardId)) (\<lambda>board.
     bind (ask (\<lambda>d. sguard (\<not> length (listBoards d) \<le> 1)
       (ConflictError ''the last board cannot be deleted'' None))) (\<lambda>_.
     bind (now E) (\<lambda>t.
     put_db (updateBoard (board\<lparr>b_archivedAt := Some t\<rparr>))))))"

definition remove_board :: "env \<Rightarrow> actor \<Rightarrow> uuid \<Rightarrow> unit step" where
  "remove_board E actor boardId =
     bind (uow_run (remove_board_tx E actor boardId)) (\<lambda>_. publish BoardUpdated)"

definition preference_tx :: "actor \<Rightarrow> uuid option \<Rightarrow> unit step" where
  "preference_tx actor boardId =
     bind (ask (\<lambda>d. requireFound (getDefault d) ''default board'')) (\<lambda>_.
     bind (case boardId of None \<Rightarrow> return ()
       | Some b \<Rightarrow> bind (ask (requireBoardAccess actor b)) (\<lambda>_. return ())) (\<lambda>_.
     put_db (setDefault DUser (SubjId (a_id actor)) boardId)))"

definition setPreference :: "actor \<Rightarrow> uuid option \<Rightarrow> board_catalog step" where
  "setPreference actor boardId =
     bind (guard (a_kind actor = KUser) (PolicyDeniedError ''personal-board-preference'')) (\<lambda>_.
     bind (uow_run (preference_tx actor boardId)) (\<lambda>_.
     bind (publish BoardUpdated) (\<lambda>_.
     list_boards actor)))"

section \<open>Groups\<close>

definition list_groups :: "actor \<Rightarrow> group_row list step" where
  "list_groups actor = uow_read (\<lambda>d.
     sbind (globalPolicy d) (\<lambda>policy.
     sbind (ensurePermission actor PermManagePolicy policy) (\<lambda>_. Inr (listGroups d))))"

definition group_plan :: "actor \<Rightarrow> uuid option \<Rightarrow> group_input \<Rightarrow> db \<Rightarrow> group_row option read" where
  "group_plan actor groupId inp d =
     sbind (lockAdministration actor d) (\<lambda>_.
     sbind (case groupId of None \<Rightarrow> Inr None
       | Some i \<Rightarrow> sbind (requireFound (findGroup i d) ''group'') (\<lambda>g. Inr (Some g))) (\<lambda>existing.
     sbind (sguard (\<not> (\<exists>g \<in> set (listGroups d). Some (g_id g) \<noteq> groupId
         \<and> to_lower (g_name g) = to_lower (gi_name inp)))
       (ConflictError ''a group with that name already exists'' None)) (\<lambda>_.
     sbind (smap (\<lambda>i. requireFound (findUser i d) ''user'') (uniq (gi_userIds inp))) (\<lambda>_.
     Inr existing))))"

definition group_tx :: "env \<Rightarrow> actor \<Rightarrow> uuid option \<Rightarrow> group_input \<Rightarrow> group_row step" where
  "group_tx E actor groupId inp =
     bind (ask (group_plan actor groupId inp)) (\<lambda>existing. case existing of
        Some g \<Rightarrow> let saved = g\<lparr>g_name := gi_name inp, g_userIds := uniq (gi_userIds inp)\<rparr> in
          bind (store (updateGroup saved)) (\<lambda>_. return saved)
      | None \<Rightarrow> bind (newId E) (\<lambda>i. bind (now E) (\<lambda>t.
          let saved = \<lparr>g_id = i, g_name = gi_name inp, g_userIds = uniq (gi_userIds inp),
            g_createdAt = t\<rparr> in
          bind (store (insertGroup saved)) (\<lambda>_. return saved))))"

definition saveGroup :: "env \<Rightarrow> actor \<Rightarrow> uuid option \<Rightarrow> group_input \<Rightarrow> group_row step" where
  "saveGroup E actor groupId raw =
     bind (lift (parse_group_input raw)) (\<lambda>inp.
     bind (uow_run (group_tx E actor groupId inp)) (\<lambda>group.
     bind (publish BoardUpdated) (\<lambda>_. return group)))"

definition remove_group_tx :: "actor \<Rightarrow> uuid \<Rightarrow> unit step" where
  "remove_group_tx actor groupId =
     bind (ask (lockAdministration actor)) (\<lambda>_.
     bind (ask (\<lambda>d. requireFound (findGroup groupId d) ''group'')) (\<lambda>_.
     bind (ask (\<lambda>d. sguard (\<not> (\<exists>b \<in> set (listBoards d). groupId \<in> set (b_allowedGroupIds b)))
       (ConflictError ''group-in-use'' None))) (\<lambda>_.
     bind (put_db (removeGroup groupId)) (\<lambda>_.
     put_db (setDefault DGroup (SubjId groupId) None)))))"

definition remove_group :: "actor \<Rightarrow> uuid \<Rightarrow> unit step" where
  "remove_group actor groupId =
     bind (uow_run (remove_group_tx actor groupId)) (\<lambda>_. publish BoardUpdated)"

end
