(* ===== verification/Lanes.thy ===== *)
theory Lanes
  imports Access Commands
begin

text \<open>
  \<open>LaneAdminService\<close> (\<open>packages/server/src/lanes/lane-admin-service.ts\<close>): the columns of the
  board.  The machine key of a column is a slug of its label, made unique by a counting
  suffix; the loop that counts ends because it tries infinitely many keys and finitely many
  are taken.
\<close>

section \<open>Inputs\<close>

record update_lane_input =
  ul_label :: "string option"
  ul_wipLimit :: "nat option option"

definition parse_update_lane :: "update_lane_input \<Rightarrow> update_lane_input read" where
  "parse_update_lane raw =
     sbind (optional (trimmed 1 50 ''label'') (ul_label raw)) (\<lambda>label.
     sbind (optional (optional (positive ''wipLimit'')) (ul_wipLimit raw)) (\<lambda>_.
     sbind (check (ul_label raw \<noteq> None \<or> ul_wipLimit raw \<noteq> None)
       ''at least one of label or wipLimit is required'') (\<lambda>_.
     Inr (raw\<lparr>ul_label := label\<rparr>))))"

text \<open>\<open>wipLimit\<close> defaults to null.\<close>

record create_lane_input =
  cl_label :: string
  cl_wipLimit :: "nat option"

definition parse_create_lane :: "create_lane_input \<Rightarrow> create_lane_input read" where
  "parse_create_lane raw =
     sbind (trimmed 1 50 ''label'' (cl_label raw)) (\<lambda>label.
     sbind (optional (positive ''wipLimit'') (cl_wipLimit raw)) (\<lambda>_. Inr (raw\<lparr>cl_label := label\<rparr>)))"

definition parse_reorder_lanes :: "uuid list \<Rightarrow> uuid list read" where
  "parse_reorder_lanes orderedIds =
     sbind (check (1 \<le> length orderedIds) ''orderedIds'') (\<lambda>_. Inr orderedIds)"

definition laneKeySchema :: "string \<Rightarrow> string read" where
  "laneKeySchema s = sbind (check (is_slug s) ''key'') (\<lambda>_. Inr s)"

section \<open>The machine key\<close>

text \<open>\<open>String(n)\<close>\<close>

fun decimal :: "nat \<Rightarrow> string" where
  "decimal n = (if n < 10 then [] else decimal (n div 10)) @ [char_of (48 + n mod 10)]"

declare decimal.simps [simp del]

definition digits_value :: "string \<Rightarrow> nat" where
  "digits_value s = foldl (\<lambda>acc c. 10 * acc + (of_char c - 48)) 0 s"

lemma decimal_value: "digits_value (decimal n) = n"
proof (induction n rule: decimal.induct)
  case (1 n)
  have c: "of_char (char_of (48 + n mod 10) :: char) = (48 + n mod 10 :: nat)"
    by (simp add: of_char_of)
  show ?case
  proof (cases "n < 10")
    case True
    then show ?thesis using c by (subst decimal.simps) (simp add: digits_value_def)
  next
    case False
    with 1 have "digits_value (decimal (n div 10)) = n div 10" by simp
    then show ?thesis using False c by (subst decimal.simps) (simp add: digits_value_def)
  qed
qed

lemma decimal_inj: "decimal m = decimal n \<longleftrightarrow> m = n"
  by (metis decimal_value)

lemma decimal_digits: "\<forall>c \<in> set (decimal n). is_digit c"
proof (induction n rule: decimal.induct)
  case (1 n)
  have "is_digit (char_of (48 + n mod 10))" by (simp add: is_digit_def of_char_of)
  with 1 show ?case by (subst decimal.simps) auto
qed

lemma decimal_short: "n < 1000 \<Longrightarrow> length (decimal n) \<le> 3"
proof -
  assume n: "n < 1000"
  have one: "length (decimal k) = 1" if "k < 10" for k using that by (subst decimal.simps) simp
  have two: "length (decimal k) \<le> 2" if "k < 100" for k
    using that one[of "k div 10"] by (subst decimal.simps) auto
  show ?thesis using n two[of "n div 10"] by (subst decimal.simps) auto
qed

text \<open>\<open>.replace(/[^a-z0-9]+/g, '_')\<close>: a run of other characters becomes one underscore.\<close>

definition key_char :: "char \<Rightarrow> bool" where
  "key_char c \<longleftrightarrow> is_lower_letter c \<or> is_digit c"

function squeeze :: "string \<Rightarrow> string" where
  "squeeze [] = []"
| "squeeze (c # cs) = (if key_char c then c # squeeze cs
     else CHR ''_'' # squeeze (dropWhile (\<lambda>x. \<not> key_char x) cs))"
  by pat_completeness auto
termination
  by (relation "measure length") (auto simp: le_imp_less_Suc length_dropWhile_le)

text \<open>\<open>.replace(/^_+|_+$/g, '')\<close>\<close>

definition strip_underscores :: "string \<Rightarrow> string" where
  "strip_underscores s =
     rev (dropWhile (\<lambda>c. c = CHR ''_'') (rev (dropWhile (\<lambda>c. c = CHR ''_'') s)))"

text \<open>\<open>.replace(/^(\d)/, 'lane_$1')\<close>\<close>

definition letter_first :: "string \<Rightarrow> string" where
  "letter_first s = (case s of [] \<Rightarrow> [] | c # _ \<Rightarrow> if is_digit c then ''lane_'' @ s else s)"

definition lane_base :: "string \<Rightarrow> string" where
  "lane_base label = (let s = take 36 (letter_first (strip_underscores (squeeze (to_lower label))))
     in if s = [] then ''lane'' else s)"

definition numbered :: "string \<Rightarrow> nat \<Rightarrow> string" where
  "numbered base suffix = base @ CHR ''_'' # decimal suffix"

text \<open>The loop, entered with \<open>key\<close> and the next \<open>suffix\<close>; \<open>taken\<close> lists the keys in use.\<close>

lemma numbered_inj: "numbered base m = numbered base n \<longleftrightarrow> m = n"
  by (simp add: numbered_def decimal_inj)

lemma numbered_taken_finite: "finite {n. numbered base n \<in> set taken}"
proof (rule finite_imageD)
  have "numbered base ` {n. numbered base n \<in> set taken} \<subseteq> set taken" by auto
  then show "finite (numbered base ` {n. numbered base n \<in> set taken})"
    using finite_set finite_subset by blast
  show "inj_on (numbered base) {n. numbered base n \<in> set taken}"
    by (rule inj_onI) (simp add: numbered_inj)
qed

definition still_taken :: "string \<Rightarrow> string list \<Rightarrow> nat \<Rightarrow> nat set" where
  "still_taken base taken suffix = {n. suffix \<le> n \<and> numbered base n \<in> set taken}"

lemma still_taken_finite: "finite (still_taken base taken suffix)"
  unfolding still_taken_def using numbered_taken_finite[of base taken] by (rule finite_subset[rotated]) auto

lemma still_taken_less:
  assumes "numbered base suffix \<in> set taken"
  shows "card (still_taken base taken (Suc suffix)) < card (still_taken base taken suffix)"
proof (rule psubset_card_mono[OF still_taken_finite])
  have "suffix \<in> still_taken base taken suffix" "suffix \<notin> still_taken base taken (Suc suffix)"
    using assms by (simp_all add: still_taken_def)
  moreover have "still_taken base taken (Suc suffix) \<subseteq> still_taken base taken suffix"
    by (auto simp: still_taken_def)
  ultimately show "still_taken base taken (Suc suffix) \<subset> still_taken base taken suffix" by blast
qed

function next_free :: "string \<Rightarrow> string list \<Rightarrow> nat \<Rightarrow> string" where
  "next_free base taken suffix =
     (if numbered base suffix \<in> set taken then next_free base taken (Suc suffix)
      else numbered base suffix)"
  by auto
termination
  by (relation "measure (\<lambda>(base, taken, suffix). card (still_taken base taken suffix))")
    (auto intro: still_taken_less)

declare next_free.simps [simp del]

definition uniqueLaneKey :: "string \<Rightarrow> lane_key list \<Rightarrow> lane_key read" where
  "uniqueLaneKey label taken = (let base = lane_base label in
     laneKeySchema (if base \<in> set taken then next_free base taken 2 else base))"

section \<open>The service\<close>

text \<open>Who may change columns: access to the board and the grant of its policy.\<close>

definition lane_gate :: "env \<Rightarrow> actor \<Rightarrow> db \<Rightarrow> unit read" where
  "lane_gate E actor d =
     sbind (requireBoardAccess actor (e_boardId E) d) (\<lambda>_.
     sbind (activePolicy (e_boardId E) d) (\<lambda>policy.
     ensurePermission actor PermManageLanes policy))"

definition lane_named :: "env \<Rightarrow> uuid \<Rightarrow> db \<Rightarrow> lane read" where
  "lane_named E laneId d =
     requireFound (find (\<lambda>l. l_id l = laneId) (listLanes (e_boardId E) d)) ''lane''"

definition edited_lane :: "update_lane_input \<Rightarrow> lane \<Rightarrow> lane" where
  "edited_lane inp l = l\<lparr>l_label := default_to (l_label l) (ul_label inp),
     l_wipLimit := default_to (l_wipLimit l) (ul_wipLimit inp)\<rparr>"

definition update_lane :: "env \<Rightarrow> actor \<Rightarrow> uuid \<Rightarrow> update_lane_input \<Rightarrow> lane step" where
  "update_lane E actor laneId raw =
     bind (lift (parse_update_lane raw)) (\<lambda>inp.
     bind (uow_run (
       bind (ask (lane_gate E actor)) (\<lambda>_.
       bind (ask (lane_named E laneId)) (\<lambda>l.
       let edited = edited_lane inp l in
       bind (store (updateLane edited)) (\<lambda>_. return edited))))) (\<lambda>updated.
     bind (publish LaneUpdated) (\<lambda>_. return updated)))"

definition next_position :: "lane list \<Rightarrow> int" where
  "next_position existing = foldl (\<lambda>m l. max m (l_position l)) (- 1) existing + 1"

definition create_lane_tx :: "env \<Rightarrow> actor \<Rightarrow> create_lane_input \<Rightarrow> lane step" where
  "create_lane_tx E actor inp =
     bind (ask (lane_gate E actor)) (\<lambda>_.
     bind (ask (\<lambda>d. Inr (listLanes (e_boardId E) d))) (\<lambda>existing.
     bind (lift (uniqueLaneKey (cl_label inp) (map l_key existing))) (\<lambda>key.
     bind (newId E) (\<lambda>i.
     let lane = \<lparr>l_id = i, l_boardId = e_boardId E, l_key = key, l_label = cl_label inp,
       l_position = next_position existing, l_wipLimit = cl_wipLimit inp\<rparr> in
     bind (store (insertLane lane)) (\<lambda>_. return lane)))))"

definition create_lane :: "env \<Rightarrow> actor \<Rightarrow> create_lane_input \<Rightarrow> lane step" where
  "create_lane E actor raw =
     bind (lift (parse_create_lane raw)) (\<lambda>inp.
     bind (uow_run (create_lane_tx E actor inp)) (\<lambda>created.
     bind (publish LaneUpdated) (\<lambda>_. return created)))"

definition remove_lane_tx :: "env \<Rightarrow> actor \<Rightarrow> uuid \<Rightarrow> unit step" where
  "remove_lane_tx E actor laneId =
     bind (ask (lane_gate E actor)) (\<lambda>_.
     bind (ask (lane_named E laneId)) (\<lambda>l.
     bind (ask (\<lambda>d. sguard (\<not> length (listLanes (e_boardId E) d) \<le> 1)
       (ConflictError ''a board must keep at least one column'' None))) (\<lambda>_.
     bind (ask (\<lambda>d. sguard (edgeOfLane (l_id l) FirstEdge d = None)
       (ConflictError ''move its cards to another column before deleting it'' None))) (\<lambda>_.
     store (removeLane (l_id l))))))"

definition remove_lane :: "env \<Rightarrow> actor \<Rightarrow> uuid \<Rightarrow> unit step" where
  "remove_lane E actor laneId =
     bind (uow_run (remove_lane_tx E actor laneId)) (\<lambda>_. publish LaneUpdated)"

text \<open>Each lane of the board exactly once.\<close>

definition complete_order :: "uuid list \<Rightarrow> lane list \<Rightarrow> bool" where
  "complete_order orderedIds existing \<longleftrightarrow> length orderedIds = length existing
     \<and> length (uniq orderedIds) = length orderedIds
     \<and> (\<forall>i \<in> set orderedIds. i \<in> set (map l_id existing))"

definition reorder_tx :: "env \<Rightarrow> actor \<Rightarrow> uuid list \<Rightarrow> lane list step" where
  "reorder_tx E actor orderedIds =
     bind (ask (lane_gate E actor)) (\<lambda>_.
     bind (ask (\<lambda>d. sguard (complete_order orderedIds (listLanes (e_boardId E) d))
       (ConflictError ''the reorder must list every column exactly once'' None))) (\<lambda>_.
     bind (put_db (reorderLanes (e_boardId E) orderedIds)) (\<lambda>_.
     ask (\<lambda>d. Inr (listLanes (e_boardId E) d)))))"

definition reorder_lanes :: "env \<Rightarrow> actor \<Rightarrow> uuid list \<Rightarrow> lane list step" where
  "reorder_lanes E actor raw =
     bind (lift (parse_reorder_lanes raw)) (\<lambda>orderedIds.
     bind (uow_run (reorder_tx E actor orderedIds)) (\<lambda>reordered.
     bind (publish LaneUpdated) (\<lambda>_. return reordered)))"

end
