(* ===== verification/Locations.thy ===== *)
theory Locations
  imports Access Commands
begin

text \<open>
  \<open>LocationAdminService\<close> (\<open>packages/server/src/locations/location-admin-service.ts\<close>) and the
  writes of \<open>db/src/repositories/location-repository.ts\<close>: buildings, floors and rooms.  Deleting
  a location deletes everything below it; the walk that collects the subtree ends on every
  table of rows, cyclic parent links included, because it visits a location once.
\<close>

section \<open>The repository\<close>

definition findLocationByNameCi :: "string \<Rightarrow> db \<Rightarrow> location option" where
  "findLocationByNameCi name d = find (\<lambda>l. to_lower (loc_name l) = to_lower name) (t_locations d)"

definition insertLocation :: "location \<Rightarrow> db \<Rightarrow> db read" where
  "insertLocation l d =
     (if loc_id l \<in> loc_id ` set (t_locations d) then Inl (PlainError ''UNIQUE locations.id'')
      else Inr (d\<lparr>t_locations := t_locations d @ [l]\<rparr>))"

definition updateLocation :: "location \<Rightarrow> db \<Rightarrow> db read" where
  "updateLocation l d =
     (if loc_id l \<notin> loc_id ` set (t_locations d) then Inl (NotFoundError ''location'')
      else Inr (d\<lparr>t_locations := put_row loc_id l (t_locations d)\<rparr>))"

text \<open>One level: the unvisited children of the frontier, in row order.\<close>

definition children_of :: "uuid list \<Rightarrow> uuid list \<Rightarrow> location list \<Rightarrow> uuid list" where
  "children_of frontier visited rows = filter (\<lambda>i. i \<notin> set visited)
     (map loc_id (filter (\<lambda>l. case loc_parentId l of None \<Rightarrow> False | Some p \<Rightarrow> p \<in> set frontier) rows))"

lemma children_of_new:
  "i \<in> set (children_of frontier visited rows) \<Longrightarrow> i \<in> loc_id ` set rows \<and> i \<notin> set visited"
  by (auto simp: children_of_def)

text \<open>The levels below the frontier, until one is empty.\<close>

function levels_below :: "location list \<Rightarrow> uuid list \<Rightarrow> uuid list \<Rightarrow> uuid list list" where
  "levels_below rows frontier visited =
     (let children = children_of frontier visited rows in
      if children = [] then [] else children # levels_below rows children (visited @ children))"
  by auto
termination
proof (relation "measure (\<lambda>(rows, frontier, visited). card (loc_id ` set rows - set visited))")
  fix rows frontier visited children
  assume c: "children = children_of frontier visited rows" and n: "children \<noteq> []"
  then obtain i where i: "i \<in> set children" by (metis list.set_intros(1) neq_Nil_conv)
  have "loc_id ` set rows - set (visited @ children) \<subset> loc_id ` set rows - set visited"
    using i c children_of_new by fastforce
  then show "((rows, children, visited @ children), rows, frontier, visited)
      \<in> measure (\<lambda>(rows, frontier, visited). card (loc_id ` set rows - set visited))"
    by (simp add: psubset_card_mono)
qed simp

declare levels_below.simps [simp del]

text \<open>\<open>levels.reverse().flat()\<close>: the deepest level first.\<close>

definition collectSubtree :: "location list \<Rightarrow> uuid \<Rightarrow> uuid list" where
  "collectSubtree rows i = concat (rev ([i] # levels_below rows [i] [i]))"

text \<open>Cards keep their row and lose the reference; then the rows go, children first.\<close>

definition clear_location :: "uuid list \<Rightarrow> card \<Rightarrow> card" where
  "clear_location ids c = (case c_locationId c of
      None \<Rightarrow> c
    | Some i \<Rightarrow> if i \<in> set ids then c\<lparr>c_locationId := None\<rparr> else c)"

definition deleteLocation :: "uuid \<Rightarrow> db \<Rightarrow> db read" where
  "deleteLocation i d =
     (if findLocation i d = None then Inl (NotFoundError ''location'')
      else let ids = collectSubtree (t_locations d) i in
        Inr (d\<lparr>t_cards := map (clear_location ids) (t_cards d),
          t_locations := fold (drop_row loc_id) ids (t_locations d)\<rparr>))"

section \<open>The service\<close>

record create_location_input =
  nl_parentId :: "uuid option"
  nl_kind :: location_kind
  nl_name :: string

definition parse_create_location :: "create_location_input \<Rightarrow> create_location_input read" where
  "parse_create_location raw =
     sbind (trimmed 1 100 ''name'' (nl_name raw)) (\<lambda>name. Inr (raw\<lparr>nl_name := name\<rparr>))"

definition parse_update_location :: "string \<Rightarrow> string read" where
  "parse_update_location name = trimmed 1 100 ''name'' name"

fun REQUIRED_PARENT_KIND :: "location_kind \<Rightarrow> location_kind option" where
  "REQUIRED_PARENT_KIND Building = None"
| "REQUIRED_PARENT_KIND Floor = Some Building"
| "REQUIRED_PARENT_KIND Room = Some Floor"

text \<open>No sibling has the name, case and outer white space aside.\<close>

definition ensureUniqueSiblingName ::
  "uuid option \<Rightarrow> string \<Rightarrow> uuid option \<Rightarrow> db \<Rightarrow> unit read" where
  "ensureUniqueSiblingName parentId name selfId d =
     sguard (\<not> (\<exists>l \<in> set (listLocations d). Some (loc_id l) \<noteq> selfId \<and> loc_parentId l = parentId
       \<and> to_lower (trim (loc_name l)) = to_lower (trim name)))
     (ConflictError ''a location of that name already exists here'' None)"

definition location_gate :: "env \<Rightarrow> actor \<Rightarrow> db \<Rightarrow> unit read" where
  "location_gate E actor d = sbind (activePolicy (e_boardId E) d) (\<lambda>policy.
     ensurePermission actor PermManageLocations policy)"

text \<open>A building is a root; any other kind sits under its required kind.\<close>

definition parent_fits :: "create_location_input \<Rightarrow> db \<Rightarrow> unit read" where
  "parent_fits inp d = (case REQUIRED_PARENT_KIND (nl_kind inp) of
      None \<Rightarrow> sguard (nl_parentId inp = None)
        (ServerError (RequestValidationError ''parentId'' ''a building cannot have a parent''))
    | Some required \<Rightarrow> (case nl_parentId inp of
        None \<Rightarrow> Inl (ServerError (RequestValidationError ''parentId'' ''a parent is required''))
      | Some p \<Rightarrow> sbind (requireFound (findLocation p d) ''parent location'') (\<lambda>parent.
          sguard (loc_kind parent = required)
            (ServerError (RequestValidationError ''parentId'' ''wrong kind of parent'')))))"

definition list_locations :: "location list step" where
  "list_locations = uow_read (\<lambda>d. Inr (listLocations d))"

definition create_location_tx :: "env \<Rightarrow> actor \<Rightarrow> create_location_input \<Rightarrow> uuid \<Rightarrow> location step" where
  "create_location_tx E actor inp i = (let loc = \<lparr>loc_id = i, loc_parentId = nl_parentId inp,
       loc_kind = nl_kind inp, loc_name = nl_name inp\<rparr> in
     bind (ask (location_gate E actor)) (\<lambda>_.
     bind (ask (parent_fits inp)) (\<lambda>_.
     bind (ask (ensureUniqueSiblingName (nl_parentId inp) (nl_name inp) None)) (\<lambda>_.
     bind (store (insertLocation loc)) (\<lambda>_. return loc)))))"

definition create_location :: "env \<Rightarrow> actor \<Rightarrow> create_location_input \<Rightarrow> location step" where
  "create_location E actor raw =
     bind (lift (parse_create_location raw)) (\<lambda>inp.
     bind (newId E) (\<lambda>i.
     bind (uow_run (create_location_tx E actor inp i)) (\<lambda>created.
     bind (publish LocationUpdated) (\<lambda>_. return created))))"

definition update_location_tx :: "env \<Rightarrow> actor \<Rightarrow> uuid \<Rightarrow> string \<Rightarrow> location step" where
  "update_location_tx E actor locationId name =
     bind (ask (location_gate E actor)) (\<lambda>_.
     bind (ask (\<lambda>d. requireFound (findLocation locationId d) ''location'')) (\<lambda>found.
     bind (ask (ensureUniqueSiblingName (loc_parentId found) name (Some (loc_id found)))) (\<lambda>_.
     let renamed = found\<lparr>loc_name := name\<rparr> in
     bind (store (updateLocation renamed)) (\<lambda>_. return renamed))))"

definition update_location :: "env \<Rightarrow> actor \<Rightarrow> uuid \<Rightarrow> string \<Rightarrow> location step" where
  "update_location E actor locationId raw =
     bind (lift (parse_update_location raw)) (\<lambda>name.
     bind (uow_run (update_location_tx E actor locationId name)) (\<lambda>updated.
     bind (publish LocationUpdated) (\<lambda>_. return updated)))"

definition delete_location :: "env \<Rightarrow> actor \<Rightarrow> uuid \<Rightarrow> unit step" where
  "delete_location E actor locationId =
     bind (uow_run (bind (ask (location_gate E actor)) (\<lambda>_. store (deleteLocation locationId)))) (\<lambda>_.
     publish LocationUpdated)"

end
