(* ===== verification/Policies.thy ===== *)
theory Policies
  imports Boards
begin

text \<open>
  \<open>PolicyService\<close> (\<open>packages/core/src/services/policy-service.ts\<close>): the versions of a board's
  policy document, with the global roles kept on the default board; and
  \<open>FilterPresetService\<close> (\<open>packages/server/src/filters/filter-preset-service.ts\<close>) with its
  repository: saved filters, editable by their owner only.
\<close>

section \<open>Policies\<close>

definition active_policy_view :: "env \<Rightarrow> board_policy step" where
  "active_policy_view E = uow_read (\<lambda>d.
     sbind (requireFound (getActive (e_boardId E) d) ''policy'') (\<lambda>policy.
     sbind (globalPolicy d) (\<lambda>global.
     Inr (policy\<lparr>bp_config := (bp_config policy)\<lparr>p_roles := p_roles global\<rparr>\<rparr>))))"

text \<open>A reason the new document drops stays, inactive.\<close>

definition retire_reasons :: "policy_document \<Rightarrow> policy_document \<Rightarrow> policy_document" where
  "retire_reasons current config = config\<lparr>p_waitingReasons := p_waitingReasons config
     @ map (\<lambda>r. r\<lparr>wr_active := False\<rparr>)
        (filter (\<lambda>r. wr_key r \<notin> set (map wr_key (p_waitingReasons config))) (p_waitingReasons current))\<rparr>"

definition ensureNoOrphanedRole :: "role_key list \<Rightarrow> db \<Rightarrow> unit read" where
  "ensureNoOrphanedRole kept d =
     sbind (sguard (\<forall>b \<in> set (listBoards d). \<forall>k \<in> set (b_allowedRoleKeys b). k \<in> set kept)
       (ConflictError ''role-in-use: role is assigned to a board'' None)) (\<lambda>_.
     sbind (sguard (\<forall>u \<in> set (listUsers d). u_isActive u \<longrightarrow> u_role u \<in> set kept)
       (ConflictError ''role-in-use: role is assigned to a user'' None)) (\<lambda>_.
     sguard (\<forall>t \<in> set (listTokens d). st_revokedAt t = None \<longrightarrow> st_role t \<in> set kept)
       (ConflictError ''role-in-use: role is assigned to a token'' None)))"

text \<open>The reads and checks of \<open>apply\<close>: the default board, its policy, and the document to store.\<close>

definition policy_plan ::
  "env \<Rightarrow> actor \<Rightarrow> policy_document \<Rightarrow> db \<Rightarrow> (board \<times> policy_document \<times> policy_document) read" where
  "policy_plan E actor config d =
     sbind (requireFound (getDefault d) ''default board'') (\<lambda>authority.
     sbind (requireFound (getActive (b_id authority) d) ''policy'') (\<lambda>global.
     sbind (requireBoardAccess actor (e_boardId E) d) (\<lambda>_.
     sbind (requireFound (getActive (e_boardId E) d) ''policy'') (\<lambda>current.
     sbind (decide (evaluatePolicy actor ActManagePolicy (bp_config global))) (\<lambda>_.
     let merged = retire_reasons (bp_config current) config in
     sbind (ensureNoOrphanedRole (map r_key (p_roles merged)) d) (\<lambda>_.
     Inr (authority, bp_config global, merged)))))))"

definition policy_tx :: "env \<Rightarrow> actor \<Rightarrow> policy_document \<Rightarrow> board_policy step" where
  "policy_tx E actor config =
     bind (ask (policy_plan E actor config)) (\<lambda>(authority, global, merged).
     bind (for_each (p_roles global) (\<lambda>role.
       if r_key role \<notin> set (map r_key (p_roles merged))
       then put_db (setDefault DRole (SubjRole (r_key role)) None) else return ())) (\<lambda>_.
     bind (newId E) (\<lambda>i.
     bind (now E) (\<lambda>t.
     let version = \<lparr>bp_id = i, bp_boardId = e_boardId E, bp_config = merged,
       bp_createdBy = a_id actor, bp_createdAt = t\<rparr> in
     bind (store (insertPolicy version)) (\<lambda>_.
     bind (if b_id authority \<noteq> e_boardId E \<and> p_roles global \<noteq> p_roles merged
       then bind (newId E) (\<lambda>j. store (insertPolicy (version\<lparr>bp_id := j, bp_boardId := b_id authority,
         bp_config := global\<lparr>p_roles := p_roles merged\<rparr>\<rparr>)))
       else return ()) (\<lambda>_.
     return version))))))"

definition apply_policy :: "env \<Rightarrow> actor \<Rightarrow> policy_document \<Rightarrow> board_policy step" where
  "apply_policy E actor raw =
     bind (lift (parse_policy_document raw)) (\<lambda>config.
     bind (uow_run (policy_tx E actor config)) (\<lambda>record.
     bind (publish PolicyUpdated) (\<lambda>_. return record)))"

section \<open>Filter presets\<close>

definition listVisibleTo :: "uuid \<Rightarrow> uuid \<Rightarrow> db \<Rightarrow> filter_preset list" where
  "listVisibleTo userId boardId d = order_desc (\<lambda>p. (fp_createdAt p, fp_id p))
     (filter (\<lambda>p. fp_boardId p = boardId \<and> (fp_ownerId p = userId \<or> fp_shared p)) (t_presets d))"

definition owned_preset :: "uuid \<Rightarrow> uuid \<Rightarrow> uuid \<Rightarrow> filter_preset \<Rightarrow> bool" where
  "owned_preset i ownerId boardId p \<longleftrightarrow> fp_id p = i \<and> fp_ownerId p = ownerId \<and> fp_boardId p = boardId"

definition findByIdForOwner :: "uuid \<Rightarrow> uuid \<Rightarrow> uuid \<Rightarrow> db \<Rightarrow> filter_preset option" where
  "findByIdForOwner i ownerId boardId d = find (owned_preset i ownerId boardId) (t_presets d)"

definition insertPreset :: "filter_preset \<Rightarrow> db \<Rightarrow> db read" where
  "insertPreset p d =
     (if fp_id p \<in> fp_id ` set (t_presets d) then Inl (PlainError ''UNIQUE filter_presets.id'')
      else Inr (d\<lparr>t_presets := t_presets d @ [p]\<rparr>))"

definition updatePreset :: "filter_preset \<Rightarrow> db \<Rightarrow> db read" where
  "updatePreset p d = (let mine = owned_preset (fp_id p) (fp_ownerId p) (fp_boardId p) in
     if \<not> (\<exists>x \<in> set (t_presets d). mine x) then Inl (NotFoundError ''filter preset'')
     else Inr (d\<lparr>t_presets := map (\<lambda>x. if mine x then x\<lparr>fp_name := fp_name p, fp_filter := fp_filter p,
       fp_shared := fp_shared p, fp_updatedAt := fp_updatedAt p\<rparr> else x) (t_presets d)\<rparr>))"

definition deletePreset :: "uuid \<Rightarrow> uuid \<Rightarrow> uuid \<Rightarrow> db \<Rightarrow> db read" where
  "deletePreset i ownerId boardId d =
     (if \<not> (\<exists>x \<in> set (t_presets d). owned_preset i ownerId boardId x)
      then Inl (NotFoundError ''filter preset'')
      else Inr (d\<lparr>t_presets := filter (\<lambda>x. \<not> owned_preset i ownerId boardId x) (t_presets d)\<rparr>))"

text \<open>Facets hold at most 50 values; tags are trimmed.\<close>

definition FACET_MAX :: nat where "FACET_MAX = 50"

definition boardFilterSchema :: "board_filter \<Rightarrow> board_filter read" where
  "boardFilterSchema f =
     sbind (check (length (bf_priorities f) \<le> FACET_MAX \<and> length (bf_assigneeIds f) \<le> FACET_MAX
       \<and> length (bf_reporterIds f) \<le> FACET_MAX \<and> length (bf_tags f) \<le> FACET_MAX
       \<and> length (bf_locationIds f) \<le> FACET_MAX) ''filter'') (\<lambda>_.
     sbind (smap tagNameSchema (bf_tags f)) (\<lambda>tags.
     sbind (check (length (bf_q f) \<le> 200) ''q'') (\<lambda>_. Inr (f\<lparr>bf_tags := tags\<rparr>))))"

record create_preset_input =
  np_name :: string
  np_filter :: board_filter
  np_shared :: "bool option"

record update_preset_input =
  up_name :: "string option"
  up_filter :: "board_filter option"
  up_shared :: "bool option"

definition parse_create_preset :: "create_preset_input \<Rightarrow> create_preset_input read" where
  "parse_create_preset raw =
     sbind (trimmed 1 60 ''name'' (np_name raw)) (\<lambda>name.
     sbind (boardFilterSchema (np_filter raw)) (\<lambda>f. Inr (raw\<lparr>np_name := name, np_filter := f\<rparr>)))"

definition parse_update_preset :: "update_preset_input \<Rightarrow> update_preset_input read" where
  "parse_update_preset raw =
     sbind (optional (trimmed 1 60 ''name'') (up_name raw)) (\<lambda>name.
     sbind (optional boardFilterSchema (up_filter raw)) (\<lambda>f.
     sbind (check (up_name raw \<noteq> None \<or> up_filter raw \<noteq> None \<or> up_shared raw \<noteq> None)
       ''at least one of name, filter, or shared is required'') (\<lambda>_.
     Inr (raw\<lparr>up_name := name, up_filter := f\<rparr>))))"

definition list_presets :: "env \<Rightarrow> actor \<Rightarrow> filter_preset list step" where
  "list_presets E actor = uow_read (\<lambda>d.
     sbind (requireBoardAccess actor (e_boardId E) d) (\<lambda>_.
     Inr (listVisibleTo (a_id actor) (e_boardId E) d)))"

definition create_preset :: "env \<Rightarrow> actor \<Rightarrow> create_preset_input \<Rightarrow> filter_preset step" where
  "create_preset E actor raw =
     bind (lift (parse_create_preset raw)) (\<lambda>inp.
     bind (now E) (\<lambda>t.
     bind (newId E) (\<lambda>i.
     let preset = \<lparr>fp_id = i, fp_boardId = e_boardId E, fp_ownerId = a_id actor, fp_name = np_name inp,
       fp_filter = np_filter inp, fp_shared = default_to False (np_shared inp), fp_createdAt = t,
       fp_updatedAt = t\<rparr> in
     bind (uow_run (bind (ask (requireBoardAccess actor (e_boardId E))) (\<lambda>_.
       store (insertPreset preset)))) (\<lambda>_.
     return preset))))"

definition edited_preset :: "update_preset_input \<Rightarrow> instant \<Rightarrow> filter_preset \<Rightarrow> filter_preset" where
  "edited_preset inp t p = p\<lparr>fp_name := default_to (fp_name p) (up_name inp),
     fp_filter := default_to (fp_filter p) (up_filter inp),
     fp_shared := default_to (fp_shared p) (up_shared inp), fp_updatedAt := t\<rparr>"

definition update_preset :: "env \<Rightarrow> actor \<Rightarrow> uuid \<Rightarrow> update_preset_input \<Rightarrow> filter_preset step" where
  "update_preset E actor presetId raw =
     bind (lift (parse_update_preset raw)) (\<lambda>inp. uow_run (
     bind (ask (requireBoardAccess actor (e_boardId E))) (\<lambda>_.
     bind (ask (\<lambda>d. requireFound (findByIdForOwner presetId (a_id actor) (e_boardId E) d)
       ''filter preset'')) (\<lambda>existing.
     bind (now E) (\<lambda>t.
     let updated = edited_preset inp t existing in
     bind (store (updatePreset updated)) (\<lambda>_. return updated))))))"

definition delete_preset :: "env \<Rightarrow> actor \<Rightarrow> uuid \<Rightarrow> unit step" where
  "delete_preset E actor presetId = uow_run (
     bind (ask (requireBoardAccess actor (e_boardId E))) (\<lambda>_.
     store (deletePreset presetId (a_id actor) (e_boardId E))))"

end
