(* ===== verification/Search.thy ===== *)
theory Search
  imports Tables Lanes
begin

text \<open>
  The card queries of \<open>packages/db/src/repositories/card-repository.ts\<close>: the filter the
  services hand to it (\<open>CardQueryFilter\<close> of \<open>packages/core/src/ports/repositories.ts\<close>), the
  conditions it becomes, the keyset page, and the board summaries with their joined extras.
  \<open>like_match\<close> is SQL's \<open>LIKE \<dots> ESCAPE\<close>.
\<close>

section \<open>Text search\<close>

definition BACKSLASH :: char where "BACKSLASH = char_of (92 :: nat)"
definition NEWLINE :: char where "NEWLINE = char_of (10 :: nat)"

definition replaceAll :: "char \<Rightarrow> string \<Rightarrow> string \<Rightarrow> string" where
  "replaceAll c by s = concat (map (\<lambda>x. if x = c then by else [x]) s)"

definition escapeLike :: "string \<Rightarrow> string" where
  "escapeLike needle = replaceAll (CHR ''_'') [BACKSLASH, CHR ''_'']
     (replaceAll (CHR ''%'') [BACKSLASH, CHR ''%''] (replaceAll BACKSLASH [BACKSLASH, BACKSLASH] needle))"

text \<open>Pattern, then text; \<open>LIKE\<close> folds ASCII letters itself.\<close>

fun like_match :: "string \<Rightarrow> string \<Rightarrow> bool" where
  "like_match [] s \<longleftrightarrow> s = []"
| "like_match (c # p) s \<longleftrightarrow>
     (if c = CHR ''%'' then like_match p s \<or> (case s of [] \<Rightarrow> False | _ # s' \<Rightarrow> like_match (c # p) s')
      else case s of [] \<Rightarrow> False
      | x # s' \<Rightarrow>
          if c = CHR ''_'' then like_match p s'
          else if c = BACKSLASH
          then (case p of [] \<Rightarrow> False | y # p' \<Rightarrow> lower_char y = lower_char x \<and> like_match p' s')
          else lower_char c = lower_char x \<and> like_match p s')"

declare like_match.simps(2) [simp del]

text \<open>\<open>/^\d+$/\<close>: a number also finds the card of that number.\<close>

definition text_found :: "string \<Rightarrow> card \<Rightarrow> bool" where
  "text_found q c \<longleftrightarrow>
     like_match (to_lower (''%'' @ escapeLike q @ ''%'')) (to_lower (c_title c @ [NEWLINE] @ c_description c))
     \<or> q \<noteq> [] \<and> list_all is_digit q \<and> c_id c = digits_value q"

section \<open>The filter\<close>

record card_query_filter =
  qf_boardId :: "uuid option"
  qf_laneId :: "uuid option"
  qf_laneIds :: "uuid list"
  qf_assigneeId :: "uuid option"
  qf_assigneeIds :: "uuid list"
  qf_reporterId :: "uuid option"
  qf_reporterIds :: "uuid list"
  qf_priority :: "priority option"
  qf_priorities :: "priority list"
  qf_locationIds :: "uuid list"
  qf_tags :: "string list"
  qf_blocked :: "bool option"
  qf_waitingReason :: "string option"
  qf_overdueBefore :: "day option"
  qf_overdueCandidate :: bool
  qf_q :: "string option"
  qf_includeArchived :: bool
  qf_archivedOnly :: bool

text \<open>An absent list and an empty list are the same to the conditions.\<close>

definition no_filter :: card_query_filter where
  "no_filter = \<lparr>qf_boardId = None, qf_laneId = None, qf_laneIds = [], qf_assigneeId = None,
     qf_assigneeIds = [], qf_reporterId = None, qf_reporterIds = [], qf_priority = None,
     qf_priorities = [], qf_locationIds = [], qf_tags = [], qf_blocked = None, qf_waitingReason = None,
     qf_overdueBefore = None, qf_overdueCandidate = False, qf_q = None, qf_includeArchived = False,
     qf_archivedOnly = False\<rparr>"

definition equals_opt :: "'a option \<Rightarrow> 'a \<Rightarrow> bool" where
  "equals_opt wanted x \<longleftrightarrow> (case wanted of None \<Rightarrow> True | Some y \<Rightarrow> x = y)"

text \<open>A null column is in no list and equals nothing.\<close>

definition column_in :: "'a list \<Rightarrow> 'a option \<Rightarrow> bool" where
  "column_in wanted x \<longleftrightarrow> wanted = [] \<or> (case x of None \<Rightarrow> False | Some y \<Rightarrow> y \<in> set wanted)"

definition column_is :: "'a option \<Rightarrow> 'a option \<Rightarrow> bool" where
  "column_is wanted x \<longleftrightarrow> (case wanted of None \<Rightarrow> True | Some y \<Rightarrow> x = Some y)"

definition archive_selected :: "card_query_filter \<Rightarrow> card \<Rightarrow> bool" where
  "archive_selected f c \<longleftrightarrow> (if qf_archivedOnly f then c_archivedAt c \<noteq> None
     else if qf_includeArchived f then True else c_archivedAt c = None)"

text \<open>The \<open>exists\<close> subquery over \<open>card_tags\<close> and \<open>tags\<close>.\<close>

definition carries_tag :: "string list \<Rightarrow> db \<Rightarrow> card \<Rightarrow> bool" where
  "carries_tag wanted d c \<longleftrightarrow> (\<exists>r \<in> set (t_cardTags d). fst r = c_id c
     \<and> (\<exists>t \<in> set (t_tags d). tag_id t = snd r \<and> to_lower (tag_name t) \<in> set (map to_lower wanted)))"

definition filterConditions :: "card_query_filter \<Rightarrow> db \<Rightarrow> card \<Rightarrow> bool" where
  "filterConditions f d c \<longleftrightarrow> archive_selected f c
     \<and> equals_opt (qf_boardId f) (c_boardId c)
     \<and> equals_opt (qf_laneId f) (c_laneId c) \<and> column_in (qf_laneIds f) (Some (c_laneId c))
     \<and> column_is (qf_assigneeId f) (c_assigneeId c) \<and> column_in (qf_assigneeIds f) (c_assigneeId c)
     \<and> equals_opt (qf_reporterId f) (c_reporterId c) \<and> column_in (qf_reporterIds f) (Some (c_reporterId c))
     \<and> equals_opt (qf_priority f) (c_priority c) \<and> column_in (qf_priorities f) (Some (c_priority c))
     \<and> column_in (qf_locationIds f) (c_locationId c)
     \<and> equals_opt (qf_blocked f) (c_blocked c)
     \<and> column_is (qf_waitingReason f) (c_waitingReason c)
     \<and> (case qf_overdueBefore f of None \<Rightarrow> True
          | Some d \<Rightarrow> (case c_expectedResumeAt c of None \<Rightarrow> False | Some r \<Rightarrow> r < d))
     \<and> (qf_overdueCandidate f \<longrightarrow> c_workStartedAt c \<noteq> None \<and> c_estimateMinutes c \<noteq> None)
     \<and> (qf_tags f = [] \<or> carries_tag (qf_tags f) d c)
     \<and> (case qf_q f of None \<Rightarrow> True | Some q \<Rightarrow> text_found q c)"

definition card_key :: "card \<Rightarrow> instant \<times> card_no" where
  "card_key c = (c_createdAt c, c_id c)"

text \<open>Newest first; \<open>after\<close> returns what is strictly older than the cursor.\<close>

definition query :: "card_query_filter \<Rightarrow> (instant \<times> card_no) option \<Rightarrow> nat option \<Rightarrow> db \<Rightarrow> card list" where
  "query f after limit d = limit_to limit (order_desc card_key
     (filter (\<lambda>c. filterConditions f d c
        \<and> (case after of None \<Rightarrow> True | Some k \<Rightarrow> card_key c < k)) (t_cards d)))"

section \<open>Board summaries\<close>

record board_extras =
  bx_tags :: "string list"
  bx_attachmentCount :: nat
  bx_locationLabel :: "string option"

definition tag_rows :: "card_no list \<Rightarrow> db \<Rightarrow> (card_no \<times> string) list" where
  "tag_rows cardIds d = order_asc (\<lambda>r. to_lower (snd r)) (concat (map (\<lambda>r.
     if fst r \<in> set cardIds
     then map (\<lambda>t. (fst r, tag_name t)) (filter (\<lambda>t. tag_id t = snd r) (t_tags d)) else [])
     (t_cardTags d)))"

definition attachExtras :: "(card \<times> string option) list \<Rightarrow> db \<Rightarrow> (card \<times> board_extras) list" where
  "attachExtras rows d = (if rows = [] then [] else
     let tags = tag_rows (map (c_id \<circ> fst) rows) d in
     map (\<lambda>row. (fst row, \<lparr>bx_tags = map snd (filter (\<lambda>r. fst r = c_id (fst row)) tags),
       bx_attachmentCount = length (filter (\<lambda>a. at_cardId a = c_id (fst row) \<and> at_deletedAt a = None)
         (t_attachments d)),
       bx_locationLabel = snd row\<rparr>)) rows)"

text \<open>The left join with \<open>locations\<close>.\<close>

definition with_location :: "db \<Rightarrow> card \<Rightarrow> card \<times> string option" where
  "with_location d c = (c, case c_locationId c of None \<Rightarrow> None
     | Some l \<Rightarrow> map_option loc_name (findLocation l d))"

definition listBoardSummariesByLane :: "uuid \<Rightarrow> db \<Rightarrow> (card \<times> board_extras) list" where
  "listBoardSummariesByLane laneId d = attachExtras (map (with_location d) (order_asc c_position
     (filter (\<lambda>c. c_laneId c = laneId \<and> c_archivedAt c = None) (t_cards d)))) d"

definition queryBoardSummaries :: "card_query_filter \<Rightarrow> db \<Rightarrow> (card \<times> board_extras) list" where
  "queryBoardSummaries f d = attachExtras (map (with_location d) (order_asc c_position
     (filter (filterConditions f d) (t_cards d)))) d"

text \<open>The tags of a board, by folded name.\<close>

definition listAllTags :: "uuid option \<Rightarrow> db \<Rightarrow> tag list" where
  "listAllTags boardId d = order_asc (\<lambda>t. (to_lower (tag_name t), tag_id t)) (case boardId of
      None \<Rightarrow> t_tags d
    | Some b \<Rightarrow> filter (\<lambda>t. \<exists>r \<in> set (t_cardTags d). snd r = tag_id t
        \<and> (\<exists>c \<in> set (t_cards d). c_id c = fst r \<and> c_boardId c = b)) (t_tags d))"

text \<open>The activity of a board: newest first, since an instant.  Empty lists select nothing.\<close>

definition listBoardSince :: "instant \<Rightarrow> event_type list option \<Rightarrow> card_no option \<Rightarrow> actor_kind option
    \<Rightarrow> uuid list option \<Rightarrow> uuid option \<Rightarrow> (instant \<times> uuid) option \<Rightarrow> nat option \<Rightarrow> db \<Rightarrow> card_event list" where
  "listBoardSince since types cardId actorKind actorIds boardId after limit d =
     limit_to limit (order_desc event_key (filter (\<lambda>e. since \<le> ev_createdAt e \<and> type_in types e
       \<and> equals_opt cardId (ev_cardId e) \<and> equals_opt actorKind (ev_actorKind e)
       \<and> (case actorIds of None \<Rightarrow> True
            | Some ids \<Rightarrow> (case ev_actorId e of None \<Rightarrow> False | Some a \<Rightarrow> a \<in> set ids))
       \<and> (case boardId of None \<Rightarrow> True
            | Some b \<Rightarrow> (\<exists>c \<in> set (t_cards d). c_id c = ev_cardId e \<and> c_boardId c = b))
       \<and> (case after of None \<Rightarrow> True | Some k \<Rightarrow> event_key e < k)) (t_events d)))"

end
