(* ===== verification/Jobs.thy ===== *)
theory Jobs
  imports Cards Search
begin

text \<open>
  The scheduled work of \<open>CardService\<close> (\<open>packages/core/src/services/card-service.ts\<close>): the
  nightly archival of cards that are done for 90 days, one transaction per card, and the hourly
  claim of the waiting cards that are past their resume date, with the users to alert.
\<close>

section \<open>Archival\<close>

definition enteredDoneAt :: "card \<Rightarrow> db \<Rightarrow> instant" where
  "enteredDoneAt c d =
     (case first_of (listLatestByCard (c_id c) 1 (Some [TCardStatusChanged, TCardCancelled]) d) of
        None \<Rightarrow> c_updatedAt c
      | Some e \<Rightarrow> (case ev_body e of
          CardCancelled r lane reason resume \<Rightarrow> ev_createdAt e
        | CardStatusChanged frm to x y \<Rightarrow> (if to = ''done'' then ev_createdAt e else c_updatedAt c)
        | _ \<Rightarrow> c_updatedAt c))"

definition archive_candidates :: "db \<Rightarrow> card list" where
  "archive_candidates d = concat (map (\<lambda>b. case findLaneByKey (b_id b) ''done'' d of
      None \<Rightarrow> []
    | Some l \<Rightarrow> query (no_filter\<lparr>qf_boardId := Some (b_id b), qf_laneId := Some (l_id l)\<rparr>) None None d)
    (listBoards d))"

text \<open>The card re-read inside the transaction, when it is still to be archived.\<close>

definition expire_due :: "actor \<Rightarrow> instant \<Rightarrow> card \<Rightarrow> db \<Rightarrow> card option read" where
  "expire_due actor cutoff candidate d = (case findCard (c_id candidate) d of
      None \<Rightarrow> Inr None
    | Some c \<Rightarrow>
        if c_archivedAt c \<noteq> None \<or> c_laneId c \<noteq> c_laneId candidate then Inr None
        else if (case findBoard (c_boardId c) d of None \<Rightarrow> True | Some b \<Rightarrow> b_archivedAt b \<noteq> None)
        then Inr None
        else sbind (requireBoardAccess actor (c_boardId c) d) (\<lambda>_.
          Inr (if cutoff < enteredDoneAt c d then None else Some c)))"

definition expired_card :: "instant \<Rightarrow> card \<Rightarrow> card" where
  "expired_card t c = c\<lparr>c_archivedAt := Some t, c_version := c_version c + 1, c_updatedAt := t\<rparr>"

definition expire_tx :: "env \<Rightarrow> actor \<Rightarrow> instant \<Rightarrow> card \<Rightarrow> (card \<times> card_event) option step" where
  "expire_tx E actor cutoff candidate =
     bind (ask (expire_due actor cutoff candidate)) (\<lambda>due. case due of
        None \<Rightarrow> return None
      | Some c \<Rightarrow>
          bind (now E) (\<lambda>t.
          bind (store (updateCard (expired_card t c))) (\<lambda>_.
          bind (makeEvent E actor (c_id c) CardArchived) (\<lambda>e.
          bind (store (appendEvent e)) (\<lambda>_.
          return (Some (expired_card t c, e)))))))"

definition expire_candidate :: "env \<Rightarrow> actor \<Rightarrow> instant \<Rightarrow> card \<Rightarrow> bool step" where
  "expire_candidate E actor cutoff candidate =
     bind (uow_run (expire_tx E actor cutoff candidate)) (\<lambda>result. case result of
        None \<Rightarrow> return False
      | Some (c, e) \<Rightarrow> bind (publishCardHints c [e]) (\<lambda>_. return True))"

definition archiveExpired :: "env \<Rightarrow> actor \<Rightarrow> nat step" where
  "archiveExpired E actor =
     bind (now E) (\<lambda>t.
     bind (uow_read (\<lambda>d. Inr (archive_candidates d))) (\<lambda>candidates.
     bind (for_map candidates (expire_candidate E actor (t - DONE_ARCHIVAL_DAYS * 86400000))) (\<lambda>results.
     return (length (filter id results)))))"

section \<open>Alerts for overdue waiting cards\<close>

definition overdue_waiting :: "board \<Rightarrow> day \<Rightarrow> db \<Rightarrow> card list" where
  "overdue_waiting board today d = (case findLaneByKey (b_id board) ''waiting_parts_vendor'' d of
      None \<Rightarrow> []
    | Some l \<Rightarrow> filter (\<lambda>c. c_resumeAlertedAt c = None)
        (query (no_filter\<lparr>qf_laneId := Some (l_id l), qf_overdueBefore := Some today\<rparr>) None None d))"

text \<open>Admins: the active users, other than the system user, whose role grants \<open>manageUsers\<close>.\<close>

definition supervisors :: "env \<Rightarrow> policy_document \<Rightarrow> db \<Rightarrow> user list" where
  "supervisors E policy d = filter (\<lambda>u.
     u_role u \<in> r_key ` {r \<in> set (p_roles policy). PermManageUsers \<in> set (r_permissions r)}
     \<and> u_isActive u \<and> u_id u \<noteq> e_systemUserId E) (listUsers d)"

text \<open>The map of recipients: the active assignee first, then the supervisors, each id once.\<close>

definition alert_recipients :: "card \<Rightarrow> user list \<Rightarrow> db \<Rightarrow> user list" where
  "alert_recipients c admins d =
     (case (case c_assigneeId c of None \<Rightarrow> None | Some a \<Rightarrow> findUser a d) of
        None \<Rightarrow> admins
      | Some u \<Rightarrow> if u_isActive u then u # filter (\<lambda>x. u_id x \<noteq> u_id u) admins else admins)"

definition claim_alert :: "board \<Rightarrow> instant \<Rightarrow> user list \<Rightarrow> card \<Rightarrow> (card \<times> user list) step" where
  "claim_alert board t admins c =
     bind (ask (\<lambda>d. Inr (alert_recipients c admins d))) (\<lambda>recipients.
     let marked = c\<lparr>c_resumeAlertedAt := Some t\<rparr> in
     bind (store (updateCard marked)) (\<lambda>_.
     bind (ask (\<lambda>d. sfilter (\<lambda>u. canAccessBoard (actor_of_user u) board d) recipients)) (\<lambda>visible.
     return (marked, visible))))"

definition claim_board :: "env \<Rightarrow> instant \<Rightarrow> board \<Rightarrow> (card \<times> user list) list step" where
  "claim_board E t board =
     bind (ask (\<lambda>d. Inr (overdue_waiting board (utcDayOf t) d))) (\<lambda>overdue.
     if overdue = [] then return [] else
     bind (ask (activePolicy (b_id board))) (\<lambda>policy.
     bind (ask (\<lambda>d. Inr (supervisors E policy d))) (\<lambda>admins.
     for_map overdue (claim_alert board t admins))))"

definition claimOverdueWaitingAlerts :: "env \<Rightarrow> (card \<times> user list) list step" where
  "claimOverdueWaitingAlerts E =
     bind (now E) (\<lambda>t. uow_run (
     bind (ask (\<lambda>d. Inr (listBoards d))) (\<lambda>boards.
     bind (for_map boards (claim_board E t)) (\<lambda>alerts. return (concat alerts)))))"

end
