(* ===== verification/Admin_System.thy ===== *)
theory Admin_System
  imports System Auth_System Boards Lanes Locations Policies Jobs
begin

text \<open>
  The administration of an installation and its scheduled work as requests, and the whole
  server: cards and conversations, accounts and credentials, administration, each on the board
  it names.  The locales say which tables a view of the database ignores; what a view ignores
  cannot be changed by the services that write only there.
\<close>

section \<open>Requests\<close>

datatype admin_request =
    CreateBoard actor board_input
  | UpdateBoard actor uuid board_input
  | RemoveBoard actor uuid
  | SetPreference actor "uuid option"
  | SaveGroup actor "uuid option" group_input
  | RemoveGroup actor uuid
  | UpdateLane actor uuid update_lane_input
  | CreateLane actor create_lane_input
  | RemoveLane actor uuid
  | ReorderLanes actor "uuid list"
  | CreateLocation actor create_location_input
  | UpdateLocation actor uuid string
  | DeleteLocation actor uuid
  | ApplyPolicy actor policy_document
  | CreatePreset actor create_preset_input
  | UpdatePreset actor uuid update_preset_input
  | DeletePreset actor uuid
  | ArchiveExpired actor
  | ClaimAlerts

fun serve_admin :: "env \<Rightarrow> admin_request \<Rightarrow> world \<Rightarrow> world" where
  "serve_admin E (CreateBoard a raw) w = snd (create_board E a raw w)"
| "serve_admin E (UpdateBoard a b raw) w = snd (update_board a b raw w)"
| "serve_admin E (RemoveBoard a b) w = snd (remove_board E a b w)"
| "serve_admin E (SetPreference a b) w = snd (setPreference a b w)"
| "serve_admin E (SaveGroup a g raw) w = snd (saveGroup E a g raw w)"
| "serve_admin E (RemoveGroup a g) w = snd (remove_group a g w)"
| "serve_admin E (UpdateLane a i raw) w = snd (update_lane E a i raw w)"
| "serve_admin E (CreateLane a raw) w = snd (create_lane E a raw w)"
| "serve_admin E (RemoveLane a i) w = snd (remove_lane E a i w)"
| "serve_admin E (ReorderLanes a is) w = snd (reorder_lanes E a is w)"
| "serve_admin E (CreateLocation a raw) w = snd (create_location E a raw w)"
| "serve_admin E (UpdateLocation a i name) w = snd (update_location E a i name w)"
| "serve_admin E (DeleteLocation a i) w = snd (delete_location E a i w)"
| "serve_admin E (ApplyPolicy a doc) w = snd (apply_policy E a doc w)"
| "serve_admin E (CreatePreset a raw) w = snd (create_preset E a raw w)"
| "serve_admin E (UpdatePreset a i raw) w = snd (update_preset E a i raw w)"
| "serve_admin E (DeletePreset a i) w = snd (delete_preset E a i w)"
| "serve_admin E (ArchiveExpired a) w = snd (archiveExpired E a w)"
| "serve_admin E ClaimAlerts w = snd (claimOverdueWaitingAlerts E w)"

text \<open>Any request to the server; \<open>boardId\<close> of a board's services is the board it names.\<close>

datatype any_request = CardsOf uuid request | AccountsOf auth_request | AdminOf uuid admin_request

fun serve_any :: "env \<Rightarrow> auth_env \<Rightarrow> any_request \<Rightarrow> world \<Rightarrow> world" where
  "serve_any E A (CardsOf b r) w = serve_request (E\<lparr>e_boardId := b\<rparr>) r w"
| "serve_any E A (AccountsOf r) w = serve_auth A r w"
| "serve_any E A (AdminOf b r) w = serve_admin (E\<lparr>e_boardId := b\<rparr>) r w"

section \<open>Views that ignore the administration\<close>

lemma keeps_for_map [intro]: "(\<And>x. keeps obs (f x)) \<Longrightarrow> keeps obs (for_map xs f)"
  by (induction xs) auto

lemma keeps_cases:
  "keeps obs p \<Longrightarrow> (\<And>x. keeps obs (q x)) \<Longrightarrow> keeps obs (case y of None \<Rightarrow> p | Some x \<Rightarrow> q x)"
  "(\<And>x z. keeps obs (r x z)) \<Longrightarrow> keeps obs (case v of (x, z) \<Rightarrow> r x z)"
  "keeps obs m \<Longrightarrow> keeps obs m' \<Longrightarrow> keeps obs (if b then m else m')"
  by (simp_all split: option.split prod.split)

lemmas keeps_rules = keeps_bind keeps_run keeps_for_each keeps_for_map keeps_cases keeps_return
  keeps_throw keeps_lift keeps_guard

locale config_view =
  fixes obs :: "db \<Rightarrow> 'x"
  assumes ignores_boards: "obs (t_boards_update f d) = obs d"
    and ignores_defaults: "obs (t_defaults_update g d) = obs d"
    and ignores_groups: "obs (t_groups_update h d) = obs d"
    and ignores_lanes: "obs (t_lanes_update k d) = obs d"
    and ignores_policies: "obs (t_policies_update l d) = obs d"
    and ignores_presets: "obs (t_presets_update m d) = obs d"
begin

abbreviation looks :: "world \<Rightarrow> 'x" where "looks w \<equiv> obs (w_db w)"

lemmas ignores = ignores_boards ignores_defaults ignores_groups ignores_lanes ignores_policies
  ignores_presets

lemma steps [intro, simp]:
  "keeps looks (ask q)" "keeps looks (newId E)" "keeps looks (now E)" "keeps looks (uow_read q')"
  "keeps looks (publish hint)"
  by (auto intro: keeps_if_db)

lemma stores [intro, simp]:
  "keeps looks (store (insertBoard b))" "keeps looks (put_db (updateBoard b))"
  "keeps looks (put_db (setDefault s x i))" "keeps looks (store (insertGroup g))"
  "keeps looks (store (updateGroup g))" "keeps looks (put_db (removeGroup j))"
  "keeps looks (store (updateLane l))" "keeps looks (store (insertLane l))"
  "keeps looks (store (removeLane n))" "keeps looks (put_db (reorderLanes b' is))"
  "keeps looks (store (insertPolicy p))" "keeps looks (store (insertPreset fp))"
  "keeps looks (store (updatePreset fp))" "keeps looks (store (deletePreset i1 i2 i3))"
  by (auto intro!: keeps_store keeps_put simp: insertBoard_def updateBoard_def setDefault_def insertGroup_def
      updateGroup_def removeGroup_def updateLane_def insertLane_def removeLane_def reorderLanes_def
      insertPolicy_def insertPreset_def updatePreset_def deletePreset_def ignores Let_def
      split: if_splits option.splits)

lemma defaults [intro, simp]: "keeps looks (saveDefaults b inp)"
  unfolding saveDefaults_def Let_def by (intro keeps_rules steps stores)

lemma board_sees:
  "keeps looks (create_board E a raw)" "keeps looks (update_board a b raw)"
  "keeps looks (remove_board E a b)" "keeps looks (setPreference a p)"
  "keeps looks (saveGroup E a g graw)" "keeps looks (remove_group a j)"
  unfolding create_board_def create_board_tx_def insert_default_lane_def update_board_def
    update_board_tx_def remove_board_def remove_board_tx_def setPreference_def preference_tx_def
    list_boards_def saveGroup_def group_tx_def remove_group_def remove_group_tx_def Let_def
  by (intro keeps_rules steps stores defaults)+

lemma lane_sees:
  "keeps looks (update_lane E a i uraw)" "keeps looks (create_lane E a craw)"
  "keeps looks (remove_lane E a i)" "keeps looks (reorder_lanes E a is)"
  unfolding update_lane_def create_lane_def create_lane_tx_def remove_lane_def remove_lane_tx_def
    reorder_lanes_def reorder_tx_def Let_def
  by (intro keeps_rules steps stores)+

lemma policy_sees:
  "keeps looks (apply_policy E a doc)" "keeps looks (create_preset E a praw)"
  "keeps looks (update_preset E a i qraw)" "keeps looks (delete_preset E a i)"
  unfolding apply_policy_def policy_tx_def create_preset_def update_preset_def delete_preset_def Let_def
  by (intro keeps_rules steps stores)+

end

locale location_view =
  fixes obs :: "db \<Rightarrow> 'x"
  assumes ignores_cards': "obs (t_cards_update f d) = obs d"
    and ignores_locations: "obs (t_locations_update g d) = obs d"
begin

lemma location_sees:
  "keeps (\<lambda>w. obs (w_db w)) (create_location E a raw)" "keeps (\<lambda>w. obs (w_db w)) (update_location E a i name)"
  "keeps (\<lambda>w. obs (w_db w)) (delete_location E a i)"
proof -
  have i: "obs d' = obs d" if "insertLocation l d = Inr d'" for l d d'
    using that by (auto simp: insertLocation_def ignores_locations split: if_splits)
  have u: "obs d' = obs d" if "updateLocation l d = Inr d'" for l d d'
    using that by (auto simp: updateLocation_def ignores_locations split: if_splits)
  have x: "obs d' = obs d" if "deleteLocation j d = Inr d'" for j d d'
  proof -
    from that obtain f g where "d' = t_locations_update f (t_cards_update g d)"
      unfolding deleteLocation_def Let_def by (metis Inr_inject old.sum.distinct(1))
    then show ?thesis by (simp only: ignores_cards' ignores_locations)
  qed
  note stores = i[THEN keeps_store] u[THEN keeps_store] x[THEN keeps_store] keeps_db[THEN keeps_if_db]
  show "keeps (\<lambda>w. obs (w_db w)) (create_location E a raw)"
    unfolding create_location_def create_location_tx_def Let_def
    by (intro keeps_rules stores)
  show "keeps (\<lambda>w. obs (w_db w)) (update_location E a i name)"
    unfolding update_location_def update_location_tx_def Let_def
    by (intro keeps_rules stores)
  show "keeps (\<lambda>w. obs (w_db w)) (delete_location E a i)"
    unfolding delete_location_def
    by (intro keeps_rules stores)
qed

end

context card_view
begin

lemma job_sees: "keeps seen (archiveExpired E a)" "keeps seen (claimOverdueWaitingAlerts E)"
  unfolding archiveExpired_def expire_candidate_def expire_tx_def claimOverdueWaitingAlerts_def
    claim_board_def claim_alert_def Let_def
  by (intro keeps_rules seen_steps seen_stores)+

end

section \<open>Views that ignore accounts and credentials\<close>

locale beside_all = beside_accounts + beside_sessions + beside_refresh
begin

lemma revokes: "stable P (revokeUserCredentials A u keep)"
  unfolding revokeUserCredentials_def by (intro rules sessions refreshes)

lemma account_methods:
  "stable P (changePassword A u raw cur pw)" "stable P (createFirstAdmin A inp)"
  "stable P (updateProfile A u z t)" "stable P (create_user A a inp1)" "stable P (update_user A a u inp2)"
  unfolding changePassword_def password_tx_def createFirstAdmin_def setup_tx_def updateProfile_def
    create_user_def update_user_def update_user_tx_def Let_def
  by (intro rules accounts sessions revokes)+

lemma auth_kept: "P w \<Longrightarrow> P (serve_auth A r w)"
proof (cases r)
  case (TokenGrant g) then show "P w \<Longrightarrow> ?thesis" using grants(1)[of A g] by (simp add: stable_def)
next
  case (RevokeGrant raw c) then show "P w \<Longrightarrow> ?thesis" using grants(2)[of A raw c] by (simp add: stable_def)
qed (simp_all add: delegated[unfolded stable_def] session_methods[unfolded stable_def]
  account_methods[unfolded stable_def])

end

locale auth_view =
  fixes obs :: "db \<Rightarrow> 'x"
  assumes ignores_credentials: "obs (t_tokens_update f1 d) = obs d" "obs (t_clients_update f2 d) = obs d"
      "obs (t_codes_update f3 d) = obs d" "obs (t_access_update f4 d) = obs d"
      "obs (t_users_update f5 d) = obs d" "obs (t_sessions_update f6 d) = obs d"
      "obs (t_refresh_update f7 d) = obs d"

sublocale auth_view \<subseteq> seen_as: beside_all "\<lambda>w. obs (w_db w) = x" for x
  by unfold_locales (simp_all add: ignores_credentials)

context auth_view
begin

lemma auth_sees: "obs (w_db (serve_auth A r w)) = obs (w_db w)"
  by (rule seen_as.auth_kept) simp

end

section \<open>The tables of the invariants\<close>

text \<open>What the database invariant looks at.\<close>

definition core_tables :: "db \<Rightarrow> lane list \<times> card list \<times> card_event list \<times> comment_row list \<times> attachment list
    \<times> card_relation list \<times> (card_no \<times> uuid \<times> instant) list \<times> (card_no \<times> uuid) list \<times> notification list" where
  "core_tables d = (t_lanes d, t_cards d, t_events d, t_comments d, t_attachments d, t_relations d,
     t_watchers d, t_cardTags d, t_notifications d)"

lemma db_ok_core: "core_tables d = core_tables d' \<Longrightarrow> db_ok d = db_ok d'"
  by (simp add: core_tables_def db_ok_def lanes_ok_def cards_ok_def refs_ok_def)

interpretation core_auth: auth_view core_tables by unfold_locales (simp_all add: core_tables_def)

interpretation comments_config: config_view t_comments by unfold_locales simp_all
interpretation comments_location: location_view t_comments by unfold_locales simp_all
interpretation comments_auth: auth_view t_comments by unfold_locales simp_all
interpretation relations_config: config_view t_relations by unfold_locales simp_all
interpretation relations_location: location_view t_relations by unfold_locales simp_all
interpretation relations_auth: auth_view t_relations by unfold_locales simp_all
interpretation attachments_config: config_view t_attachments by unfold_locales simp_all
interpretation attachments_location: location_view t_attachments by unfold_locales simp_all
interpretation attachments_auth: auth_view t_attachments by unfold_locales simp_all
interpretation locations_config: config_view t_locations by unfold_locales simp_all
interpretation locations_auth: auth_view t_locations by unfold_locales simp_all

lemma admin_comments: "t_comments (w_db (serve_admin E r w)) = t_comments (w_db w)"
  by (cases r) (simp_all add: comments_config.board_sees[THEN seen_snd] comments_config.lane_sees[THEN seen_snd]
    comments_config.policy_sees[THEN seen_snd] comments_location.location_sees[THEN seen_snd]
    comments_of.job_sees[THEN seen_snd])

lemma admin_relations: "t_relations (w_db (serve_admin E r w)) = t_relations (w_db w)"
  by (cases r) (simp_all add: relations_config.board_sees[THEN seen_snd] relations_config.lane_sees[THEN seen_snd]
    relations_config.policy_sees[THEN seen_snd] relations_location.location_sees[THEN seen_snd]
    relations_of.job_sees[THEN seen_snd])

lemma admin_attachments: "t_attachments (w_db (serve_admin E r w)) = t_attachments (w_db w)"
  by (cases r) (simp_all add: attachments_config.board_sees[THEN seen_snd]
    attachments_config.lane_sees[THEN seen_snd] attachments_config.policy_sees[THEN seen_snd]
    attachments_location.location_sees[THEN seen_snd] attachments_of.job_sees[THEN seen_snd])

end
