(* ===== verification/Admin_Sound.thy ===== *)
theory Admin_Sound
  imports Admin_System
begin

text \<open>
  Administration and scheduled work keep the database invariant: columns change their label,
  limit and place but not their key, only an empty column is removed, a deleted location leaves
  the cards in place, and the jobs write cards that stay where they are.
\<close>

section \<open>Columns\<close>

definition lane_core :: "lane \<Rightarrow> uuid \<times> uuid \<times> lane_key" where
  "lane_core l = (l_id l, l_boardId l, l_key l)"

lemma lane_fits_core: "lane_core l = lane_core l' \<Longrightarrow> lane_fits l c = lane_fits l' c"
  by (simp add: lane_core_def lane_fits_def)

lemma card_ok_core:
  assumes "lane_core ` set ls \<subseteq> lane_core ` set ls'" and "card_ok ls c"
  shows "card_ok ls' c"
proof -
  from assms(2) obtain l where "l \<in> set ls" "lane_fits l c" by (auto simp: card_ok_def)
  moreover from this assms(1) obtain l' where "l' \<in> set ls'" "lane_core l = lane_core l'" by blast
  ultimately show ?thesis using assms(2) lane_fits_core unfolding card_ok_def by blast
qed

lemma lanes_replaced_ok:
  assumes "db_ok d" and "map lane_core ls = map lane_core (t_lanes d)"
  shows "db_ok (d\<lparr>t_lanes := ls\<rparr>)"
proof -
  have "map l_id ls = map l_id (t_lanes d)" "map lane_slot ls = map lane_slot (t_lanes d)"
    using arg_cong[OF assms(2), of "map fst"] arg_cong[OF assms(2), of "map snd"]
    by (simp_all add: lane_core_def comp_def lane_slot_def[abs_def])
  moreover have "lane_core ` set (t_lanes d) \<subseteq> lane_core ` set ls"
    using arg_cong[OF assms(2), of set] by simp
  then have "\<forall>c \<in> set (t_cards d). card_ok ls c" using assms(1) card_ok_core
    unfolding db_ok_def cards_ok_def by blast
  ultimately show ?thesis using assms(1) by (simp add: db_ok_def lanes_ok_def cards_ok_def refs_ok_def)
qed

lemma updateLane_ok: "db_ok d \<Longrightarrow> updateLane l d = Inr d' \<Longrightarrow> db_ok d'"
  by (auto simp: updateLane_def lane_core_def split: if_splits intro!: lanes_replaced_ok)

lemma set_positions_core: "map lane_core (set_positions b is n ls) = map lane_core ls"
  by (induction b "is" n ls rule: set_positions.induct) (auto simp: lane_core_def)

lemma reorderLanes_ok: "db_ok d \<Longrightarrow> db_ok (reorderLanes b is d)"
  unfolding reorderLanes_def by (rule lanes_replaced_ok) (simp_all add: set_positions_core)

lemma insertLane_ok:
  assumes "db_ok d" and "insertLane l d = Inr d'" shows "db_ok d'"
proof -
  from assms(2) have d': "d' = d\<lparr>t_lanes := t_lanes d @ [l]\<rparr>" "l_id l \<notin> l_id ` set (t_lanes d)"
    "lane_slot l \<notin> lane_slot ` set (t_lanes d)"
    by (auto simp: insertLane_def findLaneByKey_def find_None_iff lane_slot_def split: if_splits)
  have "card_ok (t_lanes d') c" if "c \<in> set (t_cards d)" for c
    using assms(1) that card_ok_core[of "t_lanes d" "t_lanes d'" c]
    by (auto simp: d'(1) db_ok_def cards_ok_def)
  then show ?thesis using assms(1) d' by (auto simp: db_ok_def lanes_ok_def cards_ok_def refs_ok_def)
qed

lemma removeLane_ok:
  assumes "db_ok d" and "removeLane i d = Inr d'" shows "db_ok d'"
proof -
  from assms(2) have d': "d' = d\<lparr>t_lanes := drop_row l_id i (t_lanes d)\<rparr>" "i \<notin> c_laneId ` set (t_cards d)"
    by (auto simp: removeLane_def split: if_splits)
  have "card_ok (t_lanes d') c" if "c \<in> set (t_cards d)" for c
  proof -
    from assms(1) that obtain l where "l \<in> set (t_lanes d)" "lane_fits l c" "flag_ok c \<and> 1 \<le> c_version c"
      unfolding db_ok_def cards_ok_def card_ok_def by blast
    moreover from this that d'(2) have "l_id l \<noteq> i" by (auto simp: lane_fits_def)
    ultimately show ?thesis by (auto simp: d'(1) card_ok_def)
  qed
  then show ?thesis using assms(1)
    by (auto simp: d'(1) db_ok_def lanes_ok_def cards_ok_def refs_ok_def intro: distinct_drop_row)
qed

section \<open>Cards that stay in their place\<close>

lemma updateCard_ok:
  assumes "db_ok d" and "card_ok (t_lanes d) c" and "updateCard c d = Inr d'"
  shows "db_ok d' \<and> t_lanes d' = t_lanes d \<and> card_ids d' = card_ids d \<and> t_events d' = t_events d"
proof -
  from assms(3) have d': "d' = d\<lparr>t_cards := put_row c_id c (t_cards d)\<rparr>" "\<not> slot_taken c d"
    by (auto simp: updateCard_def split: if_splits)
  have ids: "c_id ` set (put_row c_id c (t_cards d)) = c_id ` set (t_cards d)"
    using arg_cong[OF map_pk_put_row[of c_id c "t_cards d"], of set] by simp
  have "distinct (map card_slot (put_row c_id c (t_cards d)))"
    using assms(1) d'(2) by (intro slot_free_distinct) (auto simp: db_ok_def cards_ok_def slot_taken_iff)
  moreover have "\<forall>x \<in> set (put_row c_id c (t_cards d)). card_ok (t_lanes d) x"
    using assms(1,2) by (auto simp: db_ok_def cards_ok_def dest!: in_put_row)
  ultimately show ?thesis using assms(1)
    by (simp add: d'(1) db_ok_def lanes_ok_def cards_ok_def refs_ok_def map_pk_put_row ids card_ids_def)
qed

lemma clear_location_ok: "db_ok d \<Longrightarrow> db_ok (d\<lparr>t_cards := map (clear_location ids) (t_cards d)\<rparr>)"
proof -
  have same: "c_id (clear_location ids c) = c_id c \<and> card_slot (clear_location ids c) = card_slot c
      \<and> card_ok ls (clear_location ids c) = card_ok ls c" for c ls
    by (simp add: clear_location_def card_slot_def card_ok_def lane_fits_def flag_ok_def split: option.split)
  assume "db_ok d"
  then show ?thesis
    by (simp add: db_ok_def lanes_ok_def cards_ok_def refs_ok_def comp_def image_image same cong: map_cong)
qed

lemma deleteLocation_ok:
  assumes "db_ok d" and "deleteLocation i d = Inr d'" shows "db_ok d'"
proof -
  let ?ids = "collectSubtree (t_locations d) i"
  from assms(2) have "d' = d\<lparr>t_cards := map (clear_location ?ids) (t_cards d),
      t_locations := fold (drop_row loc_id) ?ids (t_locations d)\<rparr>"
    by (auto simp: deleteLocation_def Let_def split: if_splits)
  then have "core_tables d' = core_tables (d\<lparr>t_cards := map (clear_location ?ids) (t_cards d)\<rparr>)"
    by (simp add: core_tables_def)
  then show ?thesis using clear_location_ok[OF assms(1), of ?ids] db_ok_core by blast
qed

section \<open>Methods of the administration\<close>

section \<open>Steps that keep a fact of the database\<close>

definition kept :: "(db \<Rightarrow> bool) \<Rightarrow> 'a step \<Rightarrow> bool" where
  "kept Q m \<longleftrightarrow> (\<forall>w. Q (w_db w) \<longrightarrow> Q (w_db (snd (m w))))"

lemma keptD: "kept Q m \<Longrightarrow> m w = (r, w') \<Longrightarrow> Q (w_db w) \<Longrightarrow> Q (w_db w')"
  by (metis kept_def snd_conv)

lemma keptI: "(\<And>w r w'. m w = (r, w') \<Longrightarrow> Q (w_db w) \<Longrightarrow> Q (w_db w')) \<Longrightarrow> kept Q m"
  unfolding kept_def by (metis prod.collapse)

text \<open>What a step returned may be used for the rest.\<close>

lemma kept_known:
  assumes m: "kept Q m" and q: "\<And>w x w'. Q (w_db w) \<Longrightarrow> m w = (Inr x, w') \<Longrightarrow> R x"
    and f: "\<And>x. R x \<Longrightarrow> kept Q (f x)"
  shows "kept Q (bind m f)"
proof (rule keptI)
  fix w r w' assume run: "bind m f w = (r, w')" and P: "Q (w_db w)"
  obtain y w1 where y: "m w = (y, w1)" by fastforce
  note P1 = keptD[OF m y P]
  show "Q (w_db w')"
  proof (cases y)
    case (Inl e)
    with run y P1 show ?thesis by (simp add: bind_def)
  next
    case (Inr x)
    with run y have "f x w1 = (r, w')" by (simp add: bind_def)
    from keptD[OF f[OF q[OF P y[unfolded Inr]]] this P1] show ?thesis .
  qed
qed

lemma kept_bind: "kept Q m \<Longrightarrow> (\<And>x. kept Q (f x)) \<Longrightarrow> kept Q (bind m f)"
  by (rule kept_known[where R = "\<lambda>_. True"]) auto

lemma kept_quiet: "keeps w_db m \<Longrightarrow> kept Q m"
  by (auto simp: kept_def keeps_def)

lemmas kept_reads = keeps_db[THEN kept_quiet] keeps_db_hints[THEN kept_quiet]
  keeps_return[THEN kept_quiet] keeps_throw[THEN kept_quiet] keeps_lift[THEN kept_quiet]
  keeps_guard[THEN kept_quiet]

lemma kept_for_map: "(\<And>x. x \<in> set xs \<Longrightarrow> kept Q (f x)) \<Longrightarrow> kept Q (for_map xs f)"
proof (induction xs)
  case (Cons x xs)
  then have "kept Q (f x)" "kept Q (for_map xs f)" by simp_all
  then show ?case by (auto intro!: kept_bind kept_reads)
qed (simp add: kept_reads)

lemma kept_for_each: "(\<And>x. x \<in> set xs \<Longrightarrow> kept Q (f x)) \<Longrightarrow> kept Q (for_each xs f)"
proof (induction xs)
  case (Cons x xs)
  then have "kept Q (f x)" "kept Q (for_each xs f)" by simp_all
  then show ?case by (auto intro!: kept_bind)
qed (simp add: kept_reads)

lemma kept_cases:
  "(b \<Longrightarrow> kept Q m) \<Longrightarrow> (\<not> b \<Longrightarrow> kept Q m') \<Longrightarrow> kept Q (if b then m else m')"
  "(y = None \<Longrightarrow> kept Q p) \<Longrightarrow> (\<And>x. y = Some x \<Longrightarrow> kept Q (q x)) \<Longrightarrow>
     kept Q (case y of None \<Rightarrow> p | Some x \<Rightarrow> q x)"
  "(\<And>x z. kept Q (r x z)) \<Longrightarrow> kept Q (case v of (x, z) \<Rightarrow> r x z)"
  by (simp_all split: option.split prod.split)

lemma kept_run: "kept Q m \<Longrightarrow> kept Q (uow_run m)"
  by (auto simp: kept_def uow_run_def split: prod.splits sum.splits)

text \<open>A transaction that throws is rolled back.\<close>

lemma kept_tx:
  assumes "\<And>w x w'. m w = (Inr x, w') \<Longrightarrow> Q (w_db w) \<Longrightarrow> Q (w_db w')"
  shows "kept Q (uow_run m)"
proof (rule keptI)
  fix w r w' assume "uow_run m w = (r, w')" and "Q (w_db w)"
  with assms show "Q (w_db w')" by (cases r) (auto simp: uow_run_Inr_iff dest: uow_run_rollback)
qed

lemma kept_stored: "(\<And>d d'. Q d \<Longrightarrow> f d = Inr d' \<Longrightarrow> Q d') \<Longrightarrow> kept Q (store f)"
  by (auto simp: kept_def store_def split: sum.splits)

lemma kept_put: "(\<And>d. Q d \<Longrightarrow> Q (f d)) \<Longrightarrow> kept Q (put_db f)"
  by (auto simp: kept_def put_db_def)

lemmas kept_rules = kept_reads kept_run kept_bind kept_for_each kept_for_map kept_cases

section \<open>Methods of the administration\<close>

lemma core_stored:
  "(\<And>d d'. f d = Inr d' \<Longrightarrow> core_tables d' = core_tables d) \<Longrightarrow> kept db_ok (store f)"
  by (rule kept_stored) (metis db_ok_core)

lemma core_put: "(\<And>d. core_tables (f d) = core_tables d) \<Longrightarrow> kept db_ok (put_db f)"
  by (rule kept_put) (metis db_ok_core)

lemma core_config:
  "kept db_ok (store (insertBoard b))" "kept db_ok (store (insertGroup g))" "kept db_ok (store (updateGroup g))"
  "kept db_ok (store (insertPolicy p))" "kept db_ok (store (insertPreset fp))"
  "kept db_ok (store (updatePreset fp))" "kept db_ok (store (deletePreset i1 i2 i3))"
  "kept db_ok (store (insertLocation l))" "kept db_ok (store (updateLocation l))"
  by (rule core_stored, auto simp: core_tables_def insertBoard_def insertGroup_def updateGroup_def
      insertPolicy_def insertPreset_def updatePreset_def deletePreset_def insertLocation_def
      updateLocation_def Let_def split: if_splits)+

lemma core_config_puts:
  "kept db_ok (put_db (updateBoard b))" "kept db_ok (put_db (setDefault s x i))"
  "kept db_ok (put_db (removeGroup j))"
  by (rule core_put, simp add: core_tables_def updateBoard_def setDefault_def removeGroup_def Let_def
      split: option.split)+

lemma core_lanes:
  "kept db_ok (store (updateLane l))" "kept db_ok (store (insertLane l))"
  "kept db_ok (store (removeLane n))" "kept db_ok (put_db (reorderLanes b' is))"
  "kept db_ok (store (deleteLocation j))"
  by (rule kept_stored kept_put, blast intro: updateLane_ok insertLane_ok removeLane_ok reorderLanes_ok
      deleteLocation_ok)+

lemma core_defaults: "kept db_ok (saveDefaults b inp)"
  unfolding saveDefaults_def Let_def by (intro kept_rules core_config_puts)

lemma core_boards:
  "kept db_ok (create_board E a raw)" "kept db_ok (update_board a b raw)"
  "kept db_ok (remove_board E a b)" "kept db_ok (setPreference a p)"
  "kept db_ok (saveGroup E a g graw)" "kept db_ok (remove_group a j)"
  unfolding create_board_def create_board_tx_def insert_default_lane_def update_board_def
    update_board_tx_def remove_board_def remove_board_tx_def setPreference_def preference_tx_def
    list_boards_def saveGroup_def group_tx_def remove_group_def remove_group_tx_def Let_def
  by (intro kept_rules core_config core_config_puts core_lanes core_defaults)+

lemma core_rest:
  "kept db_ok (update_lane E a i uraw)" "kept db_ok (create_lane E a craw)"
  "kept db_ok (remove_lane E a i)" "kept db_ok (reorder_lanes E a is)"
  "kept db_ok (create_location E a lraw)" "kept db_ok (update_location E a i name)"
  "kept db_ok (delete_location E a i)" "kept db_ok (apply_policy E a doc)"
  "kept db_ok (create_preset E a praw)" "kept db_ok (update_preset E a i qraw)"
  "kept db_ok (delete_preset E a i)"
  unfolding update_lane_def create_lane_def create_lane_tx_def remove_lane_def remove_lane_tx_def
    reorder_lanes_def reorder_tx_def create_location_def create_location_tx_def update_location_def
    update_location_tx_def delete_location_def apply_policy_def policy_tx_def create_preset_def
    update_preset_def delete_preset_def Let_def
  by (intro kept_rules core_config core_config_puts core_lanes)+

section \<open>The scheduled jobs\<close>

text \<open>Jobs never touch a column, and their cards stay in the column they are in.\<close>

definition on_lanes :: "lane list \<Rightarrow> card_no set \<Rightarrow> db \<Rightarrow> bool" where
  "on_lanes ls S d \<longleftrightarrow> db_ok d \<and> t_lanes d = ls \<and> S \<subseteq> card_ids d"

lemma on_lanes_update: "card_ok ls c \<Longrightarrow> kept (on_lanes ls S) (store (updateCard c))"
  by (rule kept_stored) (metis on_lanes_def updateCard_ok)

lemma on_lanes_append: "ev_cardId e \<in> S \<Longrightarrow> kept (on_lanes ls S) (store (appendEvent e))"
  by (rule kept_stored) (auto simp: on_lanes_def run_simps db_ok_def lanes_ok_def cards_ok_def refs_ok_def
      card_ids_def)

definition done_lane :: "lane list \<Rightarrow> card \<Rightarrow> bool" where
  "done_lane ls c \<longleftrightarrow> (\<exists>l \<in> set ls. l_id l = c_laneId c \<and> l_key l = ''done'')"

lemma query_in: "c \<in> set (query f None None d) \<longleftrightarrow> c \<in> set (t_cards d) \<and> filterConditions f d c"
  by (auto simp: query_def limit_to_def)

lemma findLane_in: "findLaneByKey b k d = Some l \<Longrightarrow> l \<in> set (t_lanes d) \<and> l_key l = k \<and> l_boardId l = b"
  by (auto simp: findLaneByKey_def find_Some_iff)

lemma concat_mapD: "c \<in> set (concat (map f xs)) \<Longrightarrow> \<exists>x \<in> set xs. c \<in> set (f x)"
  by auto

lemma candidates_done:
  assumes "c \<in> set (archive_candidates d)" shows "done_lane (t_lanes d) c"
proof -
  from concat_mapD[OF assms[unfolded archive_candidates_def]] obtain b :: board where
    b: "c \<in> set (case findLaneByKey (b_id b) ''done'' d of None \<Rightarrow> []
      | Some l \<Rightarrow> query (no_filter\<lparr>qf_boardId := Some (b_id b), qf_laneId := Some (l_id l)\<rparr>) None None d)"
    by blast
  then obtain l :: lane where "findLaneByKey (b_id b) ''done'' d = Some l"
    "c \<in> set (query (no_filter\<lparr>qf_boardId := Some (b_id b), qf_laneId := Some (l_id l)\<rparr>) None None d)"
    by (cases "findLaneByKey (b_id b) ''done'' d") simp_all
  then show ?thesis using findLane_in
    by (auto simp: done_lane_def query_in filterConditions_def equals_opt_def)
qed

lemma expired_ok:
  assumes "on_lanes ls S d" and "done_lane ls candidate" and "expire_due a cutoff candidate d = Inr (Some c)"
  shows "card_ok ls (expired_card t c) \<and> c_id c \<in> card_ids d"
proof -
  from assms(3) have c: "findCard (c_id candidate) d = Some c" "c_laneId c = c_laneId candidate"
    by (auto simp: expire_due_def run_simps split: option.splits if_splits)
  from c(1) have m: "c \<in> set (t_cards d)" by (auto dest: findCard_id)
  with assms(1) obtain l where l: "l \<in> set ls" "lane_fits l c" "flag_ok c" "1 \<le> c_version c"
    unfolding on_lanes_def db_ok_def cards_ok_def card_ok_def by blast
  from assms(2) c(2) obtain l' where l': "l' \<in> set ls" "l_id l' = c_laneId c" "l_key l' = ''done''"
    by (auto simp: done_lane_def)
  have "l' = l" using assms(1) l(1,2) l'(1,2) lane_unique[of d l' l]
    by (auto simp: on_lanes_def db_ok_def lane_fits_def)
  with l l' have "card_ok ls (expired_card t c)"
    by (auto simp: card_ok_def lane_fits_def flag_ok_def expired_card_def)
  with m show ?thesis by (simp add: card_ids_def)
qed

lemma expire_tx_kept:
  assumes "done_lane ls candidate"
  shows "kept (on_lanes ls {}) (expire_tx E a cutoff candidate)"
proof (rule keptI)
  fix w r w' assume run: "expire_tx E a cutoff candidate w = (r, w')" and ok: "on_lanes ls {} (w_db w)"
  let ?rest = "\<lambda>c. bind (now E) (\<lambda>t. bind (store (updateCard (expired_card t c))) (\<lambda>_.
    bind (makeEvent E a (c_id c) CardArchived) (\<lambda>e. bind (store (appendEvent e)) (\<lambda>_.
    return (Some (expired_card t c, e))))))"
  consider "w' = w" | c where "expire_due a cutoff candidate (w_db w) = Inr (Some c)" "?rest c w = (r, w')"
    using bind_ask_cases[OF run[unfolded expire_tx_def]] by (auto simp: return_def split: option.splits)
  then show "on_lanes ls {} (w_db w')"
  proof cases
    case (2 c)
    from expired_ok[OF ok assms 2(1)] have c: "\<And>t. card_ok ls (expired_card t c)" "c_id c \<in> card_ids (w_db w)"
      by blast+
    have tail: "kept (on_lanes ls {c_id c}) (bind (makeEvent E a (c_id c) CardArchived)
        (\<lambda>e. bind (store (appendEvent e)) (\<lambda>_. return (Some (x, e)))))" for x
      by (rule kept_known[where R = "\<lambda>e. ev_cardId e = c_id c"])
        (auto simp: makeEvent_def run_simps intro!: kept_rules on_lanes_append)
    have "kept (on_lanes ls {c_id c}) (?rest c)"
      by (intro kept_bind kept_reads on_lanes_update c(1) tail)
    from keptD[OF this 2(2)] ok c(2) show ?thesis by (simp add: on_lanes_def)
  qed (use ok in simp)
qed

lemma archive_kept: "kept (on_lanes ls {}) (archiveExpired E a)"
proof -
  have one: "kept (on_lanes ls {}) (expire_candidate E a cutoff c)" if "done_lane ls c" for cutoff c
    unfolding expire_candidate_def using that by (intro kept_rules expire_tx_kept)
  have rest: "kept (on_lanes ls {}) (bind (uow_read (\<lambda>d. Inr (archive_candidates d)))
      (\<lambda>cs. bind (for_map cs (expire_candidate E a cutoff)) (\<lambda>rs. return (length (filter id rs)))))" for cutoff
    by (rule kept_known[where R = "\<lambda>cs. \<forall>c \<in> set cs. done_lane ls c"])
      (use candidates_done in \<open>auto simp: on_lanes_def run_simps intro!: kept_rules one\<close>)
  show ?thesis unfolding archiveExpired_def by (rule kept_bind) (intro kept_reads, rule rest)
qed

lemma overdue_ok:
  "on_lanes ls S d \<Longrightarrow> c \<in> set (overdue_waiting b today d) \<Longrightarrow> card_ok ls (c\<lparr>c_resumeAlertedAt := Some t\<rparr>)"
  by (auto simp: overdue_waiting_def query_in on_lanes_def db_ok_def cards_ok_def card_ok_def lane_fits_def
      flag_ok_def split: option.splits)

lemma claim_kept: "kept (on_lanes ls {}) (claimOverdueWaitingAlerts E)"
proof -
  have alert: "kept (on_lanes ls {}) (claim_alert b t admins c)"
    if "card_ok ls (c\<lparr>c_resumeAlertedAt := Some t\<rparr>)" for b t admins c
    unfolding claim_alert_def Let_def using that by (intro kept_rules on_lanes_update)
  have board: "kept (on_lanes ls {}) (claim_board E t b)" for t b
    unfolding claim_board_def
    by (rule kept_known[where R = "\<lambda>cs. \<forall>c \<in> set cs. card_ok ls (c\<lparr>c_resumeAlertedAt := Some t\<rparr>)"])
      (auto simp: run_simps intro!: kept_rules alert dest: overdue_ok)
  show ?thesis unfolding claimOverdueWaitingAlerts_def by (intro kept_rules board)
qed

lemma job_ok: "kept db_ok (archiveExpired E a)" "kept db_ok (claimOverdueWaitingAlerts E)"
  using keptD[OF archive_kept] keptD[OF claim_kept]
  by (auto intro!: keptI simp: on_lanes_def)

lemma admin_ok: "db_ok (w_db w) \<Longrightarrow> db_ok (w_db (serve_admin E r w))"
  by (cases r) (simp_all add: core_boards[unfolded kept_def] core_rest[unfolded kept_def] job_ok[unfolded kept_def])

end
