(* ===== verification/Installation.thy ===== *)
theory Installation
  imports Admin_Sound
begin

text \<open>
  What makes an installation usable: a default board, at least one live board, and for every
  board a policy and a column.  No request of any kind takes that away, although boards and
  columns can be removed.
\<close>

section \<open>The invariant\<close>

definition equipped :: "board \<Rightarrow> db \<Rightarrow> bool" where
  "equipped b d \<longleftrightarrow> (\<exists>l \<in> set (t_lanes d). l_boardId l = b_id b) \<and> (\<exists>p \<in> set (t_policies d). bp_boardId p = b_id b)"

definition boards_ok :: "db \<Rightarrow> bool" where
  "boards_ok d \<longleftrightarrow> distinct (map b_id (t_boards d)) \<and> (\<exists>b \<in> set (t_boards d). b_isDefault b)
     \<and> (\<exists>b \<in> set (t_boards d). b_archivedAt b = None)"

definition config_ok :: "db \<Rightarrow> bool" where
  "config_ok d \<longleftrightarrow> boards_ok d \<and> distinct (map l_id (t_lanes d)) \<and> (\<forall>b \<in> set (t_boards d). equipped b d)"

lemma config_lookups:
  assumes "config_ok d" and "findBoard i d = Some b"
  shows "\<exists>l. firstLane i d = Inr l" and "\<exists>p. activePolicy i d = Inr p" and "\<exists>g. globalPolicy d = Inr g"
    and "listBoards d \<noteq> []"
proof -
  have active: "\<exists>p. getActive (b_id x) d = Some p" if "x \<in> set (t_boards d)" for x
  proof (rule ccontr)
    assume "\<nexists>p. getActive (b_id x) d = Some p"
    then have "filter (\<lambda>p. bp_boardId p = b_id x) (t_policies d) = []" by (simp add: getActive_def)
    with assms(1) that show False by (auto simp: config_ok_def equipped_def filter_empty_conv)
  qed
  from assms(2) have b: "b \<in> set (t_boards d)" "b_id b = i"
    by (auto simp: findBoard_def dest: row_of_SomeD)
  from assms(1) b have "listLanes i d \<noteq> []"
    by (auto simp: config_ok_def equipped_def listLanes_def filter_empty_conv)
  then show "\<exists>l. firstLane i d = Inr l" by (simp add: firstLane_def run_simps) (metis first_of_None_iff not_None_eq)
  from assms(1) have "getDefault d \<noteq> None"
    by (auto simp: getDefault_def config_ok_def boards_ok_def find_None_iff)
  then obtain x where "getDefault d = Some x" by blast
  moreover from this have "x \<in> set (t_boards d)" by (auto simp: getDefault_def find_Some_iff)
  ultimately show g: "\<exists>g. globalPolicy d = Inr g" using active by (fastforce simp: globalPolicy_def run_simps)
  from active[OF b(1)] g show "\<exists>p. activePolicy i d = Inr p" by (auto simp: activePolicy_def run_simps b(2))
  show "listBoards d \<noteq> []"
    using assms(1) by (auto simp: listBoards_def config_ok_def boards_ok_def filter_empty_conv)
qed

section \<open>Who can change it\<close>

definition config_tables :: "db \<Rightarrow> board list \<times> lane list \<times> board_policy list" where
  "config_tables d = (t_boards d, t_lanes d, t_policies d)"

lemma config_ok_tables: "config_tables d = config_tables d' \<Longrightarrow> config_ok d = config_ok d'"
  by (simp add: config_tables_def config_ok_def boards_ok_def equipped_def)

interpretation config_cards: comment_view config_tables by unfold_locales (simp_all add: config_tables_def)
interpretation config_relations: relation_view config_tables by unfold_locales (simp_all add: config_tables_def)
interpretation config_attachments: attachment_view config_tables by unfold_locales (simp_all add: config_tables_def)
interpretation config_location: location_view config_tables by unfold_locales (simp_all add: config_tables_def)
interpretation config_auth: auth_view config_tables by unfold_locales (simp_all add: config_tables_def)

lemma kept_stored': "(\<And>d d'. config_ok d \<Longrightarrow> f d = Inr d' \<Longrightarrow> config_tables d' = config_tables d) \<Longrightarrow>
    kept config_ok (store f)"
  by (rule kept_stored) (metis config_ok_tables)

lemma config_quiet:
  "kept config_ok (store (insertGroup g))" "kept config_ok (store (updateGroup g))"
  "kept config_ok (store (insertPreset fp))" "kept config_ok (store (updatePreset fp))"
  "kept config_ok (store (deletePreset i1 i2 i3))"
  by (rule kept_stored', auto simp: config_tables_def insertGroup_def updateGroup_def insertPreset_def
      updatePreset_def deletePreset_def Let_def split: if_splits)+

lemma config_puts: "kept config_ok (put_db (setDefault s x i))" "kept config_ok (put_db (removeGroup j))"
  by (rule kept_put, erule iffD1[OF config_ok_tables, rotated], simp add: config_tables_def setDefault_def
      removeGroup_def Let_def split: option.split)+

lemma equipped_more:
  "equipped b d \<Longrightarrow> set (t_lanes d) \<subseteq> set (t_lanes d') \<Longrightarrow> set (t_policies d) \<subseteq> set (t_policies d') \<Longrightarrow> equipped b d'"
  by (auto simp: equipped_def)

lemma config_more: "kept config_ok (store (insertPolicy p))" "kept config_ok (store (insertLane l))"
proof -
  show "kept config_ok (store (insertPolicy p))"
    by (rule kept_stored) (auto simp: config_ok_def boards_ok_def insertPolicy_def equipped_def split: if_splits)
  show "kept config_ok (store (insertLane l))"
    by (rule kept_stored) (auto simp: config_ok_def boards_ok_def insertLane_def equipped_def split: if_splits)
qed

lemma lanes_alike:
  assumes "config_ok d" and "map lane_core ls = map lane_core (t_lanes d)"
  shows "config_ok (d\<lparr>t_lanes := ls\<rparr>)"
proof -
  have "map l_id ls = map l_id (t_lanes d)"
    using arg_cong[OF assms(2), of "map fst"] by (simp add: lane_core_def comp_def)
  moreover have "lane_core ` set ls = lane_core ` set (t_lanes d)" using arg_cong[OF assms(2), of set] by simp
  then have "\<exists>l \<in> set ls. l_boardId l = x" if "\<exists>l \<in> set (t_lanes d). l_boardId l = x" for x
  proof -
    from that obtain l where l: "l \<in> set (t_lanes d)" "l_boardId l = x" by blast
    then obtain l' where "l' \<in> set ls" "lane_core l' = lane_core l"
      using \<open>lane_core ` set ls = _\<close> by (metis imageE imageI)
    with l show ?thesis by (auto simp: lane_core_def)
  qed
  ultimately show ?thesis using assms(1) by (auto simp: config_ok_def boards_ok_def equipped_def)
qed

lemma config_lanes: "kept config_ok (store (updateLane l))" "kept config_ok (put_db (reorderLanes b is))"
proof -
  show "kept config_ok (store (updateLane l))"
    by (rule kept_stored) (auto simp: updateLane_def lane_core_def split: if_splits intro!: lanes_alike)
  show "kept config_ok (put_db (reorderLanes b is))"
    by (rule kept_put) (auto simp: reorderLanes_def set_positions_core intro!: lanes_alike)
qed

text \<open>The last column of a board stays.\<close>

lemma remove_lane_kept: "kept config_ok (uow_run (remove_lane_tx E a i))"
proof (rule kept_tx)
  fix w x w' assume run: "remove_lane_tx E a i w = (Inr x, w')" and ok: "config_ok (w_db w)"
  let ?d = "w_db w"
  from run obtain d' l where d': "w_db w' = d'" "removeLane (l_id l) ?d = Inr d'"
    and l: "lane_named E i ?d = Inr l" "\<not> length (listLanes (e_boardId E) ?d) \<le> 1"
    unfolding remove_lane_tx_def by (auto simp: run_simps)
  from l(1) have m: "l \<in> set (t_lanes ?d)" "l_boardId l = e_boardId E"
    by (auto simp: lane_named_def run_simps find_Some_iff listLanes_def dest: nth_mem)
  have d: "d' = ?d\<lparr>t_lanes := drop_row l_id (l_id l) (t_lanes ?d)\<rparr>"
    using d'(2) by (auto simp: removeLane_def split: if_splits)
  have "\<exists>x \<in> set (t_lanes ?d). l_boardId x = b_id b \<and> l_id x \<noteq> l_id l" if b: "b \<in> set (t_boards ?d)" for b
  proof (cases "b_id b = e_boardId E")
    case True
    have "\<exists>x \<in> set (listLanes (e_boardId E) ?d). x \<noteq> l"
    proof (rule ccontr)
      assume "\<not> ?thesis"
      then have "set (listLanes (e_boardId E) ?d) \<subseteq> {l}" by blast
      moreover have "distinct (listLanes (e_boardId E) ?d)"
        using ok by (auto simp: listLanes_def order_asc_def config_ok_def distinct_map distinct_filter)
      ultimately have "length (listLanes (e_boardId E) ?d) \<le> card {l}"
        by (metis card_mono distinct_card finite.emptyI finite_insert)
      with l(2) show False by simp
    qed
    then obtain x where "x \<in> set (t_lanes ?d)" "l_boardId x = e_boardId E" "x \<noteq> l" by (auto simp: listLanes_def)
    moreover from this m(1) ok have "l_id x \<noteq> l_id l" by (auto simp: config_ok_def distinct_map dest: inj_onD)
    ultimately show ?thesis using True by auto
  next
    case False
    from ok b obtain x where "x \<in> set (t_lanes ?d)" "l_boardId x = b_id b"
      by (auto simp: config_ok_def equipped_def)
    moreover from this False m ok have "l_id x \<noteq> l_id l" by (auto simp: config_ok_def distinct_map dest: inj_onD)
    ultimately show ?thesis by blast
  qed
  then show "config_ok (w_db w')" using ok unfolding d'(1) d
    by (auto simp: config_ok_def boards_ok_def equipped_def intro: distinct_drop_row)
qed

section \<open>Boards\<close>

lemma put_row_boards:
  assumes "distinct (map b_id bs)" and "b \<in> set bs" and "b_id x = b_id b"
  shows "set (put_row b_id x bs) = insert x (set bs - {b})" "map b_id (put_row b_id x bs) = map b_id bs"
  using set_put_row[OF assms(1,2)] assms(3) by (simp_all add: map_pk_put_row)

lemma find_default:
  "findBoard i d = Some b \<Longrightarrow> b \<in> set (t_boards d) \<and> b_id b = i"
  by (auto simp: findBoard_def dest: row_of_SomeD)

text \<open>A board that is replaced by one of the same id, default mark and state.\<close>

lemma config_replaced:
  assumes "config_ok d" and b: "b \<in> set (t_boards d)" and x: "b_id x = b_id b" "b_isDefault x = b_isDefault b"
    and live: "b_archivedAt x = b_archivedAt b \<or> (\<exists>y \<in> set (t_boards d). y \<noteq> b \<and> b_archivedAt y = None)"
  shows "config_ok (updateBoard x d)"
proof -
  have di: "distinct (map b_id (t_boards d))" using assms(1) by (simp add: config_ok_def boards_ok_def)
  note p = put_row_boards[OF di b x(1)]
  have "equipped c (d\<lparr>t_boards := bs\<rparr>) = equipped c d" for c bs by (simp add: equipped_def)
  moreover have "equipped x d" using assms(1) b x(1) by (auto simp: config_ok_def equipped_def)
  ultimately show ?thesis using assms(1) x live b
    by (auto simp: updateBoard_def config_ok_def boards_ok_def p)
qed

lemma defaults_kept: "kept config_ok (saveDefaults b inp)"
  unfolding saveDefaults_def Let_def by (intro kept_rules config_puts)

lemma update_board_kept: "kept config_ok (uow_run (update_board_tx a b inp))"
proof (rule kept_tx)
  fix w x w' assume run: "update_board_tx a b inp w = (Inr x, w')" and ok: "config_ok (w_db w)"
  from run obtain current u w1 where c: "findBoard b (w_db w) = Some current"
    and s: "saveDefaults b (bi_defaultAssignments inp)
      (w\<lparr>w_db := updateBoard (updated_board inp current) (w_db w)\<rparr>) = (Inr u, w1)" and w': "w' = w1"
    unfolding update_board_tx_def Let_def by (auto simp: run_simps)
  have "config_ok (updateBoard (updated_board inp current) (w_db w))"
    by (rule config_replaced[OF ok]) (use find_default[OF c] in \<open>auto simp: updated_board_def\<close>)
  from keptD[OF defaults_kept s] this show "config_ok (w_db w')" by (simp add: w')
qed

lemma remove_board_kept: "kept config_ok (uow_run (remove_board_tx E a b))"
proof (rule kept_tx)
  fix w x w' assume run: "remove_board_tx E a b w = (Inr x, w')" and ok: "config_ok (w_db w)"
  let ?d = "w_db w"
  from run obtain current t where c: "findBoard b ?d = Some current" and n: "\<not> length (listBoards ?d) \<le> 1"
    and w': "w_db w' = updateBoard (current\<lparr>b_archivedAt := Some t\<rparr>) ?d"
    unfolding remove_board_tx_def by (auto simp: run_simps)
  have "\<exists>y \<in> set (listBoards ?d). y \<noteq> current"
  proof (rule ccontr)
    assume "\<not> ?thesis"
    then have "set (listBoards ?d) \<subseteq> {current}" by blast
    moreover have "distinct (listBoards ?d)"
      using ok by (auto simp: listBoards_def order_asc_def config_ok_def boards_ok_def distinct_map distinct_filter)
    ultimately have "length (listBoards ?d) \<le> card {current}"
      by (metis card_mono distinct_card finite.emptyI finite_insert)
    with n show False by simp
  qed
  then show "config_ok (w_db w')" unfolding w' using find_default[OF c]
    by (intro config_replaced[OF ok]) (auto simp: listBoards_def)
qed

text \<open>A new board gets its columns and its policy in the same transaction.\<close>

definition config_but :: "uuid \<Rightarrow> db \<Rightarrow> bool" where
  "config_but i d \<longleftrightarrow> boards_ok d \<and> distinct (map l_id (t_lanes d))
     \<and> (\<forall>b \<in> set (t_boards d). b_id b \<noteq> i \<longrightarrow> equipped b d)"

definition has_lane :: "uuid \<Rightarrow> db \<Rightarrow> bool" where
  "has_lane i d \<longleftrightarrow> config_but i d \<and> (\<exists>l \<in> set (t_lanes d). l_boardId l = i)"

lemma config_but_tables: "config_tables d = config_tables d' \<Longrightarrow> config_but i d = config_but i d'"
  by (simp add: config_tables_def config_but_def boards_ok_def equipped_def)

lemma but_defaults: "kept (config_but i) (saveDefaults b inp)"
proof -
  have "kept (config_but i) (put_db (setDefault s x j))" for s x j
    by (rule kept_put, erule iffD1[OF config_but_tables, rotated])
      (simp add: config_tables_def setDefault_def Let_def split: option.split)
  then show ?thesis unfolding saveDefaults_def Let_def by (intro kept_rules)
qed

lemma but_lane: "config_but i d \<Longrightarrow> insertLane l d = Inr d' \<Longrightarrow> l_boardId l = i \<Longrightarrow> has_lane i d'"
  by (auto simp: has_lane_def config_but_def boards_ok_def insertLane_def equipped_def split: if_splits)

lemma has_lane_kept: "kept (has_lane i) (store (insertLane l))"
  by (rule kept_stored)
    (auto simp: has_lane_def config_but_def boards_ok_def insertLane_def equipped_def split: if_splits)

lemma default_lanes_run:
  assumes "for_each (enumerate 0 DEFAULT_LANES) (insert_default_lane E i) w = (Inr u, w')"
    and "config_but i (w_db w)"
  shows "has_lane i (w_db w')"
proof -
  obtain r rs where rows: "enumerate 0 DEFAULT_LANES = r # rs" by (simp add: DEFAULT_LANES_def)
  with assms(1) obtain w1 where one: "insert_default_lane E i r w = (Inr (), w1)"
    and rest: "for_each rs (insert_default_lane E i) w1 = (Inr u, w')" by (auto simp: run_simps)
  from one assms(2) have "has_lane i (w_db w1)"
    by (auto simp: insert_default_lane_def run_simps intro: but_lane)
  moreover have "kept (has_lane i) (for_each rs (insert_default_lane E i))"
    unfolding insert_default_lane_def by (intro kept_rules has_lane_kept)
  ultimately show ?thesis using keptD rest by blast
qed

lemma has_lane_policy:
  assumes "has_lane i d" and "insertPolicy p d = Inr d'" and "bp_boardId p = i"
  shows "config_ok d'"
proof -
  from assms(2) have d': "d' = d\<lparr>t_policies := t_policies d @ [p]\<rparr>" by (auto simp: insertPolicy_def split: if_splits)
  have "equipped b d'" if "b \<in> set (t_boards d)" for b
    using assms(1,3) that by (cases "b_id b = i") (auto simp: d' has_lane_def config_but_def equipped_def)
  then show ?thesis using assms(1) by (simp add: d' has_lane_def config_but_def config_ok_def boards_ok_def)
qed

lemma create_board_kept: "kept config_ok (uow_run (create_board_tx E a inp))"
proof (rule kept_tx)
  fix w x w' assume run: "create_board_tx E a inp w = (Inr x, w')" and ok: "config_ok (w_db w)"
  let ?i = "e_newId E (w_ids w)"
  let ?b = "created_board inp ?i (e_clock E (w_ticks w))"
  let ?p = "\<lambda>w3 (g :: policy_document). \<lparr>bp_id = e_newId E (w_ids w3), bp_boardId = ?i,
    bp_config = DEFAULT_POLICY_DOCUMENT\<lparr>p_roles := p_roles g\<rparr>, bp_createdBy = a_id a,
    bp_createdAt = e_clock E (w_ticks w)\<rparr>"
  from run obtain d2 w2 w3 and g :: policy_document where ins: "insertBoard ?b (w_db w) = Inr d2"
    and def: "saveDefaults ?i (bi_defaultAssignments inp)
      (w\<lparr>w_ids := Suc (w_ids w), w_ticks := Suc (w_ticks w), w_db := d2\<rparr>) = (Inr (), w2)"
    and lanes: "for_each (enumerate 0 DEFAULT_LANES) (insert_default_lane E ?i) w2 = (Inr (), w3)"
    and pol: "insertPolicy (?p w3 g) (w_db w3) = Inr (w_db w')"
    unfolding create_board_tx_def Let_def by (auto simp: run_simps)
  have "config_but ?i d2"
    using ok ins by (auto simp: insertBoard_def config_but_def config_ok_def boards_ok_def equipped_def
        created_board_def split: if_splits)
  with keptD[OF but_defaults def] have "config_but ?i (w_db w2)" by simp
  from has_lane_policy[OF default_lanes_run[OF lanes this] pol] show "config_ok (w_db w')" by simp
qed

section \<open>Every request\<close>

lemma config_admin: "config_ok (w_db w) \<Longrightarrow> config_ok (w_db (serve_admin E r w))"
proof -
  have boards: "kept config_ok (create_board E a raw)" "kept config_ok (update_board a b raw)"
    "kept config_ok (remove_board E a b)" "kept config_ok (setPreference a p)"
    "kept config_ok (saveGroup E a g graw)" "kept config_ok (remove_group a j)" for a raw b p g graw j
    unfolding create_board_def update_board_def remove_board_def setPreference_def preference_tx_def
      list_boards_def saveGroup_def group_tx_def remove_group_def remove_group_tx_def Let_def
    by (intro create_board_kept update_board_kept remove_board_kept kept_rules config_quiet config_puts)+
  have rest: "kept config_ok (update_lane E a i uraw)" "kept config_ok (create_lane E a craw)"
    "kept config_ok (remove_lane E a i)" "kept config_ok (reorder_lanes E a is)"
    "kept config_ok (apply_policy E a doc)" "kept config_ok (create_preset E a praw)"
    "kept config_ok (update_preset E a i qraw)" "kept config_ok (delete_preset E a i)"
    for a i uraw craw "is" doc praw qraw
    unfolding update_lane_def create_lane_def create_lane_tx_def remove_lane_def reorder_lanes_def
      reorder_tx_def apply_policy_def policy_tx_def create_preset_def update_preset_def delete_preset_def Let_def
    by (intro remove_lane_kept kept_rules config_quiet config_puts config_more config_lanes)+
  have same: "config_ok (w_db (snd (m w))) = config_ok (w_db w)" if "keeps (\<lambda>w. config_tables (w_db w)) m"
    for m :: "'z step"
    using that config_ok_tables by (metis keeps_def)
  show "config_ok (w_db w) \<Longrightarrow> config_ok (w_db (serve_admin E r w))"
    by (cases r) (simp_all add: boards[unfolded kept_def] rest[unfolded kept_def]
      same[OF config_location.location_sees(1)] same[OF config_location.location_sees(2)]
      same[OF config_location.location_sees(3)] same[OF config_cards.job_sees(1)] same[OF config_cards.job_sees(2)])
qed

end
