(* ===== verification/Location_Claims.thy ===== *)
theory Location_Claims
  imports Locations Sample
begin

text \<open>
  What deleting a location deletes: the walk over the levels below it, described by
  reachability along the parent links, and the table and the cards after the deletion.
\<close>

section \<open>The walk\<close>

definition below :: "location list \<Rightarrow> (uuid \<times> uuid) set" where
  "below rows = {(p, c). \<exists>l \<in> set rows. loc_parentId l = Some p \<and> loc_id l = c}"

abbreviation descendants :: "location list \<Rightarrow> uuid \<Rightarrow> uuid set" where
  "descendants rows i \<equiv> (below rows)\<^sup>* `` {i}"

lemma set_children:
  "set (children_of frontier visited rows) = below rows `` set frontier - set visited"
  by (auto simp: children_of_def below_def split: option.splits)

lemma levels_step:
  "levels_below rows frontier visited = (let children = children_of frontier visited rows in
     if children = [] then [] else children # levels_below rows children (visited @ children))"
  by (subst levels_below.simps) simp

text \<open>Visited nodes outside the frontier have no unvisited children.\<close>

definition explored :: "location list \<Rightarrow> uuid list \<Rightarrow> uuid list \<Rightarrow> bool" where
  "explored rows frontier visited \<longleftrightarrow> set frontier \<subseteq> set visited
     \<and> below rows `` (set visited - set frontier) \<subseteq> set visited"

lemma explored_next:
  "explored rows frontier visited \<Longrightarrow>
     explored rows (children_of frontier visited rows) (visited @ children_of frontier visited rows)"
  by (fastforce simp: explored_def set_children)

lemma levels_reach:
  "explored rows frontier visited \<Longrightarrow>
     set visited \<union> set (concat (levels_below rows frontier visited)) = (below rows)\<^sup>* `` set visited"
proof (induction rows frontier visited rule: levels_below.induct)
  case (1 rows frontier visited)
  let ?c = "children_of frontier visited rows"
  show ?case
  proof (cases "?c = []")
    case True
    then have "below rows `` set frontier \<subseteq> set visited" using set_children[of frontier visited rows] by auto
    moreover from 1(2) have "below rows `` (set visited - set frontier) \<subseteq> set visited" by (simp add: explored_def)
    moreover have "below rows `` set visited \<subseteq> below rows `` (set visited - set frontier) \<union> below rows `` set frontier" by blast
    ultimately have "below rows `` set visited \<subseteq> set visited" by blast
    then have "(below rows)\<^sup>* `` set visited = set visited" by (rule Image_closed_trancl)
    with True show ?thesis by (subst levels_step) simp
  next
    case False
    have "(below rows)\<^sup>* `` set (visited @ ?c) = (below rows)\<^sup>* `` set visited"
    proof
      have "set ?c \<subseteq> (below rows)\<^sup>* `` set visited"
      proof
        fix c assume "c \<in> set ?c"
        then obtain p where "p \<in> set frontier" "(p, c) \<in> below rows" by (auto simp: set_children)
        with 1(2) show "c \<in> (below rows)\<^sup>* `` set visited" by (auto simp: explored_def)
      qed
      then show "(below rows)\<^sup>* `` set (visited @ ?c) \<subseteq> (below rows)\<^sup>* `` set visited"
        by (auto intro: rtrancl_trans)
    qed auto
    moreover have "set (visited @ ?c) \<union> set (concat (levels_below rows ?c (visited @ ?c)))
        = (below rows)\<^sup>* `` set (visited @ ?c)"
      by (rule 1(1)[OF refl False explored_next[OF 1(2)]])
    ultimately show ?thesis using False by (subst levels_step) (simp add: Un_assoc Let_def)
  qed
qed

lemma collect_set: "set (collectSubtree rows i) = descendants rows i"
  using levels_reach[of rows "[i]" "[i]"] by (simp add: collectSubtree_def explored_def)

lemma distinct_concat_rev: "distinct (concat (rev ls)) = distinct (concat ls)"
  by (induction ls) auto

lemma levels_distinct:
  assumes "distinct (map loc_id rows)"
  shows "distinct (concat (levels_below rows frontier visited))
    \<and> set (concat (levels_below rows frontier visited)) \<inter> set visited = {}"
  using assms
proof (induction rows frontier visited rule: levels_below.induct)
  case (1 rows frontier visited)
  let ?c = "children_of frontier visited rows"
  have d: "distinct ?c" using 1(2) by (simp add: children_of_def distinct_map_filter)
  have n: "set ?c \<inter> set visited = {}" by (auto simp: set_children)
  show ?case
  proof (cases "?c = []")
    case False
    with 1(1)[OF refl False 1(2)] d n show ?thesis by (subst (1 2) levels_step) (auto simp: Let_def)
  qed (subst (1 2) levels_step, simp)
qed

text \<open>The deepest level comes first: a location stands before its parent.\<close>

lemma level_parent:
  assumes "c \<in> set (concat (levels_below rows frontier visited))"
  shows "\<exists>p xs ys zs. (p, c) \<in> below rows
    \<and> concat (rev (frontier # levels_below rows frontier visited)) = xs @ c # ys @ p # zs"
  using assms
proof (induction rows frontier visited rule: levels_below.induct)
  case (1 rows frontier visited)
  let ?c = "children_of frontier visited rows"
  let ?rest = "levels_below rows ?c (visited @ ?c)"
  have ne: "?c \<noteq> []" using 1(2) by (subst (asm) levels_step) (auto simp: Let_def split: if_splits)
  then have eq: "levels_below rows frontier visited = ?c # ?rest" by (subst levels_step) (simp add: Let_def)
  have whole: "concat (rev (frontier # ?c # ?rest)) = concat (rev (?c # ?rest)) @ frontier" by simp
  show ?case
  proof (cases "c \<in> set (concat ?rest)")
    case True
    from 1(1)[OF refl ne True] obtain p xs ys zs where "(p, c) \<in> below rows"
      "concat (rev (?c # ?rest)) = xs @ c # ys @ p # zs" by blast
    then show ?thesis unfolding eq whole by (intro exI[of _ p]) auto
  next
    case False
    with 1(2) eq have c: "c \<in> set ?c" by simp
    then obtain p where p: "p \<in> set frontier" "(p, c) \<in> below rows" by (auto simp: set_children)
    have "c \<in> set (concat (rev (?c # ?rest)))" using c by simp
    then obtain xs us where "concat (rev (?c # ?rest)) = xs @ c # us" by (meson split_list)
    moreover from p(1) obtain vs zs where "frontier = vs @ p # zs" by (meson split_list)
    ultimately have "concat (rev (frontier # ?c # ?rest)) = xs @ c # (us @ vs) @ p # zs"
      unfolding whole by simp
    with p(2) show ?thesis unfolding eq by blast
  qed
qed

section \<open>The deletion\<close>

lemma drop_rows: "fold (drop_row loc_id) ids rows = filter (\<lambda>l. loc_id l \<notin> set ids) rows"
  by (induction ids arbitrary: rows) (auto simp: drop_row_def intro: filter_cong)

lemma delete_run:
  assumes "delete_location E actor i w = (Inr q, w')"
  shows "findLocation i (w_db w) \<noteq> None \<and> location_gate E actor (w_db w) = Inr ()
    \<and> w_db w' = (w_db w)\<lparr>t_cards := map (clear_location (collectSubtree (t_locations (w_db w)) i)) (t_cards (w_db w)),
        t_locations := fold (drop_row loc_id) (collectSubtree (t_locations (w_db w)) i) (t_locations (w_db w))\<rparr>"
  using assms by (auto simp: delete_location_def run_simps deleteLocation_def Let_def split: if_splits)


definition sample_locations :: "location list" where
  "sample_locations = [\<lparr>loc_id = 1, loc_parentId = None, loc_kind = Building, loc_name = ''HQ''\<rparr>,
     \<lparr>loc_id = 2, loc_parentId = Some 1, loc_kind = Floor, loc_name = ''1''\<rparr>,
     \<lparr>loc_id = 3, loc_parentId = Some 2, loc_kind = Room, loc_name = ''101''\<rparr>,
     \<lparr>loc_id = 4, loc_parentId = None, loc_kind = Building, loc_name = ''Lab''\<rparr>]"

definition located_world :: world where
  "located_world = sample_world\<lparr>w_db := (w_db sample_world)\<lparr>t_locations := sample_locations,
     t_cards := map (\<lambda>c. c\<lparr>c_locationId := Some 3\<rparr>) (t_cards (w_db sample_world))\<rparr>\<rparr>"


end
