(* ===== verification/Business_Time.thy ===== *)
theory Business_Time
  imports Policy
begin

text \<open>
  Working time (\<open>businessMinutesBetween\<close> and \<open>isWorkOverdue\<close> of \<open>packages/core/src/domain/dates.ts\<close>):
  the walk over UTC days that adds up the part of each working day inside an interval, and
  the reference it is compared with, the number of working milliseconds of the interval.

  The code adds quotients by 60000 as doubles; the model adds the milliseconds and compares
  with 60000 times the estimate.
\<close>

section \<open>The code\<close>

definition MS_PER_MINUTE :: int where "MS_PER_MINUTE = 60000"

text \<open>\<open>getUTCDay\<close>: day 0 was a Thursday.\<close>

definition utc_weekday :: "instant \<Rightarrow> int" where
  "utc_weekday t = (t div DAY_MS + 4) mod 7"

text \<open>The part of the working day that starts at midnight \<open>dayStart\<close> between two instants.\<close>

definition day_share :: "business_hours \<Rightarrow> instant \<Rightarrow> instant \<Rightarrow> instant \<Rightarrow> int" where
  "day_share hours start stop dayStart =
     (if utc_weekday dayStart \<noteq> 0 \<and> utc_weekday dayStart \<noteq> 6 then
        let windowStart = dayStart + int (startHour hours) * 60 * MS_PER_MINUTE;
            windowEnd = dayStart + int (endHour hours) * 60 * MS_PER_MINUTE;
            frm = max start windowStart;
            to = min stop windowEnd
        in if frm < to then to - frm else 0
      else 0)"

function day_walk :: "business_hours \<Rightarrow> instant \<Rightarrow> instant \<Rightarrow> instant \<Rightarrow> int \<Rightarrow> int" where
  "day_walk hours start stop dayStart acc =
     (if dayStart \<le> stop
      then day_walk hours start stop (dayStart + DAY_MS) (acc + day_share hours start stop dayStart)
      else acc)"
  by auto
termination
  by (relation "measure (\<lambda>(hours, start, stop, dayStart, acc). nat (stop + 1 - dayStart))")
    (auto simp: DAY_MS_def)

declare day_walk.simps [simp del]

definition business_ms :: "business_hours \<Rightarrow> instant \<Rightarrow> instant \<Rightarrow> int" where
  "business_ms hours start stop =
     (if stop \<le> start then 0 else day_walk hours start stop (start div DAY_MS * DAY_MS) 0)"

definition isWorkOverdue :: "instant option \<Rightarrow> nat option \<Rightarrow> instant \<Rightarrow> business_hours \<Rightarrow> bool" where
  "isWorkOverdue workStartedAt estimateMinutes t hours = (case (workStartedAt, estimateMinutes) of
      (Some s, Some m) \<Rightarrow> int m * MS_PER_MINUTE \<le> business_ms hours s t
    | _ \<Rightarrow> False)"

section \<open>The reference\<close>

definition working :: "business_hours \<Rightarrow> instant \<Rightarrow> bool" where
  "working hours t \<longleftrightarrow> utc_weekday t \<noteq> 0 \<and> utc_weekday t \<noteq> 6
     \<and> int (startHour hours) * 3600000 \<le> t mod DAY_MS \<and> t mod DAY_MS < int (endHour hours) * 3600000"

definition working_between :: "business_hours \<Rightarrow> instant \<Rightarrow> instant \<Rightarrow> instant set" where
  "working_between hours start stop = {t \<in> {start..<stop}. working hours t}"

lemma finite_working [simp]: "finite (working_between hours start stop)"
  by (rule finite_subset[of _ "{start..<stop}"]) (auto simp: working_between_def)

lemma in_day:
  assumes "DAY_MS dvd D" and "D \<le> t" and "t < D + DAY_MS"
  shows "t div DAY_MS = D div DAY_MS \<and> t mod DAY_MS = t - D"
proof -
  from assms(1) obtain k where D: "D = DAY_MS * k" by (rule dvdE)
  have "t div DAY_MS = k" using assms(2,3) D by (intro int_div_pos_eq[of _ _ _ "t - D"]) auto
  then show ?thesis using D by (simp add: minus_div_mult_eq_mod[symmetric] DAY_MS_def)
qed

lemma span_length: "int (card {a..<b}) = (if a < b then b - a else 0)" for a b :: int
  by simp

lemma day_share_counts:
  assumes "DAY_MS dvd D" and "endHour hours \<le> 24"
  shows "day_share hours start stop D
    = int (card (working_between hours (max start D) (min stop (D + DAY_MS))))"
proof (cases "utc_weekday D = 0 \<or> utc_weekday D = 6")
  case True
  have "\<not> working hours t" if "D \<le> t" "t < D + DAY_MS" for t
    using in_day[OF assms(1) that] True by (auto simp: working_def utc_weekday_def)
  then have "working_between hours (max start D) (min stop (D + DAY_MS)) = {}"
    by (auto simp: working_between_def)
  moreover have "day_share hours start stop D = 0" using True by (auto simp: day_share_def)
  ultimately show ?thesis by simp
next
  case False
  let ?from = "max start (D + int (startHour hours) * 60 * MS_PER_MINUTE)"
  let ?to = "min stop (D + int (endHour hours) * 60 * MS_PER_MINUTE)"
  have le: "int (endHour hours) * 3600000 \<le> DAY_MS" using assms(2) by (simp add: DAY_MS_def)
  have "working hours t \<longleftrightarrow> D + int (startHour hours) * 3600000 \<le> t \<and> t < D + int (endHour hours) * 3600000"
    if "D \<le> t" "t < D + DAY_MS" for t
    using in_day[OF assms(1) that] False by (auto simp: working_def utc_weekday_def)
  with le have w: "working_between hours (max start D) (min stop (D + DAY_MS)) = {?from..<?to}"
    by (auto simp: working_between_def MS_PER_MINUTE_def)
  have s: "day_share hours start stop D = (if ?from < ?to then ?to - ?from else 0)"
    unfolding day_share_def Let_def by (rule if_P) (use False in simp)
  show ?thesis unfolding w s by (rule span_length[symmetric])
qed

lemma working_split:
  assumes "a \<le> b" and "b \<le> c"
  shows "card (working_between hours a c) = card (working_between hours a b) + card (working_between hours b c)"
proof -
  have "working_between hours a c = working_between hours a b \<union> working_between hours b c"
    using assms by (auto simp: working_between_def)
  moreover have "working_between hours a b \<inter> working_between hours b c = {}"
    by (auto simp: working_between_def)
  ultimately show ?thesis by (simp add: card_Un_disjoint)
qed

lemma working_none: "b \<le> a \<Longrightarrow> working_between hours a b = {}"
  by (auto simp: working_between_def)

lemma day_walk_counts:
  assumes "DAY_MS dvd D" and "endHour hours \<le> 24"
  shows "day_walk hours start stop D acc = acc + int (card (working_between hours (max start D) stop))"
  using assms
proof (induction hours start stop D acc rule: day_walk.induct)
  case (1 hours start stop D acc)
  show ?case
  proof (cases "D \<le> stop")
    case False
    then show ?thesis by (subst day_walk.simps) (simp add: working_none)
  next
    case True
    let ?share = "card (working_between hours (max start D) (min stop (D + DAY_MS)))"
    let ?rest = "card (working_between hours (max start (D + DAY_MS)) stop)"
    have "day_walk hours start stop D acc
        = acc + day_share hours start stop D + int ?rest"
      using True 1(1)[OF True] 1(2,3) by (subst day_walk.simps) (simp add: algebra_simps)
    moreover have "card (working_between hours (max start D) stop) = ?share + ?rest"
    proof (cases "max start D \<le> D + DAY_MS \<and> D + DAY_MS \<le> stop")
      case True
      then have "max start (D + DAY_MS) = D + DAY_MS" "min stop (D + DAY_MS) = D + DAY_MS" by simp_all
      then show ?thesis using True working_split[of "max start D" "D + DAY_MS" stop hours] by simp
    next
      case False
      then show ?thesis by (auto simp: working_none max_def min_def DAY_MS_def split: if_splits)
    qed
    ultimately show ?thesis using day_share_counts[OF 1(2,3)] by simp
  qed
qed

lemma business_ms_counts:
  assumes "endHour hours \<le> 24"
  shows "business_ms hours start stop = int (card (working_between hours start stop))"
proof (cases "stop \<le> start")
  case False
  have "start div DAY_MS * DAY_MS \<le> start"
    using minus_mod_eq_div_mult[of start DAY_MS] pos_mod_sign[of DAY_MS start] by (simp add: DAY_MS_def)
  then show ?thesis using False day_walk_counts[of "start div DAY_MS * DAY_MS" hours start stop 0] assms
    by (simp add: business_ms_def max_def)
qed (simp add: business_ms_def working_none)

lemma business_ms_mono:
  assumes "endHour hours \<le> 24" and "stop \<le> stop'"
  shows "business_ms hours start stop \<le> business_ms hours start stop'"
proof -
  have "working_between hours start stop \<subseteq> working_between hours start stop'"
    using assms(2) by (auto simp: working_between_def)
  then show ?thesis by (simp add: business_ms_counts[OF assms(1)] card_mono)
qed

lemma business_ms_le:
  assumes "endHour hours \<le> 24"
  shows "business_ms hours start stop \<le> max 0 (stop - start)"
proof -
  have "card (working_between hours start stop) \<le> card {start..<stop}"
    by (rule card_mono) (auto simp: working_between_def)
  then show ?thesis by (simp add: business_ms_counts[OF assms(1)])
qed



end
