(* ===== verification/Queries.thy ===== *)
theory Queries
  imports Search Policies Business_Time
begin

text \<open>
  \<open>BoardQueryService\<close> (\<open>packages/core/src/services/board-query-service.ts\<close>): the board snapshot
  and its filtered form, the card list and the audit feeds page by page, card details, the
  follow-up feed, and the names the activity feed is rendered with.

  A page cursor is the key it encodes, \<open>(createdAt, id)\<close>; the base64url text of it is not
  modelled.  The walk over a location subtree keeps no set of visited locations, so it is a
  partial function: \<open>None\<close> is a walk that does not end, and the two reads that use it have the
  result of a step under \<open>Some\<close>.
\<close>

section \<open>Pages\<close>

record 'k page_request =
  pg_cursor :: "'k option"
  pg_limit :: "nat option"

type_synonym 'k after = "'k option \<times> nat"

text \<open>\<open>limit\<close> is 1 to 200, 50 when absent.\<close>

definition parse_page :: "'k page_request \<Rightarrow> 'k after read" where
  "parse_page raw = (let n = default_to 50 (pg_limit raw) in
     sbind (check (1 \<le> n \<and> n \<le> 200) ''limit'') (\<lambda>_. Inr (pg_cursor raw, n)))"

record ('r, 'k) page =
  pa_items :: "'r list"
  pa_nextCursor :: "'k option"

definition paginate :: "'r list \<Rightarrow> nat \<Rightarrow> ('r \<Rightarrow> 'k) \<Rightarrow> ('r, 'k) page" where
  "paginate rows limit keyOf =
     (let hasMore = limit < length rows; items = (if hasMore then take limit rows else rows) in
      \<lparr>pa_items = items, pa_nextCursor =
         (if hasMore \<and> items \<noteq> [] then Some (keyOf (last items)) else None)\<rparr>)"

section \<open>Locations of a filter\<close>

definition childrenByParentOf :: "location list \<Rightarrow> uuid \<Rightarrow> uuid list" where
  "childrenByParentOf locs p = map loc_id (filter (\<lambda>l. loc_parentId l = Some p) locs)"

partial_function (option) subtree_walk ::
  "(uuid \<Rightarrow> uuid list) \<Rightarrow> uuid list \<Rightarrow> uuid list \<Rightarrow> uuid list option" where
  "subtree_walk childrenByParent stack ids = (if stack = [] then Some ids
     else subtree_walk childrenByParent (butlast stack @ childrenByParent (last stack)) (ids @ [last stack]))"

definition subtreeIds :: "uuid \<Rightarrow> (uuid \<Rightarrow> uuid list) \<Rightarrow> uuid list option" where
  "subtreeIds rootId childrenByParent = subtree_walk childrenByParent [rootId] []"

definition locationSubtreeIds :: "uuid \<Rightarrow> db \<Rightarrow> uuid list option" where
  "locationSubtreeIds rootId d = subtreeIds rootId (childrenByParentOf (listLocations d))"

text \<open>Each selected location with its subtree, every id once.\<close>

fun expand_roots :: "(uuid \<Rightarrow> uuid list) \<Rightarrow> uuid list \<Rightarrow> uuid list option" where
  "expand_roots index [] = Some []"
| "expand_roots index (r # rs) = (case subtreeIds r index of None \<Rightarrow> None
     | Some ids \<Rightarrow> map_option ((@) ids) (expand_roots index rs))"

section \<open>The board\<close>

record board_card =
  bc_id :: card_no
  bc_boardId :: uuid
  bc_laneId :: uuid
  bc_position :: string
  bc_title :: string
  bc_priority :: priority
  bc_estimateMinutes :: "nat option"
  bc_reporterId :: uuid
  bc_assigneeId :: "uuid option"
  bc_locationId :: "uuid option"
  bc_origin :: card_origin
  bc_resolution :: "resolution option"
  bc_blocked :: bool
  bc_blockedReason :: "string option"
  bc_blockedAt :: "instant option"
  bc_waitingReason :: "string option"
  bc_expectedResumeAt :: "day option"
  bc_workStartedAt :: "instant option"
  bc_version :: nat
  bc_createdAt :: instant
  bc_updatedAt :: instant
  bc_archivedAt :: "instant option"
  bc_extras :: board_extras

definition boardCardOf :: "card \<Rightarrow> board_extras \<Rightarrow> board_card" where
  "boardCardOf c x = \<lparr>bc_id = c_id c, bc_boardId = c_boardId c, bc_laneId = c_laneId c,
     bc_position = c_position c, bc_title = c_title c, bc_priority = c_priority c,
     bc_estimateMinutes = c_estimateMinutes c, bc_reporterId = c_reporterId c,
     bc_assigneeId = c_assigneeId c, bc_locationId = c_locationId c, bc_origin = c_origin c,
     bc_resolution = c_resolution c, bc_blocked = c_blocked c, bc_blockedReason = c_blockedReason c,
     bc_blockedAt = c_blockedAt c, bc_waitingReason = c_waitingReason c,
     bc_expectedResumeAt = c_expectedResumeAt c, bc_workStartedAt = c_workStartedAt c,
     bc_version = c_version c, bc_createdAt = c_createdAt c, bc_updatedAt = c_updatedAt c,
     bc_archivedAt = c_archivedAt c, bc_extras = x\<rparr>"

record lane_snapshot =
  ls_lane :: lane
  ls_cards :: "board_card list"
  ls_wipLimitExceeded :: bool

definition over_wip :: "lane \<Rightarrow> nat \<Rightarrow> bool" where
  "over_wip l n \<longleftrightarrow> (case l_wipLimit l of None \<Rightarrow> False | Some k \<Rightarrow> k < n)"

definition snapshot_of :: "db \<Rightarrow> lane \<Rightarrow> lane_snapshot" where
  "snapshot_of d l = (let rows = listBoardSummariesByLane (l_id l) d in
     \<lparr>ls_lane = l, ls_cards = map (\<lambda>(c, x). boardCardOf c x) rows,
      ls_wipLimitExceeded = over_wip l (length rows)\<rparr>)"

definition boardSnapshot :: "env \<Rightarrow> actor \<Rightarrow> lane_snapshot list step" where
  "boardSnapshot E actor = uow_read (\<lambda>d.
     sbind (requireBoardAccess actor (e_boardId E) d) (\<lambda>_.
     Inr (map (snapshot_of d) (listLanes (e_boardId E) d))))"

definition toBoardRepoFilter :: "uuid \<Rightarrow> board_filter \<Rightarrow> db \<Rightarrow> card_query_filter option" where
  "toBoardRepoFilter boardId f d =
     (case expand_roots (childrenByParentOf (listLocations d)) (uniq (bf_locationIds f)) of
        None \<Rightarrow> None
      | Some ids \<Rightarrow> Some (no_filter\<lparr>qf_boardId := Some boardId, qf_priorities := bf_priorities f,
          qf_assigneeIds := bf_assigneeIds f, qf_reporterIds := bf_reporterIds f, qf_tags := bf_tags f,
          qf_locationIds := uniq ids, qf_archivedOnly := (bf_scope f = ArchivedOnly),
          qf_includeArchived := (bf_scope f = AllCards),
          qf_q := (if bf_q f = [] then None else Some (bf_q f)), qf_overdueCandidate := bf_overdue f\<rparr>))"

text \<open>The business hours are read only for the overdue facet.\<close>

definition overdue_rows :: "uuid \<Rightarrow> board_filter \<Rightarrow> instant \<Rightarrow> db \<Rightarrow> (card \<times> board_extras) list
    \<Rightarrow> (card \<times> board_extras) list read" where
  "overdue_rows boardId f t d rows = (if bf_overdue f then
     sbind (activePolicy boardId d) (\<lambda>policy. Inr (filter (\<lambda>row.
       isWorkOverdue (c_workStartedAt (fst row)) (c_estimateMinutes (fst row)) t (p_businessHours policy))
       rows)) else Inr rows)"

text \<open>The WIP mark is the one of the whole lane.\<close>

definition filtered_lane :: "(card \<times> board_extras) list \<Rightarrow> db \<Rightarrow> lane \<Rightarrow> lane_snapshot" where
  "filtered_lane rows d l = \<lparr>ls_lane = l,
     ls_cards = map (\<lambda>(c, x). boardCardOf c x) (filter (\<lambda>row. c_laneId (fst row) = l_id l) rows),
     ls_wipLimitExceeded = over_wip l (countActiveByLane (l_id l) d)\<rparr>"

definition filtered_read :: "uuid \<Rightarrow> actor \<Rightarrow> board_filter \<Rightarrow> instant \<Rightarrow> db \<Rightarrow> lane_snapshot list read option" where
  "filtered_read boardId actor f t d = (case requireBoardAccess actor boardId d of
      Inl e \<Rightarrow> Some (Inl e)
    | Inr _ \<Rightarrow> map_option (\<lambda>repoFilter.
        sbind (overdue_rows boardId f t d (queryBoardSummaries repoFilter d)) (\<lambda>rows.
        Inr (map (filtered_lane rows d) (listLanes boardId d)))) (toBoardRepoFilter boardId f d))"

definition filteredBoard :: "env \<Rightarrow> actor \<Rightarrow> board_filter \<Rightarrow> world
    \<Rightarrow> (lane_snapshot list read \<times> world) option" where
  "filteredBoard E actor raw w = (case boardFilterSchema raw of
      Inl e \<Rightarrow> Some (Inl e, w)
    | Inr f \<Rightarrow> map_option (\<lambda>r. (r, w\<lparr>w_ticks := Suc (w_ticks w)\<rparr>))
        (filtered_read (e_boardId E) actor f (e_clock E (w_ticks w)) (w_db w)))"

section \<open>The card list\<close>

record list_cards_filter =
  lf_lane :: "lane_key option"
  lf_assignee :: "uuid option"
  lf_reporter :: "uuid option"
  lf_priority :: "priority option"
  lf_locationId :: "uuid option"
  lf_tag :: "string option"
  lf_tags :: "string list option"
  lf_blocked :: "bool option"
  lf_waitingReason :: "string option"
  lf_overdueResume :: bool
  lf_q :: "string option"
  lf_includeArchived :: bool
  lf_archivedOnly :: bool

definition parse_list_cards :: "list_cards_filter \<Rightarrow> list_cards_filter read" where
  "parse_list_cards raw =
     sbind (optional (slug ''lane'') (lf_lane raw)) (\<lambda>_.
     sbind (optional tagNameSchema (lf_tag raw)) (\<lambda>tag.
     sbind (check (length (default_to [] (lf_tags raw)) \<le> 20) ''tags'') (\<lambda>_.
     sbind (optional (smap tagNameSchema) (lf_tags raw)) (\<lambda>tags.
     sbind (optional (slug ''waitingReason'') (lf_waitingReason raw)) (\<lambda>_.
     sbind (check (length (default_to [] (lf_q raw)) \<le> 200) ''q'') (\<lambda>_.
     Inr (raw\<lparr>lf_tag := tag, lf_tags := tags\<rparr>)))))))"

text \<open>The list of tags supersedes the single tag.\<close>

definition wanted_tags :: "list_cards_filter \<Rightarrow> string list" where
  "wanted_tags f = (case lf_tags f of Some ts \<Rightarrow> ts
     | None \<Rightarrow> (case lf_tag f of Some t \<Rightarrow> [t] | None \<Rightarrow> []))"

definition lane_facet :: "uuid \<Rightarrow> lane_key option \<Rightarrow> db \<Rightarrow> uuid option read" where
  "lane_facet boardId key d = (case key of None \<Rightarrow> Inr None
     | Some k \<Rightarrow> sbind (laneByKey boardId k d) (\<lambda>l. Inr (Some (l_id l))))"

definition location_facet :: "uuid option \<Rightarrow> db \<Rightarrow> uuid list option" where
  "location_facet root d = (case root of None \<Rightarrow> Some [] | Some r \<Rightarrow> locationSubtreeIds r d)"

definition toRepoFilter :: "uuid \<Rightarrow> list_cards_filter \<Rightarrow> uuid option \<Rightarrow> uuid list \<Rightarrow> instant \<Rightarrow> card_query_filter" where
  "toRepoFilter boardId f laneId locationIds t = no_filter\<lparr>qf_boardId := Some boardId, qf_laneId := laneId,
     qf_assigneeId := lf_assignee f, qf_reporterId := lf_reporter f, qf_priority := lf_priority f,
     qf_locationIds := locationIds, qf_tags := wanted_tags f, qf_blocked := lf_blocked f,
     qf_waitingReason := lf_waitingReason f,
     qf_overdueBefore := (if lf_overdueResume f then Some (utcDayOf t) else None),
     qf_q := lf_q f, qf_includeArchived := lf_includeArchived f, qf_archivedOnly := lf_archivedOnly f\<rparr>"

definition cards_page :: "uuid \<Rightarrow> actor \<Rightarrow> list_cards_filter \<Rightarrow> (instant \<times> card_no) after \<Rightarrow> instant \<Rightarrow> db
    \<Rightarrow> (card, instant \<times> card_no) page read option" where
  "cards_page boardId actor f page t d =
     (case sbind (requireBoardAccess actor boardId d) (\<lambda>_. lane_facet boardId (lf_lane f) d) of
        Inl e \<Rightarrow> Some (Inl e)
      | Inr laneId \<Rightarrow> map_option (\<lambda>locationIds. Inr (paginate
          (query (toRepoFilter boardId f laneId locationIds t) (fst page) (Some (snd page + 1)) d)
          (snd page) card_key)) (location_facet (lf_locationId f) d))"

text \<open>The clock is read only for the overdue facet, once the lane and the locations are known.\<close>

definition listCards :: "env \<Rightarrow> actor \<Rightarrow> list_cards_filter \<Rightarrow> (instant \<times> card_no) page_request \<Rightarrow> world
    \<Rightarrow> ((card, instant \<times> card_no) page read \<times> world) option" where
  "listCards E actor rawFilter rawPage w =
     (case sbind (parse_list_cards rawFilter) (\<lambda>f. sbind (parse_page rawPage) (\<lambda>p. Inr (f, p))) of
        Inl e \<Rightarrow> Some (Inl e, w)
      | Inr (f, page) \<Rightarrow> map_option (\<lambda>r. (r, case r of
            Inr _ \<Rightarrow> (if lf_overdueResume f then w\<lparr>w_ticks := Suc (w_ticks w)\<rparr> else w) | Inl _ \<Rightarrow> w))
          (cards_page (e_boardId E) actor f page (e_clock E (w_ticks w)) (w_db w)))"

definition listTags :: "env \<Rightarrow> actor \<Rightarrow> tag list step" where
  "listTags E actor = uow_read (\<lambda>d. sbind (requireBoardAccess actor (e_boardId E) d) (\<lambda>_.
     Inr (listAllTags (Some (e_boardId E)) d)))"

definition list_lanes :: "env \<Rightarrow> actor \<Rightarrow> lane list step" where
  "list_lanes E actor = uow_read (\<lambda>d. sbind (requireBoardAccess actor (e_boardId E) d) (\<lambda>_.
     Inr (listLanes (e_boardId E) d)))"

section \<open>Card details\<close>

record card_detail =
  cd_card :: card
  cd_tags :: "tag list"
  cd_location :: "location option"
  cd_attachments :: "attachment list"

definition detailOf :: "card \<Rightarrow> db \<Rightarrow> card_detail" where
  "detailOf c d = \<lparr>cd_card = c, cd_tags = listTagsByCard (c_id c) d,
     cd_location = (case c_locationId c of None \<Rightarrow> None | Some l \<Rightarrow> findLocation l d),
     cd_attachments = filter (\<lambda>a. at_deletedAt a = None) (listAttachments (c_id c) d)\<rparr>"

definition cardDetail :: "actor \<Rightarrow> card_no \<Rightarrow> card_detail step" where
  "cardDetail actor cardId = uow_read (\<lambda>d. sbind (accessibleCard actor cardId d) (\<lambda>c. Inr (detailOf c d)))"

text \<open>With the redacted thread and the trailing events, oldest first.\<close>

definition cardDetailWithThread :: "actor \<Rightarrow> card_no \<Rightarrow> nat
    \<Rightarrow> (card_detail \<times> comment_row list \<times> card_event list) step" where
  "cardDetailWithThread actor cardId latestEventsTake = uow_read (\<lambda>d.
     sbind (accessibleCard actor cardId d) (\<lambda>c.
     Inr (detailOf c d, redactDeletedComments (listComments (c_id c) d),
       rev (listLatestByCard (c_id c) latestEventsTake None d))))"

end
