(* ===== verification/Location_Tree.thy ===== *)
theory Location_Tree
  imports Installation Location_Claims Queries
begin

text \<open>
  The location table is a forest of three levels on every reachable database, and so the walk
  of a location filter, which remembers no visited location, ends.
\<close>

section \<open>The walk\<close>

definition edges :: "(uuid \<Rightarrow> uuid list) \<Rightarrow> (uuid \<times> uuid) set" where
  "edges index = {(p, c). c \<in> set (index p)}"

lemma reach_first: "(edges index)\<^sup>* `` {x} = {x} \<union> (edges index)\<^sup>* `` set (index x)"
proof
  show "(edges index)\<^sup>* `` {x} \<subseteq> {x} \<union> (edges index)\<^sup>* `` set (index x)"
  proof
    fix y assume "y \<in> (edges index)\<^sup>* `` {x}"
    then have "(x, y) \<in> (edges index)\<^sup>*" by simp
    then show "y \<in> {x} \<union> (edges index)\<^sup>* `` set (index x)"
    proof (cases rule: converse_rtranclE)
      case (step z)
      then show ?thesis by (auto simp: edges_def)
    qed simp
  qed
next
  have "(x, z) \<in> edges index" if "z \<in> set (index x)" for z using that by (simp add: edges_def)
  then show "{x} \<union> (edges index)\<^sup>* `` set (index x) \<subseteq> (edges index)\<^sup>* `` {x}"
    by (auto intro: converse_rtrancl_into_rtrancl)
qed

text \<open>Induction on a walk that ends: it pops the last location and pushes its children.\<close>

lemma walk_induct [consumes 1, case_names finish pop]:
  assumes "subtree_walk index stack ids = Some r"
    and "\<And>ids. P [] ids ids"
    and "\<And>stack x ids r. P (stack @ index x) (ids @ [x]) r \<Longrightarrow> P (stack @ [x]) ids r"
  shows "P stack ids r"
proof -
  have "ix = index \<longrightarrow> P stack ids r" if "subtree_walk ix stack ids = Some r" for ix
  proof (rule subtree_walk.raw_induct[where P="\<lambda>ix stack ids r. ix = index \<longrightarrow> P stack ids r", OF _ that])
    fix walk ix stack ids r
    assume IH: "\<And>ix stack ids r. walk ix stack ids = Some r \<Longrightarrow> ix = index \<longrightarrow> P stack ids r"
      and step: "(if stack = [] then Some ids else walk ix (butlast stack @ ix (last stack)) (ids @ [last stack])) = Some r"
    show "ix = index \<longrightarrow> P stack ids r"
    proof (cases stack rule: rev_cases)
      case Nil
      with step assms(2) show ?thesis by simp
    next
      case (snoc s x)
      with step have "walk ix (s @ ix x) (ids @ [x]) = Some r" by simp
      from IH[OF this] snoc assms(3) show ?thesis by auto
    qed
  qed
  with assms(1) show ?thesis by blast
qed

lemma walk_reaches:
  "subtree_walk index stack ids = Some r \<Longrightarrow> set r = set ids \<union> (edges index)\<^sup>* `` set stack"
proof (induction rule: walk_induct)
  case (pop stack x ids r)
  have "(edges index)\<^sup>* `` set (stack @ [x])
      = (edges index)\<^sup>* `` set stack \<union> ({x} \<union> (edges index)\<^sup>* `` set (index x))"
    unfolding reach_first[symmetric] by (simp add: Image_Un[symmetric])
  with pop show ?case by (auto simp: Image_Un)
qed simp

text \<open>Popping a node whose descendants are well-founded removes it, and only it, from the stack.\<close>

lemma walk_pops:
  assumes "wf ((edges index)\<inverse>)"
  shows "\<exists>more. subtree_walk index (stack @ [x]) ids = subtree_walk index stack (ids @ more)"
  using assms
proof (induction x arbitrary: stack ids rule: wf_induct_rule)
  case (less x)
  have all: "\<exists>more. subtree_walk index (stack @ cs) ids = subtree_walk index stack (ids @ more)"
    if "set cs \<subseteq> set (index x)" for cs stack ids
    using that
  proof (induction cs arbitrary: ids rule: rev_induct)
    case (snoc c cs)
    then have "(c, x) \<in> (edges index)\<inverse>" by (simp add: edges_def)
    from less[OF this, of "stack @ cs" ids] obtain m1 where
      "subtree_walk index (stack @ cs @ [c]) ids = subtree_walk index (stack @ cs) (ids @ m1)" by auto
    moreover from snoc obtain m2 where
      "subtree_walk index (stack @ cs) (ids @ m1) = subtree_walk index stack ((ids @ m1) @ m2)" by fastforce
    ultimately show ?case by (intro exI[of _ "m1 @ m2"]) simp
  qed (auto intro: exI[of _ "[]"])
  have "subtree_walk index (stack @ [x]) ids = subtree_walk index (stack @ index x) (ids @ [x])"
    by (subst subtree_walk.simps) simp
  also from all[of "index x" stack "ids @ [x]"] obtain more where
    "\<dots> = subtree_walk index stack ((ids @ [x]) @ more)" by auto
  finally show ?case by (intro exI[of _ "x # more"]) simp
qed

lemma walk_returns:
  assumes "wf ((edges index)\<inverse>)"
  shows "\<exists>ids. subtreeIds r index = Some ids \<and> set ids = (edges index)\<^sup>* `` {r}"
proof -
  from walk_pops[OF assms, of "[]" r "[]"] obtain ids where "subtree_walk index [r] [] = subtree_walk index [] ids"
    by auto
  then have "subtree_walk index [r] [] = Some ids" by (simp add: subtree_walk.simps[of index "[]"])
  with walk_reaches[OF this] show ?thesis by (simp add: subtreeIds_def)
qed

text \<open>On a location that is its own parent the walk does not end.\<close>

lemma walk_stuck: "index x = [x] \<Longrightarrow> subtree_walk index [x] ids = None"
proof -
  have "index x = [x] \<longrightarrow> stack \<noteq> [x]" if "subtree_walk index stack ids = Some r" for stack ids r
    using that by (induction rule: walk_induct) auto
  then show "subtree_walk index [x] ids = None" if "index x = [x]"
    using that by (cases "subtree_walk index [x] ids") blast+
qed

section \<open>The forest\<close>

definition tree_ok :: "location list \<Rightarrow> bool" where
  "tree_ok rows \<longleftrightarrow> distinct (map loc_id rows) \<and> (\<forall>l \<in> set rows. case REQUIRED_PARENT_KIND (loc_kind l) of
      None \<Rightarrow> loc_parentId l = None
    | Some k \<Rightarrow> (\<exists>q \<in> set rows. loc_parentId l = Some (loc_id q) \<and> loc_kind q = k))"

lemma edges_below: "edges (childrenByParentOf (listLocations d)) = below (t_locations d)"
  by (auto simp: edges_def childrenByParentOf_def below_def listLocations_def)

lemma parent_rank:
  assumes "tree_ok rows" and "(p, c) \<in> below rows"
  shows "\<exists>q \<in> set rows. \<exists>l \<in> set rows. loc_id q = p \<and> loc_id l = c \<and> kind_rank (loc_kind q) < kind_rank (loc_kind l)"
proof -
  from assms(2) obtain l where l: "l \<in> set rows" "loc_parentId l = Some p" "loc_id l = c" by (auto simp: below_def)
  with assms(1) obtain k q where "REQUIRED_PARENT_KIND (loc_kind l) = Some k" "q \<in> set rows" "loc_id q = p" "loc_kind q = k"
    unfolding tree_ok_def by (fastforce split: option.splits)
  with l show ?thesis by (cases "loc_kind l") fastforce+
qed

lemma tree_wf:
  assumes "tree_ok rows" shows "wf ((below rows)\<inverse>)"
proof -
  let ?rank = "\<lambda>i. 2 - kind_rank (loc_kind (the (row_of loc_id i rows)))"
  have "(below rows)\<inverse> \<subseteq> measure ?rank"
  proof
    fix e assume "e \<in> (below rows)\<inverse>"
    then obtain p c where e: "e = (c, p)" "(p, c) \<in> below rows" by auto
    from parent_rank[OF assms e(2)] obtain q l where
      "q \<in> set rows" "l \<in> set rows" "loc_id q = p" "loc_id l = c" "kind_rank (loc_kind q) < kind_rank (loc_kind l)"
      by blast
    moreover from this assms have "row_of loc_id p rows = Some q" "row_of loc_id c rows = Some l"
      by (auto simp: tree_ok_def dest: row_of_member)
    moreover have "kind_rank (loc_kind l) \<le> 2" by (cases "loc_kind l") simp_all
    ultimately show "e \<in> measure ?rank" by (simp add: e(1))
  qed
  then show ?thesis by (rule wf_subset[OF wf_measure])
qed

lemma subtree_returns:
  "tree_ok (t_locations d) \<Longrightarrow> \<exists>ids. locationSubtreeIds r d = Some ids \<and> set ids = descendants (t_locations d) r"
  using walk_returns[of "childrenByParentOf (listLocations d)" r] tree_wf
  by (simp add: locationSubtreeIds_def edges_below)

lemma expand_returns:
  assumes "wf ((edges index)\<inverse>)"
  shows "\<exists>ids. expand_roots index rs = Some ids \<and> set ids = (edges index)\<^sup>* `` set rs"
proof (induction rs)
  case (Cons r rs)
  then obtain ids where "expand_roots index rs = Some ids" "set ids = (edges index)\<^sup>* `` set rs" by blast
  with walk_returns[OF assms, of r] show ?case by auto
qed simp

section \<open>Requests\<close>

interpretation locations_cards: comment_view t_locations by unfold_locales simp_all
interpretation locations_relations: relation_view t_locations by unfold_locales simp_all
interpretation locations_attachments: attachment_view t_locations by unfold_locales simp_all

lemma tree_insert:
  assumes "tree_ok (t_locations d)" and "parent_fits inp d = Inr u"
    and "insertLocation \<lparr>loc_id = i, loc_parentId = nl_parentId inp, loc_kind = nl_kind inp, loc_name = nm\<rparr> d = Inr d'"
  shows "tree_ok (t_locations d')"
proof -
  let ?l = "\<lparr>loc_id = i, loc_parentId = nl_parentId inp, loc_kind = nl_kind inp, loc_name = nm\<rparr>"
  from assms(3) have d': "t_locations d' = t_locations d @ [?l]" "i \<notin> loc_id ` set (t_locations d)"
    by (auto simp: insertLocation_def split: if_splits)
  have "case REQUIRED_PARENT_KIND (nl_kind inp) of None \<Rightarrow> nl_parentId inp = None
      | Some k \<Rightarrow> (\<exists>q \<in> set (t_locations d). nl_parentId inp = Some (loc_id q) \<and> loc_kind q = k)"
    using assms(2) by (auto simp: parent_fits_def run_simps findLocation_def dest: row_of_SomeD split: option.splits)
  with assms(1) d' show ?thesis by (fastforce simp: tree_ok_def split: option.splits)
qed

lemma tree_rename:
  assumes "tree_ok (t_locations d)" and "findLocation i d = Some l" and "updateLocation (l\<lparr>loc_name := nm\<rparr>) d = Inr d'"
  shows "tree_ok (t_locations d')"
proof -
  let ?f = "\<lambda>x. if loc_id x = loc_id l then l\<lparr>loc_name := nm\<rparr> else x"
  from assms(3) have d': "t_locations d' = map ?f (t_locations d)"
    by (auto simp: updateLocation_def put_row_def split: if_splits)
  from assms(2) have l: "l \<in> set (t_locations d)" by (auto simp: findLocation_def dest: row_of_SomeD)
  have f: "loc_id (?f x) = loc_id x \<and> loc_kind (?f x) = loc_kind x \<and> loc_parentId (?f x) = loc_parentId x"
    if "x \<in> set (t_locations d)" for x
  proof (cases "loc_id x = loc_id l")
    case True
    with that l assms(1) have "x = l" by (auto simp: tree_ok_def distinct_map dest: inj_onD)
    then show ?thesis by simp
  qed simp
  then have "map loc_id (t_locations d') = map loc_id (t_locations d)" by (simp add: d')
  moreover have "case REQUIRED_PARENT_KIND (loc_kind y) of None \<Rightarrow> loc_parentId y = None
      | Some k \<Rightarrow> (\<exists>q \<in> set (t_locations d'). loc_parentId y = Some (loc_id q) \<and> loc_kind q = k)"
    if y: "y \<in> set (t_locations d')" for y
  proof -
    from y have "y \<in> ?f ` set (t_locations d)" unfolding d' set_map .
    then obtain x where x: "y = ?f x" "x \<in> set (t_locations d)" by (rule imageE)
    from f[OF x(2)] have y': "loc_kind y = loc_kind x" "loc_parentId y = loc_parentId x" unfolding x(1) by blast+
    show ?thesis
    proof (cases "REQUIRED_PARENT_KIND (loc_kind x)")
      case None
      with assms(1) x(2) y' show ?thesis unfolding tree_ok_def by fastforce
    next
      case (Some k)
      with assms(1) x(2) obtain q where q: "q \<in> set (t_locations d)" "loc_parentId x = Some (loc_id q)" "loc_kind q = k"
        unfolding tree_ok_def by fastforce
      from q(1) have "?f q \<in> set (t_locations d')" unfolding d' by simp
      moreover from f[OF q(1)] q y' have "loc_parentId y = Some (loc_id (?f q))" "loc_kind (?f q) = k" by argo+
      ultimately show ?thesis unfolding y' Some option.case by (intro bexI[of _ "?f q"] conjI)
    qed
  qed
  ultimately show ?thesis using assms(1) unfolding tree_ok_def by simp
qed

lemma forest_shrinks:
  assumes "tree_ok rows" and "distinct (map loc_id rows')" and "set rows' \<subseteq> set rows"
    and "\<And>l q. l \<in> set rows' \<Longrightarrow> q \<in> set rows \<Longrightarrow> loc_parentId l = Some (loc_id q) \<Longrightarrow> q \<in> set rows'"
  shows "tree_ok rows'"
  unfolding tree_ok_def
proof (intro conjI ballI)
  fix l assume l: "l \<in> set rows'"
  show "case REQUIRED_PARENT_KIND (loc_kind l) of None \<Rightarrow> loc_parentId l = None
      | Some k \<Rightarrow> (\<exists>q \<in> set rows'. loc_parentId l = Some (loc_id q) \<and> loc_kind q = k)"
  proof (cases "REQUIRED_PARENT_KIND (loc_kind l)")
    case None
    with l assms(1,3) show ?thesis unfolding tree_ok_def by fastforce
  next
    case (Some k)
    with l assms(1,3) obtain q where "q \<in> set rows" "loc_parentId l = Some (loc_id q)" "loc_kind q = k"
      unfolding tree_ok_def by fastforce
    with Some assms(4)[OF l] show ?thesis by auto
  qed
qed (fact assms(2))

lemma tree_delete:
  assumes "tree_ok (t_locations d)" and "deleteLocation i d = Inr d'"
  shows "tree_ok (t_locations d')"
proof -
  let ?rows = "t_locations d" and ?gone = "descendants (t_locations d) i"
  from assms(2) have d': "t_locations d' = filter (\<lambda>l. loc_id l \<notin> ?gone) ?rows"
    by (auto simp: deleteLocation_def Let_def drop_rows collect_set split: if_splits)
  have "q \<in> set (t_locations d')" if "l \<in> set (t_locations d')" "q \<in> set ?rows" "loc_parentId l = Some (loc_id q)" for l q
  proof -
    from that(1,3) have "(loc_id q, loc_id l) \<in> below ?rows" "loc_id l \<notin> ?gone" by (auto simp: d' below_def)
    then have "loc_id q \<notin> ?gone" by (meson Image_singleton_iff rtrancl.rtrancl_into_rtrancl)
    with that(2) show ?thesis by (simp add: d')
  qed
  moreover have "set (t_locations d') \<subseteq> set ?rows" by (auto simp: d')
  moreover have "distinct (map loc_id (t_locations d'))" using assms(1) by (simp add: d' tree_ok_def distinct_map_filter)
  ultimately show ?thesis by (intro forest_shrinks[OF assms(1)]) auto
qed

end
