(* ===== verification/Whole.thy ===== *)
theory Whole
  imports Location_Tree
begin

text \<open>
  The invariants of the database under every request to the server: cards and conversations,
  accounts and credentials, administration and scheduled jobs.
\<close>

section \<open>Views that ignore cards and conversations\<close>

locale request_view = comment_view + relation_view + attachment_view
begin

lemma discard_sees: "obs (w_db (snd (delete_card E a i v w))) = obs (w_db w)"
proof (cases "uow_run (delete_tx a i v) w")
  case (Pair q w1)
  show ?thesis
  proof (cases q)
    case (Inl e)
    with Pair show ?thesis using uow_run_rollback[of "delete_tx a i v" w e w1]
      by (simp add: delete_card_def bind_def)
  next
    case (Inr ks)
    with Pair have db: "w_db (snd (delete_card E a i v w)) = w_db w1"
      using delete_blobs_db[of ks E w1] by (simp add: delete_card_def bind_def) (metis prod.collapse)
    from Pair Inr have "delete_tx a i v w = (Inr ks, w1)" by (simp add: uow_run_Inr_iff)
    then have "hardDelete i (w_db w) = Inr (ks, w_db w1)" using delete_tx_run by blast
    from this[unfolded hardDelete_Inr_iff, THEN conjunct2, THEN conjunct2] show ?thesis unfolding db
      by (simp add: ignores ignores_comments ignores_relations ignores_attachments)
  qed
qed

lemma talk_sees: "obs (w_db (serve_talk E t w)) = obs (w_db w)"
  by (cases t) (simp_all add: comment_sees[THEN seen_snd] relation_sees[THEN seen_snd] watch_sees[THEN seen_snd]
    attachment_sees[THEN seen_snd] notification_sees[THEN seen_snd])

lemma request_sees: "obs (w_db (serve_request E r w)) = obs (w_db w)"
  by (cases r) (simp_all add: create_sees[THEN seen_snd] command_sees[THEN seen_snd] discard_sees talk_sees)

end

interpretation config_requests: request_view config_tables by unfold_locales
interpretation locations_requests: request_view t_locations by unfold_locales

section \<open>Every request\<close>

interpretation rows: kept_by_requests "serve_any E A" "\<lambda>w. db_ok (w_db w)"
proof
  show "db_ok (w_db (serve_any E A r w))" if "db_ok (w_db w)" for r w
    using that by (cases r) (simp_all add: database.kept admin_ok db_ok_core[OF core_auth.auth_sees])
qed

interpretation talk: kept_by_requests "serve_any E A" "\<lambda>w. threads_ok (t_comments (w_db w))"
proof
  show "threads_ok (t_comments (w_db (serve_any E A r w)))" if "threads_ok (t_comments (w_db w))" for r w
    using that by (cases r) (simp_all add: threads.kept admin_comments comments_auth.auth_sees)
qed

interpretation relate: kept_by_requests "serve_any E A" "\<lambda>w. relations_ok (t_relations (w_db w))"
proof
  show "relations_ok (t_relations (w_db (serve_any E A r w)))" if "relations_ok (t_relations (w_db w))" for r w
    using that by (cases r) (simp_all add: links.kept admin_relations relations_auth.auth_sees)
qed

interpretation attach: kept_by_requests "serve_any E A" "\<lambda>w. caps_ok (t_attachments (w_db w))"
proof
  show "caps_ok (t_attachments (w_db (serve_any E A r w)))" if "caps_ok (t_attachments (w_db w))" for r w
    using that by (cases r) (simp_all add: uploads.kept admin_attachments attachments_auth.auth_sees)
qed

interpretation install: kept_by_requests "serve_any E A" "\<lambda>w. config_ok (w_db w)"
proof
  show "config_ok (w_db (serve_any E A r w))" if "config_ok (w_db w)" for r w
    using that by (cases r) (simp_all add: config_ok_tables[OF config_requests.request_sees] config_admin
      config_ok_tables[OF config_auth.auth_sees])
qed

subsection \<open>The location tree\<close>

lemma tree_tx:
  "kept (\<lambda>d. tree_ok (t_locations d)) (uow_run (create_location_tx E a inp i))"
  "kept (\<lambda>d. tree_ok (t_locations d)) (uow_run (update_location_tx E a i name))"
  "kept (\<lambda>d. tree_ok (t_locations d)) (store (deleteLocation i))"
proof -
  show "kept (\<lambda>d. tree_ok (t_locations d)) (uow_run (create_location_tx E a inp i))"
    by (rule kept_tx) (auto simp: create_location_tx_def run_simps Let_def intro: tree_insert)
  show "kept (\<lambda>d. tree_ok (t_locations d)) (uow_run (update_location_tx E a i name))"
    by (rule kept_tx) (auto simp: update_location_tx_def run_simps Let_def intro: tree_rename)
  show "kept (\<lambda>d. tree_ok (t_locations d)) (store (deleteLocation i))"
    by (rule kept_stored) (rule tree_delete)
qed

lemma tree_admin:
  assumes "tree_ok (t_locations (w_db w))"
  shows "tree_ok (t_locations (w_db (serve_admin E r w)))"
proof -
  have "kept (\<lambda>d. tree_ok (t_locations d)) (create_location E a raw)"
    "kept (\<lambda>d. tree_ok (t_locations d)) (update_location E a i name)"
    "kept (\<lambda>d. tree_ok (t_locations d)) (delete_location E a i)" for a raw i name
    unfolding create_location_def update_location_def delete_location_def
    by (intro kept_rules tree_tx)+
  with assms show ?thesis
    by (cases r) (simp_all add: kept_def locations_config.board_sees[THEN seen_snd]
      locations_config.lane_sees[THEN seen_snd] locations_config.policy_sees[THEN seen_snd]
      locations_cards.job_sees[THEN seen_snd])
qed

interpretation forest: kept_by_requests "serve_any E A" "\<lambda>w. tree_ok (t_locations (w_db w))"
proof
  show "tree_ok (t_locations (w_db (serve_any E A r w)))" if "tree_ok (t_locations (w_db w))" for r w
    using that by (cases r) (simp_all add: locations_requests.request_sees tree_admin locations_auth.auth_sees)
qed

section \<open>Lists of requests\<close>

fun serve_all :: "('r \<Rightarrow> world \<Rightarrow> world) \<Rightarrow> 'r list \<Rightarrow> world \<Rightarrow> world" where
  "serve_all serve [] w = w"
| "serve_all serve (r # rs) w = serve_all serve rs (serve r w)"

lemma serve_all_served: "served serve w0 w \<Longrightarrow> served serve w0 (serve_all serve rs w)"
  by (induction rs arbitrary: w) (simp_all add: served.intros)

end
