(* ===== verification/Auth_Invariants.thy ===== *)
theory Auth_Invariants
  imports Auth_System
begin

text \<open>
  The invariants of the account surface, each shown \<open>stable\<close> for every request: the limits of a
  session, the one live token of a refresh family, an active account that can manage users,
  and the closed setup.
\<close>

section \<open>Sessions\<close>

definition session_ok :: "session \<Rightarrow> bool" where
  "session_ok s \<longleftrightarrow> se_expiresAt s \<le> se_createdAt s + SESSION_ABSOLUTE_MS
     \<and> se_expiresAt s \<le> se_lastSeenAt s + SESSION_IDLE_MS"

definition sessions_ok :: "world \<Rightarrow> bool" where
  "sessions_ok w \<longleftrightarrow> distinct (map se_id (t_sessions (w_db w)))
     \<and> (\<forall>s \<in> set (t_sessions (w_db w)). session_ok s)"

interpretation sess: steady sessions_ok
  by unfold_locales (simp_all add: sessions_ok_def)

interpretation sess_accounts: beside_accounts sessions_ok
  by unfold_locales (simp_all add: sessions_ok_def)

interpretation sess_refresh: beside_refresh sessions_ok
  by unfold_locales (simp_all add: sessions_ok_def)

lemma sessions_shrink:
  "stable sessions_ok (put_db (revokeSession h))" "stable sessions_ok (put_db (revokeOthersForUser u x))"
  "stable sessions_ok (put_db (deleteExpired t))"
  by (rule sess.put, auto simp: sessions_ok_def revokeSession_def revokeOthersForUser_def deleteExpired_def
      drop_row_def distinct_map_filter)+

lemma sessions_create: "session_ok s \<Longrightarrow> stable sessions_ok (store (createSession s))"
  by (rule sess.stored) (auto simp: sessions_ok_def createSession_def split: if_splits)

lemma minted_session: "mintSession A u t w = (Inr x, w') \<Longrightarrow> session_ok (snd x)"
  by (auto simp: mintSession_def run_simps session_ok_def foldedExpiry_def)

lemma sessions_open: "session_ok s \<Longrightarrow> stable sessions_ok (open_session A c s)"
  unfolding open_session_def by (intro sess.rules sessions_create)

lemma sessions_login: "stable sessions_ok (login A email pw)"
  unfolding login_def
  by (intro sess.rules stable_bind_known[OF sess.mints(2) minted_session] sessions_open)

lemma touched_ok:
  assumes "sessions_ok w" and "findSession h (w_db w) = Some s"
  shows "sessions_ok (w\<lparr>w_db := touchSession h t (foldedExpiry (se_createdAt s) t) (w_db w)\<rparr>)"
proof -
  let ?touch = "\<lambda>x. if se_id x = h
    then x\<lparr>se_lastSeenAt := t, se_expiresAt := foldedExpiry (se_createdAt s) t\<rparr> else x"
  have s: "s \<in> set (t_sessions (w_db w))" "se_id s = h"
    using assms(2) by (auto simp: findSession_def dest: row_of_SomeD)
  have ids: "se_id \<circ> ?touch = se_id" by (rule ext) simp
  have "x = s" if "x \<in> set (t_sessions (w_db w))" "se_id x = h" for x
    using assms(1) that s unfolding sessions_ok_def distinct_map by (auto dest: inj_onD)
  then have "session_ok (?touch x)" if "x \<in> set (t_sessions (w_db w))" for x
    using that assms(1) by (auto simp: sessions_ok_def session_ok_def foldedExpiry_def)
  then have "\<forall>x \<in> ?touch ` set (t_sessions (w_db w)). session_ok x" by blast
  with assms(1) show ?thesis
    unfolding sessions_ok_def touchSession_def
    by (simp add: ids del: ball_simps image_iff cong: map_cong)
qed

lemma sessions_authenticate: "stable sessions_ok (authenticate A raw)"
proof (rule stableI)
  fix w r w' assume run: "authenticate A raw w = (r, w')"
  let ?h = "ae_sha256 A raw" and ?t = "e_clock (ae_env A) (w_ticks w)" and ?w = "w\<lparr>w_ticks := Suc (w_ticks w)\<rparr>"
  from run have cases: "w' = ?w \<or> w' = ?w\<lparr>w_db := revokeSession ?h (w_db w)\<rparr>
      \<or> (\<exists>s. findSession ?h (w_db w) = Some s
          \<and> w' = ?w\<lparr>w_db := touchSession ?h ?t (foldedExpiry (se_createdAt s) ?t) (w_db w)\<rparr>)"
    by (auto simp: authenticate_def Let_def bind_def now_def uow_read_def ask_def uow_run_def put_db_def
        return_def live_session_def split: option.splits if_splits)
  show "sessions_ok w'" if ok: "sessions_ok w"
  proof -
    have w: "sessions_ok ?w" using ok by (simp add: sessions_ok_def)
    from stable_put[OF sessions_shrink(1) w] have "sessions_ok (?w\<lparr>w_db := revokeSession ?h (w_db w)\<rparr>)" by simp
    with cases w touched_ok[OF w] show ?thesis by auto
  qed
  from cases show "w_ids w \<le> w_ids w'" by auto
qed

lemma sessions_revoke_user: "stable sessions_ok (revokeUserCredentials A u keep)"
  unfolding revokeUserCredentials_def by (intro sess.rules sessions_shrink sess_refresh.refreshes)

lemma sessions_change: "stable sessions_ok (changePassword A u raw cur new)"
  unfolding changePassword_def password_tx_def Let_def
  by (intro sess.rules sess_accounts.accounts sessions_revoke_user)

lemma sessions_setup: "stable sessions_ok (createFirstAdmin A inp)"
  unfolding createFirstAdmin_def setup_tx_def Let_def
  by (intro sess.rules stable_bind_known[OF sess.mints(2) minted_session] sess_accounts.accounts
      sessions_create)

lemma sessions_users:
  "stable sessions_ok (updateProfile A u z t)" "stable sessions_ok (create_user A a inp1)"
  "stable sessions_ok (update_user A a u inp2)"
  unfolding updateProfile_def create_user_def update_user_def update_user_tx_def Let_def
  by (intro sess.rules sess_accounts.accounts sessions_revoke_user)+

lemma sessions_kept: "sessions_ok w \<Longrightarrow> sessions_ok (serve_auth A r w)"
proof -
  have purge: "stable sessions_ok (deleteExpiredSessions A)"
    unfolding deleteExpiredSessions_def by (intro sess.rules sessions_shrink)
  have out: "stable sessions_ok (logout A raw)" for raw
    unfolding logout_def by (intro sess.rules sessions_shrink)
  assume "sessions_ok w"
  then show ?thesis
    using purge out sessions_login sessions_authenticate sessions_change sessions_setup sessions_users
      sess.delegated sess_refresh.grants
    unfolding stable_def by (cases r) simp_all
qed

interpretation session_limits: kept_by_requests "serve_auth A" sessions_ok
  by unfold_locales (rule sessions_kept)

section \<open>Refresh families\<close>

definition live :: "refresh_token \<Rightarrow> bool" where
  "live k \<longleftrightarrow> rt_usedAt k = None \<and> rt_revokedAt k = None"

definition live_in :: "uuid \<Rightarrow> refresh_token list \<Rightarrow> nat" where
  "live_in f ks = length (filter (\<lambda>k. rt_familyId k = f \<and> live k) ks)"

text \<open>At most one live token per family, and no family has an id that is still to be drawn.\<close>

definition families_ok :: "auth_env \<Rightarrow> world \<Rightarrow> bool" where
  "families_ok A w \<longleftrightarrow> distinct (map rt_id (t_refresh (w_db w)))
     \<and> (\<forall>f. live_in f (t_refresh (w_db w)) \<le> 1)
     \<and> (\<forall>k \<in> set (t_refresh (w_db w)). \<forall>n \<ge> w_ids w. rt_familyId k \<noteq> e_newId (ae_env A) n)"

interpretation fam: steady "families_ok A"
  by unfold_locales (auto simp: families_ok_def)

interpretation fam_accounts: beside_accounts "families_ok A"
  by unfold_locales (simp_all add: families_ok_def)

interpretation fam_sessions: beside_sessions "families_ok A"
  by unfold_locales (simp_all add: families_ok_def)

lemma live_in_map_le:
  assumes "\<And>k. rt_familyId (g k) = rt_familyId k" and "\<And>k. live (g k) \<Longrightarrow> live k"
  shows "live_in f (map g ks) \<le> live_in f ks"
  using assms by (induction ks) (auto simp: live_in_def)

lemma families_map:
  assumes "families_ok A w" and "\<And>k. rt_id (g k) = rt_id k" "\<And>k. rt_familyId (g k) = rt_familyId k"
    and "\<And>k. live (g k) \<Longrightarrow> live k"
  shows "families_ok A (w\<lparr>w_db := (w_db w)\<lparr>t_refresh := map g (t_refresh (w_db w))\<rparr>\<rparr>)"
proof -
  have ids: "rt_id \<circ> g = rt_id" using assms(2) by (simp add: fun_eq_iff)
  have "live_in f (map g (t_refresh (w_db w))) \<le> 1" for f
    using live_in_map_le[of g f "t_refresh (w_db w)", OF assms(3,4)] assms(1)
    unfolding families_ok_def by (meson le_trans)
  with assms(1,3) show ?thesis unfolding families_ok_def by (simp add: ids)
qed

lemma families_stamp:
  "stable (families_ok A) (put_db (revokeFamily f t))"
  "stable (families_ok A) (put_db (revokeRefreshForUser u t))"
  by (rule fam.put, simp add: revokeFamily_def revokeRefreshForUser_def stamp_refresh_def,
      erule families_map, auto simp: live_def split: if_splits)+

lemma families_revoke_user: "stable (families_ok A) (revokeUserCredentials B u keep)"
  unfolding revokeUserCredentials_def by (intro fam.rules fam_sessions.sessions families_stamp)

lemma families_accounts:
  "stable (families_ok A) (changePassword B u raw cur new)" "stable (families_ok A) (createFirstAdmin B inp)"
  "stable (families_ok A) (updateProfile B u z t)" "stable (families_ok A) (create_user B a inp1)"
  "stable (families_ok A) (update_user B a u inp2)" "stable (families_ok A) (revoke B raw c)"
  unfolding changePassword_def password_tx_def createFirstAdmin_def setup_tx_def updateProfile_def
    create_user_def update_user_def update_user_tx_def revoke_def revoke_tx_def revoke_refresh_def Let_def
  by (intro fam.rules fam_accounts.accounts fam_sessions.sessions families_revoke_user families_stamp)+

text \<open>Issuing keeps the invariant when the family has no live token.\<close>

lemma families_issued:
  assumes iss: "issued A g r d (w_db w')" and ok: "families_ok A (w\<lparr>w_db := d\<rparr>)"
    and dead: "live_in (ia_familyId g) (t_refresh d) = 0" and ids: "w_ids w \<le> w_ids w'"
    and old: "\<And>n. w_ids w' \<le> n \<Longrightarrow> ia_familyId g \<noteq> e_newId (ae_env A) n"
  shows "families_ok A w'"
proof -
  from iss obtain j where
    t: "t_refresh (w_db w') = t_refresh d @ [issued_refresh A g j (ae_sha256 A (tr_refreshToken r))]"
    and j: "j \<notin> rt_id ` set (t_refresh d)"
    by (auto simp: issued_def Let_def)
  have "live_in f (t_refresh (w_db w')) \<le> 1" for f
    using ok dead by (cases "f = ia_familyId g")
      (auto simp: t live_in_def issued_refresh_def families_ok_def)
  with ok old j ids show ?thesis unfolding families_ok_def t
    by (auto simp: issued_refresh_def)
qed

lemma mark_row_simps [simp]:
  "rt_id (mark_row i u k) = rt_id k" "rt_familyId (mark_row i u k) = rt_familyId k"
  "rt_userId (mark_row i u k) = rt_userId k" "rt_tokenHash (mark_row i u k) = rt_tokenHash k"
  "rt_revokedAt (mark_row i u k) = rt_revokedAt k"
  by (simp_all add: mark_row_def)

lemma spent_family:
  assumes ok: "families_ok A w" and k: "k \<in> set (t_refresh (w_db w))" "live k"
  shows "live_in (rt_familyId k) (map (mark_row (rt_id k) u) (t_refresh (w_db w))) = 0"
proof -
  let ?ks = "t_refresh (w_db w)"
  have "live_in (rt_familyId k) ?ks \<le> 1" using ok by (simp add: families_ok_def)
  then have only: "x = k" if "x \<in> set ?ks" "rt_familyId x = rt_familyId k" "live x" for x
  proof -
    have "x \<in> set (filter (\<lambda>y. rt_familyId y = rt_familyId k \<and> live y) ?ks)"
      "k \<in> set (filter (\<lambda>y. rt_familyId y = rt_familyId k \<and> live y) ?ks)" using that k by auto
    with \<open>live_in (rt_familyId k) ?ks \<le> 1\<close> show ?thesis
      by (cases "filter (\<lambda>y. rt_familyId y = rt_familyId k \<and> live y) ?ks") (auto simp: live_in_def)
  qed
  have "\<not> live (mark_row (rt_id k) u x)" if "x \<in> set ?ks" "rt_familyId x = rt_familyId k" for x
    using only[OF that] by (cases "live x") (auto simp: mark_row_def live_def)
  then show ?thesis by (auto simp: live_in_def filter_empty_conv)
qed

lemma families_marked:
  "families_ok A w \<Longrightarrow> families_ok A (w\<lparr>w_db := (w_db w)\<lparr>t_refresh := map (mark_row i u) (t_refresh (w_db w))\<rparr>\<rparr>)"
  by (erule families_map) (auto simp: mark_row_def live_def split: if_splits)

text \<open>Every method only draws ids.\<close>

interpretation draws: beside_refresh "\<lambda>_. True"
  by unfold_locales simp_all

lemma families_rotated:
  assumes "refresh_tx A g t w = (Inr (Inr r), w')" and ok: "families_ok A w"
  shows "families_ok A w'"
proof -
  from refresh_tx_rotates[OF assms(1)] obtain k u where k: "refresh_plan A g t (w_db w) = Inr k"
    and one: "length (filter (\<lambda>x. rt_id x = rt_id k \<and> rt_usedAt x = None) (t_refresh (w_db w))) = 1"
    and iss: "issued A (refresh_args A k t) r
         ((w_db w)\<lparr>t_refresh := map (mark_row (rt_id k) u) (t_refresh (w_db w))\<rparr>) (w_db w')"
    and ids: "w_ids w' = w_ids w + 4" by blast
  from k have mem: "k \<in> set (t_refresh (w_db w))" and "rt_revokedAt k = None"
    by (auto simp: refresh_plan_iff dest: findRefreshByHash_SomeD)
  moreover have dist: "distinct (map rt_id (t_refresh (w_db w)))" using ok by (simp add: families_ok_def)
  have "(if rt_usedAt k = None then 1 else 0) = (1 :: nat)"
    by (rule trans[OF sym[OF unique_row_count[OF dist mem, of "\<lambda>x. rt_usedAt x = None"]] one])
  then have "rt_usedAt k = None" by (metis zero_neq_one)
  ultimately have "live k" by (simp add: live_def)
  show ?thesis
  proof (rule families_issued[OF iss families_marked[OF ok]])
    show "live_in (ia_familyId (refresh_args A k t))
        (t_refresh ((w_db w)\<lparr>t_refresh := map (mark_row (rt_id k) u) (t_refresh (w_db w))\<rparr>)) = 0"
      using spent_family[OF ok mem \<open>live k\<close>] by (simp add: refresh_args_def)
    show "ia_familyId (refresh_args A k t) \<noteq> e_newId (ae_env A) n" if "w_ids w' \<le> n" for n
      using ok mem that ids unfolding families_ok_def refresh_args_def by auto
  qed (use ids in simp)
qed

lemma families_replayed:
  assumes "refresh_tx A g t w = (Inr (Inl e), w')" and ok: "families_ok A w"
  shows "families_ok A w'"
proof -
  from refresh_tx_replay[OF assms(1)] obtain k :: refresh_token and u u1 u2 where
    d: "w_db w' = revokeAccessForUser (rt_userId k) u2 (revokeFamily (rt_familyId k) u1
         ((w_db w)\<lparr>t_refresh := map (mark_row (rt_id k) u) (t_refresh (w_db w))\<rparr>))"
    and ids: "w_ids w' = w_ids w" by blast
  let ?w1 = "w\<lparr>w_db := (w_db w)\<lparr>t_refresh := map (mark_row (rt_id k) u) (t_refresh (w_db w))\<rparr>\<rparr>"
  have "families_ok A ?w1" by (rule families_marked[OF ok])
  from stable_put[OF families_stamp(1) this]
  have "families_ok A (?w1\<lparr>w_db := revokeFamily (rt_familyId k) u1 (w_db ?w1)\<rparr>)" .
  then show ?thesis using d ids
    by (auto simp: families_ok_def revokeAccessForUser_def stamp_access_def)
qed

lemma families_exchanged:
  assumes "code_tx A g t w = (Inr (Inr r), w')" and ok: "families_ok A w" and inj: "inj (e_newId (ae_env A))"
  shows "families_ok A w'"
proof -
  let ?h = "ae_sha256 A (cg_code g)" and ?f = "e_newId (ae_env A) (w_ids w)"
  from code_tx_issues[OF assms(1)] obtain c where
    iss: "issued A (code_args c ?f t) r
         ((w_db w)\<lparr>t_codes := drop_row co_codeHash ?h (t_codes (w_db w))\<rparr>) (w_db w')"
    and ids: "w_ids w' = w_ids w + 5" by blast
  show ?thesis
  proof (rule families_issued[OF iss])
    show "families_ok A (w\<lparr>w_db := (w_db w)\<lparr>t_codes := drop_row co_codeHash ?h (t_codes (w_db w))\<rparr>\<rparr>)"
      using ok by (simp add: families_ok_def)
    show "live_in (ia_familyId (code_args c ?f t))
        (t_refresh ((w_db w)\<lparr>t_codes := drop_row co_codeHash ?h (t_codes (w_db w))\<rparr>)) = 0"
    proof -
      have "\<forall>k \<in> set (t_refresh (w_db w)). rt_familyId k \<noteq> ?f" using ok unfolding families_ok_def by blast
      then show ?thesis by (simp add: live_in_def code_args_def filter_empty_conv)
    qed
    show "ia_familyId (code_args c ?f t) \<noteq> e_newId (ae_env A) n" if "w_ids w' \<le> n" for n
    proof
      assume "ia_familyId (code_args c ?f t) = e_newId (ae_env A) n"
      then have "w_ids w = n" using inj by (simp add: code_args_def inj_eq)
      with that ids show False by simp
    qed
  qed (use ids in simp)
qed

lemma families_refused:
  assumes "code_tx A g t w = (Inr (Inl e), w')"
  shows "t_refresh (w_db w') = t_refresh (w_db w)"
proof -
  have "issue A g' w0 = (Inl e', w1) \<Longrightarrow> e' = OAuthError e \<Longrightarrow> w_db w1 = w_db w0" for g' w0 e' w1
    by (auto simp: issue_def bind_Inl_iff run_simps store_Inl_iff insertAccess_def insertRefresh_def split: if_splits)
  with assms show ?thesis
    by (auto simp: code_tx_def run_simps oauth_value_Inr_iff split: option.splits if_splits)
qed

lemma families_grants:
  assumes inj: "inj (e_newId (ae_env A))"
  shows "stable (families_ok A) (token A g)"
proof (rule stableI)
  fix w r w' assume run: "token A g w = (r, w')"
  show ids: "w_ids w \<le> w_ids w'" using stable_ids[OF draws.grants(1) run] .
  assume ok: "families_ok A w"
  let ?w = "w\<lparr>w_ticks := Suc (w_ticks w)\<rparr>" and ?t = "e_clock (ae_env A) (w_ticks w)"
  have ok1: "families_ok A ?w" using ok by (simp add: families_ok_def)
  have same: "families_ok A w'" if "w_db w' = w_db w" using fam.grows[OF ok that ids] .
  have committed: "families_ok A w'"
    if "thrown_after (uow_run m) ?w = (r, w')"
      and "\<And>x w1. m ?w = (Inr x, w1) \<Longrightarrow> families_ok A w1" for m
  proof (cases "uow_run m ?w")
    case (Pair q w1)
    then have "w' = w1" using that(1)
      by (auto simp: thrown_after_def bind_def throw_def return_def split: sum.splits)
    with Pair that(2) same show ?thesis
      by (cases q) (auto simp: uow_run_Inr_iff dest: uow_run_rollback)
  qed
  show "families_ok A w'"
  proof (cases g)
    case (CodeRequest c)
    have tx: "families_ok A w1" if "code_tx A c ?t ?w = (Inr x, w1)" for x w1
    proof (cases x)
      case (Inl e)
      with that have t: "t_refresh (w_db w1) = t_refresh (w_db w)" using families_refused by fastforce
      have "stable (\<lambda>_. True) (code_tx A c ?t)" unfolding code_tx_def by (intro draws.rules draws.issues)
      from stable_ids[OF this that] t ok show ?thesis unfolding families_ok_def by auto
    next
      case (Inr y)
      with that families_exchanged[OF _ ok1 inj] show ?thesis by simp
    qed
    from run CodeRequest have "parse_code_grant c \<noteq> Inr c \<and> w_db w' = w_db w
        \<or> thrown_after (uow_run (code_tx A c ?t)) ?w = (r, w')"
      by (auto simp: authorizationCodeGrant_def parse_code_grant_def bind_def lift_def now_def sbind_def
          sguard_def split: if_splits)
    with same committed tx show ?thesis by blast
  next
    case (RefreshRequest c)
    have tx: "families_ok A w1" if "refresh_tx A c ?t ?w = (Inr x, w1)" for x w1
      using that families_rotated[OF _ ok1] families_replayed[OF _ ok1] by (cases x) auto
    from run RefreshRequest have "w_db w' = w_db w \<or> thrown_after (uow_run (refresh_tx A c ?t)) ?w = (r, w')"
      by (auto simp: refreshTokenGrant_def parse_refresh_grant_def bind_def lift_def now_def sbind_def
          sguard_def split: if_splits)
    with same committed tx show ?thesis by blast
  qed
qed

lemma families_kept: "families_ok A w \<Longrightarrow> inj (e_newId (ae_env A)) \<Longrightarrow> families_ok A (serve_auth A r w)"
  using families_accounts families_grants[of A] fam.delegated fam_sessions.session_methods
  unfolding stable_def by (cases r) simp_all

interpretation family_limits: kept_by_requests "serve_auth A" "\<lambda>w. inj (e_newId (ae_env A)) \<and> families_ok A w"
  by unfold_locales (simp add: families_kept)

section \<open>Somebody can manage users\<close>

definition manages :: "auth_env \<Rightarrow> policy_document \<Rightarrow> user \<Rightarrow> bool" where
  "manages A policy u \<longleftrightarrow> u_role u \<in> set (manageUsersRoleKeys policy) \<and> u_isActive u
     \<and> u_id u \<noteq> e_systemUserId (ae_env A)"

definition managers_ok :: "auth_env \<Rightarrow> world \<Rightarrow> bool" where
  "managers_ok A w \<longleftrightarrow> distinct (map (u_id \<circ> acc_user) (t_users (w_db w)))
     \<and> (\<exists>policy. activePolicy (e_boardId (ae_env A)) (w_db w) = Inr policy
          \<and> (\<exists>a \<in> set (t_users (w_db w)). manages A policy (acc_user a)))"

lemma policy_frame [simp]:
  "activePolicy b (t_users_update f1 d) = activePolicy b d"
  "activePolicy b (t_sessions_update f2 d) = activePolicy b d"
  "activePolicy b (t_tokens_update f3 d) = activePolicy b d"
  "activePolicy b (t_clients_update f4 d) = activePolicy b d"
  "activePolicy b (t_codes_update f5 d) = activePolicy b d"
  "activePolicy b (t_access_update f6 d) = activePolicy b d"
  "activePolicy b (t_refresh_update f7 d) = activePolicy b d"
  by (simp_all add: activePolicy_def globalPolicy_def getActive_def getDefault_def)

interpretation mgr: beside_sessions "managers_ok A"
  by unfold_locales (simp_all add: managers_ok_def)

interpretation mgr_refresh: beside_refresh "managers_ok A"
  by unfold_locales (simp_all add: managers_ok_def)

lemma managers_insert: "stable (managers_ok A) (store (insertAccount u h))"
  by (rule mgr.stored) (auto simp: managers_ok_def insertAccount_def split: if_splits)

lemma account_rows:
  "map (u_id \<circ> acc_user) (map (\<lambda>a. if u_id (acc_user a) = u_id u
      then a\<lparr>acc_user := u\<lparr>u_createdAt := u_createdAt (acc_user a)\<rparr>\<rparr> else a) xs) = map (u_id \<circ> acc_user) xs"
  by (induction xs) auto

lemma password_rows:
  "map (u_id \<circ> acc_user) (map (\<lambda>a. if u_id (acc_user a) = i
      then \<lparr>acc_user = (acc_user a)\<lparr>u_mustChangePassword := b\<rparr>, acc_passwordHash = h\<rparr> else a) xs)
    = map (u_id \<circ> acc_user) xs"
  by (induction xs) auto

lemma managers_password: "stable (managers_ok A) (store (setPassword i h b))"
proof (rule mgr.stored)
  fix w d assume ok: "managers_ok A w" and set: "setPassword i h b (w_db w) = Inr d"
  from ok obtain policy a where p: "activePolicy (e_boardId (ae_env A)) (w_db w) = Inr policy"
    and a: "a \<in> set (t_users (w_db w))" "manages A policy (acc_user a)"
    by (auto simp: managers_ok_def)
  let ?set = "\<lambda>a. if u_id (acc_user a) = i
      then \<lparr>acc_user = (acc_user a)\<lparr>u_mustChangePassword := b\<rparr>, acc_passwordHash = h\<rparr> else a"
  from set have d: "d = (w_db w)\<lparr>t_users := map ?set (t_users (w_db w))\<rparr>"
    by (auto simp: setPassword_def split: if_splits)
  have "?set a \<in> set (t_users d)" "manages A policy (acc_user (?set a))"
    using a by (auto simp: d manages_def)
  with p ok show "managers_ok A (w\<lparr>w_db := d\<rparr>)"
    by (auto simp: d managers_ok_def password_rows simp del: map_map)
qed

lemma managers_update:
  assumes ok: "managers_ok A w" and upd: "updateAccount u (w_db w) = Inr d"
    and p: "activePolicy (e_boardId (ae_env A)) (w_db w) = Inr policy"
    and other: "manages A policy u \<or> (\<exists>a \<in> set (t_users (w_db w)). manages A policy (acc_user a)
        \<and> u_id (acc_user a) \<noteq> u_id u)"
  shows "managers_ok A (w\<lparr>w_db := d\<rparr>)"
proof -
  let ?upd = "\<lambda>a. if u_id (acc_user a) = u_id u
      then a\<lparr>acc_user := u\<lparr>u_createdAt := u_createdAt (acc_user a)\<rparr>\<rparr> else a"
  from upd have d: "d = (w_db w)\<lparr>t_users := map ?upd (t_users (w_db w))\<rparr>"
    and mem: "u_id u \<in> (u_id \<circ> acc_user) ` set (t_users (w_db w))"
    by (auto simp: updateAccount_def split: if_splits)
  have "\<exists>a \<in> set (t_users d). manages A policy (acc_user a)"
    using other
  proof
    assume "manages A policy u"
    moreover from mem obtain a where "a \<in> set (t_users (w_db w))" "u_id (acc_user a) = u_id u" by auto
    ultimately have "?upd a \<in> set (t_users d)" "manages A policy (acc_user (?upd a))"
      by (auto simp: d manages_def)
    then show ?thesis by blast
  next
    assume "\<exists>a \<in> set (t_users (w_db w)). manages A policy (acc_user a) \<and> u_id (acc_user a) \<noteq> u_id u"
    then obtain a where "a \<in> set (t_users (w_db w))" "manages A policy (acc_user a)"
      "u_id (acc_user a) \<noteq> u_id u" by blast
    then have "?upd a \<in> set (t_users d)" "manages A policy (acc_user (?upd a))" by (auto simp: d)
    then show ?thesis by blast
  qed
  with p ok show ?thesis by (auto simp: d managers_ok_def account_rows simp del: map_map)
qed

lemma findUser_account:
  assumes "distinct (map (u_id \<circ> acc_user) (t_users d))" and "a \<in> set (t_users d)"
    and "findUser (u_id (acc_user a)) d = Some u"
  shows "u = acc_user a"
proof -
  from row_of_SomeD[OF assms(3)[unfolded findUser_def]]
  obtain b :: account where "b \<in> set (t_users d)" "u = acc_user b" "u_id u = u_id (acc_user a)" by auto
  with assms(1,2) show ?thesis by (auto simp: distinct_map inj_on_def)
qed

lemma update_ids:
  assumes "updateAccount u d = Inr d'"
  shows "map (u_id \<circ> acc_user) (t_users d') = map (u_id \<circ> acc_user) (t_users d)"
proof -
  from assms have "t_users d' = map (\<lambda>a. if u_id (acc_user a) = u_id u
      then a\<lparr>acc_user := u\<lparr>u_createdAt := u_createdAt (acc_user a)\<rparr>\<rparr> else a) (t_users d)"
    by (auto simp: updateAccount_def split: if_splits)
  then show ?thesis by (simp only: account_rows)
qed

lemma password_ids:
  assumes "setPassword i h b d = Inr d'"
  shows "map (u_id \<circ> acc_user) (t_users d') = map (u_id \<circ> acc_user) (t_users d)"
proof -
  from assms have "t_users d' = map (\<lambda>a. if u_id (acc_user a) = i
      then \<lparr>acc_user = (acc_user a)\<lparr>u_mustChangePassword := b\<rparr>, acc_passwordHash = h\<rparr> else a) (t_users d)"
    by (auto simp: setPassword_def split: if_splits)
  then show ?thesis by (simp only: password_rows)
qed

text \<open>An account that keeps its powers may change at will; one that loses them is not the last.\<close>

lemma managers_changed:
  assumes ok: "managers_ok A w" and upd: "updateAccount u' (w_db w) = Inr d"
    and found: "findUser i (w_db w) = Some u" "u_id u' = u_id u"
    and fate: "\<And>policy. activePolicy (e_boardId (ae_env A)) (w_db w) = Inr policy \<Longrightarrow> manages A policy u \<Longrightarrow>
      manages A policy u' \<or> other_active_admins A (manageUsersRoleKeys policy) u (w_db w) \<noteq> []"
  shows "managers_ok A (w\<lparr>w_db := d\<rparr>)"
proof -
  from ok obtain policy a where p: "activePolicy (e_boardId (ae_env A)) (w_db w) = Inr policy"
    and a: "a \<in> set (t_users (w_db w))" "manages A policy (acc_user a)"
    and dist: "distinct (map (u_id \<circ> acc_user) (t_users (w_db w)))"
    by (auto simp: managers_ok_def)
  have i: "i = u_id u" using found by (auto simp: findUser_def dest: row_of_SomeD)
  show ?thesis
  proof (rule managers_update[OF ok upd p])
    show "manages A policy u' \<or> (\<exists>a \<in> set (t_users (w_db w)). manages A policy (acc_user a)
        \<and> u_id (acc_user a) \<noteq> u_id u')"
    proof (cases "u_id (acc_user a) = u_id u")
      case True
      with findUser_account[OF dist a(1)] found i have "u = acc_user a" by simp
      with a fate[OF p] have "manages A policy u'
          \<or> other_active_admins A (manageUsersRoleKeys policy) u (w_db w) \<noteq> []" by simp
      moreover have "\<exists>a \<in> set (t_users (w_db w)). manages A policy (acc_user a) \<and> u_id (acc_user a) \<noteq> u_id u'"
        if "other_active_admins A (manageUsersRoleKeys policy) u (w_db w) \<noteq> []"
      proof -
        from that obtain x :: user where "x \<in> set (other_active_admins A (manageUsersRoleKeys policy) u (w_db w))"
          by (cases "other_active_admins A (manageUsersRoleKeys policy) u (w_db w)") auto
        then show ?thesis using found(2)
          by (auto simp: other_active_admins_def listUsers_def manages_def)
      qed
      ultimately show ?thesis by blast
    next
      case False
      with a found(2) show ?thesis by auto
    qed
  qed
qed

lemma managers_update_tx: "stable (managers_ok A) (update_user_tx A actor i inp h)"
proof (rule stableI)
  fix w r w' assume run: "update_user_tx A actor i inp h w = (r, w')"
  have "stable (\<lambda>_. True) (update_user_tx A actor i inp h)"
    unfolding update_user_tx_def revokeUserCredentials_def Let_def
    by (intro draws.rules) (auto simp: stable_def store_def put_db_def split: sum.split)
  from stable_ids[OF this run] show "w_ids w \<le> w_ids w'" .
  let ?rest = "\<lambda>found. let updated = updated_user inp found in
     bind (if uu_resetPassword inp then store (setPassword i h True) else return ()) (\<lambda>_.
     bind (if u_role updated \<noteq> u_role found \<or> u_isActive found \<and> \<not> u_isActive updated
           \<or> uu_resetPassword inp
         then revokeUserCredentials A i None else return ()) (\<lambda>_. return updated))"
  assume ok: "managers_ok A w"
  have "w' = w \<or> (\<exists>found d. update_user_plan A actor i inp (w_db w) = Inr found
      \<and> updateAccount (updated_user inp found) (w_db w) = Inr d \<and> ?rest found (w\<lparr>w_db := d\<rparr>) = (r, w'))"
    using bind_ask_cases[OF run[unfolded update_user_tx_def Let_def]]
    unfolding Let_def by (blast dest: bind_store_cases)
  then show "managers_ok A w'"
  proof (elim disjE exE conjE)
    fix found :: user and d assume plan: "update_user_plan A actor i inp (w_db w) = Inr found"
      and upd: "updateAccount (updated_user inp found) (w_db w) = Inr d"
      and rest: "?rest found (w\<lparr>w_db := d\<rparr>) = (r, w')"
    have "managers_ok A (w\<lparr>w_db := d\<rparr>)"
    proof (rule managers_changed[OF ok upd])
      show "findUser i (w_db w) = Some found" using plan by (auto simp: update_user_plan_def run_simps Let_def)
      show "u_id (updated_user inp found) = u_id found" by (simp add: updated_user_def)
      fix policy assume "activePolicy (e_boardId (ae_env A)) (w_db w) = Inr policy" "manages A policy found"
      with plan show "manages A policy (updated_user inp found)
          \<or> other_active_admins A (manageUsersRoleKeys policy) found (w_db w) \<noteq> []"
        by (auto simp: update_user_plan_def admin_policy_def run_simps Let_def manages_def updated_user_def
            default_to_def split: option.splits)
    qed
    moreover have "stable (managers_ok A) (?rest found)"
      unfolding revokeUserCredentials_def Let_def
      by (intro mgr.rules mgr.sessions mgr_refresh.refreshes managers_password)
    ultimately show ?thesis
      using rest stableD[of "managers_ok A" "?rest found" "w\<lparr>w_db := d\<rparr>" r w'] by blast
  qed (use ok in simp)
qed

lemma managers_profile: "stable (managers_ok A) (updateProfile B i z t)"
proof -
  let ?tx = "bind (ask (\<lambda>d. requireFound (findUser i d) ''user'')) (\<lambda>found.
       let updated = found\<lparr>u_timezone := z, u_theme := t\<rparr> in
       bind (store (updateAccount updated)) (\<lambda>_. return updated))"
  have tx: "stable (managers_ok A) ?tx"
  proof (rule stableI)
    fix w r w' assume run: "?tx w = (r, w')"
    show "w_ids w \<le> w_ids w'" using run
      by (auto simp: bind_def ask_def store_def return_def Let_def split: sum.splits)
    assume ok: "managers_ok A w"
    have "w' = w \<or> (\<exists>found d. findUser i (w_db w) = Some found
        \<and> updateAccount (found\<lparr>u_timezone := z, u_theme := t\<rparr>) (w_db w) = Inr d \<and> w' = w\<lparr>w_db := d\<rparr>)"
      using run by (auto simp: bind_def ask_def store_def return_def Let_def requireFound_def of_option_def
          split: sum.splits option.splits)
    then show "managers_ok A w'"
      using managers_changed[OF ok] ok by (fastforce simp: manages_def)
  qed
  show ?thesis unfolding updateProfile_def by (rule stable_bind[OF mgr.steps(3) mgr.run[OF tx]])
qed

lemma managers_accounts:
  "stable (managers_ok A) (changePassword B u raw cur new)" "stable (managers_ok A) (createFirstAdmin B inp)"
  "stable (managers_ok A) (create_user B a inp1)" "stable (managers_ok A) (update_user A a u inp2)"
  unfolding changePassword_def password_tx_def createFirstAdmin_def setup_tx_def create_user_def
    update_user_def revokeUserCredentials_def Let_def
  by (intro mgr.rules mgr.sessions mgr_refresh.refreshes managers_password managers_insert
      managers_update_tx)+

lemma managers_kept: "managers_ok A w \<Longrightarrow> managers_ok A (serve_auth A r w)"
  using managers_accounts managers_profile mgr.delegated mgr.session_methods mgr_refresh.grants
  unfolding stable_def by (cases r) simp_all

interpretation user_admin: kept_by_requests "serve_auth A" "managers_ok A"
  by unfold_locales (rule managers_kept)

section \<open>Setup stays closed\<close>

definition setup_done :: "auth_env \<Rightarrow> world \<Rightarrow> bool" where
  "setup_done A w \<longleftrightarrow> (\<exists>a \<in> set (t_users (w_db w)). u_id (acc_user a) \<noteq> e_systemUserId (ae_env A))"

interpretation boot: beside_sessions "setup_done A"
  by unfold_locales (simp_all add: setup_done_def)

interpretation boot_refresh: beside_refresh "setup_done A"
  by unfold_locales (simp_all add: setup_done_def)

lemma setup_ids:
  "setup_done A w \<longleftrightarrow> (\<exists>i \<in> set (map (u_id \<circ> acc_user) (t_users (w_db w))). i \<noteq> e_systemUserId (ae_env A))"
  by (auto simp: setup_done_def)

lemma setup_rows:
  "stable (setup_done A) (store (insertAccount u h))" "stable (setup_done A) (store (updateAccount u))"
  "stable (setup_done A) (store (setPassword i h b))"
  by (rule boot.stored, auto simp: setup_done_def insertAccount_def split: if_splits)
    (rule boot.stored, simp add: setup_ids update_ids password_ids del: set_map)+

lemma setup_accounts:
  "stable (setup_done A) (changePassword B u raw cur new)" "stable (setup_done A) (createFirstAdmin B inp)"
  "stable (setup_done A) (updateProfile B u z t)"
  "stable (setup_done A) (create_user B a inp1)" "stable (setup_done A) (update_user B a u inp2)"
  unfolding changePassword_def password_tx_def createFirstAdmin_def setup_tx_def updateProfile_def
    create_user_def update_user_def update_user_tx_def revokeUserCredentials_def Let_def
  by (intro boot.rules boot.sessions boot_refresh.refreshes setup_rows)+

lemma setup_kept: "setup_done A w \<Longrightarrow> setup_done A (serve_auth A r w)"
  using setup_accounts boot.delegated boot.session_methods boot_refresh.grants
  unfolding stable_def by (cases r) simp_all

interpretation setup_closed: kept_by_requests "serve_auth A" "setup_done A"
  by unfold_locales (rule setup_kept)

lemma setup_done_count: "setup_done A w \<longleftrightarrow> countHumanUsers (e_systemUserId (ae_env A)) (w_db w) \<noteq> 0"
  by (auto simp: setup_done_def countHumanUsers_def filter_empty_conv)

end
