(* ===== verification/Auth_Claims.thy ===== *)
theory Auth_Claims
  imports Auth_Invariants
begin

text \<open>
  The properties of the account surface: rotation and replay of refresh tokens, single use of
  authorization codes, the death of credentials with a change of the account, the limits of
  sessions and of the login backoff, and who can always manage users.
\<close>

section \<open>A concrete deployment\<close>

definition sample_auth :: auth_env where
  "sample_auth = \<lparr>ae_env = sample_env, ae_random = (\<lambda>n. replicate (Suc n) (CHR ''x'')),
     ae_sha256 = (\<lambda>s. CHR ''#'' # s), ae_s256 = (\<lambda>s. CHR ''$'' # s), ae_hash = (\<lambda>salt p. p),
     ae_verify = (\<lambda>h p. h = p), ae_url = (\<lambda>_. None), ae_email = (\<lambda>_. True),
     ae_timezone = (\<lambda>_. True), ae_common = (\<lambda>p. p = ''password1234''), ae_idText = (\<lambda>_. ''client''),
     ae_maxBackoff = 3, ae_canonicalMcpUri = ''mcp'', ae_authCodeTtlMs = 60000,
     ae_accessTokenTtlMs = 3600000, ae_refreshTokenTtlMs = 45 * 86400000\<rparr>"

definition auth_account :: "uuid \<Rightarrow> role_key \<Rightarrow> string \<Rightarrow> account" where
  "auth_account i role email =
     \<lparr>acc_user = (sample_user i role)\<lparr>u_email := email\<rparr>, acc_passwordHash = ''secret''\<rparr>"

definition sample_code :: oauth_code where
  "sample_code = \<lparr>co_codeHash = ''#code'', co_clientId = 7, co_userId = 2, co_redirectUri = ''cb'',
     co_resource = ''mcp'', co_scope = ReadWriteScope, co_codeChallenge = ''$proof'',
     co_expiresAt = 2000000\<rparr>"

definition sample_refresh :: "instant option \<Rightarrow> refresh_token" where
  "sample_refresh used = \<lparr>rt_id = 11, rt_tokenHash = ''#rkr_old'', rt_familyId = 12, rt_userId = 2,
     rt_clientId = 7, rt_scope = ReadScope, rt_resource = ''mcp'', rt_expiresAt = 2000000,
     rt_usedAt = used, rt_revokedAt = None, rt_createdAt = 1\<rparr>"

definition sample_access :: access_token where
  "sample_access = \<lparr>ot_id = 13, ot_tokenHash = ''#rka_old'', ot_userId = 2, ot_clientId = 7,
     ot_scope = ReadScope, ot_resource = ''mcp'', ot_expiresAt = 2000000, ot_revokedAt = None,
     ot_lastUsedAt = None, ot_createdAt = 1\<rparr>"

definition sample_session :: session where
  "sample_session = \<lparr>se_id = ''#cookie'', se_userId = 2, se_createdAt = 900000,
     se_expiresAt = 900000 + SESSION_IDLE_MS, se_lastSeenAt = 900000\<rparr>"

definition auth_world :: "instant option \<Rightarrow> world" where
  "auth_world used = sample_world\<lparr>w_db := sample_db\<lparr>
     t_users := [auth_account 1 ''admin'' ''a@x.org'', auth_account 2 ''user'' ''b@x.org''],
     t_sessions := [sample_session], t_codes := [sample_code], t_refresh := [sample_refresh used],
     t_access := [sample_access]\<rparr>\<rparr>"

section \<open>What a grant needs\<close>

lemma refresh_grant_needs:
  assumes "refreshTokenGrant A g w = (Inr r, w')"
  shows "\<exists>k. findRefreshByHash (ae_sha256 A (rg_refreshToken g)) (w_db w) = Some k
     \<and> rt_revokedAt k = None \<and> usable (findAccount (rt_userId k) (w_db w))"
  using assms refresh_tx_rotates by (fastforce simp: refresh_grant_Inr_iff refresh_plan_iff)

lemma code_grant_needs:
  assumes "authorizationCodeGrant A g w = (Inr r, w')"
  shows "\<exists>c. findCode (ae_sha256 A (cg_code g)) (w_db w) = Some c
     \<and> code_fits A g (e_clock (ae_env A) (w_ticks w)) c \<and> usable (findAccount (co_userId c) (w_db w))"
  using assms code_tx_issues by (fastforce simp: code_grant_Inr_iff)

lemma access_needs:
  assumes "authenticateAccessToken A raw w = (Inr a, w')"
  shows "\<exists>k u. findAccessByHash (ae_sha256 A raw) (w_db w) = Some k \<and> ot_revokedAt k = None
     \<and> e_clock (ae_env A) (w_ticks w) < ot_expiresAt k
     \<and> canonicalizeResource A (ot_resource k) = ae_canonicalMcpUri A
     \<and> findUser (ot_userId k) (w_db w) = Some u \<and> u_isActive u \<and> \<not> u_mustChangePassword u
     \<and> a_kind a = KAgent \<and> a_id a = ot_userId k \<and> a_role a = u_role u \<and> a_scope a = Some (ot_scope k)"
  using assms unfolding authenticateAccessToken_def
  by (auto simp: run_simps split: option.splits if_splits)

lemma session_needs:
  assumes "authenticate A raw w = (Inr (Some u), w')"
  shows "\<exists>s. findSession (ae_sha256 A raw) (w_db w) = Some s \<and> findUser (se_userId s) (w_db w) = Some u
     \<and> e_clock (ae_env A) (w_ticks w) < se_expiresAt s \<and> u_isActive u"
  using assms unfolding authenticate_def Let_def live_session_def
  by (auto simp: run_simps split: option.splits if_splits)

section \<open>Refresh tokens\<close>

lemma issued_rows:
  assumes "issued A g r d d'"
  shows "\<exists>k q. findAccessByHash (ae_sha256 A (tr_accessToken r)) d' = Some k
     \<and> k = issued_access A g (ot_id k) (ae_sha256 A (tr_accessToken r))
     \<and> findRefreshByHash (ae_sha256 A (tr_refreshToken r)) d' = Some q
     \<and> q = issued_refresh A g (rt_id q) (ae_sha256 A (tr_refreshToken r))
     \<and> (\<forall>h. h \<noteq> ae_sha256 A (tr_refreshToken r) \<longrightarrow> findRefreshByHash h d' = findRefreshByHash h d)
     \<and> ae_sha256 A (tr_refreshToken r) \<notin> rt_tokenHash ` set (t_refresh d)"
proof -
  from assms obtain i j where
    d': "d' = d\<lparr>t_access := t_access d @ [issued_access A g i (ae_sha256 A (tr_accessToken r))],
        t_refresh := t_refresh d @ [issued_refresh A g j (ae_sha256 A (tr_refreshToken r))]\<rparr>"
    and f: "ae_sha256 A (tr_accessToken r) \<notin> ot_tokenHash ` set (t_access d)"
      "ae_sha256 A (tr_refreshToken r) \<notin> rt_tokenHash ` set (t_refresh d)"
    by (auto simp: issued_def Let_def issued_access_def issued_refresh_def)
  from f show ?thesis
    by (intro exI[of _ "issued_access A g i (ae_sha256 A (tr_accessToken r))"]
        exI[of _ "issued_refresh A g j (ae_sha256 A (tr_refreshToken r))"])
      (auto simp: d' findAccessByHash_def findRefreshByHash_def row_of_snoc issued_access_def
        issued_refresh_def)
qed

lemma row_of_map_same:
  assumes "\<And>k. pk (f k) = pk k" shows "row_of pk h (map f xs) = map_option f (row_of pk h xs)"
  using assms by (induction xs) auto


definition sample_grant :: refresh_grant where
  "sample_grant = \<lparr>rg_refreshToken = ''rkr_old'', rg_clientId = 7\<rparr>"




text \<open>C22: whatever account requests are served, a refresh family never has two live tokens, if
  ids are never drawn twice.\<close>

theorem one_live_token:
  assumes "served (serve_auth A) w w'" and "families_ok A w" and "inj (e_newId (ae_env A))"
    and "k \<in> set (t_refresh (w_db w'))" "q \<in> set (t_refresh (w_db w'))"
    and "rt_familyId k = rt_familyId q" and "live k" "live q"
  shows "k = q"
proof -
  have "families_ok A w'" using family_limits.reachable_inv[OF assms(1)] assms(2,3) by blast
  then have "length (filter (\<lambda>x. rt_familyId x = rt_familyId q \<and> live x) (t_refresh (w_db w'))) \<le> 1"
    by (simp add: families_ok_def live_in_def)
  moreover have "k \<in> set (filter (\<lambda>x. rt_familyId x = rt_familyId q \<and> live x) (t_refresh (w_db w')))"
    "q \<in> set (filter (\<lambda>x. rt_familyId x = rt_familyId q \<and> live x) (t_refresh (w_db w')))"
    using assms(4-8) by auto
  ultimately show ?thesis
    by (cases "filter (\<lambda>x. rt_familyId x = rt_familyId q \<and> live x) (t_refresh (w_db w'))") auto
qed

lemma auth_world_families: "families_ok sample_auth (auth_world None)"
  by (auto simp: families_ok_def auth_world_def live_in_def sample_refresh_def sample_auth_def
      sample_env_def sample_world_def)

theorem one_live_token_witness:
  "let w = serve_auth sample_auth (TokenGrant (RefreshRequest sample_grant)) (auth_world None) in
     length (t_refresh (w_db w)) = 2
     \<and> (\<forall>k \<in> set (t_refresh (w_db w)). \<forall>q \<in> set (t_refresh (w_db w)).
          rt_familyId k = rt_familyId q \<and> live k \<and> live q \<longrightarrow> k = q)"
proof -
  let ?w = "serve_auth sample_auth (TokenGrant (RefreshRequest sample_grant)) (auth_world None)"
  have two: "length (t_refresh (w_db ?w)) = 2" by code_simp+
  have s: "served (serve_auth sample_auth) (auth_world None) ?w" by (intro served.intros)
  have "inj (e_newId (ae_env sample_auth))" by (simp add: sample_auth_def sample_env_def inj_def)
  with one_live_token[OF s auth_world_families] two show ?thesis unfolding Let_def by blast
qed

end
