(* ===== verification/Sample_Day.thy ===== *)
theory Sample_Day
  imports Whole Auth_Claims
begin

text \<open>A day of requests of all three kinds on the sample board: a conversation, a login, a new
  location, and the hourly job; and a day on which the only board is replaced.\<close>

definition sample_admin :: actor where
  "sample_admin = actor_of_user (sample_user 1 ''admin'')"

definition sample_day :: "any_request list" where
  "sample_day = map (CardsOf 10) sample_talk @
     [AccountsOf (Login ''u@x.org'' ''pw''),
      AdminOf 10 (CreateLocation sample_admin \<lparr>nl_parentId = None, nl_kind = Building, nl_name = ''A''\<rparr>),
      AdminOf 10 ClaimAlerts]"

definition board_day :: "any_request list" where
  "board_day =
     [AdminOf 10 (CreateBoard sample_admin \<lparr>bi_name = ''Second'', bi_accessMode = AccessAll, bi_allowedRoleKeys = [],
        bi_allowedUserIds = [], bi_allowedGroupIds = None, bi_defaultAssignments = None\<rparr>),
      AdminOf 10 (RemoveBoard sample_admin 10)]"

abbreviation after :: "any_request list \<Rightarrow> db" where
  "after day \<equiv> w_db (serve_all (serve_any sample_env sample_auth) day sample_world)"

lemma sample_served:
  "served (serve_any sample_env sample_auth) sample_world (serve_all (serve_any sample_env sample_auth) day sample_world)"
  by (rule serve_all_served[OF served_nothing])

definition filled :: "db \<Rightarrow> bool" where
  "filled d \<longleftrightarrow> t_events d \<noteq> [] \<and> (\<exists>m \<in> set (t_comments d). cm_parentCommentId m = Some 1000)
     \<and> t_relations d \<noteq> [] \<and> t_attachments d \<noteq> [] \<and> t_locations d \<noteq> []"

lemma sample_day_fills: "filled (after sample_day)"
  by code_simp+

lemma board_day_replaces: "map b_id (listBoards (after board_day)) = [1000]"
  by code_simp+

lemma sample_config_ok: "config_ok (w_db sample_world)"
  by code_simp+

end
