(* ===== verification/Account_Claims.thy ===== *)
theory Account_Claims
  imports Auth_Claims
begin

text \<open>
  More properties of the account surface: single use of authorization codes, what a change of
  an account revokes, the limits of sessions, the login backoff, and who can manage users.
\<close>

section \<open>Authorization codes\<close>

lemma keeps_case_prod: "(\<And>a b. keeps obs (f a b)) \<Longrightarrow> keeps obs (case p of (a, b) \<Rightarrow> f a b)"
  by (cases p) simp

lemma oauth_value_no_error: "oauth_value m w \<noteq> (Inl (OAuthError e), w')"
  by (cases "m w") (auto simp: oauth_value_def split: sum.split error.split)

lemma issue_codes: "keeps (\<lambda>w. t_codes (w_db w)) (issue A g)"
  unfolding issue_def mintSecret_def
  by (intro keeps_bind keeps_case_prod) (auto simp: keeps_def ask_def draw_def newId_def store_def
      return_def insertAccess_def insertRefresh_def)

lemma valued_keeps: "keeps obs m \<Longrightarrow> keeps obs (oauth_value m)"
  by (auto simp: keeps_def oauth_value_def split: prod.split sum.split error.split) (metis snd_conv)+

lemma code_tx_outcome:
  assumes "code_tx A g t w = (x, w')"
  shows "t_codes (w_db w') = drop_row co_codeHash (ae_sha256 A (cg_code g)) (t_codes (w_db w))"
    and "x \<noteq> Inl (OAuthError e)"
proof -
  let ?w = "w\<lparr>w_db := (w_db w)\<lparr>t_codes := drop_row co_codeHash (ae_sha256 A (cg_code g)) (t_codes (w_db w))\<rparr>\<rparr>"
  have "(x, w') = (Inr (Inl InvalidGrant), ?w)
      \<or> (\<exists>a. oauth_value (issue A a) (?w\<lparr>w_ids := Suc (w_ids w)\<rparr>) = (x, w'))"
    using assms by (auto simp: code_tx_def bind_def consumeCode_def return_def newId_def
        split: option.splits if_splits)
  note c = this
  from c show "t_codes (w_db w') = drop_row co_codeHash (ae_sha256 A (cg_code g)) (t_codes (w_db w))"
    by (auto dest: keepsD[OF valued_keeps[OF issue_codes]])
  from c show "x \<noteq> Inl (OAuthError e)" by (metis Pair_inject Inl_not_Inr oauth_value_no_error sum.distinct(1))
qed

text \<open>C23: an authorization code is exchanged at most once, and by its client only: tokens are
  issued for a code that is unexpired, was issued to this client and redirect URI, and whose
  challenge the verifier meets, for exactly the user, scope and audience it was granted for; the
  attempt, be it accepted or refused, consumes the code, so that every later exchange of it is
  refused.\<close>

theorem code_single_use:
  assumes "authorizationCodeGrant A g w = (res, w1)" and "parse_code_grant g = Inr g"
    and "case res of Inr r \<Rightarrow> True | Inl e \<Rightarrow> (\<exists>c. e = OAuthError c)"
  shows "(\<forall>r. res = Inr r \<longrightarrow> (\<exists>c x. findCode (ae_sha256 A (cg_code g)) (w_db w) = Some c
        \<and> co_clientId c = cg_clientId g \<and> co_redirectUri c = cg_redirectUri g
        \<and> ae_s256 A (cg_codeVerifier g) = co_codeChallenge c
        \<and> e_clock (ae_env A) (w_ticks w) < co_expiresAt c
        \<and> findAccessByHash (ae_sha256 A (tr_accessToken r)) (w_db w1) = Some x
        \<and> ot_userId x = co_userId c \<and> ot_clientId x = co_clientId c \<and> ot_scope x = co_scope c
        \<and> ot_resource x = co_resource c))
    \<and> findCode (ae_sha256 A (cg_code g)) (w_db w1) = None
    \<and> (\<forall>g'. cg_code g' = cg_code g \<and> parse_code_grant g' = Inr g' \<longrightarrow>
        fst (authorizationCodeGrant A g' w1) = Inl (OAuthError InvalidGrant))"
proof -
  let ?h = "ae_sha256 A (cg_code g)" and ?t = "e_clock (ae_env A) (w_ticks w)"
  let ?w = "w\<lparr>w_ticks := Suc (w_ticks w)\<rparr>"
  have go: "thrown_after (uow_run (code_tx A g ?t)) ?w = (res, w1)"
    using assms(1,2) by (simp add: authorizationCodeGrant_def bind_def lift_def now_def)
  obtain y w2 where tx: "code_tx A g ?t ?w = (y, w2)" by fastforce
  have "w1 = w2"
  proof (cases y)
    case (Inl e)
    with go tx have "res = Inl e" by (simp add: thrown_after_def uow_run_def bind_def)
    with assms(3) code_tx_outcome(2)[OF tx] Inl show ?thesis by auto
  qed (use go tx in \<open>auto simp: thrown_after_def uow_run_def bind_def throw_def return_def split: sum.splits\<close>)
  with code_tx_outcome(1)[OF tx] have gone: "findCode ?h (w_db w1) = None"
    by (simp add: findCode_def row_of_drop_row)
  have "\<exists>c x. findCode ?h (w_db w) = Some c \<and> co_clientId c = cg_clientId g
      \<and> co_redirectUri c = cg_redirectUri g \<and> ae_s256 A (cg_codeVerifier g) = co_codeChallenge c
      \<and> ?t < co_expiresAt c \<and> findAccessByHash (ae_sha256 A (tr_accessToken r)) (w_db w1) = Some x
      \<and> ot_userId x = co_userId c \<and> ot_clientId x = co_clientId c \<and> ot_scope x = co_scope c
      \<and> ot_resource x = co_resource c" if "res = Inr r" for r
  proof -
    from go that have "code_tx A g ?t ?w = (Inr (Inr r), w1)"
      by (simp add: thrown_after_Inr_iff uow_run_Inr_iff)
    from code_tx_issues[OF this] obtain c f where c: "findCode ?h (w_db w) = Some c" "code_fits A g ?t c"
      and iss: "issued A (code_args c f ?t) r
        ((w_db w)\<lparr>t_codes := drop_row co_codeHash ?h (t_codes (w_db w))\<rparr>) (w_db w1)" by auto
    from issued_rows[OF iss] obtain x :: access_token where
      x: "findAccessByHash (ae_sha256 A (tr_accessToken r)) (w_db w1) = Some x"
        "x = issued_access A (code_args c f ?t) (ot_id x) (ae_sha256 A (tr_accessToken r))" by blast
    have "ot_userId x = co_userId c \<and> ot_clientId x = co_clientId c \<and> ot_scope x = co_scope c
        \<and> ot_resource x = co_resource c"
      by (subst (1 2 3 4) x(2)) (simp add: issued_access_def code_args_def)
    with c x(1) show ?thesis by (auto simp: code_fits_def)
  qed
  moreover have "fst (authorizationCodeGrant A g' w1) = Inl (OAuthError InvalidGrant)"
    if "cg_code g' = cg_code g" "parse_code_grant g' = Inr g'" for g'
    using that gone by (simp add: authorizationCodeGrant_def bind_def lift_def now_def thrown_after_def
        uow_run_def code_tx_def consumeCode_def return_def throw_def)
  ultimately show ?thesis using gone by blast
qed

definition sample_exchange :: "string \<Rightarrow> code_grant" where
  "sample_exchange verifier = \<lparr>cg_code = ''code'', cg_codeVerifier = verifier, cg_clientId = 7,
     cg_redirectUri = ''cb''\<rparr>"

theorem code_single_use_witness:
  "(\<exists>r w1. authorizationCodeGrant sample_auth (sample_exchange ''proof'') (auth_world None) = (Inr r, w1)
      \<and> fst (authorizationCodeGrant sample_auth (sample_exchange ''proof'') w1) = Inl (OAuthError InvalidGrant))
   \<and> (\<exists>w1. authorizationCodeGrant sample_auth (sample_exchange ''guess'') (auth_world None)
        = (Inl (OAuthError InvalidGrant), w1)
      \<and> fst (authorizationCodeGrant sample_auth (sample_exchange ''proof'') w1) = Inl (OAuthError InvalidGrant))"
proof
  have p: "parse_code_grant (sample_exchange v) = Inr (sample_exchange v) \<longleftrightarrow> v \<noteq> []" for v
    by (simp add: parse_code_grant_def sample_exchange_def sguard_def sbind_def)
  have same: "cg_code (sample_exchange v) = cg_code (sample_exchange v')" for v v'
    by (simp add: sample_exchange_def)
  have "returned (authorizationCodeGrant sample_auth (sample_exchange ''proof'')) (auth_world None)" by code_simp+
  then obtain r w1 where run: "authorizationCodeGrant sample_auth (sample_exchange ''proof'') (auth_world None) = (Inr r, w1)"
    by (auto simp: returned_iff)
  with code_single_use[OF run] show "\<exists>r w1. authorizationCodeGrant sample_auth (sample_exchange ''proof'') (auth_world None) = (Inr r, w1)
      \<and> fst (authorizationCodeGrant sample_auth (sample_exchange ''proof'') w1) = Inl (OAuthError InvalidGrant)"
    by (auto simp: p)
  have "fst (authorizationCodeGrant sample_auth (sample_exchange ''guess'') (auth_world None))
      = Inl (OAuthError InvalidGrant)" by code_simp+
  then obtain w1 where run: "authorizationCodeGrant sample_auth (sample_exchange ''guess'') (auth_world None)
      = (Inl (OAuthError InvalidGrant), w1)" by (metis prod.collapse)
  have "fst (authorizationCodeGrant sample_auth (sample_exchange ''proof'') w1) = Inl (OAuthError InvalidGrant)"
    using code_single_use[OF run] same p by simp
  with run show "\<exists>w1. authorizationCodeGrant sample_auth (sample_exchange ''guess'') (auth_world None)
        = (Inl (OAuthError InvalidGrant), w1)
      \<and> fst (authorizationCodeGrant sample_auth (sample_exchange ''proof'') w1) = Inl (OAuthError InvalidGrant)"
    by blast
qed

section \<open>A change of an account\<close>

lemma revoked_access:
  assumes "k \<in> set (t_access (revokeAccessForUser i t d))" "ot_userId k = i"
  shows "ot_revokedAt k \<noteq> None"
proof -
  from assms(1) have "k \<in> (\<lambda>x. if ot_userId x = i \<and> ot_revokedAt x = None
      then x\<lparr>ot_revokedAt := Some t\<rparr> else x) ` set (t_access d)"
    by (simp add: revokeAccessForUser_def stamp_access_def)
  then obtain x :: access_token where
    "k = (if ot_userId x = i \<and> ot_revokedAt x = None then x\<lparr>ot_revokedAt := Some t\<rparr> else x)"
    by (rule imageE)
  with assms(2) show ?thesis by (cases "ot_userId x = i"; cases "ot_revokedAt x") simp_all
qed

lemma revoked_refresh:
  assumes "k \<in> set (t_refresh (revokeRefreshForUser i t d))" "rt_userId k = i"
  shows "rt_revokedAt k \<noteq> None"
proof -
  from assms(1) have "k \<in> (\<lambda>x. if rt_userId x = i \<and> rt_revokedAt x = None
      then x\<lparr>rt_revokedAt := Some t\<rparr> else x) ` set (t_refresh d)"
    by (simp add: revokeRefreshForUser_def stamp_refresh_def)
  then obtain x :: refresh_token where
    "k = (if rt_userId x = i \<and> rt_revokedAt x = None then x\<lparr>rt_revokedAt := Some t\<rparr> else x)"
    by (rule imageE)
  with assms(2) show ?thesis by (cases "rt_userId x = i"; cases "rt_revokedAt x") simp_all
qed

lemma revoke_user_run:
  assumes "revokeUserCredentials A i None w = (Inr q, w')"
  shows "\<forall>s \<in> set (t_sessions (w_db w')). se_userId s \<noteq> i"
    and "\<forall>c \<in> set (t_codes (w_db w')). co_userId c \<noteq> i"
    and "\<forall>k \<in> set (t_access (w_db w')). ot_userId k = i \<longrightarrow> ot_revokedAt k \<noteq> None"
    and "\<forall>k \<in> set (t_refresh (w_db w')). rt_userId k = i \<longrightarrow> rt_revokedAt k \<noteq> None"
proof -
  from assms obtain t1 t2 where db: "w_db w' = revokeRefreshForUser i t2 (revokeAccessForUser i t1
      (revokeCodesForUser i (revokeOthersForUser i None (w_db w))))"
    by (auto simp: revokeUserCredentials_def run_simps)
  show "\<forall>s \<in> set (t_sessions (w_db w')). se_userId s \<noteq> i" "\<forall>c \<in> set (t_codes (w_db w')). co_userId c \<noteq> i"
    unfolding db by (simp_all add: revokeRefreshForUser_def revokeAccessForUser_def revokeCodesForUser_def
        revokeOthersForUser_def stamp_access_def stamp_refresh_def)
  show "\<forall>k \<in> set (t_refresh (w_db w')). rt_userId k = i \<longrightarrow> rt_revokedAt k \<noteq> None"
    unfolding db using revoked_refresh by blast
  have "t_access (w_db w') = t_access (revokeAccessForUser i t1
      (revokeCodesForUser i (revokeOthersForUser i None (w_db w))))"
    unfolding db by (simp add: revokeRefreshForUser_def stamp_refresh_def)
  then show "\<forall>k \<in> set (t_access (w_db w')). ot_userId k = i \<longrightarrow> ot_revokedAt k \<noteq> None"
    using revoked_access by metis
qed

lemma update_user_Inr:
  assumes "update_user A actor i raw w = (Inr x, w1)"
  shows "\<exists>inp h w0 user w2. parse_update_user raw = Inr inp \<and> w_db w0 = w_db w
    \<and> update_user_tx A actor i inp h w0 = (Inr user, w2) \<and> w_db w1 = w_db w2"
proof -
  from assms obtain inp temp w0 user w2 where p: "parse_update_user raw = Inr inp"
    and t: "(if uu_resetPassword inp then bind (draw A) (\<lambda>temp. bind (draw A) (\<lambda>salt.
         return (Some temp, ae_hash A salt temp))) else return (None, [])) w = (Inr temp, w0)"
    and tx: "update_user_tx A actor i inp (snd temp) w0 = (Inr user, w2)" and "w_db w1 = w_db w2"
    unfolding update_user_def bind_Inr_iff lift_iffs uow_run_Inr_iff publish_iffs return_iffs by fastforce
  moreover from t have "w_db w0 = w_db w" by (auto simp: run_simps split: if_splits)
  ultimately show ?thesis by blast
qed

lemma found_user_id: "findUser i d = Some u \<Longrightarrow> u_id u = i"
  unfolding findUser_def using row_of_SomeD by metis

text \<open>C24: when an administrator resets a password, deactivates an account or changes its role,
  every credential of that user dies in the same transaction: no session cookie and no access
  token resolves to the user any more, and no refresh token and no authorization code of the
  user can be exchanged.\<close>

theorem credentials_die:
  assumes "update_user A actor i raw w = (Inr x, w1)" and "findUser i (w_db w) = Some u"
    and "uu_resetPassword raw \<or> u_isActive u \<and> uu_isActive raw = Some False
      \<or> (\<exists>r. uu_role raw = Some r \<and> r \<noteq> u_role u)"
  shows "(\<forall>cookie v w2. authenticate A cookie w1 = (Inr (Some v), w2) \<longrightarrow> u_id v \<noteq> i)
    \<and> (\<forall>bearer a w2. authenticateAccessToken A bearer w1 = (Inr a, w2) \<longrightarrow> a_id a \<noteq> i)
    \<and> (\<forall>g r w2 k. refreshTokenGrant A g w1 = (Inr r, w2)
        \<and> findRefreshByHash (ae_sha256 A (rg_refreshToken g)) (w_db w1) = Some k \<longrightarrow> rt_userId k \<noteq> i)
    \<and> (\<forall>g r w2 c. authorizationCodeGrant A g w1 = (Inr r, w2)
        \<and> findCode (ae_sha256 A (cg_code g)) (w_db w1) = Some c \<longrightarrow> co_userId c \<noteq> i)"
proof -
  from update_user_Inr[OF assms(1)] obtain inp h w0 user w2 where p: "parse_update_user raw = Inr inp"
    and db: "w_db w0 = w_db w" and tx: "update_user_tx A actor i inp h w0 = (Inr user, w2)"
    and w1: "w_db w1 = w_db w2" by blast
  from p have inp: "uu_resetPassword inp = uu_resetPassword raw" "uu_isActive inp = uu_isActive raw"
    "uu_role inp = uu_role raw"
    by (auto simp: parse_update_user_def run_simps split: option.splits)
  from tx obtain found w3 w4 q where "update_user_plan A actor i inp (w_db w0) = Inr found"
    and rev: "(if u_role (updated_user inp found) \<noteq> u_role found
        \<or> u_isActive found \<and> \<not> u_isActive (updated_user inp found) \<or> uu_resetPassword inp
      then revokeUserCredentials A i None else return ()) w3 = (Inr q, w4)" and "w_db w2 = w_db w4"
    unfolding update_user_tx_def Let_def by (simp only: bind_Inr_iff ask_iff return_iffs) blast
  moreover from this(1) have "found = u" using assms(2) db
    by (auto simp: update_user_plan_def run_simps Let_def)
  then have "u_role (updated_user inp found) \<noteq> u_role found
      \<or> u_isActive found \<and> \<not> u_isActive (updated_user inp found) \<or> uu_resetPassword inp"
    using assms(3) inp by (auto simp: updated_user_def default_to_def)
  ultimately have "revokeUserCredentials A i None w3 = (Inr q, w4)" by simp
  note revoke_user_run[OF this]
  with \<open>w_db w2 = w_db w4\<close> w1 have dead:
    "\<forall>s \<in> set (t_sessions (w_db w1)). se_userId s \<noteq> i" "\<forall>c \<in> set (t_codes (w_db w1)). co_userId c \<noteq> i"
    "\<forall>k \<in> set (t_access (w_db w1)). ot_userId k = i \<longrightarrow> ot_revokedAt k \<noteq> None"
    "\<forall>k \<in> set (t_refresh (w_db w1)). rt_userId k = i \<longrightarrow> rt_revokedAt k \<noteq> None" by auto
  have "u_id v \<noteq> i" if "authenticate A cookie w1 = (Inr (Some v), w5)" for cookie v w5
    using session_needs[OF that] dead(1) by (auto simp: findSession_def dest!: row_of_SomeD found_user_id)
  moreover have "a_id a \<noteq> i" if "authenticateAccessToken A bearer w1 = (Inr a, w5)" for bearer a w5
    using access_needs[OF that] dead(3) by (auto simp: findAccessByHash_def dest!: row_of_SomeD)
  moreover have "rt_userId k \<noteq> i" if "refreshTokenGrant A g w1 = (Inr r, w5)"
      "findRefreshByHash (ae_sha256 A (rg_refreshToken g)) (w_db w1) = Some k" for g r w5 k
    using refresh_grant_needs[OF that(1)] that(2) dead(4) by (auto dest: findRefreshByHash_SomeD)
  moreover have "co_userId c \<noteq> i" if "findCode h (w_db w1) = Some c" for h c
    using that dead(2) by (auto simp: findCode_def dest: row_of_SomeD)
  ultimately show ?thesis by blast
qed

definition sample_reset :: update_user_input where
  "sample_reset = \<lparr>uu_displayName = None, uu_role = None, uu_isActive = None, uu_resetPassword = True\<rparr>"

theorem credentials_die_witness:
  "(\<exists>v w. authenticate sample_auth ''cookie'' (auth_world None) = (Inr (Some v), w) \<and> u_id v = 2)
   \<and> (\<exists>x w1. update_user sample_auth (actor_of_user (sample_user 1 ''admin'')) 2 sample_reset (auth_world None)
        = (Inr x, w1)
      \<and> (\<forall>cookie v w2. authenticate sample_auth cookie w1 = (Inr (Some v), w2) \<longrightarrow> u_id v \<noteq> 2))"
proof
  have "case fst (authenticate sample_auth ''cookie'' (auth_world None)) of
      Inr (Some v) \<Rightarrow> u_id v = 2 | _ \<Rightarrow> False" by code_simp+
  then show "\<exists>v w. authenticate sample_auth ''cookie'' (auth_world None) = (Inr (Some v), w) \<and> u_id v = 2"
    by (cases "authenticate sample_auth ''cookie'' (auth_world None)")
      (auto split: sum.splits option.splits)
  have "returned (update_user sample_auth (actor_of_user (sample_user 1 ''admin'')) 2 sample_reset)
      (auth_world None)" by code_simp+
  then obtain x w1 where run: "update_user sample_auth (actor_of_user (sample_user 1 ''admin'')) 2
      sample_reset (auth_world None) = (Inr x, w1)" by (auto simp: returned_iff)
  have "findUser 2 (w_db (auth_world None)) = Some ((sample_user 2 ''user'')\<lparr>u_email := ''b@x.org''\<rparr>)"
    by code_simp+
  from credentials_die[OF run this] run show "\<exists>x w1. update_user sample_auth
      (actor_of_user (sample_user 1 ''admin'')) 2 sample_reset (auth_world None) = (Inr x, w1)
      \<and> (\<forall>cookie v w2. authenticate sample_auth cookie w1 = (Inr (Some v), w2) \<longrightarrow> u_id v \<noteq> 2)"
    by (auto simp: sample_reset_def)
qed

section \<open>Who can manage users\<close>

text \<open>C25: whatever account requests are served, there remains an active account, other than the
  automation user, whose role may manage users, and once a human account exists no request
  creates a first administrator.\<close>

theorem user_admin_never_lost:
  assumes "served (serve_auth A) w w'" and "managers_ok A w"
  shows "(\<exists>policy. activePolicy (e_boardId (ae_env A)) (w_db w') = Inr policy
      \<and> (\<exists>a \<in> set (t_users (w_db w')). u_isActive (acc_user a)
          \<and> u_id (acc_user a) \<noteq> e_systemUserId (ae_env A)
          \<and> (\<exists>r \<in> set (p_roles policy). r_key r = u_role (acc_user a)
               \<and> PermManageUsers \<in> set (r_permissions r))))
    \<and> (\<forall>inp x w2. createFirstAdmin A inp w' \<noteq> (Inr x, w2))"
proof
  have "managers_ok A w'" by (rule user_admin.reachable_inv[OF assms])
  then show "\<exists>policy. activePolicy (e_boardId (ae_env A)) (w_db w') = Inr policy
      \<and> (\<exists>a \<in> set (t_users (w_db w')). u_isActive (acc_user a)
          \<and> u_id (acc_user a) \<noteq> e_systemUserId (ae_env A)
          \<and> (\<exists>r \<in> set (p_roles policy). r_key r = u_role (acc_user a)
               \<and> PermManageUsers \<in> set (r_permissions r)))"
    by (fastforce simp: managers_ok_def manages_def manageUsersRoleKeys_def)
  have "setup_done A w" using assms(2) by (auto simp: managers_ok_def setup_done_def manages_def)
  then have "setup_done A w'" by (rule setup_closed.reachable_inv[OF assms(1)])
  then have "countHumanUsers (e_systemUserId (ae_env A)) (w_db w') \<noteq> 0" by (simp add: setup_done_count)
  then show "\<forall>inp x w2. createFirstAdmin A inp w' \<noteq> (Inr x, w2)"
    by (auto simp: createFirstAdmin_def setup_tx_def mintSession_def Let_def run_simps)
qed

definition sample_demotion :: update_user_input where
  "sample_demotion = \<lparr>uu_displayName = None, uu_role = Some ''user'', uu_isActive = None,
     uu_resetPassword = False\<rparr>"

theorem user_admin_never_lost_witness:
  "let w = serve_auth sample_auth (UpdateUser (actor_of_user (sample_user 1 ''admin'')) 1 sample_demotion)
       (auth_world None) in
   (\<exists>a \<in> set (t_users (w_db w)). u_isActive (acc_user a) \<and> u_id (acc_user a) \<noteq> 99)
   \<and> fst (update_user sample_auth (actor_of_user (sample_user 1 ''admin'')) 1 sample_demotion
       (auth_world None)) = Inl (ServerError LastActiveAdminError)"
proof -
  let ?w = "serve_auth sample_auth (UpdateUser (actor_of_user (sample_user 1 ''admin'')) 1 sample_demotion)
       (auth_world None)"
  have s: "served (serve_auth sample_auth) (auth_world None) ?w" by (intro served.intros)
  have "\<exists>policy. activePolicy 10 (w_db (auth_world None)) = Inr policy
      \<and> (\<exists>a \<in> set (t_users (w_db (auth_world None))). manages sample_auth policy (acc_user a))"
  proof -
    have "case activePolicy 10 (w_db (auth_world None)) of Inl e \<Rightarrow> False | Inr policy \<Rightarrow>
        (\<exists>a \<in> set (t_users (w_db (auth_world None))). manages sample_auth policy (acc_user a))" by code_simp+
    then show ?thesis by (auto split: sum.splits)
  qed
  then have ok: "managers_ok sample_auth (auth_world None)"
    by (auto simp: managers_ok_def auth_world_def auth_account_def sample_user_def sample_auth_def sample_env_def)
  have "fst (update_user sample_auth (actor_of_user (sample_user 1 ''admin'')) 1 sample_demotion
       (auth_world None)) = Inl (ServerError LastActiveAdminError)" by code_simp+
  with user_admin_never_lost[OF s ok] show ?thesis
    unfolding Let_def by (fastforce simp: sample_auth_def sample_env_def)
qed

section \<open>Sessions and the login backoff\<close>

text \<open>C26: whatever account requests are served, a cookie signs in only a user of an active
  account through a stored session of that user, within 30 days of the login and within 7 days
  of the last use that was recorded.\<close>

theorem session_bounded:
  assumes "served (serve_auth A) w w'" and "sessions_ok w"
    and "authenticate A cookie w' = (Inr (Some u), w2)"
  shows "\<exists>s. findSession (ae_sha256 A cookie) (w_db w') = Some s
    \<and> findUser (se_userId s) (w_db w') = Some u \<and> u_isActive u
    \<and> e_clock (ae_env A) (w_ticks w') < se_createdAt s + 30 * 86400000
    \<and> e_clock (ae_env A) (w_ticks w') < se_lastSeenAt s + 7 * 86400000"
proof -
  have "sessions_ok w'" by (rule session_limits.reachable_inv[OF assms(1,2)])
  moreover from session_needs[OF assms(3)] obtain s where
    s: "findSession (ae_sha256 A cookie) (w_db w') = Some s" "findUser (se_userId s) (w_db w') = Some u"
      "e_clock (ae_env A) (w_ticks w') < se_expiresAt s" "u_isActive u" by blast
  ultimately have "session_ok s"
    by (auto simp: sessions_ok_def findSession_def dest: row_of_SomeD)
  with s show ?thesis
    by (auto simp: session_ok_def SESSION_ABSOLUTE_MS_def SESSION_IDLE_MS_def)
qed

theorem session_bounded_witness:
  "\<exists>u w w2 s. served (serve_auth sample_auth) (auth_world None) w
     \<and> authenticate sample_auth ''cookie'' w = (Inr (Some u), w2)
     \<and> e_clock sample_env (w_ticks w) < se_lastSeenAt s + 7 * 86400000
     \<and> findSession ''#cookie'' (w_db w) = Some s"
proof -
  have ok: "sessions_ok (auth_world None)"
    by (simp add: sessions_ok_def auth_world_def sample_session_def session_ok_def
        SESSION_ABSOLUTE_MS_def SESSION_IDLE_MS_def)
  have "case fst (authenticate sample_auth ''cookie'' (auth_world None)) of
      Inr (Some v) \<Rightarrow> True | _ \<Rightarrow> False" by code_simp+
  then obtain u w2 where run: "authenticate sample_auth ''cookie'' (auth_world None) = (Inr (Some u), w2)"
    by (cases "authenticate sample_auth ''cookie'' (auth_world None)") (auto split: sum.splits option.splits)
  from session_bounded[OF served_nothing ok run] run show ?thesis
    by (fastforce simp: sample_auth_def intro: served.intros)
qed

lemma backoff_delay: "0 \<le> backoffDelayMs n" "backoffDelayMs n \<le> 60000"
  by (auto simp: backoffDelayMs_def BACKOFF_CAP_MS_def BACKOFF_BASE_MS_def)

lemma backoff_wait:
  assumes "backoff_entry_of email (w_backoff w) = Some e"
  shows "retryAfterMs A email w
    = (Inr (max 0 (be_lastFailureAtMs e + backoffDelayMs (be_failures e) - e_clock (ae_env A) (w_ticks w))),
       w\<lparr>w_ticks := Suc (w_ticks w)\<rparr>)"
  using assms by (simp add: retryAfterMs_def bind_def now_def return_def)

lemma login_open:
  assumes "backoff_gate A email w = (Inr (), w\<lparr>w_ticks := n\<rparr>)"
    and "findAccountByEmail email (w_db w) = Some c" "findAccount (u_id (acc_user c)) (w_db w) = Some c"
    and "ae_verify A (acc_passwordHash c) password" "u_isActive (acc_user c)"
    and "ae_sha256 A (ae_random A (w_ids w)) \<notin> se_id ` set (t_sessions (w_db w))"
  shows "\<exists>w'. login A email password w = (Inr (acc_user c, ae_random A (w_ids w)), w')
    \<and> w_backoff w' = drop_row fst (to_lower email) (w_backoff w)"
  using assms by (simp add: login_def bind_def uow_read_def reset_backoff_def modify_def now_def
      mintSession_def draw_def return_def open_session_def uow_run_def ask_def guard_def store_def
      createSession_def)

text \<open>C27: the login backoff delays and never locks out.  Until the delay after the last failure
  of an account is over, an attempt is refused before any password is looked at, names a wait
  of 1 to 60 seconds, and changes nothing, so it does not prolong the delay; once it is over,
  which is so 60 seconds after the last failure however many there were, the right password of
  an active account signs in and clears the record.\<close>

theorem backoff_delays_only:
  assumes "backoff_entry_of email (w_backoff w) = Some e"
    and "findAccountByEmail email (w_db w) = Some c" "findAccount (u_id (acc_user c)) (w_db w) = Some c"
    and "ae_verify A (acc_passwordHash c) password" "u_isActive (acc_user c)"
    and "ae_sha256 A (ae_random A (w_ids w)) \<notin> se_id ` set (t_sessions (w_db w))"
  shows "(if e_clock (ae_env A) (w_ticks w) < be_lastFailureAtMs e + backoffDelayMs (be_failures e)
      then \<forall>guess. \<exists>s. login A email guess w
             = (Inl (ServerError (BackoffActiveError s)), w\<lparr>w_ticks := Suc (w_ticks w)\<rparr>)
           \<and> 1 \<le> s \<and> (be_lastFailureAtMs e \<le> e_clock (ae_env A) (w_ticks w) \<longrightarrow> s \<le> 60)
      else \<exists>raw w'. login A email password w = (Inr (acc_user c, raw), w')
           \<and> backoff_entry_of email (w_backoff w') = None)
    \<and> backoffDelayMs (be_failures e) \<le> 60000"
proof -
  let ?t = "e_clock (ae_env A) (w_ticks w)"
  let ?d = "be_lastFailureAtMs e + backoffDelayMs (be_failures e) - ?t"
  let ?w = "w\<lparr>w_ticks := Suc (w_ticks w)\<rparr>"
  have gate: "backoff_gate A email w = (if ?d \<le> 0 then Inr ()
      else Inl (ServerError (BackoffActiveError (nat ((?d + 999) div 1000)))), ?w)"
    using backoff_wait[OF assms(1), of A]
    by (auto simp: backoff_gate_def bind_def guard_def return_def throw_def max_def)
  show ?thesis
  proof (cases "?d \<le> 0")
    case True
    from login_open[OF _ assms(2-6), of "Suc (w_ticks w)"] gate True obtain w' where
      "login A email password w = (Inr (acc_user c, ae_random A (w_ids w)), w')"
      "w_backoff w' = drop_row fst (to_lower email) (w_backoff w)" by auto
    with True show ?thesis using backoff_delay(2) by (auto simp: backoff_entry_of_def row_of_drop_row)
  next
    case False
    have "login A email guess w
        = (Inl (ServerError (BackoffActiveError (nat ((?d + 999) div 1000)))), ?w)" for guess
      using gate False by (simp add: login_def bind_def)
    moreover have "1 \<le> nat ((?d + 999) div 1000)" using False by auto
    moreover have "nat ((?d + 999) div 1000) \<le> 60" if "be_lastFailureAtMs e \<le> ?t"
    proof -
      have "?d \<le> 60000" using that backoff_delay(2)[of "be_failures e"] by linarith
      then show ?thesis by linarith
    qed
    ultimately show ?thesis using False backoff_delay(2) by auto
  qed
qed

definition failed_world :: "nat \<Rightarrow> instant \<Rightarrow> world" where
  "failed_world failures t = (auth_world None)\<lparr>w_backoff := [(''b@x.org'',
     \<lparr>be_failures = failures, be_lastFailureAtMs = t\<rparr>)]\<rparr>"

theorem backoff_delays_only_witness:
  "(\<exists>s w'. login sample_auth ''B@x.org'' ''guess'' (failed_world 9 999999)
       = (Inl (ServerError (BackoffActiveError s)), w') \<and> s \<le> 60)
   \<and> (\<exists>u raw w'. login sample_auth ''B@x.org'' ''secret'' (failed_world 9 900000) = (Inr (u, raw), w'))"
proof -
  let ?c = "auth_account 2 ''user'' ''b@x.org''"
  have lowered: "to_lower ''B@x.org'' = ''b@x.org''" "to_lower ''a@x.org'' = ''a@x.org''"
    "to_lower ''b@x.org'' = ''b@x.org''" by code_simp+
  have e: "backoff_entry_of ''B@x.org'' (w_backoff (failed_world 9 t))
      = Some \<lparr>be_failures = 9, be_lastFailureAtMs = t\<rparr>" for t
    by (simp add: failed_world_def auth_world_def backoff_entry_of_def row_of_def lowered)
  have c: "findAccountByEmail ''B@x.org'' (w_db (failed_world 9 t)) = Some ?c"
    "findAccount (u_id (acc_user ?c)) (w_db (failed_world 9 t)) = Some ?c"
    "ae_verify sample_auth (acc_passwordHash ?c) ''secret''" "u_isActive (acc_user ?c)"
    "ae_sha256 sample_auth (ae_random sample_auth (w_ids (failed_world 9 t)))
      \<notin> se_id ` set (t_sessions (w_db (failed_world 9 t)))" for t
    by (simp_all add: failed_world_def auth_world_def findAccountByEmail_def findAccount_def row_of_def
        auth_account_def sample_user_def sample_auth_def sample_session_def lowered)
  have t: "e_clock (ae_env sample_auth) (w_ticks (failed_world 9 t)) = 1000000" for t
    by (simp add: failed_world_def auth_world_def sample_world_def sample_auth_def sample_env_def)
  have "\<forall>guess. \<exists>s. login sample_auth ''B@x.org'' guess (failed_world 9 999999)
       = (Inl (ServerError (BackoffActiveError s)), (failed_world 9 999999)\<lparr>w_ticks := Suc (w_ticks (failed_world 9 999999))\<rparr>)
     \<and> s \<le> 60"
    using backoff_delays_only[OF e c, of 999999]
    by (auto simp: t backoffDelayMs_def BACKOFF_CAP_MS_def BACKOFF_BASE_MS_def)
  moreover have "\<exists>raw w'. login sample_auth ''B@x.org'' ''secret'' (failed_world 9 900000)
      = (Inr (acc_user ?c, raw), w')"
    using backoff_delays_only[OF e c, of 900000]
    by (auto simp: t backoffDelayMs_def BACKOFF_CAP_MS_def BACKOFF_BASE_MS_def)
  ultimately show ?thesis by blast
qed

end
