(* ===== verification/Lane_Claims.thy ===== *)
theory Lane_Claims
  imports Lanes Invariant Sample
begin

text \<open>
  Properties of columns: the key a new column gets, and the order a reorder establishes.
\<close>

section \<open>The key of a new column\<close>

lemma next_free_least:
  "\<exists>n. next_free base taken suffix = numbered base n \<and> suffix \<le> n \<and> numbered base n \<notin> set taken
     \<and> (\<forall>m. suffix \<le> m \<and> m < n \<longrightarrow> numbered base m \<in> set taken)"
proof (induction base taken suffix rule: next_free.induct)
  case (1 base taken suffix)
  show ?case
  proof (cases "numbered base suffix \<in> set taken")
    case True
    with 1 obtain n where "next_free base taken suffix = numbered base n" "Suc suffix \<le> n"
      "numbered base n \<notin> set taken" "\<forall>m. Suc suffix \<le> m \<and> m < n \<longrightarrow> numbered base m \<in> set taken"
      by (auto simp: next_free.simps[of base taken suffix])
    with True show ?thesis by (metis Suc_leD le_neq_implies_less Suc_leI)
  qed (auto simp: next_free.simps[of base taken suffix])
qed

lemma numbered_bound:
  assumes "\<forall>m. 2 \<le> m \<and> m < n \<longrightarrow> numbered base m \<in> set taken" and "base \<in> set taken" and "2 \<le> n"
  shows "n \<le> Suc (card (set taken))"
proof -
  have b: "base \<noteq> numbered base m" for m by (simp add: numbered_def)
  have "insert base (numbered base ` {2..<n}) \<subseteq> set taken" using assms by auto
  then have "card (insert base (numbered base ` {2..<n})) \<le> card (set taken)" by (simp add: card_mono)
  moreover have "card (numbered base ` {2..<n}) = n - 2"
    by (subst card_image) (auto simp: inj_on_def numbered_inj)
  moreover have "base \<notin> numbered base ` {2..<n}" using b by blast
  ultimately have "Suc (n - 2) \<le> card (set taken)" by simp
  then show ?thesis using assms(3) by linarith
qed

definition slug_char :: "char \<Rightarrow> bool" where
  "slug_char c \<longleftrightarrow> is_lower_letter c \<or> is_digit c \<or> c = CHR ''_''"

lemma squeeze_slug: "\<forall>c \<in> set (squeeze s). slug_char c"
  by (induction s rule: squeeze.induct) (auto simp: slug_char_def key_char_def)

lemma strip_slug: "\<forall>c \<in> set s. slug_char c \<Longrightarrow> \<forall>c \<in> set (strip_underscores s). slug_char c"
  by (auto simp: strip_underscores_def dest!: set_dropWhileD)

lemma strip_head: "strip_underscores s \<noteq> [] \<Longrightarrow> hd (strip_underscores s) \<noteq> CHR ''_''"
proof -
  let ?a = "dropWhile (\<lambda>c. c = CHR ''_'') s" and ?u = "\<lambda>c. c = CHR ''_''"
  assume n: "strip_underscores s \<noteq> []"
  have a: "?a \<noteq> []"
  proof
    assume "?a = []"
    then have "strip_underscores s = []"
      unfolding strip_underscores_def by (simp only: rev.simps dropWhile.simps)
    with n show False by simp
  qed
  then have h: "\<not> ?u (hd ?a)" by (rule hd_dropWhile)
  have "rev ?a = takeWhile ?u (rev ?a) @ dropWhile ?u (rev ?a)" by (rule takeWhile_dropWhile_id[symmetric])
  then have "rev (rev ?a) = rev (dropWhile ?u (rev ?a)) @ rev (takeWhile ?u (rev ?a))"
    by (metis rev_append)
  then have "?a = strip_underscores s @ rev (takeWhile ?u (rev ?a))"
    by (simp only: strip_underscores_def rev_rev_ident)
  then have "hd ?a = hd (strip_underscores s)" using n by (metis (no_types) hd_append2)
  with h show ?thesis by simp
qed

lemma lane_prefix: "\<forall>c \<in> set ''lane_''. slug_char c" "is_lower_letter (hd ''lane_'')"
  "\<forall>c \<in> set ''lane''. slug_char c" "is_lower_letter (hd ''lane'')"
  by (simp_all add: slug_char_def is_lower_letter_def)

lemma letter_first_slug:
  assumes "\<forall>c \<in> set s. slug_char c" and "s \<noteq> [] \<Longrightarrow> hd s \<noteq> CHR ''_''"
  shows "(\<forall>c \<in> set (letter_first s). slug_char c)
    \<and> (letter_first s \<noteq> [] \<longrightarrow> is_lower_letter (hd (letter_first s)))"
proof (cases s)
  case (Cons c cs)
  show ?thesis
  proof (cases "is_digit c")
    case True
    then have "letter_first s = ''lane_'' @ s" by (simp add: letter_first_def Cons)
    then show ?thesis using assms(1) lane_prefix(1,2) unfolding set_append by auto
  next
    case False
    then have "letter_first s = s" by (simp add: letter_first_def Cons)
    moreover have "is_lower_letter c" using assms Cons False by (simp add: slug_char_def)
    ultimately show ?thesis using assms(1) Cons by simp
  qed
qed (simp add: letter_first_def)

lemma lane_base_slug: "\<forall>c \<in> set (lane_base label). slug_char c" "lane_base label \<noteq> []"
  "is_lower_letter (hd (lane_base label))" "length (lane_base label) \<le> 36"
proof -
  let ?t = "letter_first (strip_underscores (squeeze (to_lower label)))"
  have t: "\<forall>c \<in> set ?t. slug_char c" "?t \<noteq> [] \<longrightarrow> is_lower_letter (hd ?t)"
    using letter_first_slug[OF strip_slug[OF squeeze_slug] strip_head] by simp_all
  have "lane_base label = ''lane'' \<or> ?t \<noteq> [] \<and> lane_base label = take 36 ?t"
    by (auto simp: lane_base_def Let_def)
  then have "(\<forall>c \<in> set (lane_base label). slug_char c) \<and> lane_base label \<noteq> []
      \<and> is_lower_letter (hd (lane_base label)) \<and> length (lane_base label) \<le> 36"
  proof
    assume "lane_base label = ''lane''"
    with lane_prefix(3,4) show ?thesis by simp
  next
    assume *: "?t \<noteq> [] \<and> lane_base label = take 36 ?t"
    then have "hd (lane_base label) = hd ?t" by (simp add: hd_take)
    with * t show ?thesis by (auto dest: in_set_takeD)
  qed
  then show "\<forall>c \<in> set (lane_base label). slug_char c" "lane_base label \<noteq> []"
    "is_lower_letter (hd (lane_base label))" "length (lane_base label) \<le> 36" by simp_all
qed

lemma is_slug_iff:
  "is_slug s \<longleftrightarrow> s \<noteq> [] \<and> is_lower_letter (hd s) \<and> (\<forall>c \<in> set s. slug_char c) \<and> length s \<le> 40"
  by (cases s) (auto simp: slug_char_def)

lemma numbered_slug: "n < 1000 \<Longrightarrow> is_slug (numbered (lane_base label) n)"
  using lane_base_slug[of label] decimal_digits[of n] decimal_short[of n]
  by (auto simp: is_slug_iff numbered_def slug_char_def)

lemma base_slug: "is_slug (lane_base label)"
  using lane_base_slug[of label] by (simp add: is_slug_iff)

lemma uniqueLaneKey_iff:
  "uniqueLaneKey label taken = Inr k \<longleftrightarrow> is_slug k
     \<and> k = (if lane_base label \<in> set taken then next_free (lane_base label) taken 2 else lane_base label)"
  by (auto simp: uniqueLaneKey_def Let_def laneKeySchema_def run_simps)

text \<open>C28: the key of a new column is found for every label on every board of fewer than 999
  columns: the loop ends, and its key is a valid slug that no column of the board has; it is
  the slug of the label itself when that is free, and otherwise carries the least free number.\<close>

theorem lane_key_found:
  "(card (set taken) < 999 \<longrightarrow> (\<exists>k. uniqueLaneKey label taken = Inr k))
   \<and> (\<forall>k. uniqueLaneKey label taken = Inr k \<longrightarrow> k \<notin> set taken \<and> is_slug k
        \<and> (if lane_base label \<notin> set taken then k = lane_base label
           else \<exists>n \<ge> 2. k = lane_base label @ ''_'' @ decimal n
             \<and> (\<forall>m. 2 \<le> m \<and> m < n \<longrightarrow> lane_base label @ ''_'' @ decimal m \<in> set taken)))"
proof -
  let ?b = "lane_base label"
  from next_free_least[of ?b taken 2] obtain n where n: "next_free ?b taken 2 = numbered ?b n" "2 \<le> n"
    "numbered ?b n \<notin> set taken" "\<forall>m. 2 \<le> m \<and> m < n \<longrightarrow> numbered ?b m \<in> set taken" by blast
  have ok: "is_slug (numbered ?b n)" if "card (set taken) < 999" "?b \<in> set taken"
    using numbered_slug[of n label] numbered_bound[OF n(4) that(2) n(2)] that(1) by simp
  show ?thesis
  proof (cases "?b \<in> set taken")
    case True
    with ok n show ?thesis unfolding uniqueLaneKey_iff by (auto simp: numbered_def)
  next
    case False
    with base_slug[of label] show ?thesis unfolding uniqueLaneKey_iff by simp
  qed
qed

theorem lane_key_found_witness:
  "uniqueLaneKey ''2nd  Review!'' [''review''] = Inr ''lane_2nd_review''
   \<and> uniqueLaneKey ''Review'' [''review'', ''review_2'', ''done''] = Inr ''review_3''"
proof -
  have b: "lane_base ''2nd  Review!'' = ''lane_2nd_review''" "lane_base ''Review'' = ''review''" by code_simp+
  have "card (set [''review'', ''review_2'', ''done'']) < 999" by simp
  then obtain k where k: "uniqueLaneKey ''Review'' [''review'', ''review_2'', ''done''] = Inr k"
    using lane_key_found[of "[''review'', ''review_2'', ''done'']" "''Review''"] by blast
  then obtain n where n: "n \<ge> 2" "k = ''review_'' @ decimal n" "k \<notin> set [''review'', ''review_2'', ''done'']"
      "\<forall>m. 2 \<le> m \<and> m < n \<longrightarrow> ''review_'' @ decimal m \<in> set [''review'', ''review_2'', ''done'']"
    using lane_key_found[of "[''review'', ''review_2'', ''done'']" "''Review''"] b(2) by auto
  have d: "decimal 2 = ''2''" "decimal 3 = ''3''" by code_simp+
  have "n \<noteq> 2" using n d by auto
  moreover have "\<not> 3 < n" using n(4) d by auto
  ultimately have "n = 3" using n(1) by linarith
  with k n d show ?thesis using lane_key_found[of "[''review'']" "''2nd  Review!''"] b(1) by auto
qed

section \<open>The order of the columns\<close>

definition moved_lane :: "uuid \<Rightarrow> uuid \<Rightarrow> int \<Rightarrow> lane \<Rightarrow> lane" where
  "moved_lane boardId i n l =
     (if l_boardId l = boardId \<and> l_id l = i then l\<lparr>l_position := n\<rparr> else l)"

lemma moved_lane_kept [simp]:
  "l_id (moved_lane b i n l) = l_id l" "l_boardId (moved_lane b i n l) = l_boardId l"
  "(moved_lane b i n l)\<lparr>l_position := p\<rparr> = l\<lparr>l_position := p\<rparr>"
  by (simp_all add: moved_lane_def)

lemma set_positions_moved:
  "set_positions b (i # is) n ls = set_positions b is (n + 1) (map (moved_lane b i n) ls)"
  by (simp add: moved_lane_def[abs_def])

lemma set_positions_fields:
  "map (\<lambda>l. l\<lparr>l_position := p\<rparr>) (set_positions b is n ls) = map (\<lambda>l. l\<lparr>l_position := p\<rparr>) ls"
  by (induction "is" arbitrary: n ls) (simp_all add: set_positions_moved comp_def del: set_positions.simps(2))

lemma set_positions_keep:
  "l_boardId l \<noteq> b \<or> l_id l \<notin> set is \<Longrightarrow> l \<in> set ls \<Longrightarrow> l \<in> set (set_positions b is n ls)"
proof (induction "is" arbitrary: n ls)
  case (Cons i "is")
  then have "moved_lane b i n l = l" by (auto simp: moved_lane_def)
  with Cons.prems(2) have "l \<in> set (map (moved_lane b i n) ls)" by force
  with Cons show ?case by (simp add: set_positions_moved del: set_positions.simps(2))
qed simp

lemma set_positions_other:
  "l \<in> set (set_positions b is n ls) \<Longrightarrow> l_boardId l \<noteq> b \<or> l_id l \<notin> set is \<Longrightarrow> l \<in> set ls"
proof (induction "is" arbitrary: n ls)
  case (Cons i "is")
  have "l \<in> set (map (moved_lane b i n) ls)"
  proof (rule Cons.IH)
    show "l \<in> set (set_positions b is (n + 1) (map (moved_lane b i n) ls))"
      using Cons.prems(1) by (simp only: set_positions_moved)
    show "l_boardId l \<noteq> b \<or> l_id l \<notin> set is" using Cons.prems(2) by simp
  qed
  then obtain x where x: "x \<in> set ls" "l = moved_lane b i n x" by auto
  with Cons.prems(2) have "\<not> (l_boardId x = b \<and> l_id x = i)" by auto
  then have "moved_lane b i n x = x" unfolding moved_lane_def by (rule if_not_P)
  with x show ?case by simp
qed simp

lemma set_positions_at:
  assumes "l \<in> set (set_positions b is n ls)" and "distinct is" and "l_boardId l = b" and "l_id l \<in> set is"
  shows "\<exists>k < length is. l_id l = is ! k \<and> l_position l = n + int k"
  using assms
proof (induction "is" arbitrary: n ls)
  case (Cons i "is")
  then have l: "l \<in> set (set_positions b is (n + 1) (map (moved_lane b i n) ls))"
    by (simp add: set_positions_moved del: set_positions.simps(2))
  show ?case
  proof (cases "l_id l = i")
    case True
    with Cons.prems have "l_id l \<notin> set is" by simp
    with set_positions_other[OF l] have "l \<in> set (map (moved_lane b i n) ls)" by simp
    then obtain x where x: "x \<in> set ls" "l = moved_lane b i n x" by auto
    have "l_boardId x = b \<and> l_id x = i" using x(2) True Cons.prems(3) by simp
    then have "l_position l = n" using x(2) by (simp add: moved_lane_def)
    with True show ?thesis by (intro exI[of _ 0]) simp
  next
    case False
    with Cons obtain k where "k < length is" "l_id l = is ! k" "l_position l = n + 1 + int k"
      using Cons.IH[OF l] by auto
    then show ?thesis by (intro exI[of _ "Suc k"]) simp
  qed
qed simp

text \<open>Sorted by position, lanes at the positions \<open>0, \<dots>, n - 1\<close> come in the order of their ids.\<close>

lemma sorted_ids:
  assumes at: "\<forall>l \<in> set L. \<exists>k < length is. l_id l = is ! k \<and> l_position l = int k"
    and "sorted (map l_position L)" and "distinct (map l_id L)" and "length L = length is"
  shows "map l_id L = is"
proof -
  have at': "l_id l = is ! nat (l_position l) \<and> l_position l \<in> int ` {0..<length is}" if "l \<in> set L" for l
    using bspec[OF at that] by force
  have ids: "map l_id L = map (\<lambda>p. is ! nat p) (map l_position L)" using at' by simp
  with assms(3) have d: "distinct (map l_position L)" using distinct_map by metis
  have "set (map l_position L) = int ` {0..<length is}"
  proof (rule card_subset_eq)
    show "set (map l_position L) \<subseteq> int ` {0..<length is}" using at' by auto
    have "card (set (map l_position L)) = length is" using distinct_card[OF d] assms(4) by simp
    then show "card (set (map l_position L)) = card (int ` {0..<length is})"
      by (simp add: card_image)
  qed simp
  then have "map l_position L = map int [0..<length is]"
    using assms(2) d by (intro sorted_distinct_set_unique) (simp_all add: distinct_map sorted_map)
  with ids have "map l_id L = map (\<lambda>p. is ! nat p) (map int [0..<length is])" by simp
  also have "\<dots> = is" by (simp add: comp_def map_nth)
  finally show ?thesis .
qed

lemma uniq_length: "length (uniq xs) = length xs \<Longrightarrow> distinct xs"
  by (metis card_distinct distinct_card distinct_uniq set_uniq)

lemma reorder_run:
  assumes "reorder_lanes E actor orderedIds w = (Inr ls, w')"
  shows "complete_order orderedIds (listLanes (e_boardId E) (w_db w))
    \<and> w_db w' = reorderLanes (e_boardId E) orderedIds (w_db w) \<and> ls = listLanes (e_boardId E) (w_db w')"
  using assms unfolding reorder_lanes_def reorder_tx_def parse_reorder_lanes_def run_simps by fastforce

text \<open>A reorder succeeds only for a list that names every column of the board exactly once,
  and then the board's columns stand in exactly that order, which is also the answer; key,
  label, WIP limit and identity of every column and all columns of other boards are as before.\<close>

theorem reorder_establishes:
  assumes "reorder_lanes E actor orderedIds w = (Inr ls, w')" and "lanes_ok (w_db w)"
  shows "map l_id ls = orderedIds \<and> ls = listLanes (e_boardId E) (w_db w')
    \<and> set orderedIds = l_id ` {l \<in> set (t_lanes (w_db w)). l_boardId l = e_boardId E}
    \<and> map (\<lambda>l. l\<lparr>l_position := 0\<rparr>) (t_lanes (w_db w')) = map (\<lambda>l. l\<lparr>l_position := 0\<rparr>) (t_lanes (w_db w))
    \<and> (\<forall>l. l_boardId l \<noteq> e_boardId E \<longrightarrow> l \<in> set (t_lanes (w_db w')) \<longleftrightarrow> l \<in> set (t_lanes (w_db w)))"
proof -
  let ?b = "e_boardId E" and ?d = "w_db w"
  from reorder_run[OF assms(1)] have full: "complete_order orderedIds (listLanes ?b ?d)"
    and d: "w_db w' = reorderLanes ?b orderedIds ?d" and ls: "ls = listLanes ?b (w_db w')" by simp_all
  let ?L = "filter (\<lambda>l. l_boardId l = ?b) (t_lanes ?d)"
  let ?L' = "filter (\<lambda>l. l_boardId l = ?b) (t_lanes (w_db w'))"
  have t: "t_lanes (w_db w') = set_positions ?b orderedIds 0 (t_lanes ?d)" by (simp add: d reorderLanes_def)
  have flat: "map (\<lambda>l. l\<lparr>l_position := 0\<rparr>) (t_lanes (w_db w')) = map (\<lambda>l. l\<lparr>l_position := 0\<rparr>) (t_lanes ?d)"
    unfolding t by (rule set_positions_fields)
  have same: "map (\<lambda>l. (l_boardId l, l_id l)) (t_lanes (w_db w')) = map (\<lambda>l. (l_boardId l, l_id l)) (t_lanes ?d)"
    using arg_cong[OF flat, of "map (\<lambda>l. (l_boardId l, l_id l))"] by (simp add: comp_def)
  have ids: "map l_id ?L' = map l_id ?L"
    using arg_cong[OF same, of "\<lambda>xs. map snd (filter (\<lambda>x. fst x = ?b) xs)"]
    by (simp add: filter_map comp_def)
  have dist: "distinct (map l_id ?L)" using assms(2) by (simp add: lanes_ok_def distinct_map_filter)
  have len: "length orderedIds = length ?L" and od: "distinct orderedIds" and sub: "set orderedIds \<subseteq> set (map l_id ?L)"
    using full by (auto simp: complete_order_def listLanes_def order_asc_def intro: uniq_length)
  have all: "set orderedIds = set (map l_id ?L)"
    using sub len distinct_card[OF od] distinct_card[OF dist] by (intro card_subset_eq) simp_all
  have "map l_id ls = orderedIds"
  proof (rule sorted_ids)
    show "\<forall>l \<in> set ls. \<exists>k < length orderedIds. l_id l = orderedIds ! k \<and> l_position l = int k"
    proof
      fix l assume "l \<in> set ls"
      then have l: "l \<in> set ?L'" by (simp add: ls listLanes_def)
      then have "l_id l \<in> set (map l_id ?L')" unfolding set_map by (rule imageI)
      then have "l_id l \<in> set orderedIds" by (simp only: ids all)
      moreover have "l \<in> set (set_positions ?b orderedIds 0 (t_lanes ?d))" "l_boardId l = ?b"
        using l by (simp_all add: t)
      ultimately have "\<exists>k < length orderedIds. l_id l = orderedIds ! k \<and> l_position l = 0 + int k"
        by (intro set_positions_at od)
      then show "\<exists>k < length orderedIds. l_id l = orderedIds ! k \<and> l_position l = int k"
        by (simp only: add_0)
    qed
    show "sorted (map l_position ls)" by (simp add: ls listLanes_def order_asc_def)
    show "length ls = length orderedIds"
      using arg_cong[OF ids, of length] len by (simp add: ls listLanes_def order_asc_def)
    have "distinct (map l_id ?L')" using ids dist by simp
    then show "distinct (map l_id ls)" by (simp add: ls listLanes_def order_asc_def distinct_map)
  qed
  moreover have "set orderedIds = l_id ` {l \<in> set (t_lanes ?d). l_boardId l = ?b}" using all by simp
  moreover have "\<forall>l. l_boardId l \<noteq> ?b \<longrightarrow> l \<in> set (t_lanes (w_db w')) \<longleftrightarrow> l \<in> set (t_lanes ?d)"
    unfolding t using set_positions_keep set_positions_other by blast
  ultimately show ?thesis using ls flat by blast
qed

end
