(* ===== verification/Policy_Claims.thy ===== *)
theory Policy_Claims
  imports Policies Sample
begin

text \<open>
  What applying a policy establishes, and what it may take away: the newest version of a
  board's document is the active one, roles in use and waiting reasons in use stay defined; and
  the one grant the schema insists on is not the grant that applying a policy needs.
\<close>

section \<open>The newest version\<close>

lemma greatest_is_first:
  assumes "r \<in> set rows" and "\<forall>x \<in> set rows. x \<noteq> r \<longrightarrow> f x < f r"
  shows "first_of (order_desc f rows) = Some r"
proof -
  have "order_desc f rows \<noteq> []" using assms(1) by auto
  then obtain x where x: "first_of (order_desc f rows) = Some x" by (metis first_of_None_iff not_None_eq)
  then have "x \<in> set rows" by (auto dest: first_of_SomeD)
  moreover have "f r \<le> f x" using first_of_desc_greatest[OF x assms(1)] .
  ultimately have "x = r" using assms(2) by fastforce
  with x show ?thesis by simp
qed

definition version_key :: "board_policy \<Rightarrow> instant \<times> uuid" where
  "version_key p = (bp_createdAt p, bp_id p)"

lemma getActive_newest:
  assumes "p \<in> set (t_policies d)" and "bp_boardId p = b"
    and "\<forall>x \<in> set (t_policies d). bp_boardId x = b \<longrightarrow> x \<noteq> p \<longrightarrow> version_key x < version_key p"
  shows "getActive b d = Some p"
  unfolding getActive_def using assms by (intro greatest_is_first) (auto simp: version_key_def)

lemma getActive_same_rows:
  "filter (\<lambda>p. bp_boardId p = b) (t_policies d') = filter (\<lambda>p. bp_boardId p = b) (t_policies d) \<Longrightarrow>
     getActive b d' = getActive b d"
  by (simp add: getActive_def)

section \<open>The transaction\<close>

lemma drop_defaults:
  assumes "for_each roles (\<lambda>role. if p role then put_db (setDefault DRole (SubjRole (r_key role)) None)
      else return ()) w = (Inr u, w')"
  shows "\<exists>rows. w' = w\<lparr>w_db := (w_db w)\<lparr>t_defaults := rows\<rparr>\<rparr>"
  using assms
proof (induction roles arbitrary: w)
  case Nil
  then have "w' = w\<lparr>w_db := (w_db w)\<lparr>t_defaults := t_defaults (w_db w)\<rparr>\<rparr>" by (simp add: run_simps)
  then show ?case ..
next
  case (Cons r rs)
  then obtain w1 where w1: "w1 = w \<or> w1 = w\<lparr>w_db := setDefault DRole (SubjRole (r_key r)) None (w_db w)\<rparr>"
    and rest: "for_each rs (\<lambda>role. if p role then put_db (setDefault DRole (SubjRole (r_key role)) None)
      else return ()) w1 = (Inr u, w')"
    by (auto simp: run_simps split: if_splits)
  from Cons.IH[OF rest] w1 show ?case by (auto simp: setDefault_def)
qed

lemma ask_bind: "f (w_db w) = Inr x \<Longrightarrow> bind (ask f) g w = g x w"
  by (simp add: bind_def ask_def)

definition merged_version :: "env \<Rightarrow> actor \<Rightarrow> policy_document \<Rightarrow> uuid \<Rightarrow> instant \<Rightarrow> board_policy" where
  "merged_version E actor merged i t = \<lparr>bp_id = i, bp_boardId = e_boardId E, bp_config = merged,
     bp_createdBy = a_id actor, bp_createdAt = t\<rparr>"

text \<open>One version for the board, and one for the default board when the roles changed elsewhere.\<close>

lemma policy_tx_run:
  assumes "policy_tx E actor config w = (Inr v, w')"
  shows "\<exists>authority global merged i j rows. policy_plan E actor config (w_db w) = Inr (authority, global, merged)
    \<and> v = merged_version E actor merged i (e_clock E (w_ticks w))
    \<and> w_db w' = (w_db w)\<lparr>t_defaults := rows, t_policies := t_policies (w_db w) @ v #
        (if b_id authority \<noteq> e_boardId E \<and> p_roles global \<noteq> p_roles merged
         then [v\<lparr>bp_id := j, bp_boardId := b_id authority, bp_config := global\<lparr>p_roles := p_roles merged\<rparr>\<rparr>]
         else [])\<rparr>"
proof -
  from assms obtain authority global merged where
    plan: "policy_plan E actor config (w_db w) = Inr (authority, global, merged)"
    by (cases "policy_plan E actor config (w_db w)") (auto simp: policy_tx_def bind_def ask_def)
  from assms[unfolded policy_tx_def ask_bind[of "policy_plan E actor config", OF plan] prod.case] obtain w1 where
    loop: "for_each (p_roles global) (\<lambda>role. if r_key role \<notin> set (map r_key (p_roles merged))
        then put_db (setDefault DRole (SubjRole (r_key role)) None) else return ()) w = (Inr (), w1)"
    and rest: "bind (newId E) (\<lambda>i. bind (now E) (\<lambda>t.
       let version = merged_version E actor merged i t in
       bind (store (insertPolicy version)) (\<lambda>_.
       bind (if b_id authority \<noteq> e_boardId E \<and> p_roles global \<noteq> p_roles merged
         then bind (newId E) (\<lambda>j. store (insertPolicy (version\<lparr>bp_id := j, bp_boardId := b_id authority,
           bp_config := global\<lparr>p_roles := p_roles merged\<rparr>\<rparr>)))
         else return ()) (\<lambda>_. return version)))) w1 = (Inr v, w')"
    unfolding merged_version_def bind_Inr_iff[of "for_each _ _"] by auto
  from drop_defaults[OF loop] obtain rows where w1: "w1 = w\<lparr>w_db := (w_db w)\<lparr>t_defaults := rows\<rparr>\<rparr>" by blast
  from rest show ?thesis unfolding w1
    by (intro exI[of _ authority] exI[of _ global] exI[of _ merged] exI[of _ "e_newId E (w_ids w)"]
        exI[of _ "e_newId E (Suc (w_ids w))"] exI[of _ rows])
      (auto simp: plan run_simps Let_def insertPolicy_def split: if_splits)
qed

lemma policy_plan_iff:
  "policy_plan E actor config d = Inr (authority, global, merged) \<longleftrightarrow>
     getDefault d = Some authority
     \<and> (\<exists>g current. getActive (b_id authority) d = Some g \<and> global = bp_config g
          \<and> (\<exists>b. findBoard (e_boardId E) d = Some b \<and> canAccessBoard actor b d = Inr True)
          \<and> getActive (e_boardId E) d = Some current
          \<and> permitted actor PermManagePolicy (bp_config g)
          \<and> merged = retire_reasons (bp_config current) config
          \<and> ensureNoOrphanedRole (map r_key (p_roles config)) d = Inr ())"
  by (auto simp: policy_plan_def run_simps Let_def gated_action[of ActManagePolicy PermManagePolicy]
      retire_reasons_def)

lemma apply_run:
  assumes "apply_policy E actor raw w = (Inr v, w')"
  shows "\<exists>config w1. parse_policy_document raw = Inr config \<and> policy_tx E actor config w = (Inr v, w1)
    \<and> w_db w' = w_db w1"
  using assms by (auto simp: apply_policy_def run_simps)

text \<open>C30: an accepted policy becomes the active one of the board in full, its roles become the
  roles of every board, and every earlier version is kept.  Only an actor whose role may manage
  policies can apply one; no active user, no live token and no board in use is left with a role
  the new document does not define; and every waiting reason the previous document knew is
  still defined, so that stored cards resolve it.\<close>

theorem policy_applied:
  assumes "apply_policy E actor raw w = (Inr v, w')"
    and "\<forall>x \<in> set (t_policies (w_db w)). bp_createdAt x < e_clock E (w_ticks w)"
  shows "activePolicy (e_boardId E) (w_db w') = Inr (bp_config v)
    \<and> (\<exists>g. globalPolicy (w_db w') = Inr g \<and> p_roles g = p_roles (bp_config v))
    \<and> (\<exists>new. t_policies (w_db w') = t_policies (w_db w) @ new)
    \<and> (\<exists>g. globalPolicy (w_db w) = Inr g \<and> permitted actor PermManagePolicy g)
    \<and> (let known = r_key ` set (p_roles (bp_config v)) in
        (\<forall>a \<in> set (t_users (w_db w')). u_isActive (acc_user a) \<longrightarrow> u_role (acc_user a) \<in> known)
        \<and> (\<forall>k \<in> set (t_tokens (w_db w')). st_revokedAt k = None \<longrightarrow> st_role k \<in> known)
        \<and> (\<forall>b \<in> set (t_boards (w_db w')). b_archivedAt b = None \<longrightarrow> set (b_allowedRoleKeys b) \<subseteq> known))
    \<and> (\<forall>old. getActive (e_boardId E) (w_db w) = Some old \<longrightarrow>
        wr_key ` set (p_waitingReasons (bp_config old)) \<subseteq> wr_key ` set (p_waitingReasons (bp_config v)))"
proof -
  let ?d = "w_db w" and ?t = "e_clock E (w_ticks w)" and ?b = "e_boardId E"
  from apply_run[OF assms(1)] obtain config w1 where tx: "policy_tx E actor config w = (Inr v, w1)"
    and db': "w_db w' = w_db w1" by blast
  from policy_tx_run[OF tx] obtain authority global merged i j rows where
    plan: "policy_plan E actor config ?d = Inr (authority, global, merged)"
    and v: "v = merged_version E actor merged i ?t"
    and db: "w_db w' = ?d\<lparr>t_defaults := rows, t_policies := t_policies ?d @ v #
        (if b_id authority \<noteq> ?b \<and> p_roles global \<noteq> p_roles merged
         then [v\<lparr>bp_id := j, bp_boardId := b_id authority, bp_config := global\<lparr>p_roles := p_roles merged\<rparr>\<rparr>]
         else [])\<rparr>" unfolding db' by blast
  let ?other = "v\<lparr>bp_id := j, bp_boardId := b_id authority, bp_config := global\<lparr>p_roles := p_roles merged\<rparr>\<rparr>"
  from plan obtain g current where p: "getDefault ?d = Some authority" "getActive (b_id authority) ?d = Some g"
    "global = bp_config g" "getActive ?b ?d = Some current" "permitted actor PermManagePolicy (bp_config g)"
    "merged = retire_reasons (bp_config current) config"
    "ensureNoOrphanedRole (map r_key (p_roles config)) ?d = Inr ()"
    unfolding policy_plan_iff by blast
  have conf: "bp_config v = merged" "bp_boardId v = ?b" "bp_createdAt v = ?t"
    by (simp_all add: v merged_version_def)
  have roles: "p_roles merged = p_roles config" by (simp add: p(6) retire_reasons_def)
  have mine: "getActive ?b (w_db w') = Some v"
    using assms(2) conf by (intro getActive_newest) (auto simp: db version_key_def less_prod_def' split: if_splits)
  have def: "getDefault (w_db w') = Some authority" using p(1) by (simp add: db getDefault_def)
  have "\<exists>g'. getActive (b_id authority) (w_db w') = Some g' \<and> p_roles (bp_config g') = p_roles merged"
  proof (cases "b_id authority = ?b")
    case True
    with mine conf show ?thesis by simp
  next
    case other: False
    show ?thesis
    proof (cases "p_roles global = p_roles merged")
      case True
      have "getActive (b_id authority) (w_db w') = getActive (b_id authority) ?d"
        using True other conf by (intro getActive_same_rows) (simp add: db)
      with p(2,3) True show ?thesis by simp
    next
      case False
      have "getActive (b_id authority) (w_db w') = Some ?other"
        using assms(2) conf other False
        by (intro getActive_newest) (auto simp: db version_key_def less_prod_def')
      then show ?thesis by simp
    qed
  qed
  then obtain g' where g': "getActive (b_id authority) (w_db w') = Some g'"
    "p_roles (bp_config g') = p_roles merged" by blast
  have glob: "globalPolicy (w_db w') = Inr (bp_config g')" by (simp add: globalPolicy_def def g'(1) run_simps)
  have "activePolicy ?b (w_db w') = Inr (bp_config v)"
    using glob mine g'(2) conf(1) by (simp add: activePolicy_def run_simps)
  moreover have "globalPolicy ?d = Inr (bp_config g)" by (simp add: globalPolicy_def p run_simps)
  moreover have "wr_key ` set (p_waitingReasons (bp_config current)) \<subseteq> wr_key ` set (p_waitingReasons merged)"
  proof
    fix k assume "k \<in> wr_key ` set (p_waitingReasons (bp_config current))"
    then obtain r where "r \<in> set (p_waitingReasons (bp_config current))" "wr_key r = k" by auto
    then show "k \<in> wr_key ` set (p_waitingReasons merged)"
      by (cases "k \<in> wr_key ` set (p_waitingReasons config)")
        (auto simp: p(6) retire_reasons_def image_Un image_image)
  qed
  ultimately show ?thesis using glob g'(2) p conf(1) roles
    by (auto simp: Let_def db ensureNoOrphanedRole_def run_simps listBoards_def listUsers_def listTokens_def)
qed

definition extended_document :: policy_document where
  "extended_document = DEFAULT_POLICY_DOCUMENT\<lparr>
     p_roles := p_roles DEFAULT_POLICY_DOCUMENT
       @ [\<lparr>r_key = ''guest'', r_name = ''Guest'', r_permissions = [PermCommentAdd]\<rparr>],
     p_waitingReasons := [\<lparr>wr_key = ''parts'', wr_label = ''Parts'', wr_active = True\<rparr>]\<rparr>"

theorem policy_applied_witness:
  "\<exists>v w'. apply_policy sample_env (actor_of_user (sample_user 1 ''admin'')) extended_document sample_world
      = (Inr v, w')
    \<and> activePolicy 10 (w_db w') = Inr (bp_config v)
    \<and> ''vendor'' \<in> wr_key ` set (p_waitingReasons (bp_config v))"
proof -
  have "returned (apply_policy sample_env (actor_of_user (sample_user 1 ''admin'')) extended_document)
      sample_world" by code_simp+
  then obtain v w' where run: "apply_policy sample_env (actor_of_user (sample_user 1 ''admin''))
      extended_document sample_world = (Inr v, w')" by (auto simp: returned_iff)
  have "\<forall>x \<in> set (t_policies (w_db sample_world)). bp_createdAt x < e_clock sample_env (w_ticks sample_world)"
    by code_simp+
  note th = policy_applied[OF run this]
  have "case getActive (e_boardId sample_env) (w_db sample_world) of None \<Rightarrow> False
      | Some old \<Rightarrow> ''vendor'' \<in> set (map wr_key (p_waitingReasons (bp_config old)))" by code_simp+
  then obtain old where "getActive (e_boardId sample_env) (w_db sample_world) = Some old"
    "''vendor'' \<in> wr_key ` set (p_waitingReasons (bp_config old))" by (auto split: option.splits)
  with th have "''vendor'' \<in> wr_key ` set (p_waitingReasons (bp_config v))" by blast
  moreover have "e_boardId sample_env = 10" by (simp add: sample_env_def)
  ultimately show ?thesis using run th by metis
qed

section \<open>The grant the schema insists on\<close>

text \<open>
  The schema asks that some role grants \<open>manageRoles\<close>; applying a policy needs \<open>managePolicy\<close>.
  A document that keeps the one and drops the other is accepted, and then no actor but the
  system can ever apply a policy, and so none can edit roles.
\<close>

lemma nobody_applies:
  assumes "globalPolicy (w_db w) = Inr g" and "\<forall>r \<in> set (p_roles g). PermManagePolicy \<notin> set (r_permissions r)"
    and "a_kind actor \<noteq> KSystem"
  shows "apply_policy E actor doc w \<noteq> (Inr v, w')"
proof
  assume "apply_policy E actor doc w = (Inr v, w')"
  from apply_run[OF this] obtain config w1 where "policy_tx E actor config w = (Inr v, w1)" by blast
  from policy_tx_run[OF this] obtain authority global merged where
    "policy_plan E actor config (w_db w) = Inr (authority, global, merged)" by blast
  then obtain x where "getDefault (w_db w) = Some authority" "getActive (b_id authority) (w_db w) = Some x"
    "permitted actor PermManagePolicy (bp_config x)" unfolding policy_plan_iff by blast
  with assms(1,3) have "holds_permission actor PermManagePolicy g"
    by (auto simp: globalPolicy_def run_simps permitted_def)
  with assms(2) show False
    by (auto simp: holds_permission_def find_Some_iff split: option.splits)
qed

definition locked_document :: policy_document where
  "locked_document = DEFAULT_POLICY_DOCUMENT\<lparr>p_roles :=
     map (\<lambda>r. r\<lparr>r_permissions := filter (\<lambda>p. p \<noteq> PermManagePolicy) (r_permissions r)\<rparr>)
       (p_roles DEFAULT_POLICY_DOCUMENT)\<rparr>"

lemma policy_lockout:
  "\<exists>v w'. apply_policy sample_env (actor_of_user (sample_user 1 ''admin'')) locked_document sample_world
      = (Inr v, w')
    \<and> (\<exists>r \<in> set (p_roles (bp_config v)). PermManageRoles \<in> set (r_permissions r))
    \<and> (\<forall>actor doc v1 w1. a_kind actor \<noteq> KSystem \<longrightarrow> apply_policy sample_env actor doc w' \<noteq> (Inr v1, w1))"
proof -
  let ?go = "apply_policy sample_env (actor_of_user (sample_user 1 ''admin'')) locked_document sample_world"
  have "case ?go of (Inr v, w') \<Rightarrow> (\<exists>r \<in> set (p_roles (bp_config v)). PermManageRoles \<in> set (r_permissions r))
      \<and> (case globalPolicy (w_db w') of Inl e \<Rightarrow> False
         | Inr g \<Rightarrow> \<forall>r \<in> set (p_roles g). PermManagePolicy \<notin> set (r_permissions r)) | _ \<Rightarrow> False"
    by code_simp+
  then obtain v w' g where "?go = (Inr v, w')" "\<exists>r \<in> set (p_roles (bp_config v)). PermManageRoles \<in> set (r_permissions r)"
    "globalPolicy (w_db w') = Inr g" "\<forall>r \<in> set (p_roles g). PermManagePolicy \<notin> set (r_permissions r)"
    by (auto split: prod.splits sum.splits)
  with nobody_applies show ?thesis by blast
qed

end
