(* ===== verification/Board_Claims.thy ===== *)
theory Board_Claims
  imports Boards Sample
begin

text \<open>
  What the catalog shows: the boards the actor can see, nothing about who else can see them,
  and a board to start on that is one of them.
\<close>

lemma sfilter_passed:
  "sfilter p xs = Inr ys \<Longrightarrow> ys = filter (\<lambda>x. p x = Inr True) xs \<and> (\<forall>x \<in> set xs. \<exists>b. p x = Inr b)"
  by (induction xs arbitrary: ys) (auto simp: run_simps)

lemma catalog_parts:
  assumes "catalog actor d = Inr c"
  shows "\<exists>g boards. globalPolicy d = Inr g \<and> boards = filter (\<lambda>b. canAccessBoard actor b d = Inr True) (listBoards d)
    \<and> cat_canManage c = hasPermission actor PermManagePolicy g
    \<and> cat_items c = (if cat_canManage c then boards else map without_access boards)
    \<and> (\<exists>allowed. allowed = filter (\<lambda>r. bd_boardId r \<in> b_id ` set (cat_items c))
           (listDefaults (if a_kind actor = KUser then Some (a_id actor) else None) d)
        \<and> cat_preferredBoardId c = board_of (\<lambda>r. bd_scope r = DUser) allowed
        \<and> cat_defaultBoardId c = (case find (\<lambda>c. snd c \<noteq> None) (default_candidates actor allowed d) of
             Some x \<Rightarrow> snd x | None \<Rightarrow> map_option b_id (first_of (cat_items c)))
        \<and> cat_defaultAssignments c = filter (\<lambda>r. bd_scope r = DApplication
             \<or> cat_canManage c \<and> bd_scope r \<noteq> DUser) allowed)"
proof -
  from assms obtain g boards where g: "globalPolicy d = Inr g"
    and f: "sfilter (\<lambda>b. canAccessBoard actor b d) (listBoards d) = Inr boards"
    by (auto simp: catalog_def run_simps Let_def)
  from sfilter_passed[OF f] have b: "boards = filter (\<lambda>b. canAccessBoard actor b d = Inr True) (listBoards d)"
    by simp
  define items where "items = (if hasPermission actor PermManagePolicy g then boards else map without_access boards)"
  define allowed where "allowed = filter (\<lambda>r. bd_boardId r \<in> b_id ` set items)
      (listDefaults (if a_kind actor = KUser then Some (a_id actor) else None) d)"
  have c: "cat_canManage c = hasPermission actor PermManagePolicy g" "cat_items c = items"
    "cat_preferredBoardId c = board_of (\<lambda>r. bd_scope r = DUser) allowed"
    "cat_defaultBoardId c = (case find (\<lambda>c. snd c \<noteq> None) (default_candidates actor allowed d) of
       Some x \<Rightarrow> snd x | None \<Rightarrow> map_option b_id (first_of items))"
    "cat_defaultAssignments c = filter (\<lambda>r. bd_scope r = DApplication
       \<or> hasPermission actor PermManagePolicy g \<and> bd_scope r \<noteq> DUser) allowed"
    using assms unfolding catalog_def g f Let_def sbind_simps items_def[symmetric] allowed_def[symmetric]
    by auto
  show ?thesis
    by (intro exI[of _ g] exI[of _ boards] exI[of _ allowed] conjI g b)
      (simp_all only: c items_def allowed_def)
qed

lemma without_access_id [simp]: "b_id (without_access b) = b_id b"
  by (simp add: without_access_def)

lemma board_of_SomeD: "board_of p rows = Some b \<Longrightarrow> \<exists>r \<in> set rows. p r \<and> bd_boardId r = b"
  by (auto simp: board_of_def find_Some_iff)

lemma candidate_in:
  assumes "find (\<lambda>c. snd c \<noteq> None) (default_candidates actor rows d) = Some x" and "snd x = Some b"
  shows "b \<in> bd_boardId ` set rows"
proof -
  have g: "b \<in> bd_boardId ` set rows" if "group_boards actor rows d = [b]"
  proof -
    have "b \<in> set (group_boards actor rows d)" using that by simp
    then show ?thesis by (auto simp: group_boards_def split: if_splits)
  qed
  from assms(1) have "x \<in> set (default_candidates actor rows d)" by (auto simp: find_Some_iff)
  with assms(2) show ?thesis
    by (auto simp: default_candidates_def dest!: board_of_SomeD intro: g split: list.splits)
qed

text \<open>C31: the board catalog of an actor lists exactly the live boards that actor can see, in the
  order of their creation; it shows who else can see them only to those who may manage boards;
  the board to start on is always one of the listed, and there is one when any is listed; the
  assignments shown name listed boards only, and never the choice of another user.\<close>

theorem catalog_discreet:
  assumes "list_boards actor w = (Inr c, w')"
  shows "map b_id (cat_items c)
      = map b_id (filter (\<lambda>b. canAccessBoard actor b (w_db w) = Inr True) (listBoards (w_db w)))
    \<and> (\<not> cat_canManage c \<longrightarrow> (\<forall>b \<in> set (cat_items c).
        b_allowedRoleKeys b = [] \<and> b_allowedUserIds b = [] \<and> b_allowedGroupIds b = []))
    \<and> (cat_canManage c \<longrightarrow> a_kind actor = KSystem
        \<or> (\<exists>g. globalPolicy (w_db w) = Inr g \<and> holds_permission actor PermManagePolicy g))
    \<and> (case cat_defaultBoardId c of None \<Rightarrow> cat_items c = [] | Some b \<Rightarrow> b \<in> b_id ` set (cat_items c))
    \<and> (\<forall>b. cat_preferredBoardId c = Some b \<longrightarrow> a_kind actor = KUser
        \<and> (\<exists>r \<in> set (t_defaults (w_db w)). bd_scope r = DUser \<and> bd_subject r = SubjId (a_id actor)
             \<and> bd_boardId r = b))
    \<and> (\<forall>r \<in> set (cat_defaultAssignments c). bd_boardId r \<in> b_id ` set (cat_items c)
        \<and> bd_scope r \<noteq> DUser \<and> (\<not> cat_canManage c \<longrightarrow> bd_scope r = DApplication))"
proof -
  let ?d = "w_db w"
  have "catalog actor ?d = Inr c" using assms by (simp add: list_boards_def uow_read_def ask_iff)
  from catalog_parts[OF this] obtain g boards allowed where g: "globalPolicy ?d = Inr g"
    and b: "boards = filter (\<lambda>b. canAccessBoard actor b ?d = Inr True) (listBoards ?d)"
    and m: "cat_canManage c = hasPermission actor PermManagePolicy g"
    and i: "cat_items c = (if cat_canManage c then boards else map without_access boards)"
    and al: "allowed = filter (\<lambda>r. bd_boardId r \<in> b_id ` set (cat_items c))
       (listDefaults (if a_kind actor = KUser then Some (a_id actor) else None) ?d)"
    and pr: "cat_preferredBoardId c = board_of (\<lambda>r. bd_scope r = DUser) allowed"
    and de: "cat_defaultBoardId c = (case find (\<lambda>c. snd c \<noteq> None) (default_candidates actor allowed ?d) of
       Some x \<Rightarrow> snd x | None \<Rightarrow> map_option b_id (first_of (cat_items c)))"
    and as: "cat_defaultAssignments c = filter (\<lambda>r. bd_scope r = DApplication
       \<or> cat_canManage c \<and> bd_scope r \<noteq> DUser) allowed" by blast
  have ids: "map b_id (cat_items c) = map b_id boards" by (simp add: i comp_def)
  have hidden: "\<not> cat_canManage c \<longrightarrow> (\<forall>b \<in> set (cat_items c).
      b_allowedRoleKeys b = [] \<and> b_allowedUserIds b = [] \<and> b_allowedGroupIds b = [])"
    by (auto simp: i without_access_def)
  have start: "case cat_defaultBoardId c of None \<Rightarrow> cat_items c = [] | Some b \<Rightarrow> b \<in> b_id ` set (cat_items c)"
  proof (cases "find (\<lambda>c. snd c \<noteq> None) (default_candidates actor allowed ?d)")
    case None
    then show ?thesis by (auto simp: de dest: first_of_SomeD split: option.split)
  next
    case (Some x)
    then obtain y where y: "snd x = Some y" by (auto simp: find_Some_iff)
    with candidate_in[OF Some] have "y \<in> bd_boardId ` set allowed" by blast
    then have "y \<in> b_id ` set (cat_items c)" by (auto simp: al)
    with Some y show ?thesis by (simp add: de)
  qed
  have mine: "a_kind actor = KUser \<and> (\<exists>r \<in> set (t_defaults ?d). bd_scope r = DUser
      \<and> bd_subject r = SubjId (a_id actor) \<and> bd_boardId r = y)" if "cat_preferredBoardId c = Some y" for y
  proof -
    from that obtain r where "r \<in> set allowed" "bd_scope r = DUser" "bd_boardId r = y"
      unfolding pr by (auto dest: board_of_SomeD)
    then show ?thesis by (auto simp: al listDefaults_def split: if_splits)
  qed
  have "\<forall>r \<in> set (cat_defaultAssignments c). bd_boardId r \<in> b_id ` set (cat_items c)
        \<and> bd_scope r \<noteq> DUser \<and> (\<not> cat_canManage c \<longrightarrow> bd_scope r = DApplication)"
    by (auto simp: as al)
  with ids b hidden start mine m g show ?thesis by (auto simp: hasPermission_iff)
qed

definition catalog_world :: world where
  "catalog_world = sample_world\<lparr>w_db := (w_db sample_world)\<lparr>
     t_boards := t_boards (w_db sample_world)
       @ [\<lparr>b_id = 11, b_name = ''Private'', b_isDefault = False, b_archivedAt = None,
           b_accessMode = AccessRestricted, b_allowedRoleKeys = [], b_allowedUserIds = [2],
           b_allowedGroupIds = [], b_createdAt = 5\<rparr>],
     t_defaults := [\<lparr>bd_scope = DUser, bd_subject = SubjId 2, bd_boardId = 11\<rparr>,
       \<lparr>bd_scope = DApplication, bd_subject = SubjAll, bd_boardId = 11\<rparr>]\<rparr>\<rparr>"

theorem catalog_discreet_witness:
  "(\<exists>c w'. list_boards (actor_of_user (sample_user 2 ''user'')) catalog_world = (Inr c, w')
      \<and> map b_id (cat_items c) = [10, 11] \<and> cat_defaultBoardId c = Some 11
      \<and> (\<forall>b \<in> set (cat_items c). b_allowedUserIds b = []))
   \<and> (\<exists>c w'. list_boards (actor_of_user (sample_user 3 ''user'')) catalog_world = (Inr c, w')
      \<and> map b_id (cat_items c) = [10] \<and> cat_defaultBoardId c = Some 10)"
proof
  let ?run = "\<lambda>u. list_boards (actor_of_user (sample_user u ''user'')) catalog_world"
  have two: "case ?run 2 of (Inr c, w') \<Rightarrow> map b_id (cat_items c) = [10, 11]
      \<and> cat_defaultBoardId c = Some 11 \<and> \<not> cat_canManage c | _ \<Rightarrow> False" by code_simp+
  then obtain c w' where c: "?run 2 = (Inr c, w')" "map b_id (cat_items c) = [10, 11]"
    "cat_defaultBoardId c = Some 11" "\<not> cat_canManage c" by (auto split: prod.splits sum.splits)
  have "\<forall>b \<in> set (cat_items c). b_allowedUserIds b = []"
    using catalog_discreet[OF c(1), THEN conjunct2, THEN conjunct1] c(4) by blast
  with c(1-3) show "\<exists>c w'. ?run 2 = (Inr c, w')
      \<and> map b_id (cat_items c) = [10, 11] \<and> cat_defaultBoardId c = Some 11
      \<and> (\<forall>b \<in> set (cat_items c). b_allowedUserIds b = [])"
    by (intro exI[of _ c] exI[of _ w'] conjI)
  have "case ?run 3 of (Inr c, w') \<Rightarrow> map b_id (cat_items c) = [10] | _ \<Rightarrow> False" by code_simp+
  then obtain c w' where c: "?run 3 = (Inr c, w')" "map b_id (cat_items c) = [10]"
    by (auto split: prod.splits sum.splits)
  have "b_id ` set (cat_items c) = {10}" using arg_cong[OF c(2), of set] by simp
  moreover have "cat_items c \<noteq> []" using c(2) by auto
  ultimately have "cat_defaultBoardId c = Some 10"
    using catalog_discreet[OF c(1), THEN conjunct2, THEN conjunct2, THEN conjunct2, THEN conjunct1]
    by (cases "cat_defaultBoardId c") simp_all
  with c(1,2) show "\<exists>c w'. ?run 3 = (Inr c, w') \<and> map b_id (cat_items c) = [10] \<and> cat_defaultBoardId c = Some 10"
    by (intro exI[of _ c] exI[of _ w'] conjI)
qed

end
