(* ===== verification/Search_Claims.thy ===== *)
theory Search_Claims
  imports Search Sample "HOL-Library.Sublist"
begin

text \<open>
  What a text search finds: the escaped pattern matches the typed text and nothing else.
\<close>

section \<open>The escaped pattern\<close>

definition escaped :: "char \<Rightarrow> string" where
  "escaped c = (if c \<in> {BACKSLASH, CHR ''%'', CHR ''_''} then [BACKSLASH, c] else [c])"

lemma BACKSLASH_distinct [simp]:
  "BACKSLASH \<noteq> CHR ''%''" "BACKSLASH \<noteq> CHR ''_''" "CHR ''%'' \<noteq> BACKSLASH" "CHR ''_'' \<noteq> BACKSLASH"
  by code_simp+

lemma replaceAll_append [simp]: "replaceAll c by (xs @ ys) = replaceAll c by xs @ replaceAll c by ys"
  by (simp add: replaceAll_def)

lemma escapeLike_Nil [simp]: "escapeLike [] = []"
  by (simp add: escapeLike_def replaceAll_def)

lemma escapeLike_Cons: "escapeLike (c # s) = escaped c @ escapeLike s"
proof -
  have "escapeLike (c # s) = escapeLike [c] @ escapeLike s"
    using replaceAll_append[of BACKSLASH _ "[c]" s] by (simp add: escapeLike_def)
  moreover have "escapeLike [c] = escaped c"
    by (simp add: escapeLike_def replaceAll_def escaped_def)
  ultimately show ?thesis by simp
qed

lemma lower_code: "of_char (lower_char c) = (if 65 \<le> (of_char c :: nat) \<and> of_char c \<le> (90 :: nat)
    then of_char c + 32 else (of_char c :: nat))"
  by (simp add: lower_char_def Let_def of_char_of)

definition special_codes :: "nat set" where
  "special_codes = {92, 37, 95}"

lemma special_char: "c \<in> {BACKSLASH, CHR ''%'', CHR ''_''} \<longleftrightarrow> of_char c \<in> special_codes"
proof -
  have "of_char BACKSLASH = (92 :: nat)" "of_char (CHR ''%'') = (37 :: nat)" "of_char (CHR ''_'') = (95 :: nat)"
    by code_simp+
  then have codes: "special_codes = of_char ` {BACKSLASH, CHR ''%'', CHR ''_''}"
    by (simp only: special_codes_def image_insert image_empty)
  show ?thesis unfolding codes by (rule inj_image_mem_iff[OF inj_of_char, symmetric])
qed

lemma lower_char_fixed: "lower_char c \<in> {BACKSLASH, CHR ''%'', CHR ''_''} \<longleftrightarrow> c \<in> {BACKSLASH, CHR ''%'', CHR ''_''}"
  unfolding special_char lower_code special_codes_def by auto

lemma lower_special: "c \<in> {BACKSLASH, CHR ''%'', CHR ''_''} \<Longrightarrow> lower_char c = c"
  unfolding special_char by (rule of_char_eq_iff[THEN iffD1, where 'a1 = nat])
    (auto simp: lower_code special_codes_def)

lemma like_percent: "like_match (CHR ''%'' # p) s \<longleftrightarrow> (\<exists>pre suf. s = pre @ suf \<and> like_match p suf)"
proof (induction s)
  case Nil
  show ?case by (subst like_match.simps) simp
next
  case (Cons x s)
  have "like_match (CHR ''%'' # p) (x # s) \<longleftrightarrow> like_match p (x # s) \<or> like_match (CHR ''%'' # p) s"
    by (subst like_match.simps) simp
  also have "\<dots> \<longleftrightarrow> (\<exists>pre suf. x # s = pre @ suf \<and> like_match p suf)"
    unfolding Cons.IH by (auto simp: Cons_eq_append_conv)
  finally show ?case .
qed

lemma like_escaped: "like_match (escaped c @ p) s \<longleftrightarrow>
    (\<exists>x s'. s = x # s' \<and> lower_char c = lower_char x \<and> like_match p s')"
  by (cases s) (auto simp: escaped_def like_match.simps(2))

lemma like_literal: "like_match (escapeLike q @ p) s \<longleftrightarrow>
    (\<exists>mid rest. s = mid @ rest \<and> to_lower mid = to_lower q \<and> like_match p rest)"
proof (induction q arbitrary: s)
  case (Cons c q)
  have "like_match (escapeLike (c # q) @ p) s \<longleftrightarrow> (\<exists>x s'. s = x # s' \<and> lower_char c = lower_char x
      \<and> (\<exists>mid rest. s' = mid @ rest \<and> to_lower mid = to_lower q \<and> like_match p rest))"
    by (simp add: escapeLike_Cons like_escaped Cons.IH)
  also have "\<dots> \<longleftrightarrow> (\<exists>mid rest. s = mid @ rest \<and> to_lower mid = to_lower (c # q) \<and> like_match p rest)"
    by (auto simp: to_lower_def map_eq_Cons_conv) (metis append_Cons)+
  finally show ?case .
qed (simp add: to_lower_def)

lemma to_lower_escapeLike: "to_lower (escapeLike q) = escapeLike (to_lower q)"
proof (induction q)
  case (Cons c q)
  have "to_lower (escaped c) = escaped (lower_char c)"
  proof (cases "c \<in> {BACKSLASH, CHR ''%'', CHR ''_''}")
    case True
    then have "lower_char c = c" "lower_char BACKSLASH = BACKSLASH" using lower_special by blast+
    with True show ?thesis by (simp add: escaped_def to_lower_def)
  next
    case False
    then show ?thesis using lower_char_fixed[of c] by (simp add: escaped_def to_lower_def)
  qed
  with Cons.IH show ?case by (simp add: escapeLike_Cons to_lower_def)
qed (simp add: to_lower_def)

text \<open>C34: a search text is taken literally, whatever wildcards or backslashes it holds: it finds
  exactly the cards in whose title and description, joined by a newline, it occurs up to the case
  of letters, and, when it is a number, also the card of that number.\<close>

theorem search_is_literal:
  "text_found q c \<longleftrightarrow>
     sublist (to_lower q) (to_lower (c_title c @ [NEWLINE] @ c_description c))
     \<or> q \<noteq> [] \<and> list_all is_digit q \<and> c_id c = digits_value q"
proof -
  let ?s = "to_lower (c_title c @ [NEWLINE] @ c_description c)"
  have p: "to_lower (''%'' @ escapeLike q @ ''%'') = CHR ''%'' # escapeLike (to_lower q) @ ''%''"
    using to_lower_escapeLike[of q] by (simp add: to_lower_def) code_simp
  have any: "like_match ''%'' rest" for rest
    unfolding like_percent[of "[]"] by (intro exI[of _ rest] exI[of _ "[]"]) simp
  have low: "to_lower mid = mid" if "?s = pre @ mid @ post" for pre mid post
  proof -
    have "to_lower (pre @ mid @ post) = pre @ mid @ post" by (simp flip: that)
    then show ?thesis by (simp add: to_lower_def append_eq_append_conv)
  qed
  have "like_match (to_lower (''%'' @ escapeLike q @ ''%'')) ?s
      \<longleftrightarrow> (\<exists>pre mid post. ?s = pre @ mid @ post \<and> to_lower mid = to_lower q)"
    unfolding p like_percent like_literal by (auto simp: any)
  also have "\<dots> \<longleftrightarrow> (\<exists>pre mid post. ?s = pre @ mid @ post \<and> mid = to_lower q)"
    using low by (metis to_lower_idem)
  also have "\<dots> \<longleftrightarrow> sublist (to_lower q) ?s" by (auto simp: sublist_def)
  finally show ?thesis unfolding text_found_def by simp
qed

theorem search_is_literal_witness:
  "text_found ''0% L'' ((sample_card 1 102 ''B'')\<lparr>c_title := ''50% leak''\<rparr>)
   \<and> \<not> text_found ''5_'' ((sample_card 1 102 ''B'')\<lparr>c_title := ''50% leak''\<rparr>)"
  unfolding search_is_literal by code_simp+

end
