(* ===== verification/Feeds.thy ===== *)
theory Feeds
  imports Queries
begin

text \<open>
  The audit feeds of \<open>BoardQueryService\<close>: the history of a card, the activity of a board with
  the names it is rendered with, and the follow-up feed of stale cards.
\<close>

section \<open>Read-time attribution\<close>

text \<open>An event with what is derived when it is read; \<open>en_actorLabel\<close> replaces the stored label.\<close>

record enriched_event =
  en_event :: card_event
  en_actorLabel :: "string option"
  en_onBehalfOfUserId :: "uuid option"
  en_actorDisplayName :: "string option"
  en_onBehalfOfDisplayName :: "string option"

definition enriched :: "card_event \<Rightarrow> string option \<Rightarrow> uuid option \<Rightarrow> enriched_event" where
  "enriched e label u = \<lparr>en_event = e, en_actorLabel = label, en_onBehalfOfUserId = u,
     en_actorDisplayName = None, en_onBehalfOfDisplayName = None\<rparr>"

definition withAgent :: "card_event \<Rightarrow> enriched_event" where
  "withAgent e = enriched e (ev_actorLabel e) (if ev_actorKind e = KAgent then ev_actorId e else None)"

text \<open>The token row of an mcp event; the last row of an id wins in \<open>new Map(...)\<close>.\<close>

definition withToken :: "service_token list \<Rightarrow> card_event \<Rightarrow> enriched_event" where
  "withToken tokens e = (if ev_actorKind e \<noteq> KMcp then withAgent e else
     (case ev_actorId e of None \<Rightarrow> withAgent e
      | Some i \<Rightarrow> (case row_of st_id i (rev tokens) of None \<Rightarrow> withAgent e
          | Some t \<Rightarrow> enriched e (Some (st_name t)) (Some (st_createdBy t)))))"

definition enrichMcpActors :: "card_event list \<Rightarrow> db \<Rightarrow> enriched_event list" where
  "enrichMcpActors es d = (if \<exists>e \<in> set es. ev_actorKind e = KMcp
     then map (withToken (listTokens d)) es else map withAgent es)"

section \<open>The history of a card\<close>

definition cardHistory :: "actor \<Rightarrow> card_no \<Rightarrow> event_type option \<Rightarrow> (instant \<times> uuid) page_request
    \<Rightarrow> (enriched_event, instant \<times> uuid) page step" where
  "cardHistory actor cardId ty rawPage =
     bind (lift (parse_page rawPage)) (\<lambda>page. uow_read (\<lambda>d.
     sbind (accessibleCard actor cardId d) (\<lambda>_.
     let p = paginate (listEventsByCard cardId (map_option (\<lambda>t. [t]) ty) (fst page) (Some (snd page + 1)) d)
       (snd page) event_key
     in Inr \<lparr>pa_items = enrichMcpActors (pa_items p) d, pa_nextCursor = pa_nextCursor p\<rparr>)))"

section \<open>The activity of a board\<close>

record activity_request =
  ar_page :: "(instant \<times> uuid) page_request"
  ar_since :: "instant option"
  ar_type :: "event_type option"
  ar_cardId :: "card_no option"
  ar_actorKind :: "actor_kind option"

definition parse_activity :: "activity_request \<Rightarrow> (instant \<times> uuid) after read" where
  "parse_activity raw =
     sbind (optional (positive ''cardId'') (ar_cardId raw)) (\<lambda>_. parse_page (ar_page raw))"

text \<open>The ids that count as the caller's own activity.\<close>

definition selfActorIds :: "actor \<Rightarrow> db \<Rightarrow> uuid list" where
  "selfActorIds actor d =
     (case (if a_kind actor = KMcp then map_option st_createdBy (find (\<lambda>t. st_id t = a_id actor) (listTokens d))
            else Some (a_id actor)) of
        None \<Rightarrow> [a_id actor]
      | Some u \<Rightarrow> u # map st_id (filter (\<lambda>t. st_createdBy t = u) (listTokens d)))"

definition referencedUserIds :: "enriched_event \<Rightarrow> uuid list" where
  "referencedUserIds x = (let e = en_event x in
     (if ev_actorKind e \<in> {KUser, KSlack, KAgent}
      then (case ev_actorId e of None \<Rightarrow> [] | Some a \<Rightarrow> [a]) else [])
     @ (case en_onBehalfOfUserId x of None \<Rightarrow> [] | Some u \<Rightarrow> [u])
     @ (case ev_body e of
          CardCreated c _ \<Rightarrow> c_reporterId c # (case c_assigneeId c of None \<Rightarrow> [] | Some a \<Rightarrow> [a])
        | _ \<Rightarrow> []))"

record activity_feed =
  af_items :: "enriched_event list"
  af_nextCursor :: "(instant \<times> uuid) option"
  af_users :: "(uuid \<times> string \<times> string) list"

text \<open>The users map: id, display name, email of every referenced user that exists.\<close>

definition feed_users :: "enriched_event list \<Rightarrow> db \<Rightarrow> (uuid \<times> string \<times> string) list" where
  "feed_users es d = map (\<lambda>u. (u_id u, u_displayName u, u_email u))
     (filter (\<lambda>u. u_id u \<in> set (concat (map referencedUserIds es))) (listUsers d))"

definition name_in :: "(uuid \<times> string \<times> string) list \<Rightarrow> uuid option \<Rightarrow> string option" where
  "name_in users i = (case i of None \<Rightarrow> None | Some u \<Rightarrow> map_option (fst \<circ> snd) (row_of fst u users))"

definition named :: "(uuid \<times> string \<times> string) list \<Rightarrow> enriched_event \<Rightarrow> enriched_event" where
  "named users x = x\<lparr>
     en_actorDisplayName := (if ev_actorKind (en_event x) \<in> {KUser, KSlack}
       then name_in users (ev_actorId (en_event x)) else None),
     en_onBehalfOfDisplayName := name_in users (en_onBehalfOfUserId x)\<rparr>"

definition resolveActivityNames :: "enriched_event list \<Rightarrow> (instant \<times> uuid) option \<Rightarrow> db \<Rightarrow> activity_feed" where
  "resolveActivityNames es next d = (let users = feed_users es d in
     \<lparr>af_items = map (named users) es, af_nextCursor = next, af_users = users\<rparr>)"

text \<open>Without \<open>viewAllActivity\<close> the feed is the caller's own.\<close>

definition activity_scope :: "actor \<Rightarrow> policy_document \<Rightarrow> db \<Rightarrow> uuid list option" where
  "activity_scope actor policy d =
     (if hasPermission actor PermViewAllActivity policy then None else Some (selfActorIds actor d))"

definition activity_read :: "uuid \<Rightarrow> actor \<Rightarrow> activity_request \<Rightarrow> (instant \<times> uuid) after \<Rightarrow> instant \<Rightarrow> db
    \<Rightarrow> activity_feed read" where
  "activity_read boardId actor req page since d =
     sbind (requireBoardAccess actor boardId d) (\<lambda>_.
     sbind (activePolicy boardId d) (\<lambda>policy.
     let p = paginate (listBoardSince since (map_option (\<lambda>t. [t]) (ar_type req)) (ar_cardId req)
           (ar_actorKind req) (activity_scope actor policy d) (Some boardId) (fst page)
           (Some (snd page + 1)) d) (snd page) event_key
     in Inr (resolveActivityNames (enrichMcpActors (pa_items p) d) (pa_nextCursor p) d)))"

definition eventsSince :: "env \<Rightarrow> actor \<Rightarrow> activity_request \<Rightarrow> activity_feed step" where
  "eventsSince E actor raw =
     bind (lift (parse_activity raw)) (\<lambda>page.
     bind (case ar_since raw of Some t \<Rightarrow> return t
       | None \<Rightarrow> bind (now E) (\<lambda>t. return (t - DAY_MS))) (\<lambda>since.
     uow_read (activity_read (e_boardId E) actor raw page since)))"

section \<open>Cards that need a follow-up\<close>

datatype stale_reason = OverdueResume | StaleReview | StaleBlocked

record stale_card =
  sc_card :: card
  sc_reasons :: "stale_reason list"

record stale_input =
  si_reviewDays :: "nat option"
  si_blockedDays :: "nat option"

definition parse_stale :: "stale_input \<Rightarrow> (nat \<times> nat) read" where
  "parse_stale raw =
     sbind (positive ''reviewDays'' (default_to DEFAULT_REVIEW_STALE_DAYS (si_reviewDays raw))) (\<lambda>r.
     sbind (positive ''blockedDays'' (default_to DEFAULT_BLOCKED_STALE_DAYS (si_blockedDays raw))) (\<lambda>b.
     Inr (r, b)))"

text \<open>The map from card ids to entries, in the order of insertion.\<close>

definition mark :: "stale_reason \<Rightarrow> card \<Rightarrow> stale_card list \<Rightarrow> stale_card list" where
  "mark r c entries =
     (if c_id c \<in> (c_id \<circ> sc_card) ` set entries
      then map (\<lambda>x. if c_id (sc_card x) = c_id c then x\<lparr>sc_reasons := sc_reasons x @ [r]\<rparr> else x) entries
      else entries @ [\<lparr>sc_card = c, sc_reasons = [r]\<rparr>])"

definition lane_cards :: "uuid \<Rightarrow> lane_key \<Rightarrow> db \<Rightarrow> card list" where
  "lane_cards boardId key d = (case findLaneByKey boardId key d of None \<Rightarrow> []
     | Some l \<Rightarrow> listByLane (l_id l) True d)"

definition reviewEnteredAt :: "db \<Rightarrow> card \<Rightarrow> instant" where
  "reviewEnteredAt d c = (case first_of (listLatestByCard (c_id c) 1 (Some [TCardStatusChanged]) d) of
      None \<Rightarrow> c_createdAt c
    | Some e \<Rightarrow> (case ev_body e of
        CardStatusChanged frm to x y \<Rightarrow> (if to = ''review'' then ev_createdAt e else c_createdAt c)
      | _ \<Rightarrow> c_createdAt c))"

definition blocked_too_long :: "instant \<Rightarrow> nat \<Rightarrow> card \<Rightarrow> bool" where
  "blocked_too_long t days c = (case c_blockedAt c of None \<Rightarrow> False | Some b \<Rightarrow> int days * DAY_MS < t - b)"

definition stale_marks :: "uuid \<Rightarrow> nat \<Rightarrow> nat \<Rightarrow> instant \<Rightarrow> db \<Rightarrow> (stale_reason \<times> card) list" where
  "stale_marks boardId reviewDays blockedDays t d =
     map (Pair OverdueResume) (filter (\<lambda>c. isOverdueResume (c_expectedResumeAt c) (utcDayOf t))
       (lane_cards boardId ''waiting_parts_vendor'' d))
     @ map (Pair StaleReview) (filter (\<lambda>c. int reviewDays * DAY_MS < t - reviewEnteredAt d c)
       (lane_cards boardId ''review'' d))
     @ map (Pair StaleBlocked) (filter (blocked_too_long t blockedDays)
       (query (no_filter\<lparr>qf_boardId := Some boardId, qf_blocked := Some True\<rparr>) None None d))"

text \<open>Sorted by the text \<open>createdAt/id\<close>: the ids compare as decimal strings.\<close>

definition stale_read :: "uuid \<Rightarrow> actor \<Rightarrow> nat \<times> nat \<Rightarrow> instant \<Rightarrow> db \<Rightarrow> stale_card list read" where
  "stale_read boardId actor days t d =
     sbind (requireBoardAccess actor boardId d) (\<lambda>_.
     Inr (order_asc (\<lambda>x. (c_createdAt (sc_card x), decimal (c_id (sc_card x))))
       (fold (\<lambda>m. mark (fst m) (snd m)) (stale_marks boardId (fst days) (snd days) t d) [])))"

definition staleCards :: "env \<Rightarrow> actor \<Rightarrow> stale_input \<Rightarrow> stale_card list step" where
  "staleCards E actor raw =
     bind (lift (parse_stale raw)) (\<lambda>days.
     bind (now E) (\<lambda>t. uow_read (stale_read (e_boardId E) actor days t)))"

end
