(* ===== verification/Paging.thy ===== *)
theory Paging
  imports Feeds
begin

text \<open>
  Keyset pages.  A client reads a list page by page: it hands every \<open>nextCursor\<close> back until
  there is none.  The locale \<open>keyset\<close> is the contract of such a list: its rows stand in a strict
  order of their keys, and a read after a key returns the rows that come later in that order.
  Under it the pages, put together, are the list.  The card list and the two audit feeds are its
  interpretations.
\<close>

section \<open>Following the cursors\<close>

fun browse :: "('k option \<Rightarrow> ('r, 'k) page option) \<Rightarrow> nat \<Rightarrow> 'k option \<Rightarrow> 'r list list option" where
  "browse fetch 0 cursor = None"
| "browse fetch (Suc n) cursor = (case fetch cursor of
      None \<Rightarrow> None
    | Some p \<Rightarrow> (case pa_nextCursor p of
        None \<Rightarrow> Some [pa_items p]
      | Some k \<Rightarrow> map_option ((#) (pa_items p)) (browse fetch n (Some k))))"

text \<open>The rows cut into pages of at most \<open>n\<close>.\<close>

function pages_of :: "nat \<Rightarrow> 'r list \<Rightarrow> 'r list list" where
  "pages_of n rows = (if n < length rows \<and> 0 < n then take n rows # pages_of n (drop n rows) else [rows])"
  by auto
termination by (relation "measure (\<lambda>(n, rows). length rows)") auto

declare pages_of.simps [simp del]

lemma concat_pages: "concat (pages_of n rows) = rows"
proof (induction n rows rule: pages_of.induct)
  case (1 n rows)
  then show ?case by (subst pages_of.simps) auto
qed

lemma full_pages: "p \<in> set (butlast (pages_of n rows)) \<Longrightarrow> length p = n"
proof (induction n rows rule: pages_of.induct)
  case (1 n rows)
  show ?case
  proof (cases "n < length rows \<and> 0 < n")
    case True
    have ne: "pages_of n (drop n rows) \<noteq> []" by (subst pages_of.simps) simp
    from 1(2) True ne have "p = take n rows \<or> p \<in> set (butlast (pages_of n (drop n rows)))"
      by (subst (asm) pages_of.simps) simp
    with 1(1)[OF True] True show ?thesis by auto
  next
    case False
    with 1(2) show ?thesis by (subst (asm) pages_of.simps) auto
  qed
qed

lemma short_pages: "0 < n \<Longrightarrow> p \<in> set (pages_of n rows) \<Longrightarrow> length p \<le> n"
proof (induction n rows rule: pages_of.induct)
  case (1 n rows)
  show ?case
  proof (cases "n < length rows")
    case True
    with 1(2,3) have "p = take n rows \<or> p \<in> set (pages_of n (drop n rows))"
      by (subst (asm) pages_of.simps) simp
    with 1(1) True 1(2) show ?thesis by auto
  next
    case False
    with 1(2,3) show ?thesis by (subst (asm) pages_of.simps) auto
  qed
qed

section \<open>The contract\<close>

locale keyset =
  fixes ok :: "'q \<Rightarrow> bool" and rows :: "'q \<Rightarrow> 'r list" and keyOf :: "'r \<Rightarrow> 'k"
    and precedes :: "'k \<Rightarrow> 'k \<Rightarrow> bool" and after :: "'q \<Rightarrow> 'k option \<Rightarrow> nat \<Rightarrow> 'r list"
  assumes in_order: "ok q \<Longrightarrow> sorted_wrt (\<lambda>a b. precedes (keyOf a) (keyOf b)) (rows q)"
    and asym: "precedes x y \<Longrightarrow> \<not> precedes y x"
    and from_start: "after q None n = take n (rows q)"
    and from_key: "after q (Some k) n = take n (filter (\<lambda>r. precedes k (keyOf r)) (rows q))"
begin

definition rest :: "'q \<Rightarrow> 'k option \<Rightarrow> 'r list" where
  "rest q cursor = (case cursor of None \<Rightarrow> rows q | Some k \<Rightarrow> filter (\<lambda>r. precedes k (keyOf r)) (rows q))"

lemma after_rest: "after q cursor n = take n (rest q cursor)"
  by (cases cursor) (simp_all add: rest_def from_start from_key)

lemma rest_after:
  assumes "ok q" and "i < length (rows q)"
  shows "rest q (Some (keyOf (rows q ! i))) = drop (Suc i) (rows q)"
proof -
  let ?P = "\<lambda>r. precedes (keyOf (rows q ! i)) (keyOf r)"
  have none: "\<not> ?P r" if "r \<in> set (take (Suc i) (rows q))" for r
  proof -
    from that obtain j where "j \<le> i" "r = rows q ! j"
      using assms(2) by (auto simp: in_set_conv_nth less_Suc_eq_le)
    with in_order[OF assms(1)] assms(2) show ?thesis
      by (cases "j = i") (auto simp: sorted_wrt_iff_nth_less dest: asym)
  qed
  have all: "?P r" if "r \<in> set (drop (Suc i) (rows q))" for r
  proof -
    from that obtain j where "j < length (rows q) - Suc i" "r = rows q ! (Suc i + j)"
      using assms(2) by (auto simp: in_set_conv_nth)
    with in_order[OF assms(1)] assms(2) show ?thesis by (auto simp: sorted_wrt_iff_nth_less)
  qed
  have "filter ?P (rows q) = filter ?P (take (Suc i) (rows q) @ drop (Suc i) (rows q))" by simp
  also have "\<dots> = drop (Suc i) (rows q)"
    using none all by (simp add: filter_id_conv[THEN iffD2] del: append_take_drop_id)
  finally show ?thesis by (simp add: rest_def)
qed

lemma page_at:
  assumes "0 < n"
  shows "paginate (after q cursor (n + 1)) n keyOf = \<lparr>pa_items = take n (rest q cursor),
    pa_nextCursor = (if n < length (rest q cursor) then Some (keyOf (rest q cursor ! (n - 1))) else None)\<rparr>"
proof (cases "n < length (rest q cursor)")
  case True
  with assms have ne: "take n (rest q cursor) \<noteq> []" by auto
  with True have "last (take n (rest q cursor)) = rest q cursor ! (n - 1)"
    using assms by (simp add: last_conv_nth min_def)
  with ne True assms show ?thesis unfolding after_rest by (auto simp: paginate_def Let_def min_def)
qed (simp add: after_rest paginate_def Let_def)

lemma browse_from:
  assumes "ok q" and "0 < n" and "i \<le> length (rows q)" and "length (rows q) - i < fuel"
    and "drop i (rows q) = rest q cursor"
    and "\<And>c. fetch c = Some (paginate (after q c (n + 1)) n keyOf)"
  shows "browse fetch fuel cursor = Some (pages_of n (rest q cursor))"
  using assms
proof (induction fuel arbitrary: i cursor)
  case (Suc fuel)
  let ?rest = "rest q cursor"
  have p: "fetch cursor = Some \<lparr>pa_items = take n ?rest,
      pa_nextCursor = (if n < length ?rest then Some (keyOf (?rest ! (n - 1))) else None)\<rparr>"
    unfolding Suc.prems(6) page_at[OF Suc.prems(2)] ..
  show ?case
  proof (cases "n < length ?rest")
    case False
    then show ?thesis by (simp add: p) (subst pages_of.simps, simp)
  next
    case True
    then have l: "n < length (rows q) - i" by (simp flip: Suc.prems(5))
    let ?k = "keyOf (?rest ! (n - 1))"
    have j: "i + n - 1 < length (rows q)" "rows q ! (i + n - 1) = ?rest ! (n - 1)"
      using l Suc.prems(2,3) by (auto simp flip: Suc.prems(5) simp: nth_drop)
    have n: "Suc (i + n - 1) = i + n" using Suc.prems(2) by simp
    have r: "drop (i + n) (rows q) = rest q (Some ?k)"
      using rest_after[OF Suc.prems(1) j(1)] unfolding j(2) n by (rule sym)
    have "browse fetch fuel (Some ?k) = Some (pages_of n (rest q (Some ?k)))"
      by (rule Suc.IH[OF Suc.prems(1,2) _ _ r]) (use l Suc.prems(2-4,6) in simp_all)
    moreover have "rest q (Some ?k) = drop n ?rest"
      unfolding r[symmetric] unfolding Suc.prems(5)[symmetric] by (simp add: add.commute)
    ultimately show ?thesis using True Suc.prems(2)
      by (simp add: p) (subst (2) pages_of.simps, simp)
  qed
qed simp

text \<open>Read from the start with pages of \<open>n\<close>: the rows, cut into pages.\<close>

lemma browse_all:
  assumes "ok q" and "0 < n" and "\<And>c. fetch c = Some (paginate (after q c (n + 1)) n keyOf)"
  shows "browse fetch (Suc (length (rows q))) None = Some (pages_of n (rows q))"
  using browse_from[of q n 0 "Suc (length (rows q))" None fetch] assms by (simp add: rest_def)

end

section \<open>The lists\<close>

lemma strictly_sorted:
  fixes f :: "'r \<Rightarrow> 'k::linorder"
  assumes "distinct (map f rows)"
  shows "sorted_wrt (\<lambda>a b. f a < f b) (sort_key f rows)"
proof -
  have "distinct (map f (sort_key f rows))"
    using assms by (metis distinct_map distinct_sort set_sort)
  moreover have "sorted (map f (sort_key f rows))" by simp
  ultimately have "sorted_wrt (<) (map f (sort_key f rows))" by (simp add: strict_sorted_iff)
  then show ?thesis by (simp add: sorted_wrt_map)
qed

lemma distinct_key:
  assumes "distinct (map pk rows)" and "\<And>a b. f a = f b \<Longrightarrow> pk a = pk b"
  shows "distinct (map f (filter P rows))"
  using assms(1) unfolding distinct_map by (auto intro!: inj_onI dest: assms(2) inj_onD)

lemma desc_after:
  "order_desc f (filter (\<lambda>r. P r \<and> f r < k) rows) = filter (\<lambda>r. f r < k) (order_desc f (filter P rows))"
  unfolding order_desc_def rev_filter[symmetric] filter_sort filter_filter ..

lemma asc_after:
  "order_asc f (filter (\<lambda>r. P r \<and> k < f r) rows) = filter (\<lambda>r. k < f r) (order_asc f (filter P rows))"
  unfolding order_asc_def filter_sort filter_filter ..

definition card_rows :: "card_query_filter \<times> db \<Rightarrow> card list" where
  "card_rows q = order_desc card_key (filter (filterConditions (fst q) (snd q)) (t_cards (snd q)))"

interpretation card_list: keyset "\<lambda>q. distinct (map c_id (t_cards (snd q)))" card_rows card_key "(>)"
  "\<lambda>q c n. query (fst q) c (Some n) (snd q)"
proof
  fix q :: "card_query_filter \<times> db" assume "distinct (map c_id (t_cards (snd q)))"
  then have "distinct (map card_key (filter (filterConditions (fst q) (snd q)) (t_cards (snd q))))"
    by (rule distinct_key) (simp add: card_key_def)
  then show "sorted_wrt (\<lambda>a b. card_key b < card_key a) (card_rows q)"
    using strictly_sorted by (simp add: card_rows_def order_desc_def sorted_wrt_rev)
qed (auto simp: query_def card_rows_def limit_to_def desc_after)

definition history_rows :: "(card_no \<times> event_type list option) \<times> db \<Rightarrow> card_event list" where
  "history_rows q = order_asc event_key
     (filter (\<lambda>e. ev_cardId e = fst (fst q) \<and> type_in (snd (fst q)) e) (t_events (snd q)))"

interpretation history: keyset "\<lambda>q. distinct (map ev_id (t_events (snd q)))" history_rows event_key "(<)"
  "\<lambda>q c n. listEventsByCard (fst (fst q)) (snd (fst q)) c (Some n) (snd q)"
proof
  fix q :: "(card_no \<times> event_type list option) \<times> db" assume "distinct (map ev_id (t_events (snd q)))"
  then have "distinct (map event_key (filter (\<lambda>e. ev_cardId e = fst (fst q) \<and> type_in (snd (fst q)) e)
      (t_events (snd q))))"
    by (rule distinct_key) (simp add: event_key_def)
  then show "sorted_wrt (\<lambda>a b. event_key a < event_key b) (history_rows q)"
    using strictly_sorted by (simp add: history_rows_def order_asc_def)
qed (auto simp: listEventsByCard_def history_rows_def limit_to_def asc_after simp flip: conj_assoc)

text \<open>The activity of a board: the query of the feed without its cursor.\<close>

record activity_query =
  aq_since :: instant
  aq_types :: "event_type list option"
  aq_cardId :: "card_no option"
  aq_actorKind :: "actor_kind option"
  aq_actorIds :: "uuid list option"
  aq_boardId :: uuid
  aq_db :: db

definition in_activity :: "activity_query \<Rightarrow> card_event \<Rightarrow> bool" where
  "in_activity q e \<longleftrightarrow> aq_since q \<le> ev_createdAt e \<and> type_in (aq_types q) e
     \<and> equals_opt (aq_cardId q) (ev_cardId e) \<and> equals_opt (aq_actorKind q) (ev_actorKind e)
     \<and> (case aq_actorIds q of None \<Rightarrow> True
          | Some ids \<Rightarrow> (case ev_actorId e of None \<Rightarrow> False | Some a \<Rightarrow> a \<in> set ids))
     \<and> (\<exists>c \<in> set (t_cards (aq_db q)). c_id c = ev_cardId e \<and> c_boardId c = aq_boardId q)"

definition activity_rows :: "activity_query \<Rightarrow> card_event list" where
  "activity_rows q = order_desc event_key (filter (in_activity q) (t_events (aq_db q)))"

definition activity_after :: "activity_query \<Rightarrow> (instant \<times> uuid) option \<Rightarrow> nat \<Rightarrow> card_event list" where
  "activity_after q c n = listBoardSince (aq_since q) (aq_types q) (aq_cardId q) (aq_actorKind q)
     (aq_actorIds q) (Some (aq_boardId q)) c (Some n) (aq_db q)"

lemma activity_after_filter: "activity_after q c n = take n (order_desc event_key
    (filter (\<lambda>e. in_activity q e \<and> (case c of None \<Rightarrow> True | Some k \<Rightarrow> event_key e < k)) (t_events (aq_db q))))"
  by (simp add: activity_after_def listBoardSince_def limit_to_def in_activity_def conj_assoc)

interpretation activity: keyset "\<lambda>q. distinct (map ev_id (t_events (aq_db q)))" activity_rows event_key "(>)"
  activity_after
proof
  fix q :: activity_query assume "distinct (map ev_id (t_events (aq_db q)))"
  then have "distinct (map event_key (filter (in_activity q) (t_events (aq_db q))))"
    by (rule distinct_key) (simp add: event_key_def)
  then show "sorted_wrt (\<lambda>a b. event_key b < event_key a) (activity_rows q)"
    using strictly_sorted by (simp add: activity_rows_def order_desc_def sorted_wrt_rev)
qed (auto simp: activity_after_filter activity_rows_def desc_after)

end
