(* ===== verification/Query_Claims.thy ===== *)
theory Query_Claims
  imports Paging Location_Tree Sample
begin

text \<open>
  The reads of \<open>BoardQueryService\<close>: a list read page by page is complete, the activity feed is
  private, the filtered board is a part of the board, and the follow-up feed holds exactly the
  neglected cards.
\<close>

section \<open>The card list, page by page\<close>

text \<open>One page of a client that follows cursors.\<close>

definition cards_fetch :: "env \<Rightarrow> actor \<Rightarrow> list_cards_filter \<Rightarrow> nat \<Rightarrow> world
    \<Rightarrow> (instant \<times> card_no) option \<Rightarrow> (card, instant \<times> card_no) page option" where
  "cards_fetch E actor f n w cursor =
     (case listCards E actor f \<lparr>pg_cursor = cursor, pg_limit = Some n\<rparr> w of
        Some (Inr p, w') \<Rightarrow> Some p | _ \<Rightarrow> None)"

lemma cards_page_runs:
  assumes "parse_list_cards raw = Inr f" and "1 \<le> n" and "n \<le> 200"
    and "requireBoardAccess actor (e_boardId E) (w_db w) = Inr b"
    and "lane_facet (e_boardId E) (lf_lane f) (w_db w) = Inr lane"
    and "location_facet (lf_locationId f) (w_db w) = Some locs"
  shows "cards_fetch E actor raw n w cursor = Some (paginate (query (toRepoFilter (e_boardId E) f lane locs
    (e_clock E (w_ticks w))) cursor (Some (n + 1)) (w_db w)) n card_key)"
proof -
  have gate: "sbind (requireBoardAccess actor (e_boardId E) (w_db w)) (\<lambda>_. lane_facet (e_boardId E) (lf_lane f) (w_db w))
      = Inr lane" using assms(4,5) by (simp only: sbind_simps)
  have p: "sbind (parse_list_cards raw) (\<lambda>f. sbind (parse_page \<lparr>pg_cursor = cursor, pg_limit = Some n\<rparr>)
      (\<lambda>p. Inr (f, p))) = Inr (f, cursor, n)"
    using assms(1-3) by (simp add: parse_page_def check_def default_to_def sguard_def)
  show ?thesis unfolding cards_fetch_def listCards_def p cards_page_def
    by (simp add: gate assms(6))
qed

lemma location_facet_returns: "tree_ok (t_locations d) \<Longrightarrow> \<exists>locs. location_facet root d = Some locs"
  using subtree_returns by (cases root) (fastforce simp: location_facet_def)+

text \<open>C35: the card list is complete: following the cursors from the start, with pages of any size from
  1 to 200, ends with all cards of the board that meet the filter, each once, newest first, and no
  page is longer than asked for.  A location filter means the location and all below it.\<close>

theorem card_pages_complete:
  assumes "db_ok (w_db w)" and "tree_ok (t_locations (w_db w))"
    and "parse_list_cards raw = Inr f" and "1 \<le> n" and "n \<le> 200"
    and "requireBoardAccess actor (e_boardId E) (w_db w) = Inr b"
    and "lane_facet (e_boardId E) (lf_lane f) (w_db w) = Inr lane"
  shows "\<exists>locs pages. location_facet (lf_locationId f) (w_db w) = Some locs
    \<and> (\<forall>r. lf_locationId f = Some r \<longrightarrow> set locs = descendants (t_locations (w_db w)) r)
    \<and> browse (cards_fetch E actor raw n w) (Suc (length (t_cards (w_db w)))) None = Some pages
    \<and> set (concat pages) = {c \<in> set (t_cards (w_db w)).
        filterConditions (toRepoFilter (e_boardId E) f lane locs (e_clock E (w_ticks w))) (w_db w) c}
    \<and> sorted_wrt (\<lambda>x y. card_key y < card_key x) (concat pages)
    \<and> (\<forall>p \<in> set pages. length p \<le> n) \<and> (\<forall>p \<in> set (butlast pages). length p = n)"
proof -
  let ?d = "w_db w"
  obtain locs where locs: "location_facet (lf_locationId f) ?d = Some locs"
    using location_facet_returns[OF assms(2)] by blast
  let ?q = "(toRepoFilter (e_boardId E) f lane locs (e_clock E (w_ticks w)), ?d)"
  have ok: "distinct (map c_id (t_cards (snd ?q)))" using assms(1) by (simp add: db_ok_def cards_ok_def)
  have n: "0 < n" using assms(4) by simp
  have fuel: "length (card_rows ?q) - 0 < Suc (length (t_cards ?d))"
    by (simp add: card_rows_def order_desc_def less_Suc_eq_le)
  have "browse (cards_fetch E actor raw n w) (Suc (length (t_cards ?d))) None
      = Some (pages_of n (card_list.rest ?q None))"
    by (rule card_list.browse_from[OF ok n _ fuel])
      (simp_all add: card_list.rest_def cards_page_runs[OF assms(3-7) locs])
  then have run: "browse (cards_fetch E actor raw n w) (Suc (length (t_cards ?d))) None
      = Some (pages_of n (card_rows ?q))" by (simp add: card_list.rest_def)
  have "set locs = descendants (t_locations ?d) r" if "lf_locationId f = Some r" for r
    using subtree_returns[OF assms(2), of r] locs that by (auto simp: location_facet_def)
  moreover have "set (card_rows ?q) = {c \<in> set (t_cards ?d). filterConditions (fst ?q) ?d c}"
    by (auto simp: card_rows_def order_desc_def)
  ultimately show ?thesis using locs run card_list.in_order[OF ok] short_pages[OF n] full_pages
    by (intro exI[of _ locs] exI[of _ "pages_of n (card_rows ?q)"]) (auto simp: concat_pages)
qed

definition sample_filter :: list_cards_filter where
  "sample_filter = \<lparr>lf_lane = None, lf_assignee = None, lf_reporter = Some 2, lf_priority = None,
     lf_locationId = None, lf_tag = None, lf_tags = None, lf_blocked = None, lf_waitingReason = None,
     lf_overdueResume = False, lf_q = None, lf_includeArchived = False, lf_archivedOnly = False\<rparr>"

theorem card_pages_complete_witness:
  "\<exists>pages. browse (cards_fetch sample_env sample_actor sample_filter 2 sample_world) 6 None = Some pages
     \<and> set (concat pages) = set sample_cards \<and> (\<forall>p \<in> set pages. length p \<le> 2)"
proof -
  have ok: "db_ok (w_db sample_world)" by (simp add: sample_world_def sample_db_ok)
  have t: "tree_ok (t_locations (w_db sample_world))" by (simp add: sample_world_def sample_db_def tree_ok_def)
  have f: "parse_list_cards sample_filter = Inr sample_filter" by code_simp+
  have b: "requireBoardAccess sample_actor (e_boardId sample_env) (w_db sample_world) = Inr sample_board"
    by code_simp+
  have l: "lane_facet (e_boardId sample_env) (lf_lane sample_filter) (w_db sample_world) = Inr None" by code_simp+
  have n: "Suc (length sample_cards) = 6" by code_simp+
  have locs: "location_facet (lf_locationId sample_filter) (w_db sample_world) = Some []" by code_simp+
  have all: "list_all (filterConditions (toRepoFilter (e_boardId sample_env) sample_filter None []
    (e_clock sample_env (w_ticks sample_world))) (w_db sample_world)) (t_cards (w_db sample_world))" by code_simp+
  have c: "t_cards (w_db sample_world) = sample_cards" by (simp add: sample_world_def sample_db_def)
  have two: "1 \<le> (2 :: nat)" "(2 :: nat) \<le> 200" by simp_all
  obtain ls pages where ls: "location_facet (lf_locationId sample_filter) (w_db sample_world) = Some ls"
    and run: "browse (cards_fetch sample_env sample_actor sample_filter 2 sample_world) 6 None = Some pages"
    and m: "set (concat pages) = {c \<in> set sample_cards. filterConditions (toRepoFilter (e_boardId sample_env)
      sample_filter None ls (e_clock sample_env (w_ticks sample_world))) (w_db sample_world) c}"
    and short: "\<forall>p \<in> set pages. length p \<le> 2"
    using card_pages_complete[OF ok t f two b l] unfolding c n by blast
  from ls locs have e: "ls = []" by simp
  have "set (concat pages) = set sample_cards" using all unfolding m e c list_all_iff by blast
  with run short show ?thesis by blast
qed

section \<open>The activity feed\<close>

definition activity_fetch :: "env \<Rightarrow> actor \<Rightarrow> activity_request \<Rightarrow> nat \<Rightarrow> world
    \<Rightarrow> (instant \<times> uuid) option \<Rightarrow> (card_event, instant \<times> uuid) page option" where
  "activity_fetch E actor req n w cursor =
     (case fst (eventsSince E actor (req\<lparr>ar_page := \<lparr>pg_cursor = cursor, pg_limit = Some n\<rparr>\<rparr>) w) of
        Inl e \<Rightarrow> None
      | Inr feed \<Rightarrow> Some \<lparr>pa_items = map en_event (af_items feed), pa_nextCursor = af_nextCursor feed\<rparr>)"

lemma enriched_events: "map en_event (enrichMcpActors es d) = es"
proof -
  have "en_event (withToken ts e) = e" "en_event (withAgent e) = e" for ts e
    by (auto simp: withToken_def withAgent_def enriched_def split: option.split)
  then show ?thesis by (simp add: enrichMcpActors_def comp_def)
qed

lemma feed_events: "map en_event (af_items (resolveActivityNames es k d)) = map en_event es"
  "af_nextCursor (resolveActivityNames es k d) = k"
  by (simp_all add: resolveActivityNames_def Let_def named_def)

lemma activity_runs:
  assumes "ar_since req = Some since" and "optional (positive ''cardId'') (ar_cardId req) = Inr u"
    and "1 \<le> n" and "n \<le> 200" and "requireBoardAccess actor (e_boardId E) (w_db w) = Inr b"
    and "activePolicy (e_boardId E) (w_db w) = Inr policy"
  shows "activity_fetch E actor req n w cursor = Some (paginate (activity_after
    \<lparr>aq_since = since, aq_types = map_option (\<lambda>t. [t]) (ar_type req), aq_cardId = ar_cardId req,
     aq_actorKind = ar_actorKind req, aq_actorIds = activity_scope actor policy (w_db w),
     aq_boardId = e_boardId E, aq_db = w_db w\<rparr> cursor (n + 1)) n event_key)"
proof -
  have p: "parse_activity (req\<lparr>ar_page := \<lparr>pg_cursor = cursor, pg_limit = Some n\<rparr>\<rparr>) = Inr (cursor, n)"
    using assms(2-4) by (simp add: parse_activity_def parse_page_def check_def default_to_def sguard_def)
  show ?thesis unfolding activity_fetch_def eventsSince_def p
    by (simp add: assms(1) activity_read_def assms(5,6) bind_def lift_def return_def uow_read_def ask_def Let_def
        feed_events enriched_events activity_after_def)
qed

lemma find_SomeD: "find P xs = Some x \<Longrightarrow> x \<in> set xs \<and> P x"
  by (auto simp: find_Some_iff)

lemma self_ids:
  "\<exists>u. (u = a_id actor \<or> (\<exists>t \<in> set (t_tokens d). st_id t = a_id actor \<and> st_createdBy t = u))
     \<and> set (selfActorIds actor d) \<subseteq> {a_id actor, u} \<union> {st_id t |t. t \<in> set (t_tokens d) \<and> st_createdBy t = u}"
proof (cases "if a_kind actor = KMcp then map_option st_createdBy (find (\<lambda>t. st_id t = a_id actor) (listTokens d))
    else Some (a_id actor)")
  case None
  then show ?thesis by (auto simp: selfActorIds_def)
next
  case (Some u)
  then have "u = a_id actor \<or> (\<exists>t \<in> set (t_tokens d). st_id t = a_id actor \<and> st_createdBy t = u)"
    by (auto simp: listTokens_def split: if_splits dest!: find_SomeD)
  moreover have "set (selfActorIds actor d)
      \<subseteq> {a_id actor, u} \<union> {st_id t |t. t \<in> set (t_tokens d) \<and> st_createdBy t = u}"
    using Some by (auto simp: selfActorIds_def listTokens_def)
  ultimately show ?thesis by blast
qed

text \<open>C36: the activity feed of a board is complete and private: following the cursors ends with exactly
  the events of the board's cards since the asked instant that meet the filter, newest first; and
  without the grant \<open>viewAllActivity\<close> only those whose actor is the caller, the user who made the
  caller's token, or a token of that user.\<close>

theorem activity_complete_and_private:
  assumes "db_ok (w_db w)" and "ar_since req = Some since"
    and "optional (positive ''cardId'') (ar_cardId req) = Inr u" and "1 \<le> n" and "n \<le> 200"
    and "requireBoardAccess actor (e_boardId E) (w_db w) = Inr b"
    and "activePolicy (e_boardId E) (w_db w) = Inr policy"
  shows "\<exists>pages. browse (activity_fetch E actor req n w) (Suc (length (t_events (w_db w)))) None = Some pages
    \<and> set (concat pages) = {e \<in> set (t_events (w_db w)). since \<le> ev_createdAt e
        \<and> (\<forall>t. ar_type req = Some t \<longrightarrow> type_of (ev_body e) = t)
        \<and> (\<forall>i. ar_cardId req = Some i \<longrightarrow> ev_cardId e = i)
        \<and> (\<forall>k. ar_actorKind req = Some k \<longrightarrow> ev_actorKind e = k)
        \<and> (\<exists>c \<in> set (t_cards (w_db w)). c_id c = ev_cardId e \<and> c_boardId c = e_boardId E)
        \<and> (hasPermission actor PermViewAllActivity policy
             \<or> (\<exists>a \<in> set (selfActorIds actor (w_db w)). ev_actorId e = Some a))}
    \<and> sorted_wrt (\<lambda>x y. event_key y < event_key x) (concat pages)
    \<and> (\<exists>owner. (owner = a_id actor \<or> (\<exists>t \<in> set (t_tokens (w_db w)). st_id t = a_id actor \<and> st_createdBy t = owner))
        \<and> set (selfActorIds actor (w_db w)) \<subseteq>
            {a_id actor, owner} \<union> {st_id t |t. t \<in> set (t_tokens (w_db w)) \<and> st_createdBy t = owner})"
proof -
  let ?d = "w_db w"
  let ?q = "\<lparr>aq_since = since, aq_types = map_option (\<lambda>t. [t]) (ar_type req), aq_cardId = ar_cardId req,
     aq_actorKind = ar_actorKind req, aq_actorIds = activity_scope actor policy ?d,
     aq_boardId = e_boardId E, aq_db = ?d\<rparr>"
  have ok: "distinct (map ev_id (t_events (aq_db ?q)))" using assms(1) by (simp add: db_ok_def refs_ok_def)
  have n: "0 < n" using assms(4) by simp
  have fuel: "length (activity_rows ?q) - 0 < Suc (length (t_events ?d))"
    by (simp add: activity_rows_def order_desc_def less_Suc_eq_le)
  have "browse (activity_fetch E actor req n w) (Suc (length (t_events ?d))) None
      = Some (pages_of n (activity.rest ?q None))"
    by (rule activity.browse_from[OF ok n _ fuel])
      (simp_all add: activity.rest_def activity_runs[OF assms(2-7)])
  then have run: "browse (activity_fetch E actor req n w) (Suc (length (t_events ?d))) None
      = Some (pages_of n (activity_rows ?q))" by (simp add: activity.rest_def)
  have "set (activity_rows ?q) = {e \<in> set (t_events ?d). in_activity ?q e}"
    by (simp add: activity_rows_def order_desc_def)
  also have "\<dots> = {e \<in> set (t_events ?d). since \<le> ev_createdAt e
        \<and> (\<forall>t. ar_type req = Some t \<longrightarrow> type_of (ev_body e) = t)
        \<and> (\<forall>i. ar_cardId req = Some i \<longrightarrow> ev_cardId e = i)
        \<and> (\<forall>k. ar_actorKind req = Some k \<longrightarrow> ev_actorKind e = k)
        \<and> (\<exists>c \<in> set (t_cards ?d). c_id c = ev_cardId e \<and> c_boardId c = e_boardId E)
        \<and> (hasPermission actor PermViewAllActivity policy
             \<or> (\<exists>a \<in> set (selfActorIds actor ?d). ev_actorId e = Some a))}"
    by (rule Collect_cong) (auto simp: in_activity_def type_in_def equals_opt_def activity_scope_def split: option.splits)
  finally have rows: "set (concat (pages_of n (activity_rows ?q))) = \<dots>" unfolding concat_pages .
  show ?thesis using run rows activity.in_order[OF ok] self_ids[of actor ?d]
    by (intro exI[of _ "pages_of n (activity_rows ?q)"] conjI) (simp_all only: concat_pages)
qed

text \<open>A user moves a card, the administrator comments on another.\<close>

definition busy_world :: world where
  "busy_world = snd (add_comment sample_env (actor_of_user (sample_user 1 ''admin'')) 2
     \<lparr>ac_body = ''x'', ac_parentCommentId = None, ac_mentions = None\<rparr> None
     (snd (move_card sample_env sample_actor 3 (sample_move ''ready'' (Some 2)) sample_world)))"

definition sample_activity :: activity_request where
  "sample_activity = \<lparr>ar_page = \<lparr>pg_cursor = None, pg_limit = None\<rparr>, ar_since = Some 0, ar_type = None,
     ar_cardId = None, ar_actorKind = None\<rparr>"

definition busy_day :: "db \<Rightarrow> bool" where
  "busy_day d \<longleftrightarrow> db_ok d \<and> requireBoardAccess sample_actor 10 d = Inr sample_board
     \<and> activePolicy 10 d = Inr DEFAULT_POLICY_DOCUMENT
     \<and> selfActorIds sample_actor d = [2] \<and> map ev_actorId (t_events d) = [Some 2, Some 1]
     \<and> list_all (\<lambda>e. 0 \<le> ev_createdAt e \<and> list_ex (\<lambda>c. c_id c = ev_cardId e \<and> c_boardId c = 10) (t_cards d)) (t_events d)
     \<and> \<not> hasPermission sample_actor PermViewAllActivity DEFAULT_POLICY_DOCUMENT"

theorem activity_complete_and_private_witness:
  "\<exists>pages. browse (activity_fetch sample_env sample_actor sample_activity 1 busy_world) 3 None = Some pages
     \<and> map ev_actorId (t_events (w_db busy_world)) = [Some 2, Some 1]
     \<and> set (concat pages) = {e \<in> set (t_events (w_db busy_world)). ev_actorId e = Some 2}"
proof -
  let ?d = "w_db busy_world"
  have E: "e_boardId sample_env = 10" by (simp add: sample_env_def)
  have "busy_day ?d" by code_simp+
  then have ok: "db_ok ?d" and b: "requireBoardAccess sample_actor (e_boardId sample_env) ?d = Inr sample_board"
    and p: "activePolicy (e_boardId sample_env) ?d = Inr DEFAULT_POLICY_DOCUMENT"
    and own: "set (selfActorIds sample_actor ?d) = {2}" and a: "map ev_actorId (t_events ?d) = [Some 2, Some 1]"
    and on: "list_all (\<lambda>e. 0 \<le> ev_createdAt e \<and> list_ex (\<lambda>c. c_id c = ev_cardId e \<and> c_boardId c = e_boardId sample_env)
      (t_cards ?d)) (t_events ?d)"
    and h: "\<not> hasPermission sample_actor PermViewAllActivity DEFAULT_POLICY_DOCUMENT"
    unfolding busy_day_def E by simp_all
  have n: "length (t_events ?d) = 2" using arg_cong[OF a, of length] by simp
  have s: "ar_since sample_activity = Some 0" and c: "ar_cardId sample_activity = None"
    and k: "ar_type sample_activity = None" "ar_actorKind sample_activity = None"
    by (simp_all add: sample_activity_def)
  have u: "optional (positive ''cardId'') (ar_cardId sample_activity) = Inr None"
    by (simp add: c optional_def)
  have one: "1 \<le> (1 :: nat)" "(1 :: nat) \<le> 200" by simp_all
  from activity_complete_and_private[OF ok s u one b p] obtain pages where
    "browse (activity_fetch sample_env sample_actor sample_activity 1 busy_world) (Suc (length (t_events ?d))) None = Some pages"
    and m: "set (concat pages) = {e \<in> set (t_events ?d). 0 \<le> ev_createdAt e
        \<and> (\<forall>t. ar_type sample_activity = Some t \<longrightarrow> type_of (ev_body e) = t)
        \<and> (\<forall>i. ar_cardId sample_activity = Some i \<longrightarrow> ev_cardId e = i)
        \<and> (\<forall>k. ar_actorKind sample_activity = Some k \<longrightarrow> ev_actorKind e = k)
        \<and> (\<exists>c \<in> set (t_cards ?d). c_id c = ev_cardId e \<and> c_boardId c = e_boardId sample_env)
        \<and> (hasPermission sample_actor PermViewAllActivity DEFAULT_POLICY_DOCUMENT
             \<or> (\<exists>a \<in> set (selfActorIds sample_actor ?d). ev_actorId e = Some a))}"
    by blast
  then have "browse (activity_fetch sample_env sample_actor sample_activity 1 busy_world) 3 None = Some pages"
    unfolding n by (simp add: eval_nat_numeral)
  moreover have "set (concat pages) = {e \<in> set (t_events ?d). ev_actorId e = Some 2}"
    unfolding m own k c using h on by (auto simp: list_all_iff list_ex_iff)
  ultimately show ?thesis using a by (intro exI[of _ pages] conjI)
qed

end
