(* ===== verification/Filter_Claims.thy ===== *)
theory Filter_Claims
  imports Location_Tree Sample
begin

text \<open>
  The filtered board is a part of the board.
\<close>

section \<open>Rows of a board\<close>

definition extras_of :: "db \<Rightarrow> card \<Rightarrow> board_extras" where
  "extras_of d c = \<lparr>bx_tags = map snd (tag_rows [c_id c] d),
     bx_attachmentCount = length (filter (\<lambda>a. at_cardId a = c_id c \<and> at_deletedAt a = None) (t_attachments d)),
     bx_locationLabel = snd (with_location d c)\<rparr>"

definition board_row :: "db \<Rightarrow> card \<Rightarrow> board_card" where
  "board_row d c = boardCardOf c (extras_of d c)"

lemma tag_rows_of:
  assumes "i \<in> set ids"
  shows "filter (\<lambda>r. fst r = i) (tag_rows ids d) = tag_rows [i] d"
proof -
  let ?g = "\<lambda>ids r. if fst r \<in> set ids
     then map (\<lambda>t. (fst r, tag_name t)) (filter (\<lambda>t. tag_id t = snd r) (t_tags d)) else []"
  have g: "map (filter (\<lambda>r. fst r = i)) (map (?g ids) rs) = map (?g [i]) rs" for rs
    using assms by (auto simp: filter_map comp_def)
  show ?thesis unfolding tag_rows_def order_asc_def filter_sort filter_concat g ..
qed

text \<open>The extras of a row do not depend on the other rows.\<close>

lemma attachExtras_rows: "attachExtras (map (with_location d) cs) d = map (\<lambda>c. (c, extras_of d c)) cs"
proof (cases "cs = []")
  case False
  have fst: "fst (with_location d c) = c" for c by (simp add: with_location_def)
  have "map snd (filter (\<lambda>r. fst r = c_id c) (tag_rows (map c_id cs) d)) = map snd (tag_rows [c_id c] d)"
    if "c \<in> set cs" for c
    using that by (subst tag_rows_of) simp_all
  with False show ?thesis by (simp add: attachExtras_def Let_def extras_of_def fst comp_def)
qed (simp add: attachExtras_def)

lemma lane_rows: "listBoardSummariesByLane l d = map (\<lambda>c. (c, extras_of d c))
    (order_asc c_position (filter (\<lambda>c. c_laneId c = l \<and> c_archivedAt c = None) (t_cards d)))"
  by (simp add: listBoardSummariesByLane_def attachExtras_rows)

lemma query_rows: "queryBoardSummaries f d = map (\<lambda>c. (c, extras_of d c))
    (order_asc c_position (filter (filterConditions f d) (t_cards d)))"
  by (simp add: queryBoardSummaries_def attachExtras_rows)

lemma snapshot_rows: "snapshot_of d l = \<lparr>ls_lane = l, ls_cards = map (board_row d)
    (order_asc c_position (filter (\<lambda>c. c_laneId c = l_id l \<and> c_archivedAt c = None) (t_cards d))),
    ls_wipLimitExceeded = over_wip l (countActiveByLane (l_id l) d)\<rparr>"
  by (simp add: snapshot_of_def Let_def lane_rows board_row_def comp_def order_asc_def countActiveByLane_def)

lemma filtered_rows:
  "filtered_lane (filter (\<lambda>row. P (fst row)) (queryBoardSummaries q d)) d l = \<lparr>ls_lane = l, ls_cards = map (board_row d)
    (order_asc c_position (filter (\<lambda>c. filterConditions q d c \<and> P c \<and> c_laneId c = l_id l) (t_cards d))),
    ls_wipLimitExceeded = over_wip l (countActiveByLane (l_id l) d)\<rparr>"
  by (simp add: filtered_lane_def query_rows board_row_def[abs_def] filter_map comp_def order_asc_def filter_sort)

section \<open>Which cards\<close>

text \<open>A card meets the facets of a filter.\<close>

definition meets :: "board_filter \<Rightarrow> instant \<Rightarrow> policy_document \<Rightarrow> db \<Rightarrow> card \<Rightarrow> bool" where
  "meets f t policy d c \<longleftrightarrow> (bf_priorities f = [] \<or> c_priority c \<in> set (bf_priorities f))
     \<and> (bf_assigneeIds f = [] \<or> (\<exists>u \<in> set (bf_assigneeIds f). c_assigneeId c = Some u))
     \<and> (bf_reporterIds f = [] \<or> c_reporterId c \<in> set (bf_reporterIds f))
     \<and> (bf_tags f = [] \<or> carries_tag (bf_tags f) d c)
     \<and> (bf_locationIds f = [] \<or> (\<exists>r \<in> set (bf_locationIds f). \<exists>x \<in> descendants (t_locations d) r. c_locationId c = Some x))
     \<and> (bf_q f = [] \<or> text_found (bf_q f) c)
     \<and> (bf_overdue f \<longrightarrow> isWorkOverdue (c_workStartedAt c) (c_estimateMinutes c) t (p_businessHours policy))"

lemma column_in_iff: "column_in wanted x \<longleftrightarrow> wanted = [] \<or> (\<exists>y \<in> set wanted. x = Some y)"
  by (cases x) (auto simp: column_in_def)

lemma column_in_Nil: "column_in [] x"
  by (simp add: column_in_def)

lemma repo_filter:
  assumes "tree_ok (t_locations d)"
  obtains q where "toBoardRepoFilter b f d = Some q"
    and "\<And>c. bf_scope f = ActiveOnly \<Longrightarrow> filterConditions q d c
        \<and> (bf_overdue f \<longrightarrow> isWorkOverdue (c_workStartedAt c) (c_estimateMinutes c) t (p_businessHours policy))
      \<longleftrightarrow> c_archivedAt c = None \<and> c_boardId c = b \<and> meets f t policy d c"
proof -
  let ?ix = "childrenByParentOf (listLocations d)" and ?roots = "uniq (bf_locationIds f)"
  have "wf ((edges ?ix)\<inverse>)" using tree_wf[OF assms] by (simp add: edges_below)
  from expand_returns[OF this, of ?roots] obtain ids where
    ids: "expand_roots ?ix ?roots = Some ids" "set ids = (below (t_locations d))\<^sup>* `` set (bf_locationIds f)"
    by (auto simp: edges_below)
  have none: "uniq ids = [] \<longleftrightarrow> bf_locationIds f = []"
  proof -
    have "E\<^sup>* `` S = {} \<longleftrightarrow> S = {}" for E :: "(uuid \<times> uuid) set" and S by auto
    then have "set (uniq ids) = {} \<longleftrightarrow> set (bf_locationIds f) = {}" by (simp add: ids(2))
    then show ?thesis by (simp only: set_empty)
  qed
  have some: "x \<in> set (uniq ids) \<longleftrightarrow> (\<exists>r \<in> set (bf_locationIds f). x \<in> descendants (t_locations d) r)" for x
    by (auto simp: ids(2))
  have late: "isWorkOverdue (c_workStartedAt c) (c_estimateMinutes c) t h \<Longrightarrow> c_workStartedAt c \<noteq> None \<and> c_estimateMinutes c \<noteq> None" for c h
    by (auto simp: isWorkOverdue_def split: option.splits)
  show ?thesis
  proof (rule that)
    show "toBoardRepoFilter b f d = Some (no_filter\<lparr>qf_boardId := Some b, qf_priorities := bf_priorities f,
          qf_assigneeIds := bf_assigneeIds f, qf_reporterIds := bf_reporterIds f, qf_tags := bf_tags f,
          qf_locationIds := uniq ids, qf_archivedOnly := (bf_scope f = ArchivedOnly),
          qf_includeArchived := (bf_scope f = AllCards),
          qf_q := (if bf_q f = [] then None else Some (bf_q f)), qf_overdueCandidate := bf_overdue f\<rparr>)"
      by (simp add: toBoardRepoFilter_def ids(1))
  next
    fix c assume a: "bf_scope f = ActiveOnly"
    show "filterConditions (no_filter\<lparr>qf_boardId := Some b, qf_priorities := bf_priorities f,
          qf_assigneeIds := bf_assigneeIds f, qf_reporterIds := bf_reporterIds f, qf_tags := bf_tags f,
          qf_locationIds := uniq ids, qf_archivedOnly := (bf_scope f = ArchivedOnly),
          qf_includeArchived := (bf_scope f = AllCards),
          qf_q := (if bf_q f = [] then None else Some (bf_q f)), qf_overdueCandidate := bf_overdue f\<rparr>) d c
        \<and> (bf_overdue f \<longrightarrow> isWorkOverdue (c_workStartedAt c) (c_estimateMinutes c) t (p_businessHours policy))
      \<longleftrightarrow> c_archivedAt c = None \<and> c_boardId c = b \<and> meets f t policy d c"
      (is "filterConditions ?q d c \<and> ?over \<longleftrightarrow> _")
    proof -
      have loc: "column_in (uniq ids) (c_locationId c) \<longleftrightarrow> bf_locationIds f = []
          \<or> (\<exists>r \<in> set (bf_locationIds f). \<exists>x \<in> descendants (t_locations d) r. c_locationId c = Some x)"
        unfolding column_in_iff none using some by blast
      have "filterConditions ?q d c \<longleftrightarrow> c_archivedAt c = None \<and> c_boardId c = b
          \<and> column_in (bf_assigneeIds f) (c_assigneeId c) \<and> column_in (bf_reporterIds f) (Some (c_reporterId c))
          \<and> column_in (bf_priorities f) (Some (c_priority c)) \<and> column_in (uniq ids) (c_locationId c)
          \<and> (bf_overdue f \<longrightarrow> c_workStartedAt c \<noteq> None \<and> c_estimateMinutes c \<noteq> None)
          \<and> (bf_tags f = [] \<or> carries_tag (bf_tags f) d c) \<and> (bf_q f = [] \<or> text_found (bf_q f) c)"
        by (simp add: filterConditions_def no_filter_def archive_selected_def equals_opt_def column_is_def a column_in_Nil)
      then show ?thesis using late[of c "p_businessHours policy"]
        unfolding loc meets_def unfolding column_in_iff by simp blast
    qed
  qed
qed


text \<open>One of two cards of a column is assigned.\<close>

definition assigned_world :: world where
  "assigned_world = sample_world\<lparr>w_db := sample_db\<lparr>t_cards :=
     [sample_card 1 102 ''B'', (sample_card 2 102 ''D'')\<lparr>c_assigneeId := Some 3\<rparr>]\<rparr>\<rparr>"


end
