(* ===== verification/Lane_Lookup.thy ===== *)
theory Lane_Lookup
  imports Search Sample
begin

text \<open>
  The column a job or a feed looks up by its key: with the key unique on a board, the rows read
  from it are the rows of the one column of that key.
\<close>

lemma lane_lookup:
  assumes "lanes_ok d"
  shows "findLaneByKey b k d = Some l \<longleftrightarrow> l \<in> set (t_lanes d) \<and> l_boardId l = b \<and> l_key l = k"
proof
  assume "findLaneByKey b k d = Some l"
  then show "l \<in> set (t_lanes d) \<and> l_boardId l = b \<and> l_key l = k" by (auto simp: findLaneByKey_def find_Some_iff)
next
  assume l: "l \<in> set (t_lanes d) \<and> l_boardId l = b \<and> l_key l = k"
  then obtain l' where f: "findLaneByKey b k d = Some l'"
    by (cases "findLaneByKey b k d") (auto simp: findLaneByKey_def find_None_iff)
  then have l': "l' \<in> set (t_lanes d)" "lane_slot l' = lane_slot l"
    using l by (auto simp: findLaneByKey_def find_Some_iff lane_slot_def)
  have "inj_on lane_slot (set (t_lanes d))" using assms by (simp add: lanes_ok_def distinct_map)
  with l l' f show "findLaneByKey b k d = Some l" by (auto dest: inj_onD)
qed

lemma in_named_lane:
  assumes "lanes_ok d"
  shows "c \<in> set (case findLaneByKey b k d of None \<Rightarrow> [] | Some l \<Rightarrow> f l)
    \<longleftrightarrow> (\<exists>l \<in> set (t_lanes d). l_boardId l = b \<and> l_key l = k \<and> c \<in> set (f l))"
proof (cases "findLaneByKey b k d")
  case None
  then have "\<not> (l \<in> set (t_lanes d) \<and> l_boardId l = b \<and> l_key l = k)" for l
    using lane_lookup[OF assms, of b k l] by simp
  with None show ?thesis by auto
next
  case (Some l)
  then have "(l' \<in> set (t_lanes d) \<and> l_boardId l' = b \<and> l_key l' = k) = (l' = l)" for l'
    using lane_lookup[OF assms, of b k l'] by auto
  then have "(\<exists>l' \<in> set (t_lanes d). l_boardId l' = b \<and> l_key l' = k \<and> c \<in> set (f l')) \<longleftrightarrow> c \<in> set (f l)"
    unfolding Bex_def by (metis (no_types))
  then show ?thesis unfolding Some option.case by (rule sym)
qed

text \<open>The cards a query without text, tags and pages selects.\<close>

lemma plain_query: "set (query f None None d) = {c \<in> set (t_cards d). filterConditions f d c}"
  by (simp add: query_def limit_to_def)

lemma board_lane_filter: "filterConditions (no_filter\<lparr>qf_boardId := Some b, qf_laneId := Some l\<rparr>) d c
    \<longleftrightarrow> c_archivedAt c = None \<and> c_boardId c = b \<and> c_laneId c = l"
  "filterConditions (no_filter\<lparr>qf_boardId := Some b, qf_blocked := Some x\<rparr>) d c
    \<longleftrightarrow> c_archivedAt c = None \<and> c_boardId c = b \<and> c_blocked c = x"
  "filterConditions (no_filter\<lparr>qf_laneId := Some l, qf_overdueBefore := Some t\<rparr>) d c
    \<longleftrightarrow> c_archivedAt c = None \<and> c_laneId c = l \<and> (\<exists>r. c_expectedResumeAt c = Some r \<and> r < t)"
  by (auto simp: filterConditions_def no_filter_def archive_selected_def equals_opt_def column_in_def column_is_def
      split: option.splits)

end
