(* ===== verification/Stale_Claims.thy ===== *)
theory Stale_Claims
  imports Feeds Lane_Lookup
begin

text \<open>
  The follow-up feed holds exactly the neglected cards, each once with all its reasons.
\<close>

section \<open>Collecting the reasons\<close>

definition has_reason :: "stale_card list \<Rightarrow> stale_reason \<times> card \<Rightarrow> bool" where
  "has_reason entries m \<longleftrightarrow> (\<exists>x \<in> set entries. sc_card x = snd m \<and> fst m \<in> set (sc_reasons x))"

definition entries_ok :: "card list \<Rightarrow> stale_card list \<Rightarrow> bool" where
  "entries_ok cs entries \<longleftrightarrow> distinct (map (c_id \<circ> sc_card) entries) \<and> sc_card ` set entries \<subseteq> set cs
     \<and> (\<forall>x \<in> set entries. sc_reasons x \<noteq> [])"

lemma mark_step:
  assumes "distinct (map c_id cs)" and "c \<in> set cs" and "entries_ok cs entries"
  shows "entries_ok cs (mark r c entries)"
    and "has_reason (mark r c entries) m \<longleftrightarrow> has_reason entries m \<or> m = (r, c)"
proof -
  have same: "y = c" if "y \<in> set cs" "c_id y = c_id c" for y
    using assms(1,2) that by (auto simp: distinct_map dest: inj_onD)
  have mem: "sc_card x \<in> set cs" if "x \<in> set entries" for x using assms(3) that by (auto simp: entries_ok_def)
  show "entries_ok cs (mark r c entries)"
  proof (cases "c_id c \<in> (c_id \<circ> sc_card) ` set entries")
    case True
    have "map (c_id \<circ> sc_card) (map (\<lambda>x. if c_id (sc_card x) = c_id c then x\<lparr>sc_reasons := sc_reasons x @ [r]\<rparr> else x) entries)
        = map (c_id \<circ> sc_card) entries" by auto
    with True assms(3) show ?thesis unfolding mark_def entries_ok_def by (auto simp del: map_map)
  next
    case False
    with assms(2,3) show ?thesis unfolding mark_def entries_ok_def by (auto simp: image_iff)
  qed
  show "has_reason (mark r c entries) m \<longleftrightarrow> has_reason entries m \<or> m = (r, c)"
  proof (cases "c_id c \<in> (c_id \<circ> sc_card) ` set entries")
    case True
    then obtain x where x: "x \<in> set entries" "c_id (sc_card x) = c_id c" by auto
    then have xc: "sc_card x = c" using same mem by blast
    have cut: "sc_card y = c" if "y \<in> set entries" "c_id (sc_card y) = c_id c" for y using same mem that by blast
    show ?thesis
    proof
      assume "has_reason (mark r c entries) m"
      then obtain y where y: "y \<in> set entries" "sc_card y = snd m" "fst m \<in> set (sc_reasons y)
          \<or> c_id (sc_card y) = c_id c \<and> fst m = r"
        using True unfolding has_reason_def mark_def by (auto split: if_splits)
      with cut show "has_reason entries m \<or> m = (r, c)"
        unfolding has_reason_def by (cases m) auto
    next
      assume "has_reason entries m \<or> m = (r, c)"
      then show "has_reason (mark r c entries) m"
      proof
        assume "m = (r, c)"
        moreover have "x\<lparr>sc_reasons := sc_reasons x @ [r]\<rparr> \<in> set (mark r c entries)"
          using True x unfolding mark_def by (auto intro!: image_eqI[of _ _ x])
        ultimately show ?thesis using xc unfolding has_reason_def
          by (intro bexI[of _ "x\<lparr>sc_reasons := sc_reasons x @ [r]\<rparr>"]) simp_all
      next
        assume "has_reason entries m"
        then obtain z where z: "z \<in> set entries" "sc_card z = snd m" "fst m \<in> set (sc_reasons z)"
          unfolding has_reason_def by blast
        let ?f = "\<lambda>x. if c_id (sc_card x) = c_id c then x\<lparr>sc_reasons := sc_reasons x @ [r]\<rparr> else x"
        have "?f z \<in> set (mark r c entries)" using True z(1) unfolding mark_def by (simp del: o_apply)
        with z(2,3) show ?thesis unfolding has_reason_def by (intro bexI[of _ "?f z"]) simp_all
      qed
    qed
  next
    case False
    then show ?thesis by (cases m) (auto simp: has_reason_def mark_def)
  qed
qed

lemma marks_collected:
  assumes "distinct (map c_id cs)" and "snd ` set ms \<subseteq> set cs" and "entries_ok cs entries"
  shows "entries_ok cs (fold (\<lambda>m. mark (fst m) (snd m)) ms entries)
    \<and> (\<forall>m. has_reason (fold (\<lambda>m. mark (fst m) (snd m)) ms entries) m \<longleftrightarrow> has_reason entries m \<or> m \<in> set ms)"
  using assms(2,3)
proof (induction ms arbitrary: entries)
  case (Cons a ms)
  from Cons.prems have "entries_ok cs (mark (fst a) (snd a) entries)" by (intro mark_step(1)[OF assms(1)]) simp_all
  with Cons.IH[OF _ this] Cons.prems show ?case
    using mark_step(2)[OF assms(1) _ Cons.prems(2), of "snd a" "fst a"] by auto
qed simp

section \<open>The feed\<close>

definition in_lane :: "uuid \<Rightarrow> lane_key \<Rightarrow> db \<Rightarrow> card \<Rightarrow> bool" where
  "in_lane boardId key d c \<longleftrightarrow> c_archivedAt c = None
     \<and> (\<exists>l \<in> set (t_lanes d). l_boardId l = boardId \<and> l_key l = key \<and> c_laneId c = l_id l)"

lemma lane_cards_in:
  assumes "lanes_ok d"
  shows "c \<in> set (lane_cards b key d) \<longleftrightarrow> c \<in> set (t_cards d) \<and> in_lane b key d c"
  unfolding lane_cards_def in_named_lane[OF assms] by (auto simp: listByLane_def in_lane_def)

text \<open>Why a card needs a follow-up.\<close>

fun neglected :: "uuid \<Rightarrow> nat \<times> nat \<Rightarrow> instant \<Rightarrow> db \<Rightarrow> stale_reason \<Rightarrow> card \<Rightarrow> bool" where
  "neglected b days t d OverdueResume c \<longleftrightarrow> in_lane b ''waiting_parts_vendor'' d c
     \<and> (\<exists>resume. c_expectedResumeAt c = Some resume \<and> resume < utcDayOf t)"
| "neglected b days t d StaleReview c \<longleftrightarrow> in_lane b ''review'' d c
     \<and> int (fst days) * DAY_MS < t - reviewEnteredAt d c"
| "neglected b days t d StaleBlocked c \<longleftrightarrow> c_boardId c = b \<and> c_archivedAt c = None \<and> c_blocked c
     \<and> (\<exists>since. c_blockedAt c = Some since \<and> int (snd days) * DAY_MS < t - since)"

lemma stale_marks_set:
  assumes "lanes_ok d"
  shows "(r, c) \<in> set (stale_marks b rd bd t d) \<longleftrightarrow> c \<in> set (t_cards d) \<and> neglected b (rd, bd) t d r c"
proof -
  have "set (stale_marks b rd bd t d) = Pair OverdueResume ` {c \<in> set (lane_cards b ''waiting_parts_vendor'' d).
        isOverdueResume (c_expectedResumeAt c) (utcDayOf t)}
      \<union> Pair StaleReview ` {c \<in> set (lane_cards b ''review'' d). int rd * DAY_MS < t - reviewEnteredAt d c}
      \<union> Pair StaleBlocked ` {c \<in> set (query (no_filter\<lparr>qf_boardId := Some b, qf_blocked := Some True\<rparr>) None None d).
        blocked_too_long t bd c}"
    by (simp add: stale_marks_def Un_assoc)
  then show ?thesis
    by (cases r) (auto simp: lane_cards_in[OF assms] plain_query board_lane_filter isOverdueResume_def blocked_too_long_def split: option.splits)
qed



end
