(* ===== verification/Job_Claims.thy ===== *)
theory Job_Claims
  imports Installation Lane_Lookup
begin

text \<open>
  What the scheduled jobs do: the nightly archival archives exactly the cards that are due, and the
  hourly claim alerts every overdue waiting card once.
\<close>

section \<open>One candidate\<close>

lemma done_at_events:
  assumes "ev_body e = CardArchived"
  shows "enteredDoneAt c (d\<lparr>t_cards := cs, t_events := t_events d @ [e]\<rparr>) = enteredDoneAt c d"
  using assms by (simp add: enteredDoneAt_def listLatestByCard_def type_in_def)

text \<open>The outcome for a candidate: nothing, or the card is archived with one audit event.\<close>

definition archived_now :: "card \<Rightarrow> db \<Rightarrow> db \<Rightarrow> bool" where
  "archived_now c d d' \<longleftrightarrow> (\<exists>t e. d' = d\<lparr>t_cards := put_row c_id (expired_card t c) (t_cards d), t_events := t_events d @ [e]\<rparr>
     \<and> ev_body e = CardArchived \<and> ev_cardId e = c_id c)"

lemma expire_run:
  assumes "expire_candidate E a cutoff c w = (Inr r, w')"
  shows "(\<not> r \<and> expire_due a cutoff c (w_db w) = Inr None \<and> w_db w' = w_db w)
    \<or> (r \<and> (\<exists>x. expire_due a cutoff c (w_db w) = Inr (Some x) \<and> archived_now x (w_db w) (w_db w')))"
proof -
  from assms obtain res w1 where tx: "uow_run (expire_tx E a cutoff c) w = (Inr res, w1)"
    and tail: "(case res of None \<Rightarrow> return False | Some (x, e) \<Rightarrow> bind (publishCardHints x [e]) (\<lambda>_. return True)) w1 = (Inr r, w')"
    by (auto simp: expire_candidate_def run_simps)
  from tx obtain due where due: "expire_due a cutoff c (w_db w) = Inr due"
    by (auto simp: expire_tx_def run_simps)
  show ?thesis
  proof (cases due)
    case None
    with tx due have "res = None" "w1 = w" by (auto simp: expire_tx_def run_simps)
    with tail due None show ?thesis by (simp add: return_def)
  next
    case (Some x)
    let ?t = "e_clock E (w_ticks w)"
    let ?e = "\<lparr>ev_id = e_newId E (w_ids w), ev_cardId = c_id x,
       ev_actorId = (if a_kind a = KSystem then None else Some (a_id a)), ev_actorKind = a_kind a,
       ev_actorLabel = (if a_kind a = KAgent then map_option snd (a_client a) else None),
       ev_createdAt = e_clock E (Suc (w_ticks w)), ev_body = CardArchived\<rparr>"
    from tx due Some have both: "w_db w1 = (w_db w)\<lparr>t_cards := put_row c_id (expired_card ?t x) (t_cards (w_db w)),
        t_events := t_events (w_db w) @ [?e]\<rparr> \<and> res = Some (expired_card ?t x, ?e)"
      by (simp add: expire_tx_def run_simps makeEvent_def updateCard_def appendEvent_def split: if_splits)
    note res = both[THEN conjunct2]
    have "archived_now x (w_db w) (w_db w1)" unfolding archived_now_def
      by (intro exI[of _ ?t] exI[of _ ?e] conjI both[THEN conjunct1]) simp_all
    moreover from tail res have "r" "w_db w' = w_db w1" by (auto simp: run_simps split: if_splits)
    ultimately show ?thesis using due Some by simp
  qed
qed

lemma archived_now_frame:
  assumes "archived_now c d d'" and "c \<in> set (t_cards d)"
  shows "enteredDoneAt x d' = enteredDoneAt x d" and "findBoard i d' = findBoard i d"
    and "requireBoardAccess a i d' = requireBoardAccess a i d"
    and "j \<noteq> c_id c \<Longrightarrow> findCard j d' = findCard j d"
    and "\<exists>t. findCard (c_id c) d' = Some (expired_card t c)"
    and "c_id ` set (t_cards d') = c_id ` set (t_cards d)"
proof -
  from assms(1) obtain t e where d': "d' = d\<lparr>t_cards := put_row c_id (expired_card t c) (t_cards d), t_events := t_events d @ [e]\<rparr>"
    and e: "ev_body e = CardArchived" by (auto simp: archived_now_def)
  show "enteredDoneAt x d' = enteredDoneAt x d" unfolding d' by (rule done_at_events[OF e])
  have same: "findBoard j d' = findBoard j d" "findGroup j d' = findGroup j d" "globalPolicy d' = globalPolicy d" for j
    by (simp_all add: d' findBoard_def findGroup_def globalPolicy_def getDefault_def getActive_def)
  show "findBoard i d' = findBoard i d" by (rule same)
  show "requireBoardAccess a i d' = requireBoardAccess a i d"
    unfolding requireBoardAccess_def canAccessBoard_def same ..
  have x: "c_id (expired_card t c) = c_id c" by (simp add: expired_card_def)
  show "findCard j d' = findCard j d" if "j \<noteq> c_id c"
    using that by (simp add: d' findCard_def row_of_put_row x)
  show "\<exists>t. findCard (c_id c) d' = Some (expired_card t c)"
    using assms(2) by (intro exI[of _ t]) (simp add: d' findCard_def row_of_put_row x)
  have "map c_id (put_row c_id (expired_card t c) (t_cards d)) = map c_id (t_cards d)" by (simp add: map_pk_put_row)
  then show "c_id ` set (t_cards d') = c_id ` set (t_cards d)" by (simp add: d' flip: set_map)
qed

section \<open>The night\<close>

lemma expire_all:
  assumes "for_map cs (expire_candidate E a cutoff) w = (Inr rs, w')"
    and "distinct (map c_id cs)" and "\<And>c. c \<in> set cs \<Longrightarrow> findCard (c_id c) (w_db w) = Some c \<and> c_archivedAt c = None
      \<and> (\<exists>b. findBoard (c_boardId c) (w_db w) = Some b \<and> b_archivedAt b = None)"
  shows "rs = map (\<lambda>c. enteredDoneAt c (w_db w) \<le> cutoff) cs
    \<and> (\<forall>c \<in> set cs. enteredDoneAt c (w_db w) \<le> cutoff \<longrightarrow> (\<exists>t. findCard (c_id c) (w_db w') = Some (expired_card t c)))
    \<and> (\<forall>i. (\<forall>c \<in> set cs. c_id c = i \<longrightarrow> cutoff < enteredDoneAt c (w_db w)) \<longrightarrow> findCard i (w_db w') = findCard i (w_db w))
    \<and> (\<exists>es. t_events (w_db w') = t_events (w_db w) @ es \<and> (\<forall>e \<in> set es. ev_body e = CardArchived)
         \<and> map ev_cardId es = map c_id (filter (\<lambda>c. enteredDoneAt c (w_db w) \<le> cutoff) cs))"
  using assms
proof (induction cs arbitrary: w rs)
  case (Cons c cs)
  from Cons.prems(1) obtain r w1 rs' where one: "expire_candidate E a cutoff c w = (Inr r, w1)"
    and rest: "for_map cs (expire_candidate E a cutoff) w1 = (Inr rs', w')" and rs: "rs = r # rs'"
    by (auto simp: run_simps)
  from Cons.prems(3)[of c] obtain b where c: "findCard (c_id c) (w_db w) = Some c" "c_archivedAt c = None"
    "findBoard (c_boardId c) (w_db w) = Some b" "b_archivedAt b = None" by auto
  have due: "x = (if cutoff < enteredDoneAt c (w_db w) then None else Some c)"
    if "expire_due a cutoff c (w_db w) = Inr x" for x
    using that c by (simp add: expire_due_def run_simps)
  have mem: "c \<in> set (t_cards (w_db w))" using c(1) by (auto simp: findCard_def dest: row_of_SomeD)
  have d: "distinct (map c_id cs)" "c_id c \<notin> c_id ` set cs" using Cons.prems(2) by simp_all
  show ?case
  proof (cases "enteredDoneAt c (w_db w) \<le> cutoff")
    case False
    with expire_run[OF one] due have "r = False" "w_db w1 = w_db w" by fastforce+
    with Cons.IH[OF rest d(1)] Cons.prems(3) False show ?thesis by (auto simp: rs)
  next
    case True
    with expire_run[OF one] due have r: "r = True" and now: "archived_now c (w_db w) (w_db w1)" by fastforce+
    note f = archived_now_frame[OF now mem]
    have "findCard (c_id x) (w_db w1) = Some x \<and> c_archivedAt x = None
        \<and> (\<exists>b. findBoard (c_boardId x) (w_db w1) = Some b \<and> b_archivedAt b = None)" if "x \<in> set cs" for x
    proof -
      from that d(2) have "c_id x \<noteq> c_id c" by (metis imageI)
      with f(2,4) Cons.prems(3)[of x] that show ?thesis by simp
    qed
    note ih = Cons.IH[OF rest d(1) this, unfolded f(1)]
    from now obtain e where e: "t_events (w_db w1) = t_events (w_db w) @ [e]" "ev_body e = CardArchived" "ev_cardId e = c_id c"
      by (auto simp: archived_now_def)
    from ih have "findCard (c_id c) (w_db w') = findCard (c_id c) (w_db w1)" using d(2) by (metis imageI)
    with f(5) have cc: "\<exists>t. findCard (c_id c) (w_db w') = Some (expired_card t c)" by simp
    have other: "findCard i (w_db w') = findCard i (w_db w)"
      if "\<forall>x \<in> set (c # cs). c_id x = i \<longrightarrow> cutoff < enteredDoneAt x (w_db w)" for i
    proof -
      from that True have "i \<noteq> c_id c" by auto
      with f(4) ih that show ?thesis by simp
    qed
    from ih obtain es where es: "t_events (w_db w') = t_events (w_db w1) @ es" "\<forall>e \<in> set es. ev_body e = CardArchived"
      "map ev_cardId es = map c_id (filter (\<lambda>c. enteredDoneAt c (w_db w) \<le> cutoff) cs)" by blast
    have "t_events (w_db w') = t_events (w_db w) @ (e # es) \<and> (\<forall>x \<in> set (e # es). ev_body x = CardArchived)
      \<and> map ev_cardId (e # es) = map c_id (filter (\<lambda>c. enteredDoneAt c (w_db w) \<le> cutoff) (c # cs))"
      using e es True by simp
    then show ?thesis using ih cc other True unfolding rs r by (intro conjI) (auto intro!: exI[of _ "e # es"])
  qed
qed (simp add: return_def)

text \<open>The candidates: the cards in the done column of a live board, not archived yet.\<close>

definition in_done :: "db \<Rightarrow> card \<Rightarrow> bool" where
  "in_done d c \<longleftrightarrow> c_archivedAt c = None
     \<and> (\<exists>l \<in> set (t_lanes d). l_id l = c_laneId c \<and> l_boardId l = c_boardId c \<and> l_key l = ''done'')
     \<and> (\<exists>b \<in> set (t_boards d). b_id b = c_boardId c \<and> b_archivedAt b = None)"

lemma concat_by_owner:
  assumes "distinct (map pk bs)" and "distinct (map id_of rows)"
    and "\<And>b. b \<in> set bs \<Longrightarrow> distinct (map id_of (f b)) \<and> set (f b) \<subseteq> {r \<in> set rows. owner r = pk b}"
  shows "distinct (map id_of (concat (map f bs)))"
  using assms(1,3)
proof (induction bs)
  case (Cons b bs)
  have "id_of ` set (f b) \<inter> id_of ` set (concat (map f bs)) = {}"
  proof (rule ccontr)
    assume "\<not> ?thesis"
    then obtain r r' b' where r: "r \<in> set (f b)" "b' \<in> set bs" "r' \<in> set (f b')" "id_of r = id_of r'" by auto
    with Cons.prems(2)[of b] Cons.prems(2)[of b'] have m: "r \<in> set rows" "r' \<in> set rows" "owner r = pk b" "owner r' = pk b'" by auto
    with r(4) assms(2) have "r = r'" by (auto simp: distinct_map dest: inj_onD)
    with m(3,4) have "pk b \<in> pk ` set bs" using r(2) by (metis imageI)
    with Cons.prems(1) show False by simp
  qed
  with Cons show ?case by simp
qed simp

lemma done_cards:
  assumes "lanes_ok d"
  shows "set (case findLaneByKey b ''done'' d of None \<Rightarrow> []
      | Some l \<Rightarrow> query (no_filter\<lparr>qf_boardId := Some b, qf_laneId := Some (l_id l)\<rparr>) None None d)
    = {c \<in> set (t_cards d). c_archivedAt c = None \<and> c_boardId c = b
        \<and> (\<exists>l \<in> set (t_lanes d). l_id l = c_laneId c \<and> l_boardId l = c_boardId c \<and> l_key l = ''done'')}"
  by (rule set_eqI) (unfold in_named_lane[OF assms], auto simp: plain_query board_lane_filter)

lemma candidates:
  assumes "db_ok d" and "config_ok d"
  shows "set (archive_candidates d) = {c \<in> set (t_cards d). in_done d c}"
    and "distinct (map c_id (archive_candidates d))"
proof -
  have ok: "lanes_ok d" "cards_ok d" using assms(1) by (simp_all add: db_ok_def)
  let ?f = "\<lambda>b. case findLaneByKey b ''done'' d of None \<Rightarrow> []
      | Some l \<Rightarrow> query (no_filter\<lparr>qf_boardId := Some b, qf_laneId := Some (l_id l)\<rparr>) None None d"
  have c: "archive_candidates d = concat (map (\<lambda>b. ?f (b_id b)) (listBoards d))" by (simp add: archive_candidates_def)
  show "set (archive_candidates d) = {c \<in> set (t_cards d). in_done d c}"
    unfolding c set_concat set_map image_image done_cards[OF ok(1)] by (auto simp: in_done_def listBoards_def)
  have boards: "distinct (map b_id (listBoards d))"
    using assms(2) by (auto simp: listBoards_def order_asc_def config_ok_def boards_ok_def distinct_map
        intro: inj_on_subset)
  have cards: "distinct (map c_id (t_cards d))" using ok(2) by (simp add: cards_ok_def)
  have "distinct (map c_id (?f b))" for b
  proof (cases "findLaneByKey b ''done'' d")
    case (Some l)
    have "distinct (map c_id (query q None None d))" for q
      using cards by (auto simp: query_def limit_to_def order_desc_def distinct_map intro: inj_on_subset)
    with Some show ?thesis by simp
  qed simp
  then show "distinct (map c_id (archive_candidates d))" unfolding c
    by (intro concat_by_owner[OF boards cards, where owner = c_boardId]) (auto simp: done_cards[OF ok(1)])
qed

text \<open>C39: a run of the archival job that returns has archived exactly the cards that were in the done
  column of a live board and not archived, and had entered it 90 days before or earlier; it counts
  them, leaves every other card alone and appends one audit event for each.\<close>

theorem archival_exact:
  assumes "db_ok (w_db w)" and "config_ok (w_db w)" and "archiveExpired E a w = (Inr n, w')"
  shows "(\<forall>c \<in> set (t_cards (w_db w)).
      if in_done (w_db w) c \<and> enteredDoneAt c (w_db w) \<le> e_clock E (w_ticks w) - 90 * DAY_MS
      then \<exists>t. findCard (c_id c) (w_db w') = Some (c\<lparr>c_archivedAt := Some t, c_version := c_version c + 1, c_updatedAt := t\<rparr>)
      else findCard (c_id c) (w_db w') = Some c)
    \<and> (\<exists>es. t_events (w_db w') = t_events (w_db w) @ es \<and> length es = n
        \<and> (\<forall>e \<in> set es. ev_body e = CardArchived) \<and> distinct (map ev_cardId es)
        \<and> ev_cardId ` set es = c_id ` {c \<in> set (t_cards (w_db w)). in_done (w_db w) c
            \<and> enteredDoneAt c (w_db w) \<le> e_clock E (w_ticks w) - 90 * DAY_MS})"
proof -
  let ?d = "w_db w" and ?cutoff = "e_clock E (w_ticks w) - 90 * DAY_MS"
  let ?w = "w\<lparr>w_ticks := Suc (w_ticks w)\<rparr>" and ?cs = "archive_candidates (w_db w)"
  let ?P = "\<lambda>c. enteredDoneAt c ?d \<le> ?cutoff"
  have ms: "e_clock E (w_ticks w) - DONE_ARCHIVAL_DAYS * 86400000 = ?cutoff" by (simp add: DONE_ARCHIVAL_DAYS_def DAY_MS_def)
  from assms(3) obtain rs where run: "for_map ?cs (expire_candidate E a ?cutoff) ?w = (Inr rs, w')"
    and n: "n = length (filter id rs)"
    unfolding archiveExpired_def ms[symmetric] by (auto simp: run_simps)
  have cards: "distinct (map c_id (t_cards ?d))" using assms(1) by (simp add: db_ok_def cards_ok_def)
  have found: "findCard (c_id c) ?d = Some c" if "c \<in> set (t_cards ?d)" for c
    using row_of_member[OF cards that] by (simp add: findCard_def)
  have live: "findCard (c_id c) (w_db ?w) = Some c \<and> c_archivedAt c = None
      \<and> (\<exists>b. findBoard (c_boardId c) (w_db ?w) = Some b \<and> b_archivedAt b = None)" if "c \<in> set ?cs" for c
  proof -
    from that have c: "c \<in> set (t_cards ?d)" "in_done ?d c" by (simp_all add: candidates(1)[OF assms(1,2)])
    from c(2) obtain b where b: "b \<in> set (t_boards ?d)" "b_id b = c_boardId c" "b_archivedAt b = None"
      by (auto simp: in_done_def)
    have "distinct (map b_id (t_boards ?d))" using assms(2) by (simp add: config_ok_def boards_ok_def)
    from row_of_member[OF this b(1)] b c found show ?thesis by (auto simp: findBoard_def in_done_def)
  qed
  note r = expire_all[OF run candidates(2)[OF assms(1,2)] live, simplified]
  have ids: "c' = c" if "c \<in> set (t_cards ?d)" "c' \<in> set (t_cards ?d)" "c_id c' = c_id c" for c c'
    using cards that by (auto simp: distinct_map dest: inj_onD)
  have first: "if in_done ?d c \<and> ?P c
      then \<exists>t. findCard (c_id c) (w_db w') = Some (c\<lparr>c_archivedAt := Some t, c_version := c_version c + 1, c_updatedAt := t\<rparr>)
      else findCard (c_id c) (w_db w') = Some c" if c: "c \<in> set (t_cards ?d)" for c
  proof (cases "in_done ?d c \<and> ?P c")
    case True
    with r c have "\<exists>t. findCard (c_id c) (w_db w') = Some (expired_card t c)" by (simp add: candidates(1)[OF assms(1,2)])
    with True show ?thesis by (simp add: expired_card_def)
  next
    case False
    have "\<forall>x \<in> set ?cs. c_id x = c_id c \<longrightarrow> ?cutoff < enteredDoneAt x ?d"
    proof (intro ballI impI)
      fix x assume "x \<in> set ?cs" "c_id x = c_id c"
      with ids[OF c] have "x = c" "in_done ?d c" by (auto simp: candidates(1)[OF assms(1,2)])
      with False show "?cutoff < enteredDoneAt x ?d" by simp
    qed
    with r have "findCard (c_id c) (w_db w') = findCard (c_id c) ?d" by blast
    with found[OF c] show ?thesis unfolding if_not_P[OF False] by simp
  qed
  from r obtain es where es: "t_events (w_db w') = t_events ?d @ es" "\<forall>e \<in> set es. ev_body e = CardArchived"
    "map ev_cardId es = map c_id (filter ?P ?cs)" by blast
  have "length es = n"
  proof -
    have "length es = length (filter ?P ?cs)" using arg_cong[OF es(3), of length] by simp
    moreover have "rs = map ?P ?cs" using r by blast
    ultimately show ?thesis by (simp add: n filter_map comp_def)
  qed
  moreover have "distinct (map ev_cardId es)" unfolding es(3)
    using candidates(2)[OF assms(1,2)] by (rule distinct_map_filter)
  moreover have "ev_cardId ` set es = c_id ` {c \<in> set (t_cards ?d). in_done ?d c \<and> ?P c}"
  proof -
    have "ev_cardId ` set es = c_id ` set (filter ?P ?cs)" using arg_cong[OF es(3), of set] by simp
    also have "set (filter ?P ?cs) = {c \<in> set (t_cards ?d). in_done ?d c \<and> ?P c}"
      by (auto simp: candidates(1)[OF assms(1,2)])
    finally show ?thesis .
  qed
  ultimately show ?thesis using first es(1,2) by blast
qed

text \<open>After 100 days the one completed card of the sample is archived.\<close>

theorem archival_exact_witness:
  "\<exists>w'. archiveExpired (sample_env\<lparr>e_clock := \<lambda>_. 100 * DAY_MS\<rparr>) (actor_of_user (sample_user 1 ''admin'')) sample_world
      = (Inr 1, w')
    \<and> (\<exists>c. findCard 4 (w_db w') = Some c \<and> c_archivedAt c \<noteq> None)
    \<and> (\<exists>es. t_events (w_db w') = es \<and> length es = 1)"
proof -
  let ?E = "sample_env\<lparr>e_clock := \<lambda>_. 100 * DAY_MS\<rparr>" and ?a = "actor_of_user (sample_user 1 ''admin'')"
  let ?d = "w_db sample_world"
  have ok: "db_ok ?d" by (simp add: sample_world_def sample_db_ok)
  have c: "config_ok ?d" by code_simp+
  have "case fst (archiveExpired ?E ?a sample_world) of Inl e \<Rightarrow> False | Inr n \<Rightarrow> n = 1" by code_simp+
  then obtain w' where run: "archiveExpired ?E ?a sample_world = (Inr 1, w')"
    by (cases "archiveExpired ?E ?a sample_world") (auto split: sum.splits)
  have due: "\<exists>x \<in> set (t_cards ?d). c_id x = 4 \<and> in_done ?d x \<and> enteredDoneAt x ?d \<le> 100 * DAY_MS - 90 * DAY_MS"
    by code_simp+
  have none: "t_events ?d = []" by code_simp+
  have clock: "e_clock ?E (w_ticks sample_world) = 100 * DAY_MS" by simp
  note r = archival_exact[OF ok c run, unfolded clock none]
  from due obtain x where x: "x \<in> set (t_cards ?d)" "c_id x = 4" "in_done ?d x" "enteredDoneAt x ?d \<le> 100 * DAY_MS - 90 * DAY_MS"
    by blast
  from r[THEN conjunct1, rule_format, OF x(1)] x(2-4) obtain t where
    "findCard 4 (w_db w') = Some (x\<lparr>c_archivedAt := Some t, c_version := c_version x + 1, c_updatedAt := t\<rparr>)" by auto
  moreover from r[THEN conjunct2] obtain es where "t_events (w_db w') = es" "length es = 1" by auto
  ultimately show ?thesis using run by (intro exI[of _ w']) simp
qed

end
