(* ===== verification/Alert_Claims.thy ===== *)
theory Alert_Claims
  imports Job_Claims
begin

text \<open>
  The hourly claim of overdue waiting cards: each is alerted once per episode, to active users who
  may see it.
\<close>

section \<open>Writes to cards change nothing the recipients depend on\<close>

lemma cards_frame [simp]:
  "canAccessBoard a b (d\<lparr>t_cards := x\<rparr>) = canAccessBoard a b d"
  "activePolicy i (d\<lparr>t_cards := x\<rparr>) = activePolicy i d"
  "listUsers (d\<lparr>t_cards := x\<rparr>) = listUsers d"
  "supervisors E p (d\<lparr>t_cards := x\<rparr>) = supervisors E p d"
  "alert_recipients c us (d\<lparr>t_cards := x\<rparr>) = alert_recipients c us d"
  "lanes_ok (d\<lparr>t_cards := x\<rparr>) = lanes_ok d"
proof -
  have same: "findGroup j (d\<lparr>t_cards := x\<rparr>) = findGroup j d" "globalPolicy (d\<lparr>t_cards := x\<rparr>) = globalPolicy d"
    "getActive j (d\<lparr>t_cards := x\<rparr>) = getActive j d" "findUser j (d\<lparr>t_cards := x\<rparr>) = findUser j d"
    "listUsers (d\<lparr>t_cards := x\<rparr>) = listUsers d" for j
    by (simp_all add: findGroup_def globalPolicy_def getDefault_def getActive_def findUser_def listUsers_def)
  show "canAccessBoard a b (d\<lparr>t_cards := x\<rparr>) = canAccessBoard a b d"
    unfolding canAccessBoard_def same ..
  show "activePolicy i (d\<lparr>t_cards := x\<rparr>) = activePolicy i d" unfolding activePolicy_def same ..
  show "listUsers (d\<lparr>t_cards := x\<rparr>) = listUsers d" by (rule same)
  show "supervisors E p (d\<lparr>t_cards := x\<rparr>) = supervisors E p d" unfolding supervisors_def same ..
  show "alert_recipients c us (d\<lparr>t_cards := x\<rparr>) = alert_recipients c us d" unfolding alert_recipients_def same ..
  show "lanes_ok (d\<lparr>t_cards := x\<rparr>) = lanes_ok d" by (simp add: lanes_ok_def)
qed

section \<open>One card\<close>

definition alerted :: "instant \<Rightarrow> card \<Rightarrow> card" where
  "alerted t c = c\<lparr>c_resumeAlertedAt := Some t\<rparr>"

lemma alerted_same [simp]: "c_id (alerted t c) = c_id c" "c_resumeAlertedAt (alerted t c) = Some t"
  "c_laneId (alerted t c) = c_laneId c" "c_assigneeId (alerted t c) = c_assigneeId c"
  by (simp_all add: alerted_def)

definition reaches :: "board \<Rightarrow> user list \<Rightarrow> db \<Rightarrow> card \<times> user list \<Rightarrow> bool" where
  "reaches b admins d r \<longleftrightarrow> set (snd r) \<subseteq> set (alert_recipients (fst r) admins d)
     \<and> (\<forall>u \<in> set (snd r). canAccessBoard (actor_of_user u) b d = Inr True)"

lemma claim_one:
  assumes "claim_alert b t admins c w = (Inr r, w')"
  shows "w_db w' = (w_db w)\<lparr>t_cards := put_row c_id (alerted t c) (t_cards (w_db w))\<rparr>
    \<and> fst r = alerted t c \<and> reaches b admins (w_db w) r"
proof -
  from assms obtain us where
    d: "w_db w' = (w_db w)\<lparr>t_cards := put_row c_id (alerted t c) (t_cards (w_db w))\<rparr>"
    and us: "sfilter (\<lambda>u. canAccessBoard (actor_of_user u) b (w_db w')) (alert_recipients c admins (w_db w)) = Inr us"
    and r: "r = (alerted t c, us)"
    by (auto simp: claim_alert_def run_simps updateCard_def alerted_def Let_def split: if_splits)
  from sfilter_Inr[OF us] have "set us = {u \<in> set (alert_recipients c admins (w_db w)).
      canAccessBoard (actor_of_user u) b (w_db w) = Inr True}" by (simp add: d)
  moreover have "alert_recipients (alerted t c) admins (w_db w) = alert_recipients c admins (w_db w)"
    by (simp add: alert_recipients_def)
  ultimately show ?thesis using d r by (auto simp: reaches_def)
qed

lemma claim_cards:
  assumes "for_map cs (claim_alert b t admins) w = (Inr rs, w')" and "distinct (map c_id cs)"
    and "c_id ` set cs \<subseteq> c_id ` set (t_cards (w_db w))"
  shows "map fst rs = map (alerted t) cs
    \<and> (\<exists>tc. w_db w' = (w_db w)\<lparr>t_cards := tc\<rparr> \<and> map c_id tc = map c_id (t_cards (w_db w)))
    \<and> (\<forall>r \<in> set rs. reaches b admins (w_db w) r)
    \<and> (\<forall>c \<in> set cs. findCard (c_id c) (w_db w') = Some (alerted t c))
    \<and> (\<forall>i. i \<notin> c_id ` set cs \<longrightarrow> findCard i (w_db w') = findCard i (w_db w))"
  using assms
proof (induction cs arbitrary: w rs)
  case (Cons c cs)
  from Cons.prems(1) obtain r w1 rs' where one: "claim_alert b t admins c w = (Inr r, w1)"
    and rest: "for_map cs (claim_alert b t admins) w1 = (Inr rs', w')" and rs: "rs = r # rs'"
    by (auto simp: run_simps)
  note o = claim_one[OF one]
  then have d1: "w_db w1 = (w_db w)\<lparr>t_cards := put_row c_id (alerted t c) (t_cards (w_db w))\<rparr>" by simp
  have ids: "map c_id (t_cards (w_db w1)) = map c_id (t_cards (w_db w))" by (simp add: d1 map_pk_put_row)
  have fresh: "distinct (map c_id cs)" "c_id c \<notin> c_id ` set cs" using Cons.prems(2) by simp_all
  have "c_id ` set cs \<subseteq> c_id ` set (t_cards (w_db w1))"
    using Cons.prems(3) arg_cong[OF ids, of set] by simp
  note ih = Cons.IH[OF rest fresh(1) this]
  have reach: "reaches b admins (w_db w1) x = reaches b admins (w_db w) x" for x by (simp add: reaches_def d1)
  have f1: "findCard i (w_db w1) = (if i = c_id c then Some (alerted t c) else findCard i (w_db w))" for i
    using Cons.prems(3) by (simp add: d1 findCard_def row_of_put_row image_iff)
  from ih obtain tc where tc: "w_db w' = (w_db w1)\<lparr>t_cards := tc\<rparr>" "map c_id tc = map c_id (t_cards (w_db w))"
    unfolding ids by blast
  have "findCard (c_id c) (w_db w') = Some (alerted t c)" using ih fresh(2) f1 by simp
  moreover have "w_db w' = (w_db w)\<lparr>t_cards := tc\<rparr>" by (simp add: tc(1) d1)
  moreover have "findCard i (w_db w') = findCard i (w_db w)" if "i \<notin> c_id ` set (c # cs)" for i
    using ih that by (simp add: f1)
  moreover note ih o tc(2)
  ultimately show ?case unfolding rs reach by (intro conjI) (simp, blast, simp, simp, blast)
qed (auto simp: return_def intro!: exI[of _ "t_cards (w_db w')"])

section \<open>One board\<close>

text \<open>Waiting past the resume day on a board, and not alerted yet.\<close>

definition to_alert :: "day \<Rightarrow> db \<Rightarrow> board \<Rightarrow> card \<Rightarrow> bool" where
  "to_alert today d b c \<longleftrightarrow> c \<in> set (t_cards d) \<and> c_archivedAt c = None \<and> c_resumeAlertedAt c = None
     \<and> (\<exists>l \<in> set (t_lanes d). l_boardId l = b_id b \<and> l_key l = ''waiting_parts_vendor'' \<and> c_laneId c = l_id l)
     \<and> (\<exists>resume. c_expectedResumeAt c = Some resume \<and> resume < today)"

lemma overdue_set: "lanes_ok d \<Longrightarrow> set (overdue_waiting b today d) = {c. to_alert today d b c}"
proof -
  assume ok: "lanes_ok d"
  have "overdue_waiting b today d = (case findLaneByKey (b_id b) ''waiting_parts_vendor'' d of None \<Rightarrow> []
    | Some l \<Rightarrow> filter (\<lambda>c. c_resumeAlertedAt c = None)
        (query (no_filter\<lparr>qf_laneId := Some (l_id l), qf_overdueBefore := Some today\<rparr>) None None d))"
    by (simp add: overdue_waiting_def)
  then show ?thesis
    by (intro set_eqI) (simp only: in_named_lane[OF ok], auto simp: plain_query board_lane_filter to_alert_def)
qed

lemma overdue_distinct:
  assumes "distinct (map c_id (t_cards d))" shows "distinct (map c_id (overdue_waiting b today d))"
proof (cases "findLaneByKey (b_id b) ''waiting_parts_vendor'' d")
  case (Some l)
  have "distinct (map c_id (query q None None d))" for q
    using assms by (auto simp: query_def limit_to_def order_desc_def distinct_map intro: inj_on_subset)
  with Some show ?thesis by (simp add: overdue_waiting_def distinct_map_filter)
qed (simp add: overdue_waiting_def)

lemma claim_one_board:
  assumes "claim_board E t b w = (Inr rs, w')" and "lanes_ok (w_db w)" and "distinct (map c_id (t_cards (w_db w)))"
  shows "distinct (map (c_id \<circ> fst) rs) \<and> fst ` set rs = alerted t ` {c. to_alert (utcDayOf t) (w_db w) b c}
    \<and> (\<exists>tc. w_db w' = (w_db w)\<lparr>t_cards := tc\<rparr> \<and> map c_id tc = map c_id (t_cards (w_db w)))
    \<and> (\<forall>r \<in> set rs. \<exists>policy. activePolicy (b_id b) (w_db w) = Inr policy
         \<and> reaches b (supervisors E policy (w_db w)) (w_db w) r)
    \<and> (\<forall>c. to_alert (utcDayOf t) (w_db w) b c \<longrightarrow> findCard (c_id c) (w_db w') = Some (alerted t c))
    \<and> (\<forall>i. i \<notin> c_id ` {c. to_alert (utcDayOf t) (w_db w) b c} \<longrightarrow> findCard i (w_db w') = findCard i (w_db w))"
proof (cases "overdue_waiting b (utcDayOf t) (w_db w) = []")
  case True
  with assms(1) have "rs = []" "w' = w" by (auto simp: claim_board_def run_simps return_def)
  with True overdue_set[OF assms(2), of b "utcDayOf t"] show ?thesis
    by (auto intro!: exI[of _ "t_cards (w_db w)"])
next
  case False
  let ?cs = "overdue_waiting b (utcDayOf t) (w_db w)"
  from False assms(1) obtain policy where p: "activePolicy (b_id b) (w_db w) = Inr policy"
    and run: "for_map ?cs (claim_alert b t (supervisors E policy (w_db w))) w = (Inr rs, w')"
    by (auto simp: claim_board_def run_simps)
  have sub: "c_id ` set ?cs \<subseteq> c_id ` set (t_cards (w_db w))"
    by (auto simp: overdue_set[OF assms(2)] to_alert_def)
  note r = claim_cards[OF run overdue_distinct[OF assms(3)] sub, unfolded overdue_set[OF assms(2)]]
  have "map (c_id \<circ> fst) rs = map c_id ?cs"
    using arg_cong[OF r[THEN conjunct1], of "map c_id"] by (simp add: comp_def)
  then have "distinct (map (c_id \<circ> fst) rs)" using overdue_distinct[OF assms(3)] by simp
  moreover have "fst ` set rs = alerted t ` {c. to_alert (utcDayOf t) (w_db w) b c}"
    using arg_cong[OF r[THEN conjunct1], of set] by (simp add: overdue_set[OF assms(2)])
  ultimately show ?thesis using r p by blast
qed

section \<open>All boards\<close>

lemma stored_iff:
  assumes "distinct (map c_id (t_cards d))"
  shows "c \<in> set (t_cards d) \<longleftrightarrow> findCard (c_id c) d = Some c"
  using row_of_member[OF assms] by (auto simp: findCard_def dest: row_of_SomeD)

text \<open>What one board's alerts leave for the others.\<close>

lemma to_alert_after:
  assumes ok: "lanes_ok d" "distinct (map c_id (t_cards d))"
    and d1: "d1 = d\<lparr>t_cards := tc\<rparr>" "map c_id tc = map c_id (t_cards d)"
    and hit: "\<And>c. to_alert today d b c \<Longrightarrow> findCard (c_id c) d1 = Some (alerted t c)"
    and miss: "\<And>i. i \<notin> c_id ` {c. to_alert today d b c} \<Longrightarrow> findCard i d1 = findCard i d"
    and b: "b_id b' \<noteq> b_id b"
  shows "to_alert today d1 b' c \<longleftrightarrow> to_alert today d b' c"
proof (cases "c_id c \<in> c_id ` {c. to_alert today d b c}")
  case False
  have "distinct (map c_id (t_cards d1))" using ok(2) d1 by simp
  with miss[OF False] have "c \<in> set (t_cards d1) \<longleftrightarrow> c \<in> set (t_cards d)" by (simp add: stored_iff ok(2))
  then show ?thesis by (simp add: to_alert_def d1(1))
next
  case True
  then obtain x where x: "to_alert today d b x" "c_id x = c_id c" by auto
  have "distinct (map c_id (t_cards d1))" using ok(2) d1 by simp
  with hit[OF x(1)] x(2) have "c \<in> set (t_cards d1) \<Longrightarrow> c = alerted t x" by (simp add: stored_iff)
  then have "\<not> to_alert today d1 b' c" by (auto simp: to_alert_def)
  moreover have "\<not> to_alert today d b' c"
  proof
    assume c: "to_alert today d b' c"
    with x ok(2) have "x = c" by (auto simp: to_alert_def distinct_map dest: inj_onD)
    with x(1) c obtain l l' where "l \<in> set (t_lanes d)" "l_boardId l = b_id b" "c_laneId c = l_id l"
      "l' \<in> set (t_lanes d)" "l_boardId l' = b_id b'" "c_laneId c = l_id l'" by (auto simp: to_alert_def)
    with b lane_unique[OF ok(1), of l l'] show False by simp
  qed
  ultimately show ?thesis by simp
qed

lemma claim_boards:
  assumes "for_map bs (claim_board E t) w = (Inr rss, w')" and "distinct (map b_id bs)"
    and "lanes_ok (w_db w)" and "distinct (map c_id (t_cards (w_db w)))"
  shows "distinct (map (c_id \<circ> fst) (concat rss))
    \<and> fst ` set (concat rss) = alerted t ` {c. \<exists>b \<in> set bs. to_alert (utcDayOf t) (w_db w) b c}
    \<and> (\<exists>tc. w_db w' = (w_db w)\<lparr>t_cards := tc\<rparr> \<and> map c_id tc = map c_id (t_cards (w_db w)))
    \<and> (\<forall>r \<in> set (concat rss). \<exists>b \<in> set bs. \<exists>policy. activePolicy (b_id b) (w_db w) = Inr policy
         \<and> reaches b (supervisors E policy (w_db w)) (w_db w) r)
    \<and> (\<forall>c. (\<exists>b \<in> set bs. to_alert (utcDayOf t) (w_db w) b c) \<longrightarrow> findCard (c_id c) (w_db w') = Some (alerted t c))
    \<and> (\<forall>i. i \<notin> c_id ` {c. \<exists>b \<in> set bs. to_alert (utcDayOf t) (w_db w) b c}
         \<longrightarrow> findCard i (w_db w') = findCard i (w_db w))"
  using assms
proof (induction bs arbitrary: w rss)
  case Nil
  then show ?case by (auto simp: return_def intro!: exI[of _ "t_cards (w_db w')"])
next
  case (Cons b bs)
  let ?d = "w_db w" and ?day = "utcDayOf t"
  from Cons.prems(1) obtain rs w1 rss' where one: "claim_board E t b w = (Inr rs, w1)"
    and rest: "for_map bs (claim_board E t) w1 = (Inr rss', w')" and rss: "rss = rs # rss'"
    by (auto simp: run_simps)
  note o = claim_one_board[OF one Cons.prems(3,4)]
  then obtain tc where d1: "w_db w1 = ?d\<lparr>t_cards := tc\<rparr>" "map c_id tc = map c_id (t_cards ?d)" by blast
  have bs: "distinct (map b_id bs)" "b_id b \<notin> b_id ` set bs" using Cons.prems(2) by simp_all
  have "lanes_ok (w_db w1)" "distinct (map c_id (t_cards (w_db w1)))" using Cons.prems(3,4) d1 by simp_all
  note ih0 = Cons.IH[OF rest bs(1) this]
  have hit: "findCard (c_id c) (w_db w1) = Some (alerted t c)" if "to_alert ?day ?d b c" for c using o that by blast
  have miss: "findCard i (w_db w1) = findCard i ?d" if "i \<notin> c_id ` {c. to_alert ?day ?d b c}" for i
    using o that by blast
  have same: "to_alert ?day (w_db w1) b' c \<longleftrightarrow> to_alert ?day ?d b' c" if "b' \<in> set bs" for b' c
  proof -
    from that bs(2) have ne: "b_id b' \<noteq> b_id b" by (metis imageI)
    show ?thesis by (rule to_alert_after[OF Cons.prems(3,4) d1 _ _ ne]) (use hit miss in auto)
  qed
  have due: "(\<exists>b' \<in> set bs. to_alert ?day (w_db w1) b' c) \<longleftrightarrow> (\<exists>b' \<in> set bs. to_alert ?day ?d b' c)" for c
    using same by blast
  have quiet: "activePolicy i (w_db w1) = activePolicy i ?d" "supervisors E p (w_db w1) = supervisors E p ?d"
    "reaches b' us (w_db w1) r = reaches b' us ?d r" for i p b' us r
    by (simp_all add: d1(1) reaches_def)
  note ih = ih0[unfolded due quiet]
  have apart: False if x: "to_alert ?day ?d b x" and y: "b' \<in> set bs" "to_alert ?day ?d b' y" "c_id x = c_id y" for x y b'
  proof -
    have "to_alert ?day (w_db w1) b' y" using same[OF y(1)] y(2) by simp
    moreover have "distinct (map c_id (t_cards (w_db w1)))" using Cons.prems(4) d1 by simp
    ultimately have "findCard (c_id x) (w_db w1) = Some y" "c_resumeAlertedAt y = None"
      by (simp_all add: to_alert_def stored_iff y(3))
    with hit[OF x] show False by auto
  qed
  from ih obtain tc' where d': "w_db w' = ?d\<lparr>t_cards := tc'\<rparr>" "map c_id tc' = map c_id (t_cards ?d)"
    using d1 by auto
  have "(c_id \<circ> fst) ` set rs \<inter> (c_id \<circ> fst) ` set (concat rss') = {}"
  proof -
    have a: "(c_id \<circ> fst) ` set rs = c_id ` {c. to_alert ?day ?d b c}"
      using o by (simp only: image_comp[symmetric]) (auto simp: image_image)
    have b: "(c_id \<circ> fst) ` set (concat rss') = c_id ` {c. \<exists>b' \<in> set bs. to_alert ?day ?d b' c}"
      using ih by (simp only: image_comp[symmetric]) (auto simp: image_image)
    show ?thesis unfolding a b using apart by blast
  qed
  with o[THEN conjunct1] ih[THEN conjunct1] have dist: "distinct (map (c_id \<circ> fst) (concat rss))"
    unfolding rss concat.simps map_append distinct_append set_map by blast
  have all: "{c. \<exists>b' \<in> set (b # bs). to_alert ?day ?d b' c}
      = {c. to_alert ?day ?d b c} \<union> {c. \<exists>b' \<in> set bs. to_alert ?day ?d b' c}" by auto
  have marks: "fst ` set (concat rss) = alerted t ` {c. \<exists>b' \<in> set (b # bs). to_alert ?day ?d b' c}"
    unfolding all rss using o ih by (simp add: image_Un)
  have reach: "\<forall>r \<in> set (concat rss). \<exists>b' \<in> set (b # bs). \<exists>policy. activePolicy (b_id b') ?d = Inr policy
      \<and> reaches b' (supervisors E policy ?d) ?d r" unfolding rss using o ih by auto
  have found: "findCard (c_id c) (w_db w') = Some (alerted t c)" if "\<exists>b' \<in> set (b # bs). to_alert ?day ?d b' c" for c
  proof (cases "\<exists>b' \<in> set bs. to_alert ?day ?d b' c")
    case True
    with ih show ?thesis by blast
  next
    case False
    with that have c: "to_alert ?day ?d b c" by simp
    with apart have "c_id c \<notin> c_id ` {c. \<exists>b' \<in> set bs. to_alert ?day ?d b' c}" by blast
    with ih hit[OF c] show ?thesis by simp
  qed
  have other: "findCard i (w_db w') = findCard i ?d" if "i \<notin> c_id ` {c. \<exists>b' \<in> set (b # bs). to_alert ?day ?d b' c}" for i
    using that ih miss unfolding all image_Un by simp
  show ?case using dist marks d' reach found other by blast
qed

section \<open>The run\<close>

definition overdue_waiting_cards :: "day \<Rightarrow> db \<Rightarrow> card set" where
  "overdue_waiting_cards today d = {c. \<exists>b \<in> set (t_boards d). b_archivedAt b = None \<and> to_alert today d b c}"

lemma claim_run:
  assumes "claimOverdueWaitingAlerts E w = (Inr alerts, w')" and "db_ok (w_db w)" and "config_ok (w_db w)"
  shows "distinct (map (c_id \<circ> fst) alerts)
    \<and> fst ` set alerts = alerted (e_clock E (w_ticks w)) ` overdue_waiting_cards (utcDayOf (e_clock E (w_ticks w))) (w_db w)
    \<and> (\<forall>r \<in> set alerts. \<exists>b \<in> set (t_boards (w_db w)). \<exists>policy. b_archivedAt b = None
         \<and> activePolicy (b_id b) (w_db w) = Inr policy \<and> reaches b (supervisors E policy (w_db w)) (w_db w) r)
    \<and> (\<forall>c \<in> overdue_waiting_cards (utcDayOf (e_clock E (w_ticks w))) (w_db w).
         findCard (c_id c) (w_db w') = Some (alerted (e_clock E (w_ticks w)) c))"
proof -
  let ?w = "w\<lparr>w_ticks := Suc (w_ticks w)\<rparr>" and ?bs = "listBoards (w_db w)" and ?t = "e_clock E (w_ticks w)"
  from assms(1) obtain rss where run: "for_map ?bs (claim_board E ?t) ?w = (Inr rss, w')" and a: "alerts = concat rss"
    by (auto simp: claimOverdueWaitingAlerts_def run_simps)
  have bs: "distinct (map b_id ?bs)"
    using assms(3) by (auto simp: listBoards_def order_asc_def config_ok_def boards_ok_def distinct_map
        intro: inj_on_subset)
  have ok: "lanes_ok (w_db ?w)" "distinct (map c_id (t_cards (w_db ?w)))"
    using assms(2) by (simp_all add: db_ok_def cards_ok_def)
  have live: "set ?bs = {b \<in> set (t_boards (w_db w)). b_archivedAt b = None}" by (auto simp: listBoards_def)
  note r = claim_boards[OF run bs ok]
  have due: "{c. \<exists>b \<in> set ?bs. to_alert (utcDayOf ?t) (w_db ?w) b c} = overdue_waiting_cards (utcDayOf ?t) (w_db w)"
    by (auto simp: overdue_waiting_cards_def live)
  show ?thesis
  proof (intro conjI)
    show "distinct (map (c_id \<circ> fst) alerts)" using r a by blast
    show "fst ` set alerts = alerted ?t ` overdue_waiting_cards (utcDayOf ?t) (w_db w)"
      using r unfolding a due by blast
    show "\<forall>r \<in> set alerts. \<exists>b \<in> set (t_boards (w_db w)). \<exists>policy. b_archivedAt b = None
         \<and> activePolicy (b_id b) (w_db w) = Inr policy \<and> reaches b (supervisors E policy (w_db w)) (w_db w) r"
      using r[THEN conjunct2, THEN conjunct2, THEN conjunct2, THEN conjunct1] unfolding a live by fastforce
    show "\<forall>c \<in> overdue_waiting_cards (utcDayOf ?t) (w_db w). findCard (c_id c) (w_db w') = Some (alerted ?t c)"
      using r unfolding due[symmetric] by blast
  qed
qed

lemma recipients_who:
  assumes "u \<in> set (alert_recipients c (supervisors E policy d) d)"
  shows "u_isActive u \<and> u \<in> set (listUsers d) \<and> (c_assigneeId c = Some (u_id u)
    \<or> (\<exists>r \<in> set (p_roles policy). r_key r = u_role u \<and> PermManageUsers \<in> set (r_permissions r)))"
  using assms by (auto simp: alert_recipients_def supervisors_def listUsers_def findUser_def dest: row_of_SomeD
      split: option.splits if_splits)



end
