(* ===== verification/Spec2Isabelle.thy ===== *)
theory Spec2Isabelle
  imports Sample_Day Account_Claims Lane_Claims Location_Claims Policy_Claims Board_Claims Search_Claims
    Query_Claims Filter_Claims Stale_Claims Alert_Claims
begin

text \<open>
  A kanban server (\<open>packages/core\<close>, \<open>packages/db\<close>, \<open>packages/server\<close>): cards move through the
  lanes of boards; every change is checked against a policy, made in one transaction, recorded
  as an audit event, and announced to the clients after the commit.

  \<^bold>\<open>How the code is modelled.\<close>  A TypeScript service method is a step on the world: the
  database (one list of rows per table), the counters of generated ids and clock readings,
  the hints published, the notices sent and the blobs stored.  A throw is the left summand
  of the outcome.  \<open>UnitOfWork.run\<close> restores the database when its body throws;
  \<open>UnitOfWork.read\<close> runs a function of the database.  Requests are serialised, as the SQLite
  unit of work does, so a transaction is one step.  Ids, clock, \<open>generateKeyBetween\<close> of the
  package \<open>fractional-indexing\<close> and the blob store's refusals are fields of an environment
  record; the only fact assumed of them, where a property says so, is \<open>lawful\<close>: a key
  generator returns a key strictly between two bounds in order.  A page cursor is the pair of
  time and id it encodes.

  \<^bold>\<open>Theories.\<close>
  \<^item> \<open>Prelude\<close>: the two monads, keyed tables, sorted reads, JavaScript strings.
  \<^item> \<open>Domain\<close>, \<open>Policy\<close>, \<open>Commands\<close>: \<open>core/src/domain\<close> and \<open>core/src/policy\<close>: entities, audit
    events, errors, hints; the policy document with its refinements and the engine; the
    command inputs with their validation.  \<open>Business_Time\<close>: the working hours of \<open>domain/dates.ts\<close> and the
    equivalence of its walk over days with the count of working milliseconds.
  \<^item> \<open>Store\<close>, \<open>Tables\<close>: \<open>db/src/unit-of-work.ts\<close> and \<open>db/src/repositories\<close>.  \<open>stored_row\<close> is the
    contract of a stored row, interpreted on every insert and update.
  \<^item> \<open>Access\<close>: \<open>internal.ts\<close> and \<open>board-access.ts\<close>, the steps all services share.
  \<^item> \<open>Cards\<close>: \<open>card-service.ts\<close>.  \<open>Card_Laws\<close>, \<open>Card_Update\<close>, \<open>Update_Result\<close>: what each operation
    checks, writes and shows.  \<open>Card_Contract\<close>: the contract every command on a card meets, a
    locale interpreted on each of the seven.  \<open>Invariant\<close>, \<open>Card_Life\<close>: the database invariant
    and its preservation.  \<open>Card_Order\<close>: where a card lands in its lane.  \<open>Card_Claims\<close>: the
    properties of cards, with \<open>Sample\<close> as the world of their witnesses.
  \<^item> \<open>Jobs\<close>: the nightly archival and the hourly claim of overdue waits of \<open>card-service.ts\<close>, with
    their queries; \<open>Job_Claims\<close>, \<open>Alert_Claims\<close>: which cards they take, and whom they tell.
  \<^item> \<open>Search\<close>: the card filter of \<open>card-repository.ts\<close> with SQL's \<open>LIKE\<close> as a function of pattern
    and text; \<open>Search_Claims\<close>: an escaped pattern finds the text literally.  \<open>Queries\<close>, \<open>Feeds\<close>:
    \<open>board-query-service.ts\<close>: card pages, activity, the filtered board, the follow-up feed.
    \<open>Lane_Lookup\<close> and \<open>Paging\<close>: lanes by name, and the locale of a paged read, whose pages
    concatenate to the whole.  \<open>Query_Claims\<close>, \<open>Filter_Claims\<close>, \<open>Stale_Claims\<close>: their properties.
  \<^item> \<open>Comments\<close>, \<open>Links\<close>, \<open>Attachments\<close>, \<open>Notifications\<close>: \<open>comment-service.ts\<close>,
    \<open>relation-service.ts\<close> and \<open>watch-service.ts\<close>, \<open>attachment-service.ts\<close>, and
    \<open>notification-service.ts\<close>; \<open>Talk_Claims\<close>: their properties.  \<open>Sound_Steps\<close> and \<open>Frames\<close>:
    the steps that keep the database invariant, and the locales of tables a view depends on.
  \<^item> \<open>Credentials\<close>, \<open>Accounts\<close>, \<open>OAuth\<close>: passwords, sessions, the login backoff, users, service
    tokens, the bearer gate, and the OAuth server with PKCE and rotating refresh tokens
    (\<open>packages/server/src/auth\<close>, \<open>users\<close>, \<open>tokens\<close>, \<open>oauth\<close>, \<open>mcp/mcp-auth.ts\<close>).
    \<open>Auth_System\<close>: account requests and \<open>stable\<close> facts, with locales for the tables an
    invariant reads; \<open>Auth_Invariants\<close>: session limits, one live token per refresh family, an
    account that can manage users, the closed setup.  \<open>OAuth_Laws\<close>, \<open>Auth_Claims\<close>,
    \<open>Account_Claims\<close>: their properties.
  \<^item> \<open>Boards\<close>, \<open>Lanes\<close>, \<open>Locations\<close>, \<open>Policies\<close>: the administration of boards, starting boards
    and groups (\<open>board-service.ts\<close>), of columns (\<open>lane-admin-service.ts\<close>), of the location tree
    (\<open>location-admin-service.ts\<close> with its repository), and of policy versions and saved filters
    (\<open>policy-service.ts\<close>, \<open>filter-preset-service.ts\<close>); \<open>Board_Claims\<close>, \<open>Lane_Claims\<close>,
    \<open>Location_Claims\<close>, \<open>Policy_Claims\<close>: their properties.  The loops (the next free column key,
    the walk down the location tree) are recursive functions with termination proofs.
  \<^item> \<open>System\<close>: requests to cards and conversations; \<open>Admin_System\<close>: requests of administration and
    jobs, for a board that comes with each request; \<open>Admin_Sound\<close>: they keep the database
    invariant.  \<open>Installation\<close>: boards, columns and policies stay usable.  \<open>Location_Tree\<close>: the walk
    of a location filter has no visited set and no bound, so it is a partial function, and
    returns on a forest.  \<open>Whole\<close>: every request, \<open>serve_any\<close>, and the invariants it keeps;
    \<open>Sample_Day\<close>: two days of requests, for the witnesses.

  \<^bold>\<open>Not modelled.\<close>  The transports (HTTP routes, server-sent events, MCP tools), the Slack
  adapter, the wiring, metrics and the summarizer: they translate and forward to the services.
  The React client: rendering and its caches.  SQL itself, the Postgres repositories (the same
  contract a second time), schema, migrations and seed.  The texts of \<open>strings.ts\<close> and the list of
  common passwords, which is a parameter.  JavaScript strings are modelled for ASCII text, and
  numbers of the domain are naturals (the schemas ask for positive integers).
\<close>

section \<open>Properties of the whole\<close>

text \<open>C1: whatever requests are served, to cards, conversations, accounts, credentials and the
  administration, the scheduled jobs included, in whatever order and by whomever, the database
  invariant holds afterwards: every card sits on a lane of its board, resolutions and
  archival dates occur in the done lane only and waiting reasons in the waiting lane only,
  the blocked flag agrees with its reason and time, no two cards share a position of a lane,
  ids are unique, and no row names a card that does not exist.\<close>

theorem reachable_db_ok:
  assumes "served (serve_any E A) w w'" and "db_ok (w_db w)"
  shows "db_ok (w_db w')"
  by (rule rows.reachable_inv[OF assms])

theorem reachable_db_ok_witness:
  "db_ok (after sample_day) \<and> t_events (after sample_day) \<noteq> []"
proof -
  have "t_events (after sample_day) \<noteq> []" using sample_day_fills unfolding filled_def by blast
  moreover have "db_ok (w_db sample_world)" by (simp add: sample_world_def sample_db_ok)
  ultimately show ?thesis using reachable_db_ok[OF sample_served] by blast
qed

lemma reachable_threads:
  assumes "served (serve_any E A) w w'" and "threads_ok (t_comments (w_db w))"
    and "m \<in> set (t_comments (w_db w'))" and "cm_parentCommentId m = Some p"
  shows "\<exists>q \<in> set (t_comments (w_db w')). cm_id q = p \<and> cm_cardId q = cm_cardId m
    \<and> cm_parentCommentId q = None"
  using talk.reachable_inv[OF assms(1,2)] assms(3,4) unfolding threads_ok_def by blast

lemma reachable_relations:
  assumes "served (serve_any E A) w w'" and "relations_ok (t_relations (w_db w))"
    and "r \<in> set (t_relations (w_db w'))"
  shows "rel_fromCardId r \<noteq> rel_toCardId r
    \<and> (\<forall>s \<in> set (t_relations (w_db w')). rel_type s = rel_type r \<longrightarrow>
        (rel_fromCardId s, rel_toCardId s) = (rel_fromCardId r, rel_toCardId r)
          \<or> isSymmetricRelation (rel_type r)
            \<and> (rel_toCardId s, rel_fromCardId s) = (rel_fromCardId r, rel_toCardId r) \<longrightarrow> s = r)"
proof -
  have ok: "relations_ok (t_relations (w_db w'))" by (rule relate.reachable_inv[OF assms(1,2)])
  have same: "s = r" if "s \<in> set (t_relations (w_db w'))" "link_of r = link_of s" for s
    using ok that assms(3) unfolding relations_ok_def by (metis distinct_map inj_onD)
  have "rel_fromCardId r \<noteq> rel_toCardId r" using ok assms(3) by (simp add: relations_ok_def)
  with same link_of_eq_iff[OF this] show ?thesis by auto
qed

lemma reachable_uploads:
  assumes "served (serve_any E A) w w'" and "caps_ok (t_attachments (w_db w))"
  shows "length (filter (\<lambda>m. at_cardId m = i \<and> at_deletedAt m = None) (t_attachments (w_db w'))) \<le> 10
    \<and> (\<forall>m \<in> set (t_attachments (w_db w')). int (at_bytes m) \<le> 25 * 1024 * 1024)"
  using attach.reachable_inv[OF assms] unfolding caps_ok_def count_active_def
    MAX_ACTIVE_ATTACHMENTS_PER_CARD_def MAX_ATTACHMENT_BYTES_def by blast

text \<open>C3: on every reachable database conversations are in order: the parent a comment names is a
  comment of the same card that has no parent itself; no card is related to itself, and no two
  relations say the same thing, where for a type that reads the same in both directions the
  reversed pair counts as the same; a card has at most 10 live attachments, none over 25 MB.\<close>

theorem reachable_conversation:
  assumes "served (serve_any E A) w w'" and "threads_ok (t_comments (w_db w))"
    and "relations_ok (t_relations (w_db w))" and "caps_ok (t_attachments (w_db w))"
  shows "(\<forall>m \<in> set (t_comments (w_db w')). \<forall>p. cm_parentCommentId m = Some p \<longrightarrow>
      (\<exists>q \<in> set (t_comments (w_db w')). cm_id q = p \<and> cm_cardId q = cm_cardId m \<and> cm_parentCommentId q = None))
    \<and> (\<forall>r \<in> set (t_relations (w_db w')). rel_fromCardId r \<noteq> rel_toCardId r
        \<and> (\<forall>s \<in> set (t_relations (w_db w')). rel_type s = rel_type r \<longrightarrow>
            (rel_fromCardId s, rel_toCardId s) = (rel_fromCardId r, rel_toCardId r)
              \<or> isSymmetricRelation (rel_type r)
                \<and> (rel_toCardId s, rel_fromCardId s) = (rel_fromCardId r, rel_toCardId r) \<longrightarrow> s = r))
    \<and> length (filter (\<lambda>m. at_cardId m = i \<and> at_deletedAt m = None) (t_attachments (w_db w'))) \<le> 10
    \<and> (\<forall>m \<in> set (t_attachments (w_db w')). int (at_bytes m) \<le> 25 * 1024 * 1024)"
proof (intro conjI)
  show "\<forall>m \<in> set (t_comments (w_db w')). \<forall>p. cm_parentCommentId m = Some p \<longrightarrow>
      (\<exists>q \<in> set (t_comments (w_db w')). cm_id q = p \<and> cm_cardId q = cm_cardId m \<and> cm_parentCommentId q = None)"
    using reachable_threads[OF assms(1,2)] by blast
qed (rule ballI, erule reachable_relations[OF assms(1,3)],
  rule reachable_uploads[OF assms(1,4), THEN conjunct1], rule reachable_uploads[OF assms(1,4), THEN conjunct2])

theorem reachable_conversation_witness:
  "(\<exists>m \<in> set (t_comments (after sample_day)). cm_parentCommentId m = Some 1000
     \<and> (\<exists>q \<in> set (t_comments (after sample_day)). cm_id q = 1000 \<and> cm_cardId q = cm_cardId m \<and> cm_parentCommentId q = None))
   \<and> (\<exists>r \<in> set (t_relations (after sample_day)). rel_fromCardId r \<noteq> rel_toCardId r)
   \<and> t_attachments (after sample_day) \<noteq> []
   \<and> length (filter (\<lambda>m. at_cardId m = 3 \<and> at_deletedAt m = None) (t_attachments (after sample_day))) \<le> 10"
proof -
  note some = sample_day_fills[unfolded filled_def]
  have "threads_ok (t_comments (w_db sample_world))" "relations_ok (t_relations (w_db sample_world))"
    "caps_ok (t_attachments (w_db sample_world))"
    by (simp_all add: sample_world_def sample_db_def threads_ok_def relations_ok_def caps_ok_def count_active_def)
  note r = reachable_conversation[OF sample_served this, where i = 3]
  from some obtain m where m: "m \<in> set (t_comments (after sample_day))" "cm_parentCommentId m = Some 1000" by blast
  from some obtain x where x: "x \<in> set (t_relations (after sample_day))" by (metis list.set_intros(1) neq_Nil_conv)
  show ?thesis using some r[THEN conjunct1] m r[THEN conjunct2, THEN conjunct1] x r[THEN conjunct2, THEN conjunct2]
    by (intro conjI) blast+
qed

text \<open>C2: no request can make the installation unusable: on every reachable database there is a live
  board and a global policy, and every board, archived ones included, has a policy in force and a
  first column for new cards, although boards and columns can be removed and policies replaced.\<close>

theorem never_unconfigured:
  assumes "served (serve_any E A) w w'" and "config_ok (w_db w)"
  shows "listBoards (w_db w') \<noteq> [] \<and> (\<exists>g. globalPolicy (w_db w') = Inr g)
    \<and> (\<forall>b \<in> set (t_boards (w_db w')). (\<exists>p. activePolicy (b_id b) (w_db w') = Inr p)
         \<and> (\<exists>l. firstLane (b_id b) (w_db w') = Inr l))"
proof -
  let ?d = "w_db w'"
  have ok: "config_ok ?d" by (rule install.reachable_inv[OF assms])
  have found: "findBoard (b_id b) ?d = Some b" if "b \<in> set (t_boards ?d)" for b
    using ok row_of_member[of b_id "t_boards ?d" b] that by (simp add: config_ok_def boards_ok_def findBoard_def)
  from ok obtain b where b: "b \<in> set (t_boards ?d)" by (auto simp: config_ok_def boards_ok_def)
  show ?thesis using config_lookups(3,4)[OF ok found[OF b]] config_lookups(1,2)[OF ok found] by blast
qed

theorem never_unconfigured_witness:
  "map b_id (listBoards (after board_day)) = [1000]
   \<and> (\<exists>p. activePolicy 1000 (after board_day) = Inr p) \<and> (\<exists>l. firstLane 1000 (after board_day) = Inr l)"
proof -
  note boards = board_day_replaces
  then obtain b where "b \<in> set (listBoards (after board_day))" and i: "b_id b = 1000"
    by (auto simp: map_eq_Cons_conv)
  then have b: "b \<in> set (t_boards (after board_day))" by (auto simp: listBoards_def)
  from never_unconfigured[OF sample_served sample_config_ok] b i boards show ?thesis by metis
qed

text \<open>C32: a location filter always returns: on every reachable database the walk over a location's
  subtree, which remembers nothing of where it was, ends for every start, and visits exactly the
  location and all below it; on a location that were its own parent it would not end.\<close>

theorem location_walk_ends:
  assumes "served (serve_any E A) w w'" and "tree_ok (t_locations (w_db w))"
  shows "(\<exists>ids. locationSubtreeIds r (w_db w') = Some ids \<and> set ids = descendants (t_locations (w_db w')) r)
    \<and> locationSubtreeIds i (d\<lparr>t_locations := [\<lparr>loc_id = i, loc_parentId = Some i, loc_kind = k, loc_name = nm\<rparr>]\<rparr>) = None"
proof (rule conjI)
  show "\<exists>ids. locationSubtreeIds r (w_db w') = Some ids \<and> set ids = descendants (t_locations (w_db w')) r"
    by (rule subtree_returns[OF forest.reachable_inv[OF assms]])
  have "childrenByParentOf (listLocations (d\<lparr>t_locations := [\<lparr>loc_id = i, loc_parentId = Some i, loc_kind = k, loc_name = nm\<rparr>]\<rparr>)) i = [i]"
    by (simp add: childrenByParentOf_def listLocations_def order_asc_def)
  then show "locationSubtreeIds i (d\<lparr>t_locations := [\<lparr>loc_id = i, loc_parentId = Some i, loc_kind = k, loc_name = nm\<rparr>]\<rparr>) = None"
    by (simp add: locationSubtreeIds_def subtreeIds_def walk_stuck)
qed

theorem location_walk_ends_witness:
  "\<exists>l \<in> set (t_locations (after sample_day)). \<exists>ids. locationSubtreeIds (loc_id l) (after sample_day) = Some ids \<and> loc_id l \<in> set ids"
proof -
  have "t_locations (after sample_day) \<noteq> []" using sample_day_fills unfolding filled_def by blast
  then obtain l where l: "l \<in> set (t_locations (after sample_day))" by (metis list.set_intros(1) neq_Nil_conv)
  have "tree_ok (t_locations (w_db sample_world))" by (simp add: sample_world_def sample_db_def tree_ok_def)
  from location_walk_ends[OF sample_served this, where r = "loc_id l", THEN conjunct1] l
  show ?thesis by blast
qed

end
